(* ===== verification/CO_Prelude.thy ===== *)
theory CO_Prelude
  imports Main "HOL-Library.Product_Lexorder"
begin

text \<open>
  Prelude of the CareerOS (Range-Apply) development: the result type of fallible
  operations (\<^verbatim>\<open>app/core/errors.py\<close>, and the two built-in exceptions the code raises), the JSON values stored in audit rows, the
  Python string operations the code uses, database tables as lists of rows, and the
  contract of a table of rows (\<open>row_store\<close>), a guarded state machine
  (\<open>guarded_machine\<close>) and a step system (\<open>step_system\<close>), which the components interpret.

  Conventions. Python's \<^verbatim>\<open>int\<close> is \<open>int\<close>; a \<^verbatim>\<open>datetime\<close> (naive UTC in the database, aware
  UTC in the domain) is an \<open>int\<close>, microseconds since the epoch; \<^verbatim>\<open>str\<close> is \<open>string\<close>, and the
  text the model handles is ASCII. \<^verbatim>\<open>db_now()\<close> and \<^verbatim>\<open>utc_now()\<close> are a parameter \<open>now\<close> of
  each operation: one operation reads the clock once. \<^verbatim>\<open>new_id()\<close> (a UUID) is a parameter.
\<close>

named_theorems enum_values \<open>string values of the enums\<close>
named_theorems frame \<open>what an operation leaves unchanged\<close>
named_theorems ops \<open>definitions of the row-level operations\<close>

section \<open>Errors and results\<close>

datatype careeros_error =
    NotFoundError string
  | ValidationFailed string
  | ConflictError string
  | PolicyBlocked string
  | ValueError string
  | RuntimeError string
  | KeyError string

text \<open>\<^verbatim>\<open>f"{type(exc).__name__}: {exc}"\<close>.\<close>

definition error_text :: "careeros_error \<Rightarrow> string" where
  "error_text e =
     (case e of
        NotFoundError m \<Rightarrow> ''NotFoundError: '' @ m
      | ValidationFailed m \<Rightarrow> ''ValidationFailed: '' @ m
      | ConflictError m \<Rightarrow> ''ConflictError: '' @ m
      | PolicyBlocked m \<Rightarrow> ''PolicyBlocked: '' @ m
      | ValueError m \<Rightarrow> ''ValueError: '' @ m
      | RuntimeError m \<Rightarrow> ''RuntimeError: '' @ m
      | KeyError m \<Rightarrow> ''KeyError: '' @ [CHR 0x27] @ m @ [CHR 0x27])"

text \<open>The code of an application error: \<^verbatim>\<open>None\<close> for a built-in exception, which is not a \<^verbatim>\<open>CareerOSError\<close>.\<close>

definition error_code :: "careeros_error \<Rightarrow> (string \<times> string) option" where
  "error_code e =
     (case e of
        NotFoundError m \<Rightarrow> Some (''not_found'', m)
      | ValidationFailed m \<Rightarrow> Some (''validation_failed'', m)
      | ConflictError m \<Rightarrow> Some (''conflict'', m)
      | PolicyBlocked m \<Rightarrow> Some (''policy_blocked'', m)
      | _ \<Rightarrow> None)"

type_synonym 'a result = "careeros_error + 'a"
type_synonym time = int

definition bind_result :: "'a result \<Rightarrow> ('a \<Rightarrow> 'b result) \<Rightarrow> 'b result" where
  "bind_result m f = (case m of Inl e \<Rightarrow> Inl e | Inr x \<Rightarrow> f x)"

lemma bind_result_simps [simp]:
  "bind_result (Inl e) f = Inl e"
  "bind_result (Inr x) f = f x"
  by (simp_all add: bind_result_def)

lemma bind_result_Inr_iff [simp]:
  "bind_result m f = Inr y \<longleftrightarrow> (\<exists>x. m = Inr x \<and> f x = Inr y)"
  by (cases m) auto

lemma bind_result_Inl_iff:
  "bind_result m f = Inl e \<longleftrightarrow> m = Inl e \<or> (\<exists>x. m = Inr x \<and> f x = Inl e)"
  by (cases m) auto

text \<open>A comprehension whose element expression may raise.\<close>

fun collect :: "('a \<Rightarrow> 'b result) \<Rightarrow> 'a list \<Rightarrow> 'b list result" where
  "collect f [] = Inr []"
| "collect f (x # xs) = bind_result (f x) (\<lambda>y. bind_result (collect f xs) (\<lambda>ys. Inr (y # ys)))"

lemma collect_Inr: "collect f xs = Inr ys \<longleftrightarrow> list_all2 (\<lambda>x y. f x = Inr y) xs ys"
  by (induction xs arbitrary: ys) (auto simp: list_all2_Cons1)

lemma collect_total: "list_all (\<lambda>x. \<exists>y. f x = Inr y) xs \<Longrightarrow> \<exists>ys. collect f xs = Inr ys"
  by (induction xs) auto

definition seconds :: "int \<Rightarrow> time" where
  "seconds n = n * 1000000"

definition minutes :: "int \<Rightarrow> time" where
  "minutes n = seconds (60 * n)"

definition days :: "int \<Rightarrow> time" where
  "days n = seconds (86400 * n)"

lemma seconds_pos [simp]: "0 < seconds n \<longleftrightarrow> 0 < n"
  by (simp add: seconds_def)

lemma seconds_mono [simp]: "seconds m \<le> seconds n \<longleftrightarrow> m \<le> n"
  by (simp add: seconds_def)

lemma days_pos [simp]: "0 < days n \<longleftrightarrow> 0 < n"
  by (simp add: days_def)

section \<open>JSON values\<close>

datatype json =
    JNull
  | JBool bool
  | JInt int
  | JStr string
  | JList "json list"
  | JObj "(string \<times> json) list"

definition j_opt_str :: "string option \<Rightarrow> json" where
  "j_opt_str o' = (case o' of None \<Rightarrow> JNull | Some s \<Rightarrow> JStr s)"

definition j_opt_int :: "int option \<Rightarrow> json" where
  "j_opt_int o' = (case o' of None \<Rightarrow> JNull | Some n \<Rightarrow> JInt n)"

definition j_opt_bool :: "bool option \<Rightarrow> json" where
  "j_opt_bool o' = (case o' of None \<Rightarrow> JNull | Some b \<Rightarrow> JBool b)"

section \<open>Python strings\<close>

text \<open>Python's \<^verbatim>\<open>x or y\<close> on an optional string: \<^verbatim>\<open>None\<close> and the empty string are false.\<close>

definition truthy :: "string option \<Rightarrow> bool" where
  "truthy s = (case s of None \<Rightarrow> False | Some t \<Rightarrow> t \<noteq> [])"

definition str_or :: "string option \<Rightarrow> string \<Rightarrow> string" where
  "str_or s d = (case s of None \<Rightarrow> d | Some t \<Rightarrow> if t = [] then d else t)"

text \<open>The recurring \<^verbatim>\<open>(s or "")[:n] or None\<close>.\<close>

definition clip_or_none :: "nat \<Rightarrow> string option \<Rightarrow> string option" where
  "clip_or_none n s = (let t = take n (str_or s []) in if t = [] then None else Some t)"

definition py_isspace :: "char \<Rightarrow> bool" where
  "py_isspace c = (let n = (of_char c :: nat) in (9 \<le> n \<and> n \<le> 13) \<or> (28 \<le> n \<and> n \<le> 32))"

definition py_isdigit :: "char \<Rightarrow> bool" where
  "py_isdigit c = (let n = (of_char c :: nat) in 48 \<le> n \<and> n \<le> 57)"

definition py_islower :: "char \<Rightarrow> bool" where
  "py_islower c = (let n = (of_char c :: nat) in 97 \<le> n \<and> n \<le> 122)"

definition py_isupper :: "char \<Rightarrow> bool" where
  "py_isupper c = (let n = (of_char c :: nat) in 65 \<le> n \<and> n \<le> 90)"

definition lower_char :: "char \<Rightarrow> char" where
  "lower_char c = (if py_isupper c then char_of ((of_char c :: nat) + 32) else c)"

definition py_lower :: "string \<Rightarrow> string" where
  "py_lower s = map lower_char s"

definition py_strip :: "string \<Rightarrow> string" where
  "py_strip s = rev (dropWhile py_isspace (rev (dropWhile py_isspace s)))"

fun starts_with :: "string \<Rightarrow> string \<Rightarrow> bool" where
  "starts_with [] s = True"
| "starts_with (p # ps) [] = False"
| "starts_with (p # ps) (c # cs) = (p = c \<and> starts_with ps cs)"

fun contains :: "string \<Rightarrow> string \<Rightarrow> bool" where
  "contains p [] = (p = [])"
| "contains p (c # cs) = (starts_with p (c # cs) \<or> contains p cs)"

text \<open>\<^verbatim>\<open>s.split()\<close>: the maximal runs of non-space characters.\<close>

fun split_ws_aux :: "string \<Rightarrow> string \<Rightarrow> string list" where
  "split_ws_aux w [] = (if w = [] then [] else [w])"
| "split_ws_aux w (c # cs) =
     (if py_isspace c then (if w = [] then split_ws_aux [] cs else w # split_ws_aux [] cs)
      else split_ws_aux (w @ [c]) cs)"

definition py_split :: "string \<Rightarrow> string list" where
  "py_split s = split_ws_aux [] s"

fun join_with :: "string \<Rightarrow> string list \<Rightarrow> string" where
  "join_with sep [] = []"
| "join_with sep [w] = w"
| "join_with sep (w # v # ws) = w @ sep @ join_with sep (v # ws)"

fun digits_of :: "nat \<Rightarrow> string" where
  "digits_of n = (if n < 10 then [char_of (48 + n)] else digits_of (n div 10) @ [char_of (48 + n mod 10)])"

declare digits_of.simps [simp del]

definition show_int :: "int \<Rightarrow> string" where
  "show_int n = (if n < 0 then CHR ''-'' # digits_of (nat (- n)) else digits_of (nat n))"

text \<open>Words survive a join with single spaces and a split: the round trip the normalised
  keys rest on.\<close>

definition is_word :: "string \<Rightarrow> bool" where
  "is_word w = (w \<noteq> [] \<and> (\<forall>c \<in> set w. \<not> py_isspace c))"

lemma split_ws_aux_word:
  "\<forall>c \<in> set w. \<not> py_isspace c \<Longrightarrow> split_ws_aux v (w @ s) = split_ws_aux (v @ w) s"
  by (induction w arbitrary: v) auto

lemma split_ws_aux_words:
  "\<forall>c \<in> set v. \<not> py_isspace c \<Longrightarrow> \<forall>w \<in> set (split_ws_aux v s). is_word w"
proof (induction s arbitrary: v)
  case Nil
  then show ?case by (simp add: is_word_def)
next
  case (Cons c s)
  from Cons.IH [of "[]"] Cons.IH [of "v @ [c]"] Cons.prems show ?case
    by (simp add: is_word_def)
qed

lemma py_split_words: "w \<in> set (py_split s) \<Longrightarrow> is_word w"
  using split_ws_aux_words [of "[]" s] by (simp add: py_split_def)

lemma py_split_join:
  "\<forall>w \<in> set ws. is_word w \<Longrightarrow> py_split (join_with '' '' ws) = ws"
proof (induction ws rule: induct_list012)
  case 1
  show ?case by (simp add: py_split_def)
next
  case (2 w)
  then show ?case
    using split_ws_aux_word [of w "[]" "[]"] by (simp add: py_split_def is_word_def)
next
  case (3 w v ws)
  have sp: "py_isspace CHR '' ''" by (simp add: py_isspace_def)
  from 3 show ?case
    using split_ws_aux_word [of w "[]" "'' '' @ join_with '' '' (v # ws)"] sp
    by (simp add: py_split_def is_word_def)
qed

section \<open>Tables of rows\<close>

text \<open>
  A table is the list of its rows in insertion order. \<open>tbl_get\<close> is a primary-key read,
  \<open>tbl_put\<close> writes a row object back under its primary key, \<open>tbl_update\<close> is
  \<^verbatim>\<open>UPDATE .. WHERE\<close> and \<open>tbl_matches\<close> the number of rows it reports.
\<close>

definition tbl_get :: "('r \<Rightarrow> string) \<Rightarrow> string \<Rightarrow> 'r list \<Rightarrow> 'r option" where
  "tbl_get key k rows = find (\<lambda>r. key r = k) rows"

definition tbl_put :: "('r \<Rightarrow> string) \<Rightarrow> 'r \<Rightarrow> 'r list \<Rightarrow> 'r list" where
  "tbl_put key row rows = map (\<lambda>r. if key r = key row then row else r) rows"

definition tbl_update :: "('r \<Rightarrow> bool) \<Rightarrow> ('r \<Rightarrow> 'r) \<Rightarrow> 'r list \<Rightarrow> 'r list" where
  "tbl_update p f rows = map (\<lambda>r. if p r then f r else r) rows"

definition tbl_matches :: "('r \<Rightarrow> bool) \<Rightarrow> 'r list \<Rightarrow> nat" where
  "tbl_matches p rows = length (filter p rows)"

lemma find_append: "find p (xs @ ys) = (case find p xs of None \<Rightarrow> find p ys | Some x \<Rightarrow> Some x)"
  by (induction xs) auto

lemma in_map_filter: "y \<in> set (List.map_filter f xs) \<longleftrightarrow> (\<exists>x \<in> set xs. f x = Some y)"
  by (induction xs) (auto split: option.splits)

lemma find_Some_in: "find p xs = Some x \<Longrightarrow> x \<in> set xs \<and> p x"
  by (induction xs) (auto split: if_splits)

lemma tbl_get_Some: "tbl_get key k rows = Some r \<Longrightarrow> r \<in> set rows \<and> key r = k"
  by (auto simp: tbl_get_def find_Some_iff)

lemma tbl_get_distinct:
  "distinct (map key rows) \<Longrightarrow> r \<in> set rows \<Longrightarrow> tbl_get key (key r) rows = Some r"
  by (induction rows) (auto simp: tbl_get_def rev_image_eqI)

lemma key_inj: "distinct (map key rows) \<Longrightarrow> x \<in> set rows \<Longrightarrow> y \<in> set rows \<Longrightarrow> key x = key y \<Longrightarrow> x = y"
  by (meson distinct_map inj_onD)

lemma tbl_get_put:
  "tbl_get key k (tbl_put key row rows) =
     (if k = key row \<and> tbl_get key k rows \<noteq> None then Some row else tbl_get key k rows)"
  by (induction rows) (auto simp: tbl_get_def tbl_put_def)

lemma map_key_put [simp]: "map key (tbl_put key row rows) = map key rows"
  by (auto simp: tbl_put_def)

lemma set_tbl_put: "r \<in> set (tbl_put key row rows) \<Longrightarrow> r = row \<or> r \<in> set rows"
  by (auto simp: tbl_put_def)

lemma tbl_put_other: "r \<in> set rows \<Longrightarrow> key r \<noteq> key row \<Longrightarrow> r \<in> set (tbl_put key row rows)"
  by (force simp: tbl_put_def)

lemma tbl_put_all:
  "(\<forall>r \<in> set rows. P r) \<Longrightarrow> P row \<Longrightarrow> \<forall>r \<in> set (tbl_put key row rows). P r"
  by (auto simp: tbl_put_def)

lemma tbl_update_all:
  "(\<forall>r \<in> set rows. P r) \<Longrightarrow> (\<And>r. r \<in> set rows \<Longrightarrow> p r \<Longrightarrow> P r \<Longrightarrow> P (f r)) \<Longrightarrow>
     \<forall>r \<in> set (tbl_update p f rows). P r"
  by (auto simp: tbl_update_def)

lemma map_key_update:
  "(\<And>r. key (f r) = key r) \<Longrightarrow> map key (tbl_update p f rows) = map key rows"
  by (auto simp: tbl_update_def)

lemma tbl_matches_key:
  "distinct (map key rows) \<Longrightarrow> tbl_get key k rows = Some r \<Longrightarrow>
     tbl_matches (\<lambda>r. key r = k \<and> p r) rows = (if p r then 1 else 0)"
proof (induction rows)
  case Nil
  then show ?case by (simp add: tbl_get_def)
next
  case (Cons a rows)
  have "key a = k \<Longrightarrow> filter (\<lambda>r. key r = k \<and> p r) rows = []"
    using Cons.prems(1) by (auto simp: filter_empty_conv) (metis image_eqI)
  with Cons show ?case by (auto simp: tbl_matches_def tbl_get_def split: if_splits)
qed

lemma tbl_matches_none:
  "tbl_get key k rows = None \<Longrightarrow> tbl_matches (\<lambda>r. key r = k \<and> p r) rows = 0"
  by (auto simp: tbl_matches_def tbl_get_def find_None_iff filter_empty_conv)

lemma tbl_get_update_key:
  "(\<And>r. key (f r) = key r) \<Longrightarrow>
   tbl_get key k (tbl_update p f rows) = map_option (\<lambda>r. if p r then f r else r) (tbl_get key k rows)"
  by (induction rows) (auto simp: tbl_get_def tbl_update_def)

section \<open>The contract of a table\<close>

text \<open>
  What the services rely on when they write a row object back: a read sees the last write
  under its key and nothing else changes. Every table of the database interprets it.
\<close>

locale row_store =
  fixes get :: "'d \<Rightarrow> string \<Rightarrow> 'r option"
    and put :: "'r \<Rightarrow> 'd \<Rightarrow> 'd"
    and key :: "'r \<Rightarrow> string"
  assumes get_put: "get (put r d) k = (if k = key r \<and> get d k \<noteq> None then Some r else get d k)"
    and get_key: "get d k = Some r \<Longrightarrow> key r = k"
begin

lemma get_put_same: "get d (key r) \<noteq> None \<Longrightarrow> get (put r d) (key r) = Some r"
  by (simp add: get_put)

lemma get_put_other: "k \<noteq> key r \<Longrightarrow> get (put r d) k = get d k"
  by (simp add: get_put)

lemma put_all:
  assumes "\<And>k s. get d k = Some s \<Longrightarrow> P s" and "P r"
  shows "get (put r d) k = Some s \<Longrightarrow> P s"
  using assms by (auto simp: get_put split: if_splits)

lemma put_put: "key r = key s \<Longrightarrow> get (put r (put s d)) k = get (put r d) k"
  by (auto simp: get_put)

lemma put_same_dom: "get (put r d) k = None \<longleftrightarrow> get d k = None"
  by (auto simp: get_put)

end

section \<open>Guarded state machines\<close>

text \<open>
  The contract of a repository's \<^verbatim>\<open>transition\<close>: without \<^verbatim>\<open>force\<close> a row's state only moves
  along the transition table, a move to the current state changes nothing, and anything else is
  a \<^verbatim>\<open>ConflictError\<close>. The candidate-opportunity repository and the attempt repository both
  interpret it.
\<close>

locale guarded_machine =
  fixes state :: "'r \<Rightarrow> 's"
    and allowed :: "'s \<Rightarrow> 's \<Rightarrow> bool"
    and move :: "'r \<Rightarrow> 's \<Rightarrow> bool \<Rightarrow> careeros_error + 'r"
  assumes move_ok: "move r s f = Inr r' \<Longrightarrow> state r' = s"
    and move_same: "state r = s \<Longrightarrow> move r s f = Inr r"
    and move_iff: "(\<exists>r'. move r s f = Inr r') \<longleftrightarrow> state r = s \<or> f \<or> allowed (state r) s"
begin

text \<open>A whole sequence of unforced moves, as a caller would issue them.\<close>

fun moves :: "'r \<Rightarrow> 's list \<Rightarrow> careeros_error + 'r" where
  "moves r [] = Inr r"
| "moves r (s # ss) = (case move r s False of Inl e \<Rightarrow> Inl e | Inr r' \<Rightarrow> moves r' ss)"

lemma unforced_move:
  "move r s False = Inr r' \<Longrightarrow> state r' = state r \<or> allowed (state r) (state r')"
  using move_iff [of r s False] move_ok [of r s False r'] by auto

text \<open>A set of states that only leads out through the states of \<open>B\<close> is not left by moves that
  avoid \<open>B\<close>.\<close>

lemma moves_avoiding:
  assumes exits: "\<And>s t. s \<in> S \<Longrightarrow> allowed s t \<Longrightarrow> t \<in> S \<or> t \<in> B"
  shows "moves r ss = Inr r' \<Longrightarrow> state r \<in> S \<Longrightarrow> set ss \<inter> B = {} \<Longrightarrow> state r' \<in> S"
proof (induction ss arbitrary: r)
  case Nil
  then show ?case by simp
next
  case (Cons s ss)
  then obtain r1 where r1: "move r s False = Inr r1" and rest: "moves r1 ss = Inr r'"
    by (auto split: sum.splits)
  from unforced_move [OF r1] move_ok [OF r1] Cons.prems(2,3) exits have "state r1 \<in> S" by auto
  with rest Cons show ?case by simp
qed

lemma moves_closed:
  assumes "\<And>s t. s \<in> S \<Longrightarrow> allowed s t \<Longrightarrow> t \<in> S"
  shows "moves r ss = Inr r' \<Longrightarrow> state r \<in> S \<Longrightarrow> state r' \<in> S"
  using moves_avoiding [of S "{}" r ss r'] assms by auto

lemma moves_path: "moves r ss = Inr r' \<Longrightarrow> allowed\<^sup>*\<^sup>* (state r) (state r')"
proof (induction ss arbitrary: r)
  case Nil
  then show ?case by simp
next
  case (Cons s ss)
  then obtain r1 where r1: "move r s False = Inr r1" and rest: "moves r1 ss = Inr r'"
    by (auto split: sum.splits)
  from unforced_move [OF r1] Cons.IH [OF rest] show ?case
    by (auto intro: converse_rtranclp_into_rtranclp)
qed

lemma refused: "state r \<noteq> s \<Longrightarrow> \<not> allowed (state r) s \<Longrightarrow> \<exists>e. move r s False = Inl e"
  using move_iff [of r s False] by (cases "move r s False") auto

end

section \<open>Step systems\<close>

text \<open>Reachability over a step relation and the invariant rule.\<close>

locale step_system =
  fixes step :: "'s \<Rightarrow> 's \<Rightarrow> bool"
    and I :: "'s \<Rightarrow> bool"
  assumes step_inv: "step s t \<Longrightarrow> I s \<Longrightarrow> I t"
begin

lemma reach_inv: "step\<^sup>*\<^sup>* s t \<Longrightarrow> I s \<Longrightarrow> I t"
  by (induction rule: rtranclp_induct) (auto intro: step_inv)

end

end
