(* ===== verification/Models.thy ===== *)
theory Models
  imports CO_Prelude
begin

text \<open>
  The enumerations and the transition tables of \<^verbatim>\<open>app/pipeline/models.py\<close>,
  \<^verbatim>\<open>app/application/models.py\<close>, \<^verbatim>\<open>app/execution/models.py\<close> and
  \<^verbatim>\<open>app/preparation/models.py\<close>. The database stores an enum as its string value; the rows of
  the model hold the enum itself, and \<open>.._value\<close> is Python's \<^verbatim>\<open>.value\<close>.
\<close>

section \<open>Opportunities and the candidate's relationship with them\<close>

datatype opportunity_status =
    OPP_OPEN
  | OPP_CLOSED
  | OPP_REPOSTED

primrec opportunity_status_value :: "opportunity_status \<Rightarrow> string" where
  "opportunity_status_value OPP_OPEN = ''OPEN''"
| "opportunity_status_value OPP_CLOSED = ''CLOSED''"
| "opportunity_status_value OPP_REPOSTED = ''REPOSTED''"

datatype opportunity_state =
    OS_DISCOVERED
  | OS_ELIGIBLE
  | OS_UNCERTAIN
  | OS_INELIGIBLE
  | OS_SHORTLISTED
  | OS_PREPARED
  | OS_QUEUED
  | OS_IN_REVIEW
  | OS_APPROVED
  | OS_SUBMITTING
  | OS_SUBMITTED
  | OS_VERIFICATION_PENDING
  | OS_VERIFIED
  | OS_REJECTED
  | OS_INTERVIEWING
  | OS_OFFER
  | OS_CLOSED
  | OS_SKIPPED

primrec opportunity_state_value :: "opportunity_state \<Rightarrow> string" where
  "opportunity_state_value OS_DISCOVERED = ''DISCOVERED''"
| "opportunity_state_value OS_ELIGIBLE = ''ELIGIBLE''"
| "opportunity_state_value OS_UNCERTAIN = ''UNCERTAIN''"
| "opportunity_state_value OS_INELIGIBLE = ''INELIGIBLE''"
| "opportunity_state_value OS_SHORTLISTED = ''SHORTLISTED''"
| "opportunity_state_value OS_PREPARED = ''PREPARED''"
| "opportunity_state_value OS_QUEUED = ''QUEUED''"
| "opportunity_state_value OS_IN_REVIEW = ''IN_REVIEW''"
| "opportunity_state_value OS_APPROVED = ''APPROVED''"
| "opportunity_state_value OS_SUBMITTING = ''SUBMITTING''"
| "opportunity_state_value OS_SUBMITTED = ''SUBMITTED''"
| "opportunity_state_value OS_VERIFICATION_PENDING = ''VERIFICATION_PENDING''"
| "opportunity_state_value OS_VERIFIED = ''VERIFIED''"
| "opportunity_state_value OS_REJECTED = ''REJECTED''"
| "opportunity_state_value OS_INTERVIEWING = ''INTERVIEWING''"
| "opportunity_state_value OS_OFFER = ''OFFER''"
| "opportunity_state_value OS_CLOSED = ''CLOSED''"
| "opportunity_state_value OS_SKIPPED = ''SKIPPED''"

definition EVALUATION_STATES :: "opportunity_state set" where
  "EVALUATION_STATES = {OS_DISCOVERED, OS_ELIGIBLE, OS_UNCERTAIN, OS_INELIGIBLE}"

primrec ALLOWED_TRANSITIONS :: "opportunity_state \<Rightarrow> opportunity_state set" where
  "ALLOWED_TRANSITIONS OS_DISCOVERED = {OS_ELIGIBLE, OS_UNCERTAIN, OS_INELIGIBLE, OS_SKIPPED, OS_CLOSED}"
| "ALLOWED_TRANSITIONS OS_ELIGIBLE = {OS_UNCERTAIN, OS_INELIGIBLE, OS_SHORTLISTED, OS_PREPARED, OS_QUEUED, OS_IN_REVIEW, OS_SKIPPED, OS_CLOSED}"
| "ALLOWED_TRANSITIONS OS_UNCERTAIN = {OS_ELIGIBLE, OS_INELIGIBLE, OS_SHORTLISTED, OS_PREPARED, OS_QUEUED, OS_IN_REVIEW, OS_SKIPPED, OS_CLOSED}"
| "ALLOWED_TRANSITIONS OS_INELIGIBLE = {OS_ELIGIBLE, OS_UNCERTAIN, OS_SKIPPED, OS_CLOSED}"
| "ALLOWED_TRANSITIONS OS_SHORTLISTED = {OS_PREPARED, OS_QUEUED, OS_IN_REVIEW, OS_SKIPPED, OS_CLOSED}"
| "ALLOWED_TRANSITIONS OS_PREPARED = {OS_QUEUED, OS_IN_REVIEW, OS_SKIPPED, OS_CLOSED}"
| "ALLOWED_TRANSITIONS OS_QUEUED = {OS_PREPARED, OS_IN_REVIEW, OS_APPROVED, OS_SUBMITTING, OS_SKIPPED, OS_CLOSED}"
| "ALLOWED_TRANSITIONS OS_IN_REVIEW = {OS_APPROVED, OS_PREPARED, OS_QUEUED, OS_SKIPPED, OS_CLOSED}"
| "ALLOWED_TRANSITIONS OS_APPROVED = {OS_SUBMITTING, OS_QUEUED, OS_SKIPPED, OS_CLOSED}"
| "ALLOWED_TRANSITIONS OS_SUBMITTING = {OS_SUBMITTED, OS_VERIFICATION_PENDING, OS_QUEUED, OS_IN_REVIEW, OS_CLOSED}"
| "ALLOWED_TRANSITIONS OS_SUBMITTED = {OS_VERIFICATION_PENDING, OS_VERIFIED, OS_REJECTED, OS_INTERVIEWING, OS_CLOSED}"
| "ALLOWED_TRANSITIONS OS_VERIFICATION_PENDING = {OS_VERIFIED, OS_SUBMITTED, OS_REJECTED, OS_INTERVIEWING, OS_CLOSED}"
| "ALLOWED_TRANSITIONS OS_VERIFIED = {OS_INTERVIEWING, OS_REJECTED, OS_OFFER, OS_CLOSED}"
| "ALLOWED_TRANSITIONS OS_INTERVIEWING = {OS_OFFER, OS_REJECTED, OS_CLOSED}"
| "ALLOWED_TRANSITIONS OS_OFFER = {OS_REJECTED, OS_CLOSED}"
| "ALLOWED_TRANSITIONS OS_REJECTED = {OS_CLOSED}"
| "ALLOWED_TRANSITIONS OS_CLOSED = {}"
| "ALLOWED_TRANSITIONS OS_SKIPPED = {OS_DISCOVERED, OS_ELIGIBLE, OS_UNCERTAIN}"

section \<open>Eligibility, fit, admission\<close>

datatype eligibility_decision =
    ED_ELIGIBLE
  | ED_LIKELY
  | ED_UNCERTAIN
  | ED_INELIGIBLE
  | ED_REVIEW

primrec eligibility_decision_value :: "eligibility_decision \<Rightarrow> string" where
  "eligibility_decision_value ED_ELIGIBLE = ''ELIGIBLE''"
| "eligibility_decision_value ED_LIKELY = ''LIKELY''"
| "eligibility_decision_value ED_UNCERTAIN = ''UNCERTAIN''"
| "eligibility_decision_value ED_INELIGIBLE = ''INELIGIBLE''"
| "eligibility_decision_value ED_REVIEW = ''REVIEW''"

primrec ELIGIBILITY_RANK :: "eligibility_decision \<Rightarrow> nat" where
  "ELIGIBILITY_RANK ED_ELIGIBLE = 4"
| "ELIGIBILITY_RANK ED_LIKELY = 3"
| "ELIGIBILITY_RANK ED_UNCERTAIN = 2"
| "ELIGIBILITY_RANK ED_REVIEW = 2"
| "ELIGIBILITY_RANK ED_INELIGIBLE = 0"

datatype fit_band =
    FB_HIGH
  | FB_MEDIUM
  | FB_LOW

primrec fit_band_value :: "fit_band \<Rightarrow> string" where
  "fit_band_value FB_HIGH = ''HIGH''"
| "fit_band_value FB_MEDIUM = ''MEDIUM''"
| "fit_band_value FB_LOW = ''LOW''"

datatype admission_reason =
    AR_ADMITTED
  | AR_NOT_EVALUATED
  | AR_NOT_SCORED
  | AR_INELIGIBLE
  | AR_BELOW_MINIMUM_ELIGIBILITY
  | AR_BAND_DISABLED
  | AR_BELOW_FIT_THRESHOLD
  | AR_COMPANY_BLOCKED
  | AR_OUTSIDE_TARGET_GEOGRAPHY
  | AR_IRRELEVANT_ROLE
  | AR_COOLDOWN_ACTIVE
  | AR_DUPLICATE_APPLICATION
  | AR_DUPLICATE_OPPORTUNITY
  | AR_ALREADY_IN_PROGRESS
  | AR_ALREADY_SUBMITTED
  | AR_USER_BLOCKED
  | AR_OPPORTUNITY_CLOSED
  | AR_NEEDS_USER_INPUT
  | AR_NEEDS_REVIEW
  | AR_DAILY_CAP_REACHED
  | AR_WEEKLY_CAP_REACHED
  | AR_WINDOW_DEFERRED

primrec admission_reason_value :: "admission_reason \<Rightarrow> string" where
  "admission_reason_value AR_ADMITTED = ''ADMITTED''"
| "admission_reason_value AR_NOT_EVALUATED = ''NOT_EVALUATED''"
| "admission_reason_value AR_NOT_SCORED = ''NOT_SCORED''"
| "admission_reason_value AR_INELIGIBLE = ''INELIGIBLE''"
| "admission_reason_value AR_BELOW_MINIMUM_ELIGIBILITY = ''BELOW_MINIMUM_ELIGIBILITY''"
| "admission_reason_value AR_BAND_DISABLED = ''BAND_DISABLED''"
| "admission_reason_value AR_BELOW_FIT_THRESHOLD = ''BELOW_FIT_THRESHOLD''"
| "admission_reason_value AR_COMPANY_BLOCKED = ''COMPANY_BLOCKED''"
| "admission_reason_value AR_OUTSIDE_TARGET_GEOGRAPHY = ''OUTSIDE_TARGET_GEOGRAPHY''"
| "admission_reason_value AR_IRRELEVANT_ROLE = ''IRRELEVANT_ROLE''"
| "admission_reason_value AR_COOLDOWN_ACTIVE = ''COOLDOWN_ACTIVE''"
| "admission_reason_value AR_DUPLICATE_APPLICATION = ''DUPLICATE_APPLICATION''"
| "admission_reason_value AR_DUPLICATE_OPPORTUNITY = ''DUPLICATE_OPPORTUNITY''"
| "admission_reason_value AR_ALREADY_IN_PROGRESS = ''ALREADY_IN_PROGRESS''"
| "admission_reason_value AR_ALREADY_SUBMITTED = ''ALREADY_SUBMITTED''"
| "admission_reason_value AR_USER_BLOCKED = ''USER_BLOCKED''"
| "admission_reason_value AR_OPPORTUNITY_CLOSED = ''OPPORTUNITY_CLOSED''"
| "admission_reason_value AR_NEEDS_USER_INPUT = ''NEEDS_USER_INPUT''"
| "admission_reason_value AR_NEEDS_REVIEW = ''NEEDS_REVIEW''"
| "admission_reason_value AR_DAILY_CAP_REACHED = ''DAILY_CAP_REACHED''"
| "admission_reason_value AR_WEEKLY_CAP_REACHED = ''WEEKLY_CAP_REACHED''"
| "admission_reason_value AR_WINDOW_DEFERRED = ''WINDOW_DEFERRED''"

datatype tailoring_level =
    TL_L0
  | TL_L1
  | TL_L2

primrec tailoring_level_value :: "tailoring_level \<Rightarrow> string" where
  "tailoring_level_value TL_L0 = ''L0''"
| "tailoring_level_value TL_L1 = ''L1''"
| "tailoring_level_value TL_L2 = ''L2''"

datatype lane =
    LN_AUTO
  | LN_REVIEW
  | LN_MANUAL

primrec lane_value :: "lane \<Rightarrow> string" where
  "lane_value LN_AUTO = ''AUTO''"
| "lane_value LN_REVIEW = ''REVIEW''"
| "lane_value LN_MANUAL = ''MANUAL''"

datatype duplicate_policy =
    DP_BLOCK
  | DP_ALLOW_REPOST_AFTER_COOLDOWN

primrec duplicate_policy_value :: "duplicate_policy \<Rightarrow> string" where
  "duplicate_policy_value DP_BLOCK = ''BLOCK''"
| "duplicate_policy_value DP_ALLOW_REPOST_AFTER_COOLDOWN = ''ALLOW_REPOST_AFTER_COOLDOWN''"

section \<open>The queue\<close>

datatype queue_action =
    QA_PREPARE
  | QA_SUBMIT
  | QA_VERIFY

primrec queue_action_value :: "queue_action \<Rightarrow> string" where
  "queue_action_value QA_PREPARE = ''PREPARE''"
| "queue_action_value QA_SUBMIT = ''SUBMIT''"
| "queue_action_value QA_VERIFY = ''VERIFY''"

datatype queue_state =
    QS_PENDING
  | QS_CLAIMED
  | QS_PROCESSING
  | QS_SUCCEEDED
  | QS_FAILED
  | QS_RETRY_WAIT
  | QS_BLOCKED
  | QS_NEEDS_REVIEW
  | QS_CANCELLED

primrec queue_state_value :: "queue_state \<Rightarrow> string" where
  "queue_state_value QS_PENDING = ''PENDING''"
| "queue_state_value QS_CLAIMED = ''CLAIMED''"
| "queue_state_value QS_PROCESSING = ''PROCESSING''"
| "queue_state_value QS_SUCCEEDED = ''SUCCEEDED''"
| "queue_state_value QS_FAILED = ''FAILED''"
| "queue_state_value QS_RETRY_WAIT = ''RETRY_WAIT''"
| "queue_state_value QS_BLOCKED = ''BLOCKED''"
| "queue_state_value QS_NEEDS_REVIEW = ''NEEDS_REVIEW''"
| "queue_state_value QS_CANCELLED = ''CANCELLED''"

definition ACTIVE_QUEUE_STATES :: "queue_state set" where
  "ACTIVE_QUEUE_STATES = {QS_PENDING, QS_CLAIMED, QS_PROCESSING, QS_RETRY_WAIT, QS_BLOCKED, QS_NEEDS_REVIEW}"

definition TERMINAL_QUEUE_STATES :: "queue_state set" where
  "TERMINAL_QUEUE_STATES = {QS_SUCCEEDED, QS_FAILED, QS_CANCELLED}"

text \<open>The two groups the queue code tests for again and again.\<close>

definition WAITING_QUEUE_STATES :: "queue_state set" where
  "WAITING_QUEUE_STATES = {QS_PENDING, QS_RETRY_WAIT}"

definition HELD_QUEUE_STATES :: "queue_state set" where
  "HELD_QUEUE_STATES = {QS_CLAIMED, QS_PROCESSING}"

section \<open>Application attempts\<close>

datatype application_status =
    AS_DISCOVERED
  | AS_QUALIFIED
  | AS_SHORTLISTED
  | AS_PREPARING
  | AS_READY
  | AS_AWAITING_APPROVAL
  | AS_SUBMITTING
  | AS_SUBMITTED
  | AS_VERIFIED
  | AS_UNCERTAIN
  | AS_BLOCKED
  | AS_NEEDS_USER_INPUT
  | AS_NEEDS_REVIEW
  | AS_FAILED
  | AS_CANCELLED
  | AS_INTERVIEWING
  | AS_REJECTED
  | AS_CLOSED

primrec application_status_value :: "application_status \<Rightarrow> string" where
  "application_status_value AS_DISCOVERED = ''DISCOVERED''"
| "application_status_value AS_QUALIFIED = ''QUALIFIED''"
| "application_status_value AS_SHORTLISTED = ''SHORTLISTED''"
| "application_status_value AS_PREPARING = ''PREPARING''"
| "application_status_value AS_READY = ''READY''"
| "application_status_value AS_AWAITING_APPROVAL = ''AWAITING_APPROVAL''"
| "application_status_value AS_SUBMITTING = ''SUBMITTING''"
| "application_status_value AS_SUBMITTED = ''SUBMITTED''"
| "application_status_value AS_VERIFIED = ''VERIFIED''"
| "application_status_value AS_UNCERTAIN = ''UNCERTAIN''"
| "application_status_value AS_BLOCKED = ''BLOCKED''"
| "application_status_value AS_NEEDS_USER_INPUT = ''NEEDS_USER_INPUT''"
| "application_status_value AS_NEEDS_REVIEW = ''NEEDS_REVIEW''"
| "application_status_value AS_FAILED = ''FAILED''"
| "application_status_value AS_CANCELLED = ''CANCELLED''"
| "application_status_value AS_INTERVIEWING = ''INTERVIEWING''"
| "application_status_value AS_REJECTED = ''REJECTED''"
| "application_status_value AS_CLOSED = ''CLOSED''"

primrec ATTEMPT_TRANSITIONS :: "application_status \<Rightarrow> application_status set" where
  "ATTEMPT_TRANSITIONS AS_DISCOVERED = {AS_QUALIFIED, AS_READY, AS_CLOSED, AS_CANCELLED}"
| "ATTEMPT_TRANSITIONS AS_QUALIFIED = {AS_PREPARING, AS_READY, AS_FAILED, AS_CLOSED, AS_CANCELLED}"
| "ATTEMPT_TRANSITIONS AS_SHORTLISTED = {AS_QUALIFIED, AS_PREPARING, AS_READY, AS_CLOSED, AS_CANCELLED}"
| "ATTEMPT_TRANSITIONS AS_PREPARING = {AS_READY, AS_NEEDS_USER_INPUT, AS_NEEDS_REVIEW, AS_FAILED, AS_CLOSED, AS_CANCELLED}"
| "ATTEMPT_TRANSITIONS AS_READY = {AS_SUBMITTING, AS_PREPARING, AS_NEEDS_USER_INPUT, AS_NEEDS_REVIEW, AS_BLOCKED, AS_FAILED, AS_CLOSED, AS_CANCELLED}"
| "ATTEMPT_TRANSITIONS AS_AWAITING_APPROVAL = {AS_SUBMITTING, AS_READY, AS_CANCELLED}"
| "ATTEMPT_TRANSITIONS AS_SUBMITTING = {AS_SUBMITTED, AS_UNCERTAIN, AS_READY, AS_BLOCKED, AS_NEEDS_USER_INPUT, AS_NEEDS_REVIEW, AS_FAILED}"
| "ATTEMPT_TRANSITIONS AS_SUBMITTED = {AS_VERIFIED, AS_NEEDS_REVIEW, AS_INTERVIEWING, AS_REJECTED, AS_CLOSED}"
| "ATTEMPT_TRANSITIONS AS_VERIFIED = {AS_INTERVIEWING, AS_REJECTED, AS_CLOSED}"
| "ATTEMPT_TRANSITIONS AS_UNCERTAIN = {AS_SUBMITTED, AS_VERIFIED, AS_NEEDS_REVIEW}"
| "ATTEMPT_TRANSITIONS AS_BLOCKED = {AS_READY, AS_CANCELLED, AS_CLOSED}"
| "ATTEMPT_TRANSITIONS AS_NEEDS_USER_INPUT = {AS_READY, AS_PREPARING, AS_CANCELLED, AS_CLOSED}"
| "ATTEMPT_TRANSITIONS AS_NEEDS_REVIEW = {AS_READY, AS_PREPARING, AS_SUBMITTED, AS_VERIFIED, AS_FAILED, AS_CANCELLED, AS_CLOSED}"
| "ATTEMPT_TRANSITIONS AS_FAILED = {AS_QUALIFIED, AS_READY, AS_CLOSED}"
| "ATTEMPT_TRANSITIONS AS_CANCELLED = {AS_QUALIFIED}"
| "ATTEMPT_TRANSITIONS AS_INTERVIEWING = {AS_REJECTED, AS_CLOSED}"
| "ATTEMPT_TRANSITIONS AS_REJECTED = {AS_CLOSED}"
| "ATTEMPT_TRANSITIONS AS_CLOSED = {AS_QUALIFIED}"

text \<open>\<^verbatim>\<open>app/application/engine.py\<close>: attempts that (possibly) reached the employer, attempts in
  flight toward a submission, attempts that ended.\<close>

definition SUBMITTED_STATUSES :: "application_status set" where
  "SUBMITTED_STATUSES = {AS_SUBMITTING, AS_SUBMITTED, AS_VERIFIED, AS_UNCERTAIN, AS_INTERVIEWING}"

definition IN_FLIGHT_STATUSES :: "application_status set" where
  "IN_FLIGHT_STATUSES = {AS_QUALIFIED, AS_SHORTLISTED, AS_PREPARING, AS_READY, AS_AWAITING_APPROVAL,
     AS_BLOCKED, AS_NEEDS_USER_INPUT, AS_NEEDS_REVIEW}"

definition TERMINAL_STATUSES :: "application_status set" where
  "TERMINAL_STATUSES = {AS_FAILED, AS_CANCELLED, AS_REJECTED, AS_CLOSED}"

section \<open>Execution\<close>

datatype executor_kind =
    EK_MOCK
  | EK_MANUAL
  | EK_PLAYWRIGHT_LOCAL
  | EK_BROWSER_EXTENSION

primrec executor_kind_value :: "executor_kind \<Rightarrow> string" where
  "executor_kind_value EK_MOCK = ''MOCK''"
| "executor_kind_value EK_MANUAL = ''MANUAL''"
| "executor_kind_value EK_PLAYWRIGHT_LOCAL = ''PLAYWRIGHT_LOCAL''"
| "executor_kind_value EK_BROWSER_EXTENSION = ''BROWSER_EXTENSION''"

datatype execution_outcome =
    EO_SUBMITTED
  | EO_RETRYABLE_FAILURE
  | EO_PERMANENT_FAILURE
  | EO_HANDOFF
  | EO_NEEDS_USER_INPUT
  | EO_NEEDS_REVIEW
  | EO_FORM_CHANGED
  | EO_UNKNOWN
  | EO_DRY_RUN

primrec execution_outcome_value :: "execution_outcome \<Rightarrow> string" where
  "execution_outcome_value EO_SUBMITTED = ''SUBMITTED''"
| "execution_outcome_value EO_RETRYABLE_FAILURE = ''RETRYABLE_FAILURE''"
| "execution_outcome_value EO_PERMANENT_FAILURE = ''PERMANENT_FAILURE''"
| "execution_outcome_value EO_HANDOFF = ''HANDOFF''"
| "execution_outcome_value EO_NEEDS_USER_INPUT = ''NEEDS_USER_INPUT''"
| "execution_outcome_value EO_NEEDS_REVIEW = ''NEEDS_REVIEW''"
| "execution_outcome_value EO_FORM_CHANGED = ''FORM_CHANGED''"
| "execution_outcome_value EO_UNKNOWN = ''UNKNOWN''"
| "execution_outcome_value EO_DRY_RUN = ''DRY_RUN''"

datatype execution_status =
    ES_RUNNING
  | ES_DRY_RUN
  | ES_SUBMITTED
  | ES_VERIFIED
  | ES_VERIFICATION_FAILED
  | ES_FAILED_RETRYABLE
  | ES_FAILED_PERMANENT
  | ES_HANDOFF
  | ES_NEEDS_USER_INPUT
  | ES_NEEDS_REVIEW
  | ES_PRECONDITION_FAILED
  | ES_STALE
  | ES_UNKNOWN
  | ES_CANCELLED

primrec execution_status_value :: "execution_status \<Rightarrow> string" where
  "execution_status_value ES_RUNNING = ''RUNNING''"
| "execution_status_value ES_DRY_RUN = ''DRY_RUN''"
| "execution_status_value ES_SUBMITTED = ''SUBMITTED''"
| "execution_status_value ES_VERIFIED = ''VERIFIED''"
| "execution_status_value ES_VERIFICATION_FAILED = ''VERIFICATION_FAILED''"
| "execution_status_value ES_FAILED_RETRYABLE = ''FAILED_RETRYABLE''"
| "execution_status_value ES_FAILED_PERMANENT = ''FAILED_PERMANENT''"
| "execution_status_value ES_HANDOFF = ''HANDOFF''"
| "execution_status_value ES_NEEDS_USER_INPUT = ''NEEDS_USER_INPUT''"
| "execution_status_value ES_NEEDS_REVIEW = ''NEEDS_REVIEW''"
| "execution_status_value ES_PRECONDITION_FAILED = ''PRECONDITION_FAILED''"
| "execution_status_value ES_STALE = ''STALE''"
| "execution_status_value ES_UNKNOWN = ''UNKNOWN''"
| "execution_status_value ES_CANCELLED = ''CANCELLED''"

datatype handoff_reason =
    HR_CAPTCHA_REQUIRED
  | HR_AUTH_REQUIRED
  | HR_MFA_REQUIRED
  | HR_AMBIGUOUS_FORM
  | HR_UNKNOWN_REQUIRED_FIELD
  | HR_USER_CONFIRMATION_REQUIRED
  | HR_ARTIFACT_FILE_REQUIRED
  | HR_UNSUPPORTED_FORM

primrec handoff_reason_value :: "handoff_reason \<Rightarrow> string" where
  "handoff_reason_value HR_CAPTCHA_REQUIRED = ''CAPTCHA_REQUIRED''"
| "handoff_reason_value HR_AUTH_REQUIRED = ''AUTH_REQUIRED''"
| "handoff_reason_value HR_MFA_REQUIRED = ''MFA_REQUIRED''"
| "handoff_reason_value HR_AMBIGUOUS_FORM = ''AMBIGUOUS_FORM''"
| "handoff_reason_value HR_UNKNOWN_REQUIRED_FIELD = ''UNKNOWN_REQUIRED_FIELD''"
| "handoff_reason_value HR_USER_CONFIRMATION_REQUIRED = ''USER_CONFIRMATION_REQUIRED''"
| "handoff_reason_value HR_ARTIFACT_FILE_REQUIRED = ''ARTIFACT_FILE_REQUIRED''"
| "handoff_reason_value HR_UNSUPPORTED_FORM = ''UNSUPPORTED_FORM''"

datatype error_class =
    EC_TRANSIENT_NETWORK
  | EC_TIMEOUT
  | EC_TARGET_GONE
  | EC_FORM_CHANGED
  | EC_EXECUTOR_CRASH
  | EC_BROWSER_CRASH
  | EC_NAVIGATION
  | EC_VALIDATION
  | EC_POLICY
  | EC_UNKNOWN

primrec error_class_value :: "error_class \<Rightarrow> string" where
  "error_class_value EC_TRANSIENT_NETWORK = ''TRANSIENT_NETWORK''"
| "error_class_value EC_TIMEOUT = ''TIMEOUT''"
| "error_class_value EC_TARGET_GONE = ''TARGET_GONE''"
| "error_class_value EC_FORM_CHANGED = ''FORM_CHANGED''"
| "error_class_value EC_EXECUTOR_CRASH = ''EXECUTOR_CRASH''"
| "error_class_value EC_BROWSER_CRASH = ''BROWSER_CRASH''"
| "error_class_value EC_NAVIGATION = ''NAVIGATION''"
| "error_class_value EC_VALIDATION = ''VALIDATION''"
| "error_class_value EC_POLICY = ''POLICY''"
| "error_class_value EC_UNKNOWN = ''UNKNOWN''"

datatype verification_status =
    VS_NOT_ATTEMPTED
  | VS_PENDING
  | VS_VERIFIED
  | VS_LIKELY
  | VS_FAILED
  | VS_UNKNOWN

primrec verification_status_value :: "verification_status \<Rightarrow> string" where
  "verification_status_value VS_NOT_ATTEMPTED = ''NOT_ATTEMPTED''"
| "verification_status_value VS_PENDING = ''PENDING''"
| "verification_status_value VS_VERIFIED = ''VERIFIED''"
| "verification_status_value VS_LIKELY = ''LIKELY''"
| "verification_status_value VS_FAILED = ''FAILED''"
| "verification_status_value VS_UNKNOWN = ''UNKNOWN''"

datatype verification_method =
    VM_CONFIRMATION_PAGE
  | VM_CONFIRMATION_TEXT
  | VM_APPLICATION_ID
  | VM_REDIRECT_URL
  | VM_APPLICATION_HISTORY
  | VM_USER_CONFIRMATION
  | VM_EXECUTOR_REPORT
  | VM_CONFIRMATION_EMAIL
  | VM_NONE

primrec verification_method_value :: "verification_method \<Rightarrow> string" where
  "verification_method_value VM_CONFIRMATION_PAGE = ''confirmation_page''"
| "verification_method_value VM_CONFIRMATION_TEXT = ''confirmation_text''"
| "verification_method_value VM_APPLICATION_ID = ''application_id''"
| "verification_method_value VM_REDIRECT_URL = ''redirect_url''"
| "verification_method_value VM_APPLICATION_HISTORY = ''application_history''"
| "verification_method_value VM_USER_CONFIRMATION = ''user_confirmation''"
| "verification_method_value VM_EXECUTOR_REPORT = ''executor_report''"
| "verification_method_value VM_CONFIRMATION_EMAIL = ''confirmation_email''"
| "verification_method_value VM_NONE = ''none''"

datatype precondition_code =
    PC_ATTEMPT_NOT_READY
  | PC_PREPARATION_MISSING
  | PC_TENANT_MISMATCH
  | PC_OPPORTUNITY_MISMATCH
  | PC_PREPARATION_NOT_READY
  | PC_PREPARATION_INVALIDATED
  | PC_PREPARATION_NOT_CURRENT
  | PC_PREPARATION_STALE
  | PC_VALIDATION_FAILED
  | PC_USER_INPUT_REQUIRED
  | PC_OPPORTUNITY_CLOSED
  | PC_COMPANY_BLOCKED
  | PC_COOLDOWN_ACTIVE
  | PC_ALREADY_SUBMITTED
  | PC_DUPLICATE_APPLICATION
  | PC_DUPLICATE_OPPORTUNITY
  | PC_DAILY_CAP_REACHED
  | PC_WEEKLY_CAP_REACHED
  | PC_SLOT_RELEASED
  | PC_PAUSED

primrec precondition_code_value :: "precondition_code \<Rightarrow> string" where
  "precondition_code_value PC_ATTEMPT_NOT_READY = ''ATTEMPT_NOT_READY''"
| "precondition_code_value PC_PREPARATION_MISSING = ''PREPARATION_MISSING''"
| "precondition_code_value PC_TENANT_MISMATCH = ''TENANT_MISMATCH''"
| "precondition_code_value PC_OPPORTUNITY_MISMATCH = ''OPPORTUNITY_MISMATCH''"
| "precondition_code_value PC_PREPARATION_NOT_READY = ''PREPARATION_NOT_READY''"
| "precondition_code_value PC_PREPARATION_INVALIDATED = ''PREPARATION_INVALIDATED''"
| "precondition_code_value PC_PREPARATION_NOT_CURRENT = ''PREPARATION_NOT_CURRENT''"
| "precondition_code_value PC_PREPARATION_STALE = ''PREPARATION_STALE''"
| "precondition_code_value PC_VALIDATION_FAILED = ''VALIDATION_FAILED''"
| "precondition_code_value PC_USER_INPUT_REQUIRED = ''USER_INPUT_REQUIRED''"
| "precondition_code_value PC_OPPORTUNITY_CLOSED = ''OPPORTUNITY_CLOSED''"
| "precondition_code_value PC_COMPANY_BLOCKED = ''COMPANY_BLOCKED''"
| "precondition_code_value PC_COOLDOWN_ACTIVE = ''COOLDOWN_ACTIVE''"
| "precondition_code_value PC_ALREADY_SUBMITTED = ''ALREADY_SUBMITTED''"
| "precondition_code_value PC_DUPLICATE_APPLICATION = ''DUPLICATE_APPLICATION''"
| "precondition_code_value PC_DUPLICATE_OPPORTUNITY = ''DUPLICATE_OPPORTUNITY''"
| "precondition_code_value PC_DAILY_CAP_REACHED = ''DAILY_CAP_REACHED''"
| "precondition_code_value PC_WEEKLY_CAP_REACHED = ''WEEKLY_CAP_REACHED''"
| "precondition_code_value PC_SLOT_RELEASED = ''SLOT_RELEASED''"
| "precondition_code_value PC_PAUSED = ''PAUSED''"

section \<open>Preparations\<close>

datatype preparation_status =
    PS_PENDING
  | PS_READY
  | PS_NEEDS_REVIEW
  | PS_NEEDS_USER_INPUT
  | PS_FAILED
  | PS_SUPERSEDED
  | PS_INVALIDATED

primrec preparation_status_value :: "preparation_status \<Rightarrow> string" where
  "preparation_status_value PS_PENDING = ''PENDING''"
| "preparation_status_value PS_READY = ''READY''"
| "preparation_status_value PS_NEEDS_REVIEW = ''NEEDS_REVIEW''"
| "preparation_status_value PS_NEEDS_USER_INPUT = ''NEEDS_USER_INPUT''"
| "preparation_status_value PS_FAILED = ''FAILED''"
| "preparation_status_value PS_SUPERSEDED = ''SUPERSEDED''"
| "preparation_status_value PS_INVALIDATED = ''INVALIDATED''"

datatype validation_status =
    VL_PENDING
  | VL_PASSED
  | VL_FAILED

primrec validation_status_value :: "validation_status \<Rightarrow> string" where
  "validation_status_value VL_PENDING = ''PENDING''"
| "validation_status_value VL_PASSED = ''PASSED''"
| "validation_status_value VL_FAILED = ''FAILED''"

datatype prepared_answer_status =
    PA_ANSWERED
  | PA_NEEDS_USER_INPUT
  | PA_NEEDS_REVIEW

primrec prepared_answer_status_value :: "prepared_answer_status \<Rightarrow> string" where
  "prepared_answer_status_value PA_ANSWERED = ''ANSWERED''"
| "prepared_answer_status_value PA_NEEDS_USER_INPUT = ''NEEDS_USER_INPUT''"
| "prepared_answer_status_value PA_NEEDS_REVIEW = ''NEEDS_REVIEW''"

datatype artifact_kind =
    AF_RESUME
  | AF_COVER_LETTER

primrec artifact_kind_value :: "artifact_kind \<Rightarrow> string" where
  "artifact_kind_value AF_RESUME = ''RESUME''"
| "artifact_kind_value AF_COVER_LETTER = ''COVER_LETTER''"

datatype cover_letter_mode =
    CM_DISABLED
  | CM_TEMPLATE
  | CM_LIGHT
  | CM_TARGETED

primrec cover_letter_mode_value :: "cover_letter_mode \<Rightarrow> string" where
  "cover_letter_mode_value CM_DISABLED = ''DISABLED''"
| "cover_letter_mode_value CM_TEMPLATE = ''TEMPLATE''"
| "cover_letter_mode_value CM_LIGHT = ''LIGHT''"
| "cover_letter_mode_value CM_TARGETED = ''TARGETED''"

datatype block_kind =
    BK_FRAMING
  | BK_CLAIM

datatype answer_source =
    SRC_ANSWER_BANK
  | SRC_PROFILE
  | SRC_GENERATED
  | SRC_USER
  | SRC_NONE

primrec answer_source_value :: "answer_source \<Rightarrow> string" where
  "answer_source_value SRC_ANSWER_BANK = ''ANSWER_BANK''"
| "answer_source_value SRC_PROFILE = ''PROFILE''"
| "answer_source_value SRC_GENERATED = ''GENERATED''"
| "answer_source_value SRC_USER = ''USER''"
| "answer_source_value SRC_NONE = ''NONE''"

datatype answer_status =
    AN_DRAFT
  | AN_APPROVED
  | AN_RETIRED

primrec answer_status_value :: "answer_status \<Rightarrow> string" where
  "answer_status_value AN_DRAFT = ''DRAFT''"
| "answer_status_value AN_APPROVED = ''APPROVED''"
| "answer_status_value AN_RETIRED = ''RETIRED''"

datatype queue_outcome =
    QO_READY_FOR_EXECUTION
  | QO_NEEDS_USER_INPUT
  | QO_NEEDS_REVIEW
  | QO_FAILED

primrec queue_outcome_value :: "queue_outcome \<Rightarrow> string" where
  "queue_outcome_value QO_READY_FOR_EXECUTION = ''READY_FOR_EXECUTION''"
| "queue_outcome_value QO_NEEDS_USER_INPUT = ''NEEDS_USER_INPUT''"
| "queue_outcome_value QO_NEEDS_REVIEW = ''NEEDS_REVIEW''"
| "queue_outcome_value QO_FAILED = ''FAILED''"

datatype question_category =
    QC_WORK_AUTHORIZATION
  | QC_SPONSORSHIP
  | QC_RELOCATION
  | QC_NOTICE_PERIOD
  | QC_SALARY
  | QC_WORK_MODE
  | QC_START_DATE
  | QC_CLEARANCE
  | QC_VOLUNTARY
  | QC_LOCATION
  | QC_EDUCATION
  | QC_EXPERIENCE_YEARS
  | QC_CURRENT_EMPLOYER
  | QC_CURRENT_TITLE
  | QC_REFERRAL_SOURCE
  | QC_PRIOR_EMPLOYMENT
  | QC_CONFLICT_OF_INTEREST
  | QC_CONSENT
  | QC_ABOUT_YOU
  | QC_WHY_ROLE
  | QC_WHY_COMPANY
  | QC_RELEVANT_PROJECT
  | QC_EXPERIENCE_WITH
  | QC_OTHER

primrec question_category_value :: "question_category \<Rightarrow> string" where
  "question_category_value QC_WORK_AUTHORIZATION = ''work_authorization''"
| "question_category_value QC_SPONSORSHIP = ''sponsorship''"
| "question_category_value QC_RELOCATION = ''relocation''"
| "question_category_value QC_NOTICE_PERIOD = ''notice_period''"
| "question_category_value QC_SALARY = ''salary''"
| "question_category_value QC_WORK_MODE = ''work_mode''"
| "question_category_value QC_START_DATE = ''start_date''"
| "question_category_value QC_CLEARANCE = ''clearance''"
| "question_category_value QC_VOLUNTARY = ''voluntary''"
| "question_category_value QC_LOCATION = ''location''"
| "question_category_value QC_EDUCATION = ''education''"
| "question_category_value QC_EXPERIENCE_YEARS = ''experience_years''"
| "question_category_value QC_CURRENT_EMPLOYER = ''current_employer''"
| "question_category_value QC_CURRENT_TITLE = ''current_title''"
| "question_category_value QC_REFERRAL_SOURCE = ''referral_source''"
| "question_category_value QC_PRIOR_EMPLOYMENT = ''prior_employment''"
| "question_category_value QC_CONFLICT_OF_INTEREST = ''conflict_of_interest''"
| "question_category_value QC_CONSENT = ''consent''"
| "question_category_value QC_ABOUT_YOU = ''about_you''"
| "question_category_value QC_WHY_ROLE = ''why_role''"
| "question_category_value QC_WHY_COMPANY = ''why_company''"
| "question_category_value QC_RELEVANT_PROJECT = ''relevant_project''"
| "question_category_value QC_EXPERIENCE_WITH = ''experience_with''"
| "question_category_value QC_OTHER = ''other''"

text \<open>One unit of generated content with its provenance.\<close>

record block =
  b_kind :: block_kind
  b_section :: string
  b_text :: string
  b_evidence_keys :: "string list"
  b_source :: string
  b_ai_polished :: bool
  b_requirement :: "string option"

lemmas state_sets =
  EVALUATION_STATES_def ACTIVE_QUEUE_STATES_def TERMINAL_QUEUE_STATES_def WAITING_QUEUE_STATES_def
  HELD_QUEUE_STATES_def SUBMITTED_STATUSES_def IN_FLIGHT_STATUSES_def TERMINAL_STATUSES_def

section \<open>Properties of the tables\<close>

text \<open>The queue states are partitioned into active and terminal ones, and every attempt status
  other than \<open>DISCOVERED\<close> is in exactly one of the engine's three groups.\<close>

lemma queue_states_partition:
  "s \<in> ACTIVE_QUEUE_STATES \<longleftrightarrow> s \<notin> TERMINAL_QUEUE_STATES"
  by (cases s) (simp_all add: state_sets)

lemma status_groups_cover:
  "s = AS_DISCOVERED \<or> s \<in> SUBMITTED_STATUSES \<or> s \<in> IN_FLIGHT_STATUSES \<or> s \<in> TERMINAL_STATUSES"
  by (cases s) (simp_all add: state_sets)

lemma status_groups_disjoint:
  "SUBMITTED_STATUSES \<inter> IN_FLIGHT_STATUSES = {}"
  "SUBMITTED_STATUSES \<inter> TERMINAL_STATUSES = {}"
  "IN_FLIGHT_STATUSES \<inter> TERMINAL_STATUSES = {}"
  by (auto simp: state_sets)

lemma no_self_transition: "s \<notin> ALLOWED_TRANSITIONS s" "t \<notin> ATTEMPT_TRANSITIONS t"
  by (cases s; simp) (cases t; simp)

end
