(* ===== verification/Database.thy ===== *)
theory Database
  imports Models
begin

text \<open>
  The rows of the ORM models (\<^verbatim>\<open>app/*/database/models.py\<close>), one \<open>record\<close> per row class with the
  source's columns (prefixed by the table), and the database \<open>db\<close> as the record of its tables.
  Columns no modelled operation reads or writes (timestamps of creation, free-form JSON of other
  components) are left out. A row object a Python method holds is a record value; flushing it is
  \<open>put_..\<close> (a write under the primary key), and \<^verbatim>\<open>UPDATE .. WHERE\<close> is \<open>tbl_update\<close>.
  \<open>audit_record\<close> is the shared audit ledger every repository appends to.
\<close>

section \<open>Rows\<close>

record job_row =
  j_id :: string
  j_source :: string
  j_application_url :: "string option"
  j_source_url :: string
  j_company :: string
  j_title :: string
  j_original_title :: string
  j_location :: "string option"
  j_remote_type :: "string option"
  j_job_status :: string
  j_deadline :: "time option"
  j_first_seen_at :: "time option"
  j_content_hash :: string

record opportunity_row =
  o_id :: string
  o_identity_key :: string
  o_canonical_job_id :: "string option"
  o_company :: string
  o_company_key :: "string option"
  o_title :: string
  o_location_bucket :: string
  o_status :: opportunity_status
  o_first_seen_at :: time
  o_last_seen_at :: time
  o_deadline :: "time option"
  o_repost_count :: int
  o_reposted_at :: "time option"

record opportunity_job_row =
  oj_opportunity_id :: string
  oj_job_id :: string
  oj_linked_by :: string
  oj_is_repost :: bool

record candidate_opportunity_row =
  co_id :: string
  co_tenant_id :: string
  co_opportunity_id :: string
  co_state :: opportunity_state
  co_eligibility_status :: "eligibility_decision option"
  co_eligibility_decision_id :: "string option"
  co_fit_score :: "int option"
  co_fit_band :: "fit_band option"
  co_match_id :: "string option"
  co_priority_score :: "int option"
  co_priority_score_id :: "string option"
  co_application_id :: "string option"
  co_policy_admitted :: "bool option"
  co_policy_reason :: "string option"
  co_skipped_reason :: "string option"
  co_scheduler_code :: "admission_reason option"
  co_scheduler_reason :: "string option"
  co_scheduler_run_id :: "string option"
  co_scheduler_decided_at :: "time option"
  co_fit_policy_version :: "int option"
  co_admission_policy_version :: "int option"
  co_gate_ruleset_version :: "string option"
  co_state_changed_at :: time
  co_last_evaluated_at :: "time option"

record queue_row =
  q_id :: string
  q_tenant_id :: string
  q_candidate_opportunity_id :: string
  q_opportunity_id :: string
  q_action :: queue_action
  q_state :: queue_state
  q_lane :: lane
  q_priority :: int
  q_idempotency_key :: string
  q_available_at :: time
  q_attempts :: int
  q_max_attempts :: int
  q_claimed_by :: "string option"
  q_claimed_at :: "time option"
  q_lease_expires_at :: "time option"
  q_last_error :: "string option"
  q_result :: "json option"
  q_completed_at :: "time option"
  q_created_at :: time
  q_updated_at :: time

record application_row =
  a_id :: string
  a_job_id :: string
  a_tenant_id :: "string option"
  a_opportunity_id :: "string option"
  a_candidate_opportunity_id :: "string option"
  a_preparation_id :: "string option"
  a_attempt_number :: int
  a_lane :: "lane option"
  a_tailoring_level :: "tailoring_level option"
  a_cap_day :: "string option"
  a_cap_week :: "string option"
  a_reserved_at :: "time option"
  a_released_at :: "time option"
  a_status :: application_status
  a_status_reason :: "string option"
  a_blocked_reason :: "string option"
  a_submission_key :: "string option"
  a_execution_count :: int
  a_last_execution_id :: "string option"
  a_submitted_at :: "time option"
  a_verified_at :: "time option"
  a_external_application_id :: "string option"
  a_result_url :: "string option"
  a_confirmation :: "string option"
  a_adapter :: "string option"
  a_dry_run :: bool
  a_tailored_artifact_ids :: "string list"
  a_updated_at :: time

record application_event_row =
  ev_application_id :: string
  ev_event_type :: string
  ev_from_status :: "application_status option"
  ev_to_status :: "application_status option"
  ev_metadata :: "(string \<times> json) list"

record execution_run_row =
  r_id :: string
  r_tenant_id :: string
  r_application_id :: string
  r_preparation_id :: "string option"
  r_candidate_opportunity_id :: "string option"
  r_opportunity_id :: "string option"
  r_queue_item_id :: "string option"
  r_executor_kind :: "executor_kind option"  \<comment> \<open>\<^verbatim>\<open>"NONE"\<close> for a precondition record\<close>
  r_worker_id :: "string option"
  r_idempotency_key :: string
  r_run_number :: int
  r_status :: execution_status
  r_outcome :: "execution_outcome option"
  r_submit_invoked :: bool
  r_finished_at :: "time option"
  r_application_url :: "string option"
  r_external_application_id :: "string option"
  r_confirmation_reference :: "string option"
  r_verification_status :: verification_status
  r_verification_method :: "verification_method option"
  r_verification_detail :: "string option"
  r_error_class :: "error_class option"
  r_error_message :: "string option"
  r_handoff_reason :: "handoff_reason option"
  r_handoff :: "(string \<times> json) list"
  r_preconditions :: "(precondition_code \<times> string) list"

record preparation_answer_row =
  pa_id :: string
  pa_position :: int
  pa_question :: string
  pa_question_key :: string
  pa_category :: question_category
  pa_answer :: "string option"
  pa_evidence_keys :: "string list"
  pa_source :: answer_source
  pa_status :: prepared_answer_status
  pa_required :: bool
  pa_answer_bank_entry_id :: "string option"
  pa_reason :: "string option"
  pa_updated_at :: time

record preparation_row =
  p_id :: string
  p_tenant_id :: string
  p_candidate_opportunity_id :: string
  p_opportunity_id :: string
  p_version :: int
  p_status :: preparation_status
  p_validation_status :: validation_status
  p_answers :: "preparation_answer_row list"
  p_job_id :: "string option"
  p_job_content_hash :: "string option"
  p_tailoring_level :: tailoring_level
  p_lane :: lane
  p_cover_letter_mode :: cover_letter_mode
  p_positioning_variant_id :: "string option"
  p_positioning_variant_version :: "int option"
  p_positioning_reason :: "string option"
  p_validation_report :: json
  p_input_fingerprint :: string
  p_inputs :: "(string \<times> json) list"
  p_evidence_keys :: "string list"
  p_ai_used :: bool
  p_ai_provider :: "string option"
  p_ai_model :: "string option"
  p_ai_calls :: int
  p_approved_at :: "time option"
  p_approved_by :: "string option"
  p_updated_at :: time

record preparation_artifact_row =
  pt_tenant_id :: string
  pt_preparation_id :: string
  pt_artifact_type :: artifact_kind
  pt_content :: string
  pt_blocks :: "block list"
  pt_evidence_keys :: "string list"
  pt_template_version :: string
  pt_ai_used :: bool
  pt_validation_status :: validation_status

record tailored_artifact_row =
  ta_id :: string
  ta_job_id :: string
  ta_approved :: bool

record answer_bank_row =
  ab_id :: string
  ab_tenant_id :: string
  ab_category :: string
  ab_question :: string
  ab_question_key :: string
  ab_answer :: string
  ab_evidence_keys :: "string list"
  ab_status :: answer_status
  ab_version :: int
  ab_approved_at :: "time option"

record cap_ledger_row =
  l_tenant_id :: string
  l_period_kind :: string
  l_period_key :: string
  l_reserved :: int
  l_released :: int

record kill_switch_row =
  k_id :: string
  k_paused :: bool
  k_reason :: "string option"

record audit_event_row =
  au_tenant_id :: string
  au_entity_type :: string
  au_entity_id :: string
  au_action :: string
  au_actor :: string
  au_before :: "json option"
  au_after :: "json option"
  au_summary :: "string option"

record eligibility_decision_row =
  ed_id :: string
  ed_tenant_id :: string
  ed_candidate_opportunity_id :: string
  ed_job_id :: string
  ed_job_content_hash :: string
  ed_decision :: eligibility_decision
  ed_confidence :: string
  ed_reason_codes :: "string list"
  ed_matched_constraints :: "json list"
  ed_failed_constraints :: "json list"
  ed_uncertain_constraints :: "json list"
  ed_ruleset_version :: string
  ed_evaluated_at :: time

record priority_score_row =
  ps_id :: string
  ps_tenant_id :: string
  ps_candidate_opportunity_id :: string
  ps_score :: int
  ps_components :: json
  ps_weights_version :: string
  ps_computed_at :: time

record application_policy_row =
  pr_id :: string
  pr_tenant_id :: string
  pr_enabled_bands :: "fit_band list"
  pr_band_thresholds :: "(string \<times> int) list"
  pr_daily_cap :: int
  pr_weekly_cap :: int
  pr_tailoring_by_band :: "(string \<times> tailoring_level) list"
  pr_lane_by_band :: "(string \<times> lane) list"
  pr_cover_letter_by_band :: "(string \<times> string) list option"
  pr_cooldown_days :: int
  pr_blocked_companies :: "string list"
  pr_preferred_locations :: "string list"
  pr_preferred_role_families :: "string list"
  pr_minimum_eligibility :: eligibility_decision
  pr_duplicate_policy :: duplicate_policy
  pr_minimum_fit_score :: "int option"
  pr_timezone :: "string option"
  pr_priority_weights :: json
  pr_ai_settings :: json
  pr_learning_settings :: json
  pr_version :: int

record scheduler_run_row =
  sr_id :: string
  sr_tenant_id :: string
  sr_status :: string
  sr_trigger :: string
  sr_actor :: string
  sr_dry_run :: bool
  sr_policy_version :: int
  sr_window_size :: int
  sr_resumed_from_run_id :: "string option"
  sr_started_at :: time
  sr_heartbeat_at :: time
  sr_completed_at :: "time option"
  sr_considered :: int
  sr_admissible :: int
  sr_admitted :: int
  sr_enqueued :: int
  sr_requeued :: int
  sr_already_queued :: int
  sr_already_completed :: int
  sr_ready_for_execution :: int
  sr_needs_review :: int
  sr_needs_user_input :: int
  sr_released :: int
  sr_reprepare_requeued :: int
  sr_execution_enqueued :: int
  sr_deferred :: int
  sr_blocked :: int
  sr_blocked_by_reason :: "(string \<times> int) list"
  sr_samples :: "(string \<times> json list) list"
  sr_preparation :: "json option"
  sr_errors :: "string list"

section \<open>The database\<close>

record db =
  jobs_t :: "job_row list"
  opportunities_t :: "opportunity_row list"
  opportunity_jobs_t :: "opportunity_job_row list"
  candidates_t :: "candidate_opportunity_row list"
  queue_t :: "queue_row list"
  applications_t :: "application_row list"
  events_t :: "application_event_row list"
  runs_t :: "execution_run_row list"
  preparations_t :: "preparation_row list"
  ledger_t :: "cap_ledger_row list"
  kill_switches_t :: "kill_switch_row list"
  audit_t :: "audit_event_row list"
  decisions_t :: "eligibility_decision_row list"
  scores_t :: "priority_score_row list"
  policies_t :: "application_policy_row list"
  scheduler_runs_t :: "scheduler_run_row list"
  preparation_artifacts_t :: "preparation_artifact_row list"
  tailored_artifacts_t :: "tailored_artifact_row list"
  answer_bank_t :: "answer_bank_row list"

definition empty_db :: db where
  "empty_db = \<lparr>jobs_t = [], opportunities_t = [], opportunity_jobs_t = [], candidates_t = [], queue_t = [],
     applications_t = [], events_t = [], runs_t = [], preparations_t = [], ledger_t = [],
     kill_switches_t = [], audit_t = [], decisions_t = [], scores_t = [],
     policies_t = [], scheduler_runs_t = [], preparation_artifacts_t = [], tailored_artifacts_t = [], answer_bank_t = []\<rparr>"

definition get_job :: "db \<Rightarrow> string \<Rightarrow> job_row option" where
  "get_job d k = tbl_get j_id k (jobs_t d)"

definition get_opportunity :: "db \<Rightarrow> string \<Rightarrow> opportunity_row option" where
  "get_opportunity d k = tbl_get o_id k (opportunities_t d)"

definition put_opportunity :: "opportunity_row \<Rightarrow> db \<Rightarrow> db" where
  "put_opportunity r d = d\<lparr>opportunities_t := tbl_put o_id r (opportunities_t d)\<rparr>"

definition get_candidate :: "db \<Rightarrow> string \<Rightarrow> candidate_opportunity_row option" where
  "get_candidate d k = tbl_get co_id k (candidates_t d)"

definition put_candidate :: "candidate_opportunity_row \<Rightarrow> db \<Rightarrow> db" where
  "put_candidate r d = d\<lparr>candidates_t := tbl_put co_id r (candidates_t d)\<rparr>"

definition get_item :: "db \<Rightarrow> string \<Rightarrow> queue_row option" where
  "get_item d k = tbl_get q_id k (queue_t d)"

definition put_item :: "queue_row \<Rightarrow> db \<Rightarrow> db" where
  "put_item r d = d\<lparr>queue_t := tbl_put q_id r (queue_t d)\<rparr>"

definition get_application :: "db \<Rightarrow> string \<Rightarrow> application_row option" where
  "get_application d k = tbl_get a_id k (applications_t d)"

definition put_application :: "application_row \<Rightarrow> db \<Rightarrow> db" where
  "put_application r d = d\<lparr>applications_t := tbl_put a_id r (applications_t d)\<rparr>"

definition get_run_row :: "db \<Rightarrow> string \<Rightarrow> execution_run_row option" where
  "get_run_row d k = tbl_get r_id k (runs_t d)"

definition put_run :: "execution_run_row \<Rightarrow> db \<Rightarrow> db" where
  "put_run r d = d\<lparr>runs_t := tbl_put r_id r (runs_t d)\<rparr>"

definition get_preparation :: "db \<Rightarrow> string \<Rightarrow> preparation_row option" where
  "get_preparation d k = tbl_get p_id k (preparations_t d)"

definition put_preparation :: "preparation_row \<Rightarrow> db \<Rightarrow> db" where
  "put_preparation r d = d\<lparr>preparations_t := tbl_put p_id r (preparations_t d)\<rparr>"

text \<open>\<^verbatim>\<open>OpportunityRepository.record\<close> (and \<^verbatim>\<open>QueueRepository._record\<close>, which builds the same row):
  an empty actor becomes \<^verbatim>\<open>"system"\<close>, the summary is cut at 512 characters.\<close>

definition audit_record ::
  "string \<Rightarrow> string \<Rightarrow> string \<Rightarrow> string \<Rightarrow> string \<Rightarrow> json option \<Rightarrow> json option \<Rightarrow> string option \<Rightarrow> db \<Rightarrow> db" where
  "audit_record tenant etype eid action actor old after summary d =
     d\<lparr>audit_t := audit_t d @
       [\<lparr>au_tenant_id = tenant, au_entity_type = etype, au_entity_id = eid, au_action = action,
         au_actor = (if actor = [] then ''system'' else actor), au_before = old, au_after = after,
         au_summary = clip_or_none 512 summary\<rparr>]\<rparr>"

lemmas store_defs =
  get_opportunity_def put_opportunity_def get_candidate_def put_candidate_def get_item_def put_item_def
  get_application_def put_application_def get_run_row_def put_run_def get_preparation_def
  put_preparation_def

section \<open>Every table keeps the contract\<close>

interpretation opportunities: row_store get_opportunity put_opportunity o_id
  by unfold_locales (auto simp: store_defs tbl_get_put dest: tbl_get_Some)

interpretation candidates: row_store get_candidate put_candidate co_id
  by unfold_locales (auto simp: store_defs tbl_get_put dest: tbl_get_Some)

interpretation items: row_store get_item put_item q_id
  by unfold_locales (auto simp: store_defs tbl_get_put dest: tbl_get_Some)

interpretation applications: row_store get_application put_application a_id
  by unfold_locales (auto simp: store_defs tbl_get_put dest: tbl_get_Some)

interpretation runs: row_store get_run_row put_run r_id
  by unfold_locales (auto simp: store_defs tbl_get_put dest: tbl_get_Some)

interpretation preparations: row_store get_preparation put_preparation p_id
  by unfold_locales (auto simp: store_defs tbl_get_put dest: tbl_get_Some)

section \<open>Frames: which tables a write touches\<close>

lemma queue_t_writes [simp]:
  "queue_t (put_opportunity o' d) = queue_t d" "queue_t (put_candidate c d) = queue_t d"
  "queue_t (put_application a d) = queue_t d" "queue_t (put_run r d) = queue_t d"
  "queue_t (put_preparation p d) = queue_t d"
  "queue_t (audit_record t et ei ac ar be af su d) = queue_t d"
  "queue_t (put_item q d) = tbl_put q_id q (queue_t d)"
  by (simp_all add: store_defs audit_record_def)

lemma applications_t_writes [simp]:
  "applications_t (put_opportunity o' d) = applications_t d" "applications_t (put_candidate c d) = applications_t d"
  "applications_t (put_item q d) = applications_t d" "applications_t (put_run r d) = applications_t d"
  "applications_t (put_preparation p d) = applications_t d"
  "applications_t (audit_record t et ei ac ar be af su d) = applications_t d"
  "applications_t (put_application a d) = tbl_put a_id a (applications_t d)"
  by (simp_all add: store_defs audit_record_def)

lemma runs_t_writes [simp]:
  "runs_t (put_opportunity o' d) = runs_t d" "runs_t (put_candidate c d) = runs_t d"
  "runs_t (put_item q d) = runs_t d" "runs_t (put_application a d) = runs_t d"
  "runs_t (put_preparation p d) = runs_t d"
  "runs_t (audit_record t et ei ac ar be af su d) = runs_t d"
  "runs_t (put_run r d) = tbl_put r_id r (runs_t d)"
  by (simp_all add: store_defs audit_record_def)

lemma ledger_t_writes [simp]:
  "ledger_t (put_opportunity o' d) = ledger_t d" "ledger_t (put_candidate c d) = ledger_t d"
  "ledger_t (put_item q d) = ledger_t d" "ledger_t (put_application a d) = ledger_t d"
  "ledger_t (put_preparation p d) = ledger_t d" "ledger_t (put_run r d) = ledger_t d"
  "ledger_t (audit_record t et ei ac ar be af su d) = ledger_t d"
  by (simp_all add: store_defs audit_record_def)

lemma candidates_t_writes [simp]:
  "candidates_t (put_opportunity o' d) = candidates_t d" "candidates_t (put_application a d) = candidates_t d"
  "candidates_t (put_item q d) = candidates_t d" "candidates_t (put_run r d) = candidates_t d"
  "candidates_t (put_preparation p d) = candidates_t d"
  "candidates_t (audit_record t et ei ac ar be af su d) = candidates_t d"
  "candidates_t (put_candidate c d) = tbl_put co_id c (candidates_t d)"
  by (simp_all add: store_defs audit_record_def)

lemma shared_t_writes [simp]:
  "opportunities_t (put_candidate c d) = opportunities_t d" "opportunities_t (put_application a d) = opportunities_t d"
  "opportunities_t (put_item q d) = opportunities_t d" "opportunities_t (put_run r d) = opportunities_t d"
  "opportunities_t (put_preparation p d) = opportunities_t d"
  "opportunities_t (audit_record t et ei ac ar be af su d) = opportunities_t d"
  "kill_switches_t (put_candidate c d) = kill_switches_t d" "kill_switches_t (put_application a d) = kill_switches_t d"
  "kill_switches_t (put_item q d) = kill_switches_t d" "kill_switches_t (put_run r d) = kill_switches_t d"
  "kill_switches_t (put_preparation p d) = kill_switches_t d"
  "kill_switches_t (audit_record t et ei ac ar be af su d) = kill_switches_t d"
  by (simp_all add: store_defs audit_record_def)

lemma preparations_t_writes [simp]:
  "preparations_t (put_candidate c d) = preparations_t d" "preparations_t (put_application a d) = preparations_t d"
  "preparations_t (put_item q d) = preparations_t d" "preparations_t (put_run r d) = preparations_t d"
  "preparations_t (put_preparation p d) = tbl_put p_id p (preparations_t d)"
  "preparations_t (audit_record t et ei ac ar be af su d) = preparations_t d"
  by (simp_all add: store_defs audit_record_def)

section \<open>Sample rows\<close>

text \<open>Rows the concrete instances of the properties are evaluated on.\<close>

definition example_co :: candidate_opportunity_row where
  "example_co = \<lparr>co_id = ''co-1'', co_tenant_id = ''t1'', co_opportunity_id = ''opp-1'', co_state = OS_QUEUED,
     co_eligibility_status = Some ED_ELIGIBLE, co_eligibility_decision_id = None, co_fit_score = Some 80,
     co_fit_band = Some FB_HIGH, co_match_id = None, co_priority_score = Some 7, co_priority_score_id = None,
     co_application_id = Some ''app-1'', co_policy_admitted = Some True, co_policy_reason = None,
     co_skipped_reason = None, co_scheduler_code = None, co_scheduler_reason = None, co_scheduler_run_id = None,
     co_scheduler_decided_at = None, co_fit_policy_version = None, co_admission_policy_version = None,
     co_gate_ruleset_version = None, co_state_changed_at = 0, co_last_evaluated_at = None\<rparr>"

definition example_opp :: opportunity_row where
  "example_opp = \<lparr>o_id = ''opp-1'', o_identity_key = ''k1'', o_canonical_job_id = Some ''job-1'', o_company = ''Acme, Inc.'',
     o_company_key = Some ''acme'', o_title = ''Engineer'', o_location_bucket = ''remote'', o_status = OPP_OPEN,
     o_first_seen_at = 0, o_last_seen_at = 0, o_deadline = None, o_repost_count = 0, o_reposted_at = None\<rparr>"

end
