(* ===== verification/Work_Queue.thy ===== *)
theory Work_Queue
  imports Database
begin

text \<open>
  The database-backed queue, \<^verbatim>\<open>app/pipeline/queue.py\<close>. Each operation of \<^verbatim>\<open>QueueRepository\<close> takes
  the row object the caller holds and the database; its effect on the row is a function of its
  own (\<open>.._row\<close>), so that the properties of an operation are properties of that function.
  \<open>guarded_claim\<close> is the guarded \<^verbatim>\<open>UPDATE .. WHERE id, state, claimed_by\<close>: the row object may be a
  stale copy, the table is what the database holds. The invariant \<open>queue_inv\<close> is kept by
  every operation (\<open>queue_step\<close>).
\<close>

section \<open>Constants, audit snapshot\<close>

definition DEFAULT_LEASE_SECONDS :: int where "DEFAULT_LEASE_SECONDS = 600"
definition DEFAULT_MAX_ATTEMPTS :: int where "DEFAULT_MAX_ATTEMPTS = 3"
definition RETRY_BACKOFF_BASE_SECONDS :: int where "RETRY_BACKOFF_BASE_SECONDS = 60"

definition idempotency_key :: "string \<Rightarrow> string \<Rightarrow> queue_action \<Rightarrow> string" where
  "idempotency_key tenant opportunity action =
     tenant @ '':'' @ opportunity @ '':'' @ queue_action_value action"

definition snapshot :: "queue_row \<Rightarrow> json" where
  "snapshot r = JObj
     [(''state'', JStr (queue_state_value (q_state r))), (''action'', JStr (queue_action_value (q_action r))),
      (''lane'', JStr (lane_value (q_lane r))), (''priority'', JInt (q_priority r)),
      (''attempts'', JInt (q_attempts r)), (''claimed_by'', j_opt_str (q_claimed_by r)),
      (''last_error'', j_opt_str (q_last_error r))]"

definition queue_record :: "string \<Rightarrow> queue_row \<Rightarrow> string \<Rightarrow> string \<Rightarrow> json option \<Rightarrow> string option \<Rightarrow> db \<Rightarrow> db" where
  "queue_record tenant r action actor old summary d =
     audit_record tenant ''queue_item'' (q_id r) action actor old (Some (snapshot r)) summary d"

lemma queue_record_frame [simp]:
  "queue_t (queue_record t r ac ar be su d) = queue_t d"
  "applications_t (queue_record t r ac ar be su d) = applications_t d"
  "runs_t (queue_record t r ac ar be su d) = runs_t d"
  "ledger_t (queue_record t r ac ar be su d) = ledger_t d"
  "candidates_t (queue_record t r ac ar be su d) = candidates_t d"
  "opportunities_t (queue_record t r ac ar be su d) = opportunities_t d"
  "kill_switches_t (queue_record t r ac ar be su d) = kill_switches_t d"
  "preparations_t (queue_record t r ac ar be su d) = preparations_t d"
  by (simp_all add: queue_record_def)

definition assert_owner :: "queue_row \<Rightarrow> string \<Rightarrow> unit result" where
  "assert_owner r worker =
     (if q_claimed_by r \<noteq> Some worker
      then Inl (ConflictError (''Queue item is owned by '' @ str_or (q_claimed_by r) ''nobody'' @ '', not '' @ worker))
      else Inr ())"

section \<open>Reads\<close>

definition queue_get :: "string \<Rightarrow> string \<Rightarrow> db \<Rightarrow> queue_row option" where
  "queue_get tenant item_id d = find (\<lambda>r. q_tenant_id r = tenant \<and> q_id r = item_id) (queue_t d)"

definition queue_require :: "string \<Rightarrow> string \<Rightarrow> db \<Rightarrow> queue_row result" where
  "queue_require tenant item_id d =
     (case queue_get tenant item_id d of
        None \<Rightarrow> Inl (NotFoundError (''Queue item not found: '' @ item_id))
      | Some r \<Rightarrow> Inr r)"

definition queue_find :: "string \<Rightarrow> string \<Rightarrow> queue_action \<Rightarrow> db \<Rightarrow> queue_row option" where
  "queue_find tenant opportunity action d =
     find (\<lambda>r. q_tenant_id r = tenant \<and> q_idempotency_key r = idempotency_key tenant opportunity action) (queue_t d)"

section \<open>Enqueue\<close>

definition new_item ::
  "string \<Rightarrow> candidate_opportunity_row \<Rightarrow> queue_action \<Rightarrow> lane \<Rightarrow> int option \<Rightarrow> time option \<Rightarrow> int \<Rightarrow> string \<Rightarrow> time \<Rightarrow> queue_row" where
  "new_item tenant co action ln priority available_at max_attempts new_id now =
     \<lparr>q_id = new_id, q_tenant_id = tenant, q_candidate_opportunity_id = co_id co,
      q_opportunity_id = co_opportunity_id co, q_action = action, q_state = QS_PENDING, q_lane = ln,
      q_priority = (case priority of Some p \<Rightarrow> p | None \<Rightarrow> (case co_priority_score co of Some p \<Rightarrow> p | None \<Rightarrow> 0)),
      q_idempotency_key = idempotency_key tenant (co_opportunity_id co) action,
      q_available_at = (case available_at of Some t \<Rightarrow> t | None \<Rightarrow> now),
      q_attempts = 0, q_max_attempts = max_attempts, q_claimed_by = None, q_claimed_at = None,
      q_lease_expires_at = None, q_last_error = None, q_result = None, q_completed_at = None,
      q_created_at = now, q_updated_at = now\<rparr>"

definition queue_enqueue ::
  "string \<Rightarrow> candidate_opportunity_row \<Rightarrow> queue_action \<Rightarrow> string \<Rightarrow> lane \<Rightarrow> int option \<Rightarrow> time option \<Rightarrow> int \<Rightarrow> string \<Rightarrow> time \<Rightarrow> db
     \<Rightarrow> (queue_row \<times> bool \<times> db) result" where
  "queue_enqueue tenant co action actor ln priority available_at max_attempts new_id now d =
     (if co_tenant_id co \<noteq> tenant then Inl (NotFoundError ''Candidate opportunity not found in this tenant'')
      else case queue_find tenant (co_opportunity_id co) action d of
        Some existing \<Rightarrow>
          if q_state existing = QS_SUCCEEDED
          then Inl (ConflictError (queue_action_value action @ '' already succeeded for this opportunity''))
          else if q_state existing \<in> ACTIVE_QUEUE_STATES then Inr (existing, False, d)
          else Inl (ConflictError (queue_action_value action @ '' is '' @ queue_state_value (q_state existing)
                      @ '' for this opportunity; use requeue''))
      | None \<Rightarrow>
          let row = new_item tenant co action ln priority available_at max_attempts new_id now
          in Inr (row, True, queue_record tenant row ''enqueued'' actor None None (d\<lparr>queue_t := queue_t d @ [row]\<rparr>)))"

section \<open>Claim and lease\<close>

definition lease_expired :: "time \<Rightarrow> queue_row \<Rightarrow> bool" where
  "lease_expired now r = (case q_lease_expires_at r of None \<Rightarrow> False | Some t \<Rightarrow> t < now)"

definition runnable :: "time \<Rightarrow> queue_row \<Rightarrow> bool" where
  "runnable now r \<longleftrightarrow>
     (q_state r \<in> WAITING_QUEUE_STATES \<and> q_available_at r \<le> now) \<or>
     (q_state r \<in> HELD_QUEUE_STATES \<and> lease_expired now r \<and> q_attempts r < q_max_attempts r)"

definition exhausted :: "time \<Rightarrow> queue_row \<Rightarrow> bool" where
  "exhausted now r \<longleftrightarrow> q_state r \<in> HELD_QUEUE_STATES \<and> lease_expired now r \<and> q_max_attempts r \<le> q_attempts r"

definition matches_filter :: "string \<Rightarrow> queue_action option \<Rightarrow> lane option \<Rightarrow> queue_row \<Rightarrow> bool" where
  "matches_filter tenant action ln r \<longleftrightarrow>
     q_tenant_id r = tenant \<and> (case action of None \<Rightarrow> True | Some a \<Rightarrow> q_action r = a) \<and>
     (case ln of None \<Rightarrow> True | Some l \<Rightarrow> q_lane r = l)"

text \<open>\<^verbatim>\<open>_ELIGIBILITY_TIER\<close> over the outer join with the candidate opportunity.\<close>

definition eligibility_tier :: "db \<Rightarrow> queue_row \<Rightarrow> int" where
  "eligibility_tier d r =
     (case get_candidate d (q_candidate_opportunity_id r) of
        None \<Rightarrow> 0
      | Some co \<Rightarrow> if co_eligibility_status co = Some ED_UNCERTAIN then 1 else 0)"

definition claim_key :: "db \<Rightarrow> queue_row \<Rightarrow> int \<times> int \<times> int \<times> int" where
  "claim_key d r = (eligibility_tier d r, - q_priority r, q_available_at r, q_created_at r)"

definition claim_row :: "string \<Rightarrow> time \<Rightarrow> int \<Rightarrow> queue_row \<Rightarrow> queue_row" where
  "claim_row worker now lease_seconds r =
     r\<lparr>q_state := QS_CLAIMED, q_claimed_by := Some worker, q_claimed_at := Some now,
       q_lease_expires_at := Some (now + seconds lease_seconds), q_attempts := q_attempts r + 1,
       q_updated_at := now\<rparr>"

definition claim_guard :: "queue_row \<Rightarrow> queue_row \<Rightarrow> bool" where
  "claim_guard seen r \<longleftrightarrow> q_id r = q_id seen \<and> (q_state r = q_state seen \<and> q_claimed_by r = q_claimed_by seen)"

text \<open>The guarded update both claim paths share: \<open>None\<close> when the race was lost.\<close>

definition guarded_claim ::
  "string \<Rightarrow> string \<Rightarrow> time \<Rightarrow> int \<Rightarrow> string \<Rightarrow> queue_row \<Rightarrow> db \<Rightarrow> (queue_row \<times> db) option" where
  "guarded_claim tenant worker now lease_seconds label seen d =
     (if tbl_matches (claim_guard seen) (queue_t d) \<noteq> 1 then None
      else let d' = d\<lparr>queue_t := tbl_update (claim_guard seen) (claim_row worker now lease_seconds) (queue_t d)\<rparr>
           in case get_item d' (q_id seen) of
                None \<Rightarrow> None
              | Some r \<Rightarrow> Some (r, queue_record tenant r label worker (Some (snapshot seen)) None d'))"

fun claim_rows ::
  "string \<Rightarrow> string \<Rightarrow> time \<Rightarrow> int \<Rightarrow> queue_row list \<Rightarrow> db \<Rightarrow> queue_row list \<times> db" where
  "claim_rows tenant worker now lease_seconds [] d = ([], d)"
| "claim_rows tenant worker now lease_seconds (r # rs) d =
     (case guarded_claim tenant worker now lease_seconds
             (if q_state r \<in> HELD_QUEUE_STATES then ''reclaimed'' else ''claimed'') r d of
        None \<Rightarrow> claim_rows tenant worker now lease_seconds rs d
      | Some (r', d') \<Rightarrow>
          (let (claimed, d'') = claim_rows tenant worker now lease_seconds rs d' in (r' # claimed, d'')))"

definition exhausted_reason :: "queue_row \<Rightarrow> string" where
  "exhausted_reason r = ''worker lost on all '' @ show_int (q_max_attempts r) @ '' attempts (lease expired); parked for review''"

definition park_row :: "string \<Rightarrow> time \<Rightarrow> queue_row \<Rightarrow> queue_row" where
  "park_row reason now r =
     r\<lparr>q_state := QS_NEEDS_REVIEW, q_claimed_by := None, q_lease_expires_at := None,
       q_last_error := Some reason, q_updated_at := now\<rparr>"

definition park_guard :: "time \<Rightarrow> queue_row \<Rightarrow> queue_row \<Rightarrow> bool" where
  "park_guard now seen r \<longleftrightarrow> q_id r = q_id seen \<and>
     (q_state r = q_state seen \<and> q_claimed_by r = q_claimed_by seen \<and> lease_expired now r)"

definition park_exhausted :: "string \<Rightarrow> time \<Rightarrow> string \<Rightarrow> queue_row \<Rightarrow> db \<Rightarrow> bool \<times> db" where
  "park_exhausted tenant now actor seen d =
     (let reason = exhausted_reason seen in
      if tbl_matches (park_guard now seen) (queue_t d) \<noteq> 1 then (False, d)
      else let d' = d\<lparr>queue_t := tbl_update (park_guard now seen) (park_row reason now) (queue_t d)\<rparr>
           in case get_item d' (q_id seen) of
                None \<Rightarrow> (False, d)
              | Some r \<Rightarrow> (True, queue_record tenant r ''attempts_exhausted'' actor (Some (snapshot seen)) (Some reason) d'))"

fun park_all :: "string \<Rightarrow> time \<Rightarrow> queue_row list \<Rightarrow> db \<Rightarrow> nat \<times> db" where
  "park_all tenant now [] d = (0, d)"
| "park_all tenant now (r # rs) d =
     (let (b, d1) = park_exhausted tenant now ''system'' r d; (n, d2) = park_all tenant now rs d1
      in ((if b then Suc n else n), d2))"

definition park_exhausted_leases :: "string \<Rightarrow> time \<Rightarrow> queue_action option \<Rightarrow> lane option \<Rightarrow> db \<Rightarrow> nat \<times> db" where
  "park_exhausted_leases tenant now action ln d =
     park_all tenant now (filter (\<lambda>r. matches_filter tenant action ln r \<and> exhausted now r) (queue_t d)) d"

definition claim_candidates ::
  "string \<Rightarrow> queue_action option \<Rightarrow> lane option \<Rightarrow> time \<Rightarrow> db \<Rightarrow> queue_row list" where
  "claim_candidates tenant action ln now d =
     sort_key (claim_key d) (filter (\<lambda>r. matches_filter tenant action ln r \<and> runnable now r) (queue_t d))"

definition queue_claim ::
  "string \<Rightarrow> string \<Rightarrow> queue_action option \<Rightarrow> lane option \<Rightarrow> nat \<Rightarrow> int \<Rightarrow> time \<Rightarrow> db \<Rightarrow> queue_row list \<times> db" where
  "queue_claim tenant worker action ln limit lease_seconds now d =
     (let d1 = snd (park_exhausted_leases tenant now action ln d)
      in claim_rows tenant worker now lease_seconds (take limit (claim_candidates tenant action ln now d1)) d1)"

text \<open>\<^verbatim>\<open>claim_item\<close>: \<open>available_at\<close> is never null in the table, so its null check always passes.\<close>

definition queue_claim_item ::
  "string \<Rightarrow> string \<Rightarrow> int \<Rightarrow> time \<Rightarrow> queue_row \<Rightarrow> db \<Rightarrow> queue_row option \<times> db" where
  "queue_claim_item tenant worker lease_seconds now row d =
     (if q_state row \<in> HELD_QUEUE_STATES \<and> q_claimed_by row = Some worker then (Some row, d)
      else if \<not> ((q_state row \<in> WAITING_QUEUE_STATES \<and> q_available_at row \<le> now) \<or>
                  (q_state row \<in> HELD_QUEUE_STATES \<and> lease_expired now row)) then (None, d)
      else if q_state row \<in> HELD_QUEUE_STATES \<and> q_max_attempts row \<le> q_attempts row
      then (None, snd (park_exhausted tenant now ''system'' row d))
      else case guarded_claim tenant worker now lease_seconds ''claimed'' row d of
             None \<Rightarrow> (None, d)
           | Some (r, d') \<Rightarrow> (Some r, d'))"

section \<open>Worker operations\<close>

definition extend_lease_row :: "int \<Rightarrow> time \<Rightarrow> queue_row \<Rightarrow> queue_row" where
  "extend_lease_row lease_seconds now r = r\<lparr>q_lease_expires_at := Some (now + seconds lease_seconds), q_updated_at := now\<rparr>"

definition queue_extend_lease :: "string \<Rightarrow> int \<Rightarrow> time \<Rightarrow> queue_row \<Rightarrow> db \<Rightarrow> (queue_row \<times> db) result" where
  "queue_extend_lease worker lease_seconds now row d =
     bind_result (assert_owner row worker) (\<lambda>_.
       let row' = extend_lease_row lease_seconds now row in Inr (row', put_item row' d))"

definition start_row :: "time \<Rightarrow> queue_row \<Rightarrow> queue_row" where
  "start_row now r = r\<lparr>q_state := QS_PROCESSING, q_updated_at := now\<rparr>"

definition queue_start :: "string \<Rightarrow> string \<Rightarrow> time \<Rightarrow> queue_row \<Rightarrow> db \<Rightarrow> (queue_row \<times> db) result" where
  "queue_start tenant worker now row d =
     bind_result (assert_owner row worker) (\<lambda>_.
       if q_state row \<noteq> QS_CLAIMED
       then Inl (ConflictError (''Cannot start a '' @ queue_state_value (q_state row) @ '' item''))
       else let row' = start_row now row
            in Inr (row', queue_record tenant row' ''processing'' worker (Some (snapshot row)) None (put_item row' d)))"

definition release_row :: "time \<Rightarrow> queue_row \<Rightarrow> queue_row" where
  "release_row now r =
     r\<lparr>q_state := QS_PENDING, q_claimed_by := None, q_claimed_at := None, q_lease_expires_at := None,
       q_attempts := max 0 (q_attempts r - 1), q_updated_at := now\<rparr>"

definition queue_release :: "string \<Rightarrow> string \<Rightarrow> string option \<Rightarrow> time \<Rightarrow> queue_row \<Rightarrow> db \<Rightarrow> (queue_row \<times> db) result" where
  "queue_release tenant worker reason now row d =
     bind_result (assert_owner row worker) (\<lambda>_.
       let row' = release_row now row
       in Inr (row', queue_record tenant row' ''released'' worker (Some (snapshot row)) reason (put_item row' d)))"

definition succeed_row :: "json \<Rightarrow> time \<Rightarrow> queue_row \<Rightarrow> queue_row" where
  "succeed_row result now r =
     r\<lparr>q_state := QS_SUCCEEDED, q_result := Some result, q_completed_at := Some now,
       q_lease_expires_at := None, q_last_error := None, q_updated_at := now\<rparr>"

definition queue_succeed :: "string \<Rightarrow> string \<Rightarrow> json \<Rightarrow> time \<Rightarrow> queue_row \<Rightarrow> db \<Rightarrow> (queue_row \<times> db) result" where
  "queue_succeed tenant worker result now row d =
     bind_result (assert_owner row worker) (\<lambda>_.
       let row' = succeed_row result now row
       in Inr (row', queue_record tenant row' ''succeeded'' worker (Some (snapshot row)) None (put_item row' d)))"

definition retry_delay :: "int \<Rightarrow> int" where
  "retry_delay attempts = RETRY_BACKOFF_BASE_SECONDS * 2 ^ nat (max 0 (attempts - 1))"

definition fail_row :: "string \<Rightarrow> bool \<Rightarrow> time \<Rightarrow> queue_row \<Rightarrow> queue_row" where
  "fail_row error retryable now r =
     (if retryable \<and> q_attempts r < q_max_attempts r
      then r\<lparr>q_last_error := Some (take 2000 error), q_lease_expires_at := None, q_state := QS_RETRY_WAIT,
             q_available_at := now + seconds (retry_delay (q_attempts r)), q_claimed_by := None,
             q_claimed_at := None, q_updated_at := now\<rparr>
      else r\<lparr>q_last_error := Some (take 2000 error), q_lease_expires_at := None, q_state := QS_FAILED,
             q_completed_at := Some now, q_updated_at := now\<rparr>)"

definition queue_fail :: "string \<Rightarrow> string \<Rightarrow> string \<Rightarrow> bool \<Rightarrow> time \<Rightarrow> queue_row \<Rightarrow> db \<Rightarrow> (queue_row \<times> db) result" where
  "queue_fail tenant worker error retryable now row d =
     bind_result (assert_owner row worker) (\<lambda>_.
       let row' = fail_row error retryable now row
       in Inr (row', queue_record tenant row' (if q_state row' = QS_RETRY_WAIT then ''retry_scheduled'' else ''failed'')
                       worker (Some (snapshot row)) (Some error) (put_item row' d)))"

definition block_row :: "string \<Rightarrow> time \<Rightarrow> queue_row \<Rightarrow> queue_row" where
  "block_row reason now r =
     r\<lparr>q_state := QS_BLOCKED, q_last_error := Some (take 2000 reason), q_lease_expires_at := None, q_updated_at := now\<rparr>"

definition queue_block :: "string \<Rightarrow> string \<Rightarrow> string \<Rightarrow> time \<Rightarrow> queue_row \<Rightarrow> db \<Rightarrow> (queue_row \<times> db) result" where
  "queue_block tenant worker reason now row d =
     bind_result (assert_owner row worker) (\<lambda>_.
       let row' = block_row reason now row
       in Inr (row', queue_record tenant row' ''blocked'' worker (Some (snapshot row)) (Some reason) (put_item row' d)))"

definition needs_review_row :: "string \<Rightarrow> time \<Rightarrow> queue_row \<Rightarrow> queue_row" where
  "needs_review_row reason now r =
     r\<lparr>q_state := QS_NEEDS_REVIEW, q_last_error := Some (take 2000 reason), q_lease_expires_at := None,
       q_claimed_by := None, q_updated_at := now\<rparr>"

definition queue_needs_review :: "string \<Rightarrow> string \<Rightarrow> string \<Rightarrow> time \<Rightarrow> queue_row \<Rightarrow> db \<Rightarrow> queue_row \<times> db" where
  "queue_needs_review tenant actor reason now row d =
     (let row' = needs_review_row reason now row
      in (row', queue_record tenant row' ''needs_review'' actor (Some (snapshot row)) (Some reason) (put_item row' d)))"

section \<open>Human and recovery operations\<close>

definition resolve_row :: "json \<Rightarrow> time \<Rightarrow> queue_row \<Rightarrow> queue_row" where
  "resolve_row result now r =
     r\<lparr>q_state := QS_SUCCEEDED, q_result := Some result, q_completed_at := Some now, q_lease_expires_at := None,
       q_claimed_by := None, q_last_error := None, q_updated_at := now\<rparr>"

definition queue_resolve :: "string \<Rightarrow> string \<Rightarrow> json \<Rightarrow> string option \<Rightarrow> time \<Rightarrow> queue_row \<Rightarrow> db \<Rightarrow> (queue_row \<times> db) result" where
  "queue_resolve tenant actor result reason now row d =
     (if q_state row \<in> {QS_SUCCEEDED, QS_CANCELLED}
      then Inl (ConflictError (''Cannot resolve a '' @ queue_state_value (q_state row) @ '' item''))
      else let row' = resolve_row result now row
           in Inr (row', queue_record tenant row' ''resolved'' actor (Some (snapshot row)) reason (put_item row' d)))"

definition cancel_row :: "time \<Rightarrow> queue_row \<Rightarrow> queue_row" where
  "cancel_row now r =
     r\<lparr>q_state := QS_CANCELLED, q_completed_at := Some now, q_lease_expires_at := None, q_claimed_by := None,
       q_updated_at := now\<rparr>"

definition queue_cancel :: "string \<Rightarrow> string \<Rightarrow> string option \<Rightarrow> time \<Rightarrow> queue_row \<Rightarrow> db \<Rightarrow> (queue_row \<times> db) result" where
  "queue_cancel tenant actor reason now row d =
     (if q_state row = QS_SUCCEEDED then Inl (ConflictError ''Cannot cancel a succeeded item'')
      else let row' = cancel_row now row
           in Inr (row', queue_record tenant row' ''cancelled'' actor (Some (snapshot row)) reason (put_item row' d)))"

definition requeue_row :: "bool \<Rightarrow> time \<Rightarrow> queue_row \<Rightarrow> queue_row" where
  "requeue_row reset_attempts now r =
     r\<lparr>q_state := QS_PENDING, q_available_at := now, q_claimed_by := None, q_claimed_at := None,
       q_lease_expires_at := None, q_completed_at := None, q_last_error := None,
       q_attempts := (if reset_attempts then 0 else q_attempts r), q_updated_at := now\<rparr>"

definition queue_requeue ::
  "string \<Rightarrow> string \<Rightarrow> string option \<Rightarrow> bool \<Rightarrow> bool \<Rightarrow> time \<Rightarrow> queue_row \<Rightarrow> db \<Rightarrow> (queue_row \<times> db) result" where
  "queue_requeue tenant actor reason reset_attempts allow_succeeded now row d =
     (if q_state row = QS_SUCCEEDED \<and> \<not> (allow_succeeded \<and> q_action row = QA_PREPARE)
      then Inl (ConflictError ''Cannot requeue a succeeded item'')
      else if q_state row \<in> {QS_PENDING, QS_CLAIMED, QS_PROCESSING}
      then Inl (ConflictError (''Item is already '' @ queue_state_value (q_state row)))
      else let row' = requeue_row reset_attempts now row
           in Inr (row', queue_record tenant row' ''requeued'' actor (Some (snapshot row)) reason (put_item row' d)))"

definition expire_row :: "time \<Rightarrow> queue_row \<Rightarrow> queue_row" where
  "expire_row now r =
     r\<lparr>q_state := QS_PENDING, q_claimed_by := None, q_claimed_at := None, q_lease_expires_at := None, q_updated_at := now\<rparr>"

fun reclaim_rows :: "string \<Rightarrow> string \<Rightarrow> time \<Rightarrow> queue_row list \<Rightarrow> db \<Rightarrow> db" where
  "reclaim_rows tenant actor now [] d = d"
| "reclaim_rows tenant actor now (r # rs) d =
     reclaim_rows tenant actor now rs
       (if q_max_attempts r \<le> q_attempts r then snd (park_exhausted tenant now actor r d)
        else queue_record tenant (expire_row now r) ''lease_expired'' actor (Some (snapshot r)) None (put_item (expire_row now r) d))"

definition queue_reclaim_expired :: "string \<Rightarrow> string \<Rightarrow> time \<Rightarrow> db \<Rightarrow> nat \<times> db" where
  "queue_reclaim_expired tenant actor now d =
     (let rows = filter (\<lambda>r. q_tenant_id r = tenant \<and> q_state r \<in> HELD_QUEUE_STATES \<and> lease_expired now r) (queue_t d)
      in (length rows, reclaim_rows tenant actor now rows d))"

section \<open>The invariant of a queue item\<close>

lemmas item_ops [ops] =
  claim_row_def park_row_def extend_lease_row_def start_row_def release_row_def succeed_row_def
  fail_row_def block_row_def needs_review_row_def resolve_row_def cancel_row_def requeue_row_def
  expire_row_def

text \<open>
  A waiting item is unowned and has an attempt left; a held item has an owner and a lease and
  has counted an attempt; no item has counted more attempts than its maximum.
\<close>

definition item_ok :: "queue_row \<Rightarrow> bool" where
  "item_ok r \<longleftrightarrow>
     1 \<le> q_max_attempts r \<and> 0 \<le> q_attempts r \<and> q_attempts r \<le> q_max_attempts r \<and>
     (q_state r \<in> WAITING_QUEUE_STATES \<longrightarrow>
        q_claimed_by r = None \<and> q_lease_expires_at r = None \<and> q_attempts r < q_max_attempts r) \<and>
     (q_state r \<in> HELD_QUEUE_STATES \<longrightarrow>
        q_claimed_by r \<noteq> None \<and> q_lease_expires_at r \<noteq> None \<and> 1 \<le> q_attempts r)"

definition same_identity :: "queue_row \<Rightarrow> queue_row \<Rightarrow> bool" where
  "same_identity r s \<longleftrightarrow> q_id r = q_id s \<and> q_tenant_id r = q_tenant_id s \<and>
     q_opportunity_id r = q_opportunity_id s \<and> q_action r = q_action s \<and>
     q_idempotency_key r = q_idempotency_key s \<and> q_max_attempts r = q_max_attempts s"

lemma same_identity_refl [simp]: "same_identity r r"
  by (simp add: same_identity_def)

lemma same_identity_ops [simp]:
  "same_identity r (claim_row w t ls r)" "same_identity r (park_row re t r)"
  "same_identity r (extend_lease_row ls t r)" "same_identity r (start_row t r)"
  "same_identity r (release_row t r)" "same_identity r (succeed_row res t r)"
  "same_identity r (fail_row er b t r)" "same_identity r (block_row re t r)"
  "same_identity r (needs_review_row re t r)" "same_identity r (resolve_row res t r)"
  "same_identity r (cancel_row t r)" "same_identity r (requeue_row b t r)" "same_identity r (expire_row t r)"
  by (simp_all add: same_identity_def item_ops)

lemma q_id_ops [simp]:
  "q_id (claim_row w t ls r) = q_id r" "q_id (park_row re t r) = q_id r"
  "q_id (extend_lease_row ls t r) = q_id r" "q_id (start_row t r) = q_id r"
  "q_id (release_row t r) = q_id r" "q_id (succeed_row res t r) = q_id r"
  "q_id (fail_row er b t r) = q_id r" "q_id (block_row re t r) = q_id r"
  "q_id (needs_review_row re t r) = q_id r" "q_id (resolve_row res t r) = q_id r"
  "q_id (cancel_row t r) = q_id r" "q_id (requeue_row b t r) = q_id r" "q_id (expire_row t r) = q_id r"
  by (simp_all add: item_ops)

lemma item_ok_new: "1 \<le> m \<Longrightarrow> item_ok (new_item t co a ln p av m i now)"
  by (simp add: item_ok_def new_item_def state_sets)

lemma item_ok_claim: "item_ok r \<Longrightarrow> runnable now r \<Longrightarrow> item_ok (claim_row w t ls r)"
  by (auto simp: item_ok_def runnable_def item_ops state_sets)

lemma item_ok_park: "item_ok r \<Longrightarrow> item_ok (park_row re t r)"
  by (simp add: item_ok_def item_ops state_sets)

lemma item_ok_extend:
  "item_ok r \<Longrightarrow> q_state r \<notin> WAITING_QUEUE_STATES \<or> q_claimed_by r = Some w \<Longrightarrow> item_ok (extend_lease_row ls t r)"
  by (auto simp: item_ok_def item_ops)

lemma item_ok_start: "item_ok r \<Longrightarrow> q_state r = QS_CLAIMED \<Longrightarrow> item_ok (start_row t r)"
  by (simp add: item_ok_def item_ops state_sets)

lemma item_ok_release: "item_ok r \<Longrightarrow> item_ok (release_row t r)"
  by (auto simp: item_ok_def item_ops state_sets)

lemma item_ok_settle:
  "item_ok r \<Longrightarrow> item_ok (succeed_row res t r)" "item_ok r \<Longrightarrow> item_ok (block_row re t r)"
  "item_ok r \<Longrightarrow> item_ok (needs_review_row re t r)" "item_ok r \<Longrightarrow> item_ok (resolve_row res t r)"
  "item_ok r \<Longrightarrow> item_ok (cancel_row t r)"
  by (simp_all add: item_ok_def item_ops state_sets)

lemma item_ok_fail: "item_ok r \<Longrightarrow> item_ok (fail_row er b t r)"
  by (auto simp: item_ok_def item_ops state_sets)

lemma item_ok_requeue: "item_ok r \<Longrightarrow> b \<or> q_attempts r < q_max_attempts r \<Longrightarrow> item_ok (requeue_row b t r)"
  by (auto simp: item_ok_def item_ops state_sets)

lemma item_ok_expire: "item_ok r \<Longrightarrow> q_attempts r < q_max_attempts r \<Longrightarrow> item_ok (expire_row t r)"
  by (simp add: item_ok_def item_ops state_sets)

section \<open>The invariant of the queue\<close>

text \<open>\<open>q_triple\<close> is the unique constraint \<^verbatim>\<open>uq_queue_tenant_opportunity_action\<close>.\<close>

definition q_triple :: "queue_row \<Rightarrow> string \<times> string \<times> queue_action" where
  "q_triple r = (q_tenant_id r, q_opportunity_id r, q_action r)"

definition queue_inv :: "db \<Rightarrow> bool" where
  "queue_inv d \<longleftrightarrow> distinct (map q_id (queue_t d)) \<and> distinct (map q_triple (queue_t d)) \<and>
     (\<forall>r \<in> set (queue_t d). item_ok r \<and> q_idempotency_key r = idempotency_key (q_tenant_id r) (q_opportunity_id r) (q_action r))"

lemma queue_inv_cong: "queue_t d = queue_t d' \<Longrightarrow> queue_inv d = queue_inv d'"
  by (simp add: queue_inv_def)

lemma queue_inv_record [simp]: "queue_inv (queue_record t r ac ar be su d) = queue_inv d"
  by (simp add: queue_inv_def)

lemma map_update_rows:
  assumes "\<And>r. r \<in> set rows \<Longrightarrow> p r \<Longrightarrow> g (f r) = g r"
  shows "map g (tbl_update p f rows) = map g rows"
  using assms by (auto simp: tbl_update_def)

lemma same_identity_key:
  "same_identity r s \<Longrightarrow> q_idempotency_key r = idempotency_key (q_tenant_id r) (q_opportunity_id r) (q_action r) \<Longrightarrow>
     q_idempotency_key s = idempotency_key (q_tenant_id s) (q_opportunity_id s) (q_action s)"
  unfolding same_identity_def by metis

text \<open>The one argument behind every operation: an identity-preserving rewrite of the rows to
  rows that satisfy \<open>item_ok\<close>.\<close>

lemma queue_inv_update:
  assumes inv: "queue_inv d"
    and ok: "\<And>r. r \<in> set (queue_t d) \<Longrightarrow> p r \<Longrightarrow> item_ok r \<Longrightarrow> same_identity r (f r) \<and> item_ok (f r)"
  shows "queue_inv (d\<lparr>queue_t := tbl_update p f (queue_t d)\<rparr>)"
proof -
  have all: "\<And>r. r \<in> set (queue_t d) \<Longrightarrow> p r \<Longrightarrow> same_identity r (f r) \<and> item_ok (f r)"
    using inv ok by (auto simp: queue_inv_def)
  have "map q_id (tbl_update p f (queue_t d)) = map q_id (queue_t d)"
    by (rule map_update_rows) (use all in \<open>simp add: same_identity_def\<close>)
  moreover have "map q_triple (tbl_update p f (queue_t d)) = map q_triple (queue_t d)"
    by (rule map_update_rows) (use all in \<open>simp add: same_identity_def q_triple_def\<close>)
  moreover have "\<forall>r \<in> set (tbl_update p f (queue_t d)). item_ok r \<and>
      q_idempotency_key r = idempotency_key (q_tenant_id r) (q_opportunity_id r) (q_action r)"
    by (rule tbl_update_all) (use inv all in \<open>auto simp: queue_inv_def dest: same_identity_key\<close>)
  ultimately show ?thesis using inv by (simp add: queue_inv_def)
qed

lemma put_item_update: "put_item row d = d\<lparr>queue_t := tbl_update (\<lambda>r. q_id r = q_id row) (\<lambda>_. row) (queue_t d)\<rparr>"
  by (simp add: put_item_def tbl_put_def tbl_update_def)

lemma queue_inv_put:
  assumes inv: "queue_inv d" and row: "row \<in> set (queue_t d)"
    and "same_identity row row'" and "item_ok row'"
  shows "queue_inv (put_item row' d)"
proof -
  have "\<And>r. r \<in> set (queue_t d) \<Longrightarrow> q_id r = q_id row' \<Longrightarrow> r = row"
    using inv row assms(3) by (auto simp: queue_inv_def same_identity_def distinct_map inj_on_def)
  then show ?thesis
    unfolding put_item_update using assms by (intro queue_inv_update) auto
qed

lemma queue_inv_item: "queue_inv d \<Longrightarrow> r \<in> set (queue_t d) \<Longrightarrow> item_ok r"
  by (simp add: queue_inv_def)

lemma queue_inv_same_row:
  "queue_inv d \<Longrightarrow> r \<in> set (queue_t d) \<Longrightarrow> s \<in> set (queue_t d) \<Longrightarrow> q_id r = q_id s \<Longrightarrow> r = s"
  by (auto simp: queue_inv_def distinct_map inj_on_def)

lemma queue_inv_get_item: "queue_inv d \<Longrightarrow> r \<in> set (queue_t d) \<Longrightarrow> get_item d (q_id r) = Some r"
  by (simp add: queue_inv_def get_item_def tbl_get_distinct)

lemma idempotency_key_eq [simp]:
  "idempotency_key t o1 a = idempotency_key t o2 a \<longleftrightarrow> o1 = o2"
  by (simp add: idempotency_key_def)

lemma queue_find_Some:
  "queue_find t opp a d = Some r \<Longrightarrow>
     r \<in> set (queue_t d) \<and> q_tenant_id r = t \<and> q_idempotency_key r = idempotency_key t opp a"
  by (auto simp: queue_find_def find_Some_iff)

section \<open>Claiming current rows\<close>

lemma claim_guard_current:
  "queue_inv d \<Longrightarrow> seen \<in> set (queue_t d) \<Longrightarrow> r \<in> set (queue_t d) \<Longrightarrow> claim_guard seen r \<longleftrightarrow> r = seen"
  using queue_inv_same_row [of d r seen] by (auto simp: claim_guard_def)

lemma matches_current:
  assumes "queue_inv d" and "seen \<in> set (queue_t d)" and "\<And>r. r \<in> set (queue_t d) \<Longrightarrow> g r \<longleftrightarrow> r = seen"
  shows "tbl_matches g (queue_t d) = 1"
proof -
  have "filter g (queue_t d) = filter (\<lambda>r. seen = r) (queue_t d)"
    using assms(3) by (auto intro: filter_cong)
  moreover have "distinct (queue_t d)"
    using assms(1) by (simp add: queue_inv_def distinct_map)
  ultimately show ?thesis
    using assms(2) by (simp add: tbl_matches_def distinct_length_filter)
qed

lemma update_current:
  assumes "queue_inv d" and "seen \<in> set (queue_t d)" and "\<And>r. r \<in> set (queue_t d) \<Longrightarrow> g r \<longleftrightarrow> r = seen"
    and "q_id (f seen) = q_id seen"
  shows "d\<lparr>queue_t := tbl_update g f (queue_t d)\<rparr> = put_item (f seen) d"
proof -
  have "\<And>r. r \<in> set (queue_t d) \<Longrightarrow> (if g r then f r else r) = (if q_id r = q_id (f seen) then f seen else r)"
    using assms queue_inv_same_row [OF assms(1) _ assms(2)] by auto
  then show ?thesis by (simp add: put_item_def tbl_put_def tbl_update_def cong: map_cong)
qed

lemma get_item_put:
  "queue_inv d \<Longrightarrow> seen \<in> set (queue_t d) \<Longrightarrow> q_id row = q_id seen \<Longrightarrow> get_item (put_item row d) (q_id seen) = Some row"
  using queue_inv_get_item items.get_put_same [of d row] by auto

lemma guarded_claim_current:
  assumes "queue_inv d" and "seen \<in> set (queue_t d)"
  shows "guarded_claim t w now ls lab seen d =
    (let r = claim_row w now ls seen in Some (r, queue_record t r lab w (Some (snapshot seen)) None (put_item r d)))"
  using matches_current [OF assms claim_guard_current [OF assms]]
    update_current [OF assms claim_guard_current [OF assms], of "claim_row w now ls"]
    get_item_put [OF assms, of "claim_row w now ls seen"]
  by (simp add: guarded_claim_def Let_def)

lemma park_exhausted_current:
  assumes "queue_inv d" and "seen \<in> set (queue_t d)" and "lease_expired now seen"
  shows "park_exhausted t now ac seen d =
    (let r = park_row (exhausted_reason seen) now seen
     in (True, queue_record t r ''attempts_exhausted'' ac (Some (snapshot seen)) (Some (exhausted_reason seen)) (put_item r d)))"
proof -
  have g: "\<And>r. r \<in> set (queue_t d) \<Longrightarrow> park_guard now seen r \<longleftrightarrow> r = seen"
    using claim_guard_current [OF assms(1,2)] assms(3) by (auto simp: park_guard_def claim_guard_def)
  show ?thesis
    using matches_current [OF assms(1,2) g] update_current [OF assms(1,2) g, of "park_row (exhausted_reason seen) now"]
      get_item_put [OF assms(1,2), of "park_row (exhausted_reason seen) now seen"]
    by (simp add: park_exhausted_def Let_def)
qed

text \<open>What a loop of writes does to the table: the listed rows are rewritten, the others stay.\<close>

definition rewrite_rows :: "queue_row list \<Rightarrow> (queue_row \<Rightarrow> queue_row) \<Rightarrow> queue_row list \<Rightarrow> queue_row list" where
  "rewrite_rows rs f rows = map (\<lambda>r. if r \<in> set rs then f r else r) rows"

lemma put_item_member:
  "r \<in> set (queue_t d) \<Longrightarrow> q_id r \<noteq> q_id row \<Longrightarrow> r \<in> set (queue_t (put_item row d))"
  by (auto intro: tbl_put_other)

lemma put_item_members:
  "set rs \<subseteq> set (queue_t d) \<Longrightarrow> q_id row \<notin> q_id ` set rs \<Longrightarrow> set rs \<subseteq> set (queue_t (put_item row d))"
  using put_item_member [of _ d row] by (metis image_eqI subset_iff)

lemma rewrite_step:
  assumes inv: "queue_inv d" and r: "r \<in> set (queue_t d)" and sub: "set rs \<subseteq> set (queue_t d)"
    and fresh: "q_id r \<notin> q_id ` set rs" and id: "q_id (f r) = q_id r"
  shows "rewrite_rows rs f (queue_t (put_item (f r) d)) = rewrite_rows (r # rs) f (queue_t d)"
proof -
  have "\<And>s. s \<in> set (queue_t d) \<Longrightarrow>
      (if (if q_id s = q_id r then f r else s) \<in> set rs then f (if q_id s = q_id r then f r else s)
       else (if q_id s = q_id r then f r else s)) = (if s \<in> set (r # rs) then f s else s)"
    using queue_inv_same_row [OF inv _ r] fresh id by (force simp: image_iff)
  then show ?thesis
    by (simp add: rewrite_rows_def tbl_put_def id comp_def)
qed

text \<open>
  The contract of the body of such a loop: on a current row that satisfies \<open>ok\<close> it
  rewrites that row by \<open>f\<close> and touches no other table but the audit ledger.
\<close>

definition only_queue :: "db \<Rightarrow> db \<Rightarrow> bool" where
  "only_queue d d' \<longleftrightarrow> jobs_t d' = jobs_t d \<and> opportunities_t d' = opportunities_t d \<and>
     opportunity_jobs_t d' = opportunity_jobs_t d \<and> candidates_t d' = candidates_t d \<and>
     applications_t d' = applications_t d \<and> events_t d' = events_t d \<and> runs_t d' = runs_t d \<and>
     preparations_t d' = preparations_t d \<and> ledger_t d' = ledger_t d \<and> kill_switches_t d' = kill_switches_t d \<and>
     decisions_t d' = decisions_t d \<and> scores_t d' = scores_t d \<and> scheduler_runs_t d' = scheduler_runs_t d"

lemma only_queue_refl [simp]: "only_queue d d"
  by (simp add: only_queue_def)

lemma only_queue_trans: "only_queue d e \<Longrightarrow> only_queue e f \<Longrightarrow> only_queue d f"
  by (simp add: only_queue_def)

lemma only_queue_writes [simp]:
  "only_queue d (put_item r e) \<longleftrightarrow> only_queue d e"
  "only_queue d (queue_record t r ac ar be su e) \<longleftrightarrow> only_queue d e"
  "only_queue d (e\<lparr>queue_t := rows\<rparr>) \<longleftrightarrow> only_queue d e"
  by (simp_all add: only_queue_def put_item_def queue_record_def audit_record_def)

locale row_loop =
  fixes f :: "queue_row \<Rightarrow> queue_row" and body :: "queue_row \<Rightarrow> db \<Rightarrow> db" and ok :: "queue_row \<Rightarrow> bool"
  assumes body_table: "queue_inv d \<Longrightarrow> r \<in> set (queue_t d) \<Longrightarrow> ok r \<Longrightarrow> queue_t (body r d) = queue_t (put_item (f r) d)"
    and f_identity: "same_identity r (f r)"
    and f_ok: "item_ok r \<Longrightarrow> ok r \<Longrightarrow> item_ok (f r)"
    and body_frame: "only_queue d (body r d)"
begin

lemma loop_frame: "only_queue d (fold body rs d)"
  by (induction rs arbitrary: d) (auto intro: only_queue_trans body_frame)

lemma loop_table:
  assumes "queue_inv d" and "set rs \<subseteq> set (queue_t d)" and "distinct (map q_id rs)" and "\<forall>r \<in> set rs. ok r"
  shows "queue_t (fold body rs d) = rewrite_rows rs f (queue_t d) \<and> queue_inv (fold body rs d)"
  using assms
proof (induction rs arbitrary: d)
  case Nil
  then show ?case by (simp add: rewrite_rows_def)
next
  case (Cons r rs)
  have id: "q_id (f r) = q_id r" using f_identity [of r] by (simp add: same_identity_def)
  have tbl: "queue_t (body r d) = queue_t (put_item (f r) d)"
    using Cons.prems body_table by simp
  have "queue_inv (put_item (f r) d)"
    by (rule queue_inv_put [of d r]) (use Cons.prems f_identity f_ok queue_inv_item in auto)
  then have inv: "queue_inv (body r d)" using tbl queue_inv_cong by blast
  have sub: "set rs \<subseteq> set (queue_t (body r d))"
    unfolding tbl by (rule put_item_members) (use Cons.prems id in auto)
  have "rewrite_rows rs f (queue_t (body r d)) = rewrite_rows (r # rs) f (queue_t d)"
    unfolding tbl by (rule rewrite_step) (use Cons.prems id in auto)
  with Cons.IH [OF inv sub] Cons.prems show ?case by simp
qed

end

definition claim_body :: "string \<Rightarrow> string \<Rightarrow> time \<Rightarrow> int \<Rightarrow> queue_row \<Rightarrow> db \<Rightarrow> db" where
  "claim_body t w now ls r d =
     (case guarded_claim t w now ls (if q_state r \<in> HELD_QUEUE_STATES then ''reclaimed'' else ''claimed'') r d of
        None \<Rightarrow> d | Some (_, d') \<Rightarrow> d')"

definition reclaim_body :: "string \<Rightarrow> string \<Rightarrow> time \<Rightarrow> queue_row \<Rightarrow> db \<Rightarrow> db" where
  "reclaim_body t ac now r d =
     (if q_max_attempts r \<le> q_attempts r then snd (park_exhausted t now ac r d)
      else queue_record t (expire_row now r) ''lease_expired'' ac (Some (snapshot r)) None (put_item (expire_row now r) d))"

definition reclaim_row :: "time \<Rightarrow> queue_row \<Rightarrow> queue_row" where
  "reclaim_row now r = (if q_max_attempts r \<le> q_attempts r then park_row (exhausted_reason r) now r else expire_row now r)"

lemma only_queue_guarded_claim: "guarded_claim t w now ls lab r d = Some (r', d') \<Longrightarrow> only_queue d d'"
  by (auto simp: guarded_claim_def Let_def split: if_splits option.splits)

lemma only_queue_park: "only_queue d (snd (park_exhausted t now ac r d))"
  by (simp add: park_exhausted_def Let_def split: option.split)

interpretation claim_loop: row_loop "claim_row w now ls" "claim_body t w now ls" "runnable now" for w now ls t
proof unfold_locales
  fix d r assume "queue_inv d" "r \<in> set (queue_t d)" "runnable now r"
  then show "queue_t (claim_body t w now ls r d) = queue_t (put_item (claim_row w now ls r) d)"
    by (simp add: claim_body_def guarded_claim_current Let_def)
next
  show "only_queue d (claim_body t w now ls r d)" for d r
    using only_queue_guarded_claim by (fastforce simp: claim_body_def split: option.split)
qed (auto intro: item_ok_claim)

interpretation park_loop: row_loop "\<lambda>r. park_row (exhausted_reason r) now r" "\<lambda>r d. snd (park_exhausted t now ac r d)"
  "exhausted now" for now t ac
  by unfold_locales (auto simp: park_exhausted_current exhausted_def Let_def only_queue_park intro: item_ok_park)

interpretation reclaim_loop: row_loop "reclaim_row now" "reclaim_body t ac now" "lease_expired now" for now t ac
  by unfold_locales
    (auto simp: reclaim_body_def reclaim_row_def park_exhausted_current Let_def only_queue_park
      intro: item_ok_park item_ok_expire)

lemma claim_rows_fold: "snd (claim_rows t w now ls rs d) = fold (claim_body t w now ls) rs d"
  by (induction rs arbitrary: d) (auto simp: claim_body_def Let_def case_prod_unfold split: option.split)

lemma park_all_fold: "snd (park_all t now rs d) = fold (\<lambda>r d. snd (park_exhausted t now ''system'' r d)) rs d"
  by (induction rs arbitrary: d) (auto simp: Let_def case_prod_unfold)

lemma reclaim_rows_fold: "reclaim_rows t ac now rs d = fold (reclaim_body t ac now) rs d"
  by (induction rs arbitrary: d) (auto simp: reclaim_body_def)

lemma claim_rows_fst:
  assumes "queue_inv d" and "set rs \<subseteq> set (queue_t d)" and "distinct (map q_id rs)" and "\<forall>r \<in> set rs. runnable now r"
  shows "fst (claim_rows t w now ls rs d) = map (claim_row w now ls) rs"
  using assms
proof (induction rs arbitrary: d)
  case Nil
  then show ?case by simp
next
  case (Cons r rs)
  let ?d1 = "claim_body t w now ls r d"
  have tbl: "queue_t ?d1 = queue_t (put_item (claim_row w now ls r) d)"
    using Cons.prems claim_loop.body_table by simp
  have "queue_inv ?d1" using claim_loop.loop_table [of d "[r]" now t w ls] Cons.prems by simp
  moreover have "set rs \<subseteq> set (queue_t ?d1)"
    unfolding tbl by (rule put_item_members) (use Cons.prems in auto)
  ultimately have "fst (claim_rows t w now ls rs ?d1) = map (claim_row w now ls) rs"
    using Cons.IH Cons.prems by simp
  moreover have "guarded_claim t w now ls lab r d = Some (claim_row w now ls r,
      queue_record t (claim_row w now ls r) lab w (Some (snapshot r)) None (put_item (claim_row w now ls r) d))" for lab
    using Cons.prems by (simp add: guarded_claim_current Let_def)
  ultimately show ?case by (simp add: claim_body_def Let_def case_prod_unfold)
qed

lemma park_leases:
  assumes "queue_inv d"
  shows "queue_t (snd (park_exhausted_leases t now a ln d)) =
      map (\<lambda>r. if matches_filter t a ln r \<and> exhausted now r then park_row (exhausted_reason r) now r else r) (queue_t d)"
    and "queue_inv (snd (park_exhausted_leases t now a ln d))"
    and "only_queue d (snd (park_exhausted_leases t now a ln d))"
proof -
  let ?rs = "filter (\<lambda>r. matches_filter t a ln r \<and> exhausted now r) (queue_t d)"
  have "distinct (map q_id ?rs)" using assms by (simp add: queue_inv_def distinct_map_filter)
  then have *: "queue_t (snd (park_exhausted_leases t now a ln d)) =
      rewrite_rows ?rs (\<lambda>r. park_row (exhausted_reason r) now r) (queue_t d) \<and> queue_inv (snd (park_exhausted_leases t now a ln d))"
    using park_loop.loop_table [of d ?rs] assms by (simp add: park_exhausted_leases_def park_all_fold)
  then show "queue_t (snd (park_exhausted_leases t now a ln d)) =
      map (\<lambda>r. if matches_filter t a ln r \<and> exhausted now r then park_row (exhausted_reason r) now r else r) (queue_t d)"
    by (auto simp: rewrite_rows_def)
  from * show "queue_inv (snd (park_exhausted_leases t now a ln d))" by simp
  show "only_queue d (snd (park_exhausted_leases t now a ln d))"
    by (simp add: park_exhausted_leases_def park_all_fold park_loop.loop_frame)
qed

lemma claim_candidates_sub:
  "set (take n (claim_candidates t a ln now d)) \<subseteq> set (queue_t d)"
  "\<forall>r \<in> set (take n (claim_candidates t a ln now d)). runnable now r"
  by (auto simp: claim_candidates_def dest!: in_set_takeD)

lemma claim_candidates_distinct:
  "queue_inv d \<Longrightarrow> distinct (map q_id (take n (claim_candidates t a ln now d)))"
proof -
  assume "queue_inv d"
  then have "distinct (map q_id (filter P (queue_t d)))" for P
    by (simp add: queue_inv_def distinct_map_filter)
  then have "distinct (map q_id (claim_candidates t a ln now d))"
    unfolding claim_candidates_def distinct_map by (auto simp: distinct_sort)
  then show ?thesis by (simp add: distinct_take take_map [symmetric])
qed

text \<open>\<^verbatim>\<open>claim\<close> in one equation: the exhausted leases are parked, then the best \<open>limit\<close>
  runnable rows are claimed.\<close>

lemma queue_claim_spec:
  assumes "queue_inv d" and d1_def: "d1 = snd (park_exhausted_leases t now a ln d)"
    and rs_def: "rs = take n (claim_candidates t a ln now d1)"
  shows "fst (queue_claim t w a ln n ls now d) = map (claim_row w now ls) rs"
    and "queue_t (snd (queue_claim t w a ln n ls now d)) = rewrite_rows rs (claim_row w now ls) (queue_t d1)"
    and "queue_inv (snd (queue_claim t w a ln n ls now d))"
    and "only_queue d (snd (queue_claim t w a ln n ls now d))"
proof -
  have inv: "queue_inv d1" and fr: "only_queue d d1"
    using park_leases [OF assms(1)] by (simp_all add: d1_def)
  note rs = claim_candidates_sub [of n t a ln now d1] claim_candidates_distinct [OF inv, of n t a ln now]
  have q: "queue_claim t w a ln n ls now d = claim_rows t w now ls rs d1"
    by (simp add: queue_claim_def Let_def d1_def rs_def)
  show "fst (queue_claim t w a ln n ls now d) = map (claim_row w now ls) rs"
    unfolding q using claim_rows_fst [OF inv] rs by (simp add: rs_def)
  show "queue_t (snd (queue_claim t w a ln n ls now d)) = rewrite_rows rs (claim_row w now ls) (queue_t d1)"
    and "queue_inv (snd (queue_claim t w a ln n ls now d))"
    unfolding q claim_rows_fold using claim_loop.loop_table [OF inv, of rs] rs by (simp_all add: rs_def)
  show "only_queue d (snd (queue_claim t w a ln n ls now d))"
    unfolding q claim_rows_fold using only_queue_trans [OF fr claim_loop.loop_frame] .
qed

section \<open>Every operation keeps the invariant\<close>

text \<open>One operation of \<^verbatim>\<open>QueueRepository\<close> on the database; the row an operation is given is the
  current one. \<open>requeue\<close> with \<^verbatim>\<open>reset_attempts=False\<close> (no caller uses it) is left to a row with
  an attempt left.\<close>

inductive queue_step :: "string \<Rightarrow> db \<Rightarrow> db \<Rightarrow> bool" for tenant where
  enqueue: "queue_enqueue tenant co action actor ln priority available m new_id now d = Inr (r, b, d') \<Longrightarrow>
     1 \<le> m \<Longrightarrow> new_id \<notin> q_id ` set (queue_t d) \<Longrightarrow> queue_step tenant d d'"
| claim: "queue_claim tenant worker action ln limit lease now d = (rs, d') \<Longrightarrow> queue_step tenant d d'"
| claim_item: "row \<in> set (queue_t d) \<Longrightarrow> queue_claim_item tenant worker lease now row d = (r, d') \<Longrightarrow> queue_step tenant d d'"
| extend_lease: "row \<in> set (queue_t d) \<Longrightarrow> queue_extend_lease worker lease now row d = Inr (r, d') \<Longrightarrow> queue_step tenant d d'"
| start: "row \<in> set (queue_t d) \<Longrightarrow> queue_start tenant worker now row d = Inr (r, d') \<Longrightarrow> queue_step tenant d d'"
| release: "row \<in> set (queue_t d) \<Longrightarrow> queue_release tenant worker reason now row d = Inr (r, d') \<Longrightarrow> queue_step tenant d d'"
| succeed: "row \<in> set (queue_t d) \<Longrightarrow> queue_succeed tenant worker res now row d = Inr (r, d') \<Longrightarrow> queue_step tenant d d'"
| fail: "row \<in> set (queue_t d) \<Longrightarrow> queue_fail tenant worker err retryable now row d = Inr (r, d') \<Longrightarrow> queue_step tenant d d'"
| block: "row \<in> set (queue_t d) \<Longrightarrow> queue_block tenant worker why now row d = Inr (r, d') \<Longrightarrow> queue_step tenant d d'"
| needs_review: "row \<in> set (queue_t d) \<Longrightarrow> queue_needs_review tenant actor why now row d = (r, d') \<Longrightarrow> queue_step tenant d d'"
| resolve: "row \<in> set (queue_t d) \<Longrightarrow> queue_resolve tenant actor res reason now row d = Inr (r, d') \<Longrightarrow> queue_step tenant d d'"
| cancel: "row \<in> set (queue_t d) \<Longrightarrow> queue_cancel tenant actor reason now row d = Inr (r, d') \<Longrightarrow> queue_step tenant d d'"
| requeue: "row \<in> set (queue_t d) \<Longrightarrow> queue_requeue tenant actor reason reset allow now row d = Inr (r, d') \<Longrightarrow>
     reset \<or> q_attempts row < q_max_attempts row \<Longrightarrow> queue_step tenant d d'"
| reclaim_expired: "queue_reclaim_expired tenant actor now d = (n, d') \<Longrightarrow> queue_step tenant d d'"

lemma queue_find_None:
  "queue_find t opp a d = None \<Longrightarrow> r \<in> set (queue_t d) \<Longrightarrow> q_tenant_id r = t \<Longrightarrow> q_idempotency_key r \<noteq> idempotency_key t opp a"
  by (auto simp: queue_find_def find_None_iff)

lemma new_item_key [simp]:
  "q_idempotency_key (new_item t co a ln p av m i now) = idempotency_key t (co_opportunity_id co) a"
  "q_id (new_item t co a ln p av m i now) = i" "q_tenant_id (new_item t co a ln p av m i now) = t"
  "q_opportunity_id (new_item t co a ln p av m i now) = co_opportunity_id co"
  "q_action (new_item t co a ln p av m i now) = a" "q_state (new_item t co a ln p av m i now) = QS_PENDING"
  by (simp_all add: new_item_def)

lemma held_not_waiting: "s \<in> HELD_QUEUE_STATES \<Longrightarrow> s \<notin> WAITING_QUEUE_STATES"
  by (auto simp: state_sets)

text \<open>
  The effect of a successful operation: the row it returns, the one write to the queue table,
  and nothing else but the audit ledger. The execution service uses these facts.
\<close>

definition wrote :: "queue_row \<Rightarrow> db \<Rightarrow> db \<Rightarrow> bool" where
  "wrote r d d' \<longleftrightarrow> queue_t d' = tbl_put q_id r (queue_t d) \<and> only_queue d d'"

lemma wrote_put [simp]: "wrote r d (put_item r d)" "wrote r d (queue_record t s ac ar be su e) \<longleftrightarrow> wrote r d e"
  by (simp_all add: wrote_def)

lemma extend_lease_effect:
  "queue_extend_lease w ls now row d = Inr (r, d') \<Longrightarrow>
     r = extend_lease_row ls now row \<and> q_claimed_by row = Some w \<and> wrote r d d'"
  by (auto simp: queue_extend_lease_def assert_owner_def Let_def split: if_splits)

lemma start_effect:
  "queue_start t w now row d = Inr (r, d') \<Longrightarrow>
     r = start_row now row \<and> q_claimed_by row = Some w \<and> q_state row = QS_CLAIMED \<and> wrote r d d'"
  by (auto simp: queue_start_def assert_owner_def Let_def split: if_splits)

lemma release_effect:
  "queue_release t w re now row d = Inr (r, d') \<Longrightarrow> r = release_row now row \<and> q_claimed_by row = Some w \<and> wrote r d d'"
  by (auto simp: queue_release_def assert_owner_def Let_def split: if_splits)

lemma succeed_effect:
  "queue_succeed t w res now row d = Inr (r, d') \<Longrightarrow> r = succeed_row res now row \<and> q_claimed_by row = Some w \<and> wrote r d d'"
  by (auto simp: queue_succeed_def assert_owner_def Let_def split: if_splits)

lemma fail_effect:
  "queue_fail t w er b now row d = Inr (r, d') \<Longrightarrow> r = fail_row er b now row \<and> q_claimed_by row = Some w \<and> wrote r d d'"
  by (auto simp: queue_fail_def assert_owner_def Let_def split: if_splits)

lemma block_effect:
  "queue_block t w re now row d = Inr (r, d') \<Longrightarrow> r = block_row re now row \<and> q_claimed_by row = Some w \<and> wrote r d d'"
  by (auto simp: queue_block_def assert_owner_def Let_def split: if_splits)

lemma needs_review_effect:
  "queue_needs_review t ac re now row d = (r, d') \<Longrightarrow> r = needs_review_row re now row \<and> wrote r d d'"
  by (auto simp: queue_needs_review_def Let_def)

lemma resolve_effect:
  "queue_resolve t ac res re now row d = Inr (r, d') \<Longrightarrow>
     r = resolve_row res now row \<and> q_state row \<noteq> QS_SUCCEEDED \<and> q_state row \<noteq> QS_CANCELLED \<and> wrote r d d'"
  by (auto simp: queue_resolve_def Let_def split: if_splits)

lemma cancel_effect:
  "queue_cancel t ac re now row d = Inr (r, d') \<Longrightarrow> r = cancel_row now row \<and> q_state row \<noteq> QS_SUCCEEDED \<and> wrote r d d'"
  by (auto simp: queue_cancel_def Let_def split: if_splits)

lemma requeue_effect:
  "queue_requeue t ac re b al now row d = Inr (r, d') \<Longrightarrow>
     r = requeue_row b now row \<and> (q_state row = QS_SUCCEEDED \<longrightarrow> al \<and> q_action row = QA_PREPARE) \<and>
     q_state row \<notin> {QS_PENDING, QS_CLAIMED, QS_PROCESSING} \<and> wrote r d d'"
  by (auto simp: queue_requeue_def Let_def split: if_splits)

lemma wrote_inv:
  "queue_inv d \<Longrightarrow> row \<in> set (queue_t d) \<Longrightarrow> wrote r d d' \<Longrightarrow> same_identity row r \<Longrightarrow> item_ok r \<Longrightarrow> queue_inv d'"
  using queue_inv_put [of d row r] queue_inv_cong [of d' "put_item r d"] by (simp add: wrote_def)

lemma queue_inv_enqueue:
  assumes inv: "queue_inv d" and m: "1 \<le> m" and fresh: "new_id \<notin> q_id ` set (queue_t d)"
    and res: "queue_enqueue t co a ac ln p av m new_id now d = Inr (r, b, d')"
  shows "queue_inv d'"
proof (cases "queue_find t (co_opportunity_id co) a d")
  case (Some e)
  with res inv show ?thesis by (auto simp: queue_enqueue_def Let_def split: if_splits)
next
  case None
  define row where "row = new_item t co a ln p av m new_id now"
  from None res have d': "queue_t d' = queue_t d @ [row]"
    by (auto simp: queue_enqueue_def row_def Let_def split: if_splits)
  have "q_triple row \<noteq> q_triple s" if "s \<in> set (queue_t d)" for s
    using queue_find_None [OF None that] inv that by (auto simp: q_triple_def row_def queue_inv_def)
  then have "q_triple row \<notin> q_triple ` set (queue_t d)" by blast
  then show ?thesis
    using inv fresh item_ok_new [OF m, of t co a ln p av new_id now]
    by (auto simp: queue_inv_def d' row_def)
qed

lemma queue_inv_claim_item:
  assumes inv: "queue_inv d" and row: "row \<in> set (queue_t d)"
  shows "queue_inv (snd (queue_claim_item t w ls now row d))"
proof -
  have park: "lease_expired now row \<Longrightarrow> queue_inv (snd (park_exhausted t now ac row d))" for ac
    using park_exhausted_current [OF inv row] queue_inv_put [OF inv row] item_ok_park queue_inv_item [OF inv row]
    by (simp add: Let_def)
  have "runnable now row \<Longrightarrow> queue_inv (put_item (claim_row w now ls row) d)"
    using queue_inv_put [OF inv row] item_ok_claim queue_inv_item [OF inv row] by simp
  then show ?thesis
    using park inv guarded_claim_current [OF inv row] held_not_waiting [of "q_state row"]
    by (auto simp: queue_claim_item_def Let_def runnable_def)
qed

lemma queue_inv_reclaim:
  assumes "queue_inv d"
  shows "queue_inv (snd (queue_reclaim_expired t ac now d))"
proof -
  let ?rs = "filter (\<lambda>r. q_tenant_id r = t \<and> q_state r \<in> HELD_QUEUE_STATES \<and> lease_expired now r) (queue_t d)"
  have "distinct (map q_id ?rs)" using assms by (simp add: queue_inv_def distinct_map_filter)
  moreover have "set ?rs \<subseteq> set (queue_t d)" "\<forall>r \<in> set ?rs. lease_expired now r" by auto
  ultimately have "queue_inv (fold (reclaim_body t ac now) ?rs d)"
    using reclaim_loop.loop_table [OF assms] by blast
  then show ?thesis by (simp only: queue_reclaim_expired_def reclaim_rows_fold Let_def snd_conv)
qed

lemma queue_step_inv: "queue_step t d d' \<Longrightarrow> queue_inv d \<Longrightarrow> queue_inv d'"
proof (induction rule: queue_step.induct)
  case (enqueue co action actor ln priority available m new_id now d r b d')
  then show ?case by (blast intro: queue_inv_enqueue)
next
  case (claim worker action ln limit lease now d rs d')
  then show ?case using queue_claim_spec(3) [OF claim(2) refl refl] by (metis snd_conv)
next
  case (claim_item row d worker lease now r d')
  then show ?case using queue_inv_claim_item by (metis snd_conv)
next
  case (extend_lease row d worker lease now r d')
  from extend_lease_effect [OF extend_lease(2)]
  have eff: "r = extend_lease_row lease now row" "q_claimed_by row = Some worker" "wrote r d d'" by auto
  have "item_ok r" using eff queue_inv_item [OF extend_lease(3,1)] by (auto intro: item_ok_extend)
  then show ?case using eff wrote_inv [OF extend_lease(3,1)] by simp
next
  case (start row d worker now r d')
  then show ?case using start_effect item_ok_start queue_inv_item wrote_inv same_identity_ops by metis
next
  case (release row d worker reason now r d')
  then show ?case using release_effect item_ok_release queue_inv_item wrote_inv same_identity_ops by metis
next
  case (succeed row d worker res now r d')
  then show ?case using succeed_effect item_ok_settle queue_inv_item wrote_inv same_identity_ops by metis
next
  case (fail row d worker err retryable now r d')
  then show ?case using fail_effect item_ok_fail queue_inv_item wrote_inv same_identity_ops by metis
next
  case (block row d worker why now r d')
  then show ?case using block_effect item_ok_settle queue_inv_item wrote_inv same_identity_ops by metis
next
  case (needs_review row d actor why now r d')
  then show ?case using needs_review_effect item_ok_settle queue_inv_item wrote_inv same_identity_ops by metis
next
  case (resolve row d actor res reason now r d')
  then show ?case using resolve_effect item_ok_settle queue_inv_item wrote_inv same_identity_ops by metis
next
  case (cancel row d actor reason now r d')
  then show ?case using cancel_effect item_ok_settle queue_inv_item wrote_inv same_identity_ops by metis
next
  case (requeue row d actor reason reset allow now r d')
  then show ?case using requeue_effect item_ok_requeue queue_inv_item wrote_inv same_identity_ops by metis
next
  case (reclaim_expired actor now d n d')
  then show ?case using queue_inv_reclaim by (metis snd_conv)
qed

interpretation queue_steps: step_system "queue_step t" queue_inv for t
  by unfold_locales (rule queue_step_inv)

section \<open>Helper lemmas for the properties\<close>

lemma claim_key_row [simp]: "claim_key d (claim_row w now ls r) = claim_key d r"
  by (simp add: claim_key_def claim_row_def eligibility_tier_def)

lemma claim_key_cong: "only_queue d d' \<Longrightarrow> claim_key d' = claim_key d"
  by (auto simp: claim_key_def eligibility_tier_def get_candidate_def only_queue_def)

lemma park_not_runnable [simp]: "\<not> runnable now (park_row re t r)"
  by (simp add: runnable_def park_row_def state_sets)

lemma runnable_not_exhausted: "runnable now r \<Longrightarrow> \<not> exhausted now r"
  by (auto simp: runnable_def exhausted_def state_sets)

lemma runnable_after_park:
  assumes "queue_inv d"
  shows "r \<in> set (queue_t (snd (park_exhausted_leases t now a ln d))) \<and> runnable now r \<longleftrightarrow>
     r \<in> set (queue_t d) \<and> runnable now r"
  using park_leases(1) [OF assms, of t now a ln] by (auto dest: runnable_not_exhausted)

lemma claim_candidates_after_park:
  assumes "queue_inv d"
  shows "set (claim_candidates t a ln now (snd (park_exhausted_leases t now a ln d))) =
     {r \<in> set (queue_t d). matches_filter t a ln r \<and> runnable now r}"
  using runnable_after_park [OF assms, of _ t now a ln] by (auto simp: claim_candidates_def)

lemma sorted_take_le:
  assumes "sorted (map f xs)" and "x \<in> set (take n xs)" and "y \<in> set xs" and "y \<notin> set (take n xs)"
  shows "f x \<le> f y"
proof -
  have "y \<in> set (drop n xs)" using assms(3,4) append_take_drop_id [of n xs] by (metis Un_iff set_append)
  then show ?thesis
    using assms(1,2) append_take_drop_id [of n xs] sorted_append [of "map f (take n xs)" "map f (drop n xs)"]
    by (metis (no_types, opaque_lifting) image_eqI map_append set_map)
qed

lemma take_short: "length (take n xs) < n \<Longrightarrow> take n xs = xs"
  by simp

lemma rewrite_rows_get:
  assumes "queue_inv d" and "set rs \<subseteq> set (queue_t d)" and "r \<in> set rs" and "\<And>x. q_id (f x) = q_id x"
    and "queue_t d' = rewrite_rows rs f (queue_t d)"
  shows "get_item d' (q_id r) = Some (f r)"
proof -
  have "map q_id (queue_t d') = map q_id (queue_t d)" using assms(4,5) by (simp add: rewrite_rows_def)
  then have "distinct (map q_id (queue_t d'))" using assms(1) by (simp add: queue_inv_def)
  moreover have "f r \<in> set (queue_t d')" using assms(2,3,5) by (force simp: rewrite_rows_def)
  ultimately show ?thesis using tbl_get_distinct [of q_id "queue_t d'" "f r"] assms(4) by (simp add: get_item_def)
qed

lemma claim_order: "sorted (map (claim_key d) (claim_candidates t a ln now d))"
  by (simp add: claim_candidates_def)

lemma guarded_claim_stale:
  assumes "queue_inv d" and "seen \<in> set (queue_t d)"
  shows "guarded_claim t w now ls lab seen (put_item (claim_row w1 now1 ls1 seen) d) = None \<longleftrightarrow>
     \<not> (q_state seen = QS_CLAIMED \<and> q_claimed_by seen = Some w1)"
proof -
  let ?r = "claim_row w1 now1 ls1 seen"
  let ?d = "put_item ?r d"
  have dist: "distinct (map q_id (queue_t ?d))" using assms(1) by (simp add: queue_inv_def)
  have get: "tbl_get q_id (q_id seen) (queue_t ?d) = Some ?r"
    using get_item_put [OF assms, of ?r] by (simp add: get_item_def)
  have m: "tbl_matches (claim_guard seen) (queue_t ?d) =
      (if q_state ?r = q_state seen \<and> q_claimed_by ?r = q_claimed_by seen then 1 else 0)"
    using tbl_matches_key [OF dist get] unfolding claim_guard_def .
  have "tbl_get q_id (q_id seen) (tbl_update (claim_guard seen) (claim_row w now ls) (queue_t ?d)) \<noteq> None"
    using tbl_get_update_key [of q_id "claim_row w now ls" "q_id seen" "claim_guard seen" "queue_t ?d"] get by simp
  then show ?thesis
    using m by (auto simp: guarded_claim_def Let_def get_item_def claim_row_def split: option.splits)
qed

lemma idempotency_key_inj:
  "idempotency_key t o1 a1 = idempotency_key t o2 a2 \<Longrightarrow> o1 = o2 \<and> a1 = a2"
  by (cases a1; cases a2) (auto simp: idempotency_key_def append_eq_append_conv2 Cons_eq_append_conv)

lemma queue_find_current:
  assumes "queue_inv d" and "row \<in> set (queue_t d)"
  shows "queue_find (q_tenant_id row) (q_opportunity_id row) (q_action row) d = Some row"
proof -
  let ?k = "idempotency_key (q_tenant_id row) (q_opportunity_id row) (q_action row)"
  have k: "q_idempotency_key row = ?k" using assms by (simp add: queue_inv_def)
  then obtain r where r: "queue_find (q_tenant_id row) (q_opportunity_id row) (q_action row) d = Some r"
    using queue_find_None [of _ _ _ d row] assms(2) by (metis not_None_eq)
  from queue_find_Some [OF r] have r': "r \<in> set (queue_t d)" "q_tenant_id r = q_tenant_id row" "q_idempotency_key r = ?k" by auto
  then have "idempotency_key (q_tenant_id row) (q_opportunity_id r) (q_action r) = ?k"
    using assms(1) by (auto simp: queue_inv_def)
  then have "q_opportunity_id r = q_opportunity_id row \<and> q_action r = q_action row" by (rule idempotency_key_inj)
  then have "q_triple r = q_triple row" using r'(2) by (simp add: q_triple_def)
  then have "r = row" using assms r'(1) by (auto simp: queue_inv_def distinct_map inj_on_def)
  with r show ?thesis by simp
qed

lemma queue_find_identity:
  assumes "queue_inv d" and "queue_find t opp a d = Some r"
  shows "r \<in> set (queue_t d) \<and> q_tenant_id r = t \<and> q_opportunity_id r = opp \<and> q_action r = a"
proof -
  from queue_find_Some [OF assms(2)] have r: "r \<in> set (queue_t d)" "q_tenant_id r = t" "q_idempotency_key r = idempotency_key t opp a" by auto
  then have "idempotency_key t (q_opportunity_id r) (q_action r) = idempotency_key t opp a"
    using assms(1) by (auto simp: queue_inv_def)
  then have "q_opportunity_id r = opp \<and> q_action r = a" by (rule idempotency_key_inj)
  with r show ?thesis by simp
qed

lemma reclaim_expired_others:
  assumes "queue_inv d" and "row \<in> set (queue_t d)" and "q_state row \<notin> HELD_QUEUE_STATES"
  shows "row \<in> set (queue_t (snd (queue_reclaim_expired t ac now d)))"
proof -
  let ?rs = "filter (\<lambda>r. q_tenant_id r = t \<and> q_state r \<in> HELD_QUEUE_STATES \<and> lease_expired now r) (queue_t d)"
  have "distinct (map q_id ?rs)" using assms(1) by (simp add: queue_inv_def distinct_map_filter)
  moreover have "set ?rs \<subseteq> set (queue_t d)" "\<forall>r \<in> set ?rs. lease_expired now r" by auto
  ultimately have "queue_t (fold (reclaim_body t ac now) ?rs d) = rewrite_rows ?rs (reclaim_row now) (queue_t d)"
    using reclaim_loop.loop_table [OF assms(1)] by blast
  moreover have "row \<in> set (rewrite_rows ?rs (reclaim_row now) (queue_t d))"
    using assms(2,3) by (force simp: rewrite_rows_def)
  ultimately show ?thesis by (simp only: queue_reclaim_expired_def reclaim_rows_fold Let_def snd_conv)
qed

lemma untouched_by_claim:
  assumes "queue_inv d" and "row \<in> set (queue_t d)" and "\<not> runnable now row" and "\<not> exhausted now row"
  shows "row \<in> set (queue_t (snd (queue_claim t w a ln n ls now d)))"
proof -
  define d1 where "d1 = snd (park_exhausted_leases t now a ln d)"
  have "row \<in> set (queue_t d1)" using park_leases(1) [OF assms(1), of t now a ln] assms(2,4) by (force simp: d1_def)
  moreover have "row \<notin> set (take n (claim_candidates t a ln now d1))"
    using claim_candidates_sub(2) assms(3) by blast
  ultimately show ?thesis
    using queue_claim_spec(2) [OF assms(1) d1_def refl] by (force simp: rewrite_rows_def)
qed

section \<open>Properties\<close>


definition example_item :: queue_row where
  "example_item = new_item ''t1'' example_co QA_SUBMIT LN_AUTO None None 3 ''q-1'' 100"

definition example_queue :: db where
  "example_queue = empty_db\<lparr>queue_t := [example_item]\<rparr>"

lemma example_queue_inv: "queue_inv example_queue"
  using item_ok_new [of 3] by (simp add: queue_inv_def example_queue_def example_item_def)

lemma example_item_in: "example_item \<in> set (queue_t example_queue)"
  by (simp add: example_queue_def)

lemmas example_defs = example_queue_def example_item_def new_item_def example_co_def


text \<open>C3. A claim takes the best runnable items and nothing else: at most \<open>limit\<close> rows; each one was
  runnable and passed the filter, is now \<open>CLAIMED\<close> by this worker with one more attempt and a lease
  of \<open>lease_seconds\<close>, and is stored so; every other runnable item of the filter has a claim key
  (uncertain last, highest priority, oldest) not below a claimed one, and none remains when fewer
  than \<open>limit\<close> were claimed.\<close>

theorem queue_claim_takes_best:
  assumes "queue_inv d" and "queue_claim tenant worker action ln limit lease_seconds now d = (claimed, d')"
  defines "candidates \<equiv> {r \<in> set (queue_t d). matches_filter tenant action ln r \<and> runnable now r}"
  shows "length claimed \<le> limit \<and> sorted (map (claim_key d) claimed) \<and>
    (\<forall>c \<in> set claimed. \<exists>r \<in> candidates. c = claim_row worker now lease_seconds r \<and> get_item d' (q_id r) = Some c) \<and>
    (\<forall>r \<in> candidates. claim_row worker now lease_seconds r \<notin> set claimed \<longrightarrow>
       length claimed = limit \<and> (\<forall>c \<in> set claimed. claim_key d c \<le> claim_key d r))"
proof -
  define d1 where "d1 = snd (park_exhausted_leases tenant now action ln d)"
  define xs where "xs = claim_candidates tenant action ln now d1"
  define rs where "rs = take limit xs"
  note spec = queue_claim_spec [OF assms(1) d1_def rs_def [unfolded xs_def], of worker lease_seconds, unfolded assms(2) fst_conv snd_conv]
  have key: "claim_key d1 = claim_key d" using park_leases(3) [OF assms(1)] by (auto simp: d1_def intro: claim_key_cong)
  have srt: "sorted (map (claim_key d) xs)" using claim_order key by (metis xs_def)
  have cand: "set xs = candidates"
    using claim_candidates_after_park [OF assms(1)] by (simp add: xs_def d1_def candidates_def)
  have sub: "set rs \<subseteq> set (queue_t d1)" using claim_candidates_sub(1) by (simp add: rs_def xs_def)
  have inv1: "queue_inv d1" using park_leases(2) [OF assms(1)] by (simp add: d1_def)
  have len: "length claimed \<le> limit" by (simp add: spec(1) rs_def)
  have srt': "sorted (map (claim_key d) claimed)"
    using srt by (simp add: spec(1) rs_def comp_def take_map [symmetric] sorted_wrt_take)
  have stored: "\<forall>c \<in> set claimed. \<exists>r \<in> candidates. c = claim_row worker now lease_seconds r \<and> get_item d' (q_id r) = Some c"
    using rewrite_rows_get [OF inv1 sub _ _ spec(2)] cand in_set_takeD [of _ limit xs] by (fastforce simp: spec(1) rs_def)
  have rest: "length claimed = limit \<and> (\<forall>c \<in> set claimed. claim_key d c \<le> claim_key d r)"
    if r: "r \<in> candidates" "claim_row worker now lease_seconds r \<notin> set claimed" for r
  proof -
    have out: "r \<notin> set rs" "r \<in> set xs" using r cand by (auto simp: spec(1))
    then have "\<not> length rs < limit" using take_short [of limit xs] by (auto simp: rs_def)
    with out show ?thesis using sorted_take_le [OF srt] len by (auto simp: spec(1) rs_def)
  qed
  show ?thesis using len srt' stored rest by blast
qed

theorem queue_claim_takes_best_witness:
  "(let (claimed, d') = queue_claim ''t1'' ''w1'' None None 1 600 200 example_queue
    in claimed = [claim_row ''w1'' 200 600 example_item] \<and> length claimed \<le> 1 \<and>
       get_item d' ''q-1'' = Some (claim_row ''w1'' 200 600 example_item))"
proof -
  obtain claimed d' where c: "queue_claim ''t1'' ''w1'' None None 1 600 200 example_queue = (claimed, d')"
    by (cases "queue_claim ''t1'' ''w1'' None None 1 600 200 example_queue")
  have cand: "{r \<in> set (queue_t example_queue). matches_filter ''t1'' None None r \<and> runnable 200 r} = {example_item}"
    by (auto simp: example_defs matches_filter_def runnable_def state_sets)
  have id: "q_id example_item = ''q-1''" by (simp add: example_item_def)
  from queue_claim_takes_best [OF example_queue_inv c, unfolded cand] c id show ?thesis
    by (cases claimed) (auto simp: le_Suc_eq)
qed


definition example_lost :: queue_row where
  "example_lost = example_item\<lparr>q_state := QS_PROCESSING, q_claimed_by := Some ''w0'', q_claimed_at := Some 100,
     q_lease_expires_at := Some 150, q_attempts := 3\<rparr>"

definition example_lost_queue :: db where
  "example_lost_queue = empty_db\<lparr>queue_t := [example_lost]\<rparr>"

lemma example_lost_inv: "queue_inv example_lost_queue"
  by (simp add: queue_inv_def item_ok_def example_lost_queue_def example_lost_def example_defs state_sets)


text \<open>Two workers that read the same row race for it: after the first guarded update the
  second one finds no matching row, so the item has one owner. The only exception is a row that
  was already \<open>CLAIMED\<close> by the first worker (its own expired lease, claimed again): the guard reads
  the state and the owner but not the lease, and the second worker takes the item over.\<close>

theorem queue_claim_exclusive:
  assumes "queue_inv d" and "seen \<in> set (queue_t d)"
    and "guarded_claim tenant w1 now1 lease1 label1 seen d = Some (r1, d1)"
  shows "r1 = claim_row w1 now1 lease1 seen \<and> get_item d1 (q_id seen) = Some r1 \<and>
    (guarded_claim tenant w2 now2 lease2 label2 seen d1 = None \<longleftrightarrow>
       \<not> (q_state seen = QS_CLAIMED \<and> q_claimed_by seen = Some w1))"
proof -
  have r1: "r1 = claim_row w1 now1 lease1 seen" and tbl: "queue_t d1 = queue_t (put_item r1 d)"
    using assms(3) by (auto simp: guarded_claim_current [OF assms(1,2)] Let_def)
  from tbl have "get_item d1 (q_id seen) = Some r1"
    using get_item_put [OF assms(1,2), of r1] r1 by (simp add: get_item_def)
  moreover have "guarded_claim tenant w2 now2 lease2 label2 seen d1 = None \<longleftrightarrow>
      guarded_claim tenant w2 now2 lease2 label2 seen (put_item r1 d) = None"
    using tbl by (auto simp: guarded_claim_def Let_def get_item_def split: option.splits)
  ultimately show ?thesis using guarded_claim_stale [OF assms(1,2)] r1 by simp
qed

theorem queue_claim_exclusive_witness:
  "\<exists>r1 d1. guarded_claim ''t1'' ''w1'' 200 600 ''claimed'' example_item example_queue = Some (r1, d1) \<and>
     guarded_claim ''t1'' ''w2'' 201 600 ''claimed'' example_item d1 = None"
proof -
  obtain r1 d1 where g: "guarded_claim ''t1'' ''w1'' 200 600 ''claimed'' example_item example_queue = Some (r1, d1)"
    by (simp add: guarded_claim_current [OF example_queue_inv example_item_in] Let_def)
  have "q_state example_item = QS_PENDING" by (simp add: example_item_def)
  with queue_claim_exclusive [OF example_queue_inv example_item_in g] g show ?thesis by simp
qed

text \<open>A failed item is retried with exponential backoff and not for ever: a retryable failure
  with attempts left waits, unowned, for \<open>60 * 2 ^ (attempts - 1)\<close> seconds, during which no claim
  can run it; any other failure ends in \<open>FAILED\<close>. Only the owner may report it.\<close>

theorem queue_fail_backoff:
  assumes "queue_fail tenant worker err retryable now row d = Inr (row', d')" and "1 \<le> q_attempts row"
  shows "q_claimed_by row = Some worker \<and>
    (if retryable \<and> q_attempts row < q_max_attempts row
     then q_state row' = QS_RETRY_WAIT \<and> q_claimed_by row' = None \<and>
          q_available_at row' = now + seconds (60 * 2 ^ nat (q_attempts row - 1)) \<and>
          (\<forall>t. runnable t row' \<longleftrightarrow> now + seconds (60 * 2 ^ nat (q_attempts row - 1)) \<le> t)
     else q_state row' = QS_FAILED \<and> (\<forall>t. \<not> runnable t row'))"
  using fail_effect [OF assms(1)] assms(2)
  by (auto simp: fail_row_def retry_delay_def RETRY_BACKOFF_BASE_SECONDS_def runnable_def state_sets lease_expired_def)

theorem queue_fail_backoff_witness:
  "\<exists>row' d'. queue_fail ''t1'' ''w1'' ''timeout'' True 300 (claim_row ''w1'' 200 600 example_item) example_queue = Inr (row', d') \<and>
     q_available_at row' = 300 + seconds 60"
proof -
  let ?row = "claim_row ''w1'' 200 600 example_item"
  obtain row' d' where f: "queue_fail ''t1'' ''w1'' ''timeout'' True 300 ?row example_queue = Inr (row', d')"
    by (simp add: queue_fail_def assert_owner_def claim_row_def Let_def)
  have a: "q_attempts ?row = 1" "q_max_attempts ?row = 3" by (simp_all add: claim_row_def example_defs)
  from queue_fail_backoff [OF f] a f show ?thesis by simp
qed

text \<open>C31. A submission that succeeded is not started again: enqueueing the same opportunity, requeueing,
  cancelling and resolving a succeeded \<open>SUBMIT\<close> item are all refused, no worker can claim it, and
  neither a claim nor the recovery of expired leases changes its row.\<close>

theorem queue_succeeded_submit_final:
  assumes "queue_inv d" and "row \<in> set (queue_t d)" and "q_state row = QS_SUCCEEDED" and "q_action row = QA_SUBMIT"
    and "co_tenant_id co = q_tenant_id row" and "co_opportunity_id co = q_opportunity_id row"
  shows "(\<exists>m. queue_enqueue (q_tenant_id row) co QA_SUBMIT actor ln priority avail maxa new_id now d = Inl (ConflictError m)) \<and>
    (\<exists>m. queue_requeue tenant actor reason reset allow now row d = Inl (ConflictError m)) \<and>
    (\<exists>m. queue_cancel tenant actor reason now row d = Inl (ConflictError m)) \<and>
    (\<exists>m. queue_resolve tenant actor res reason now row d = Inl (ConflictError m)) \<and>
    queue_claim_item tenant worker lease now row d = (None, d) \<and>
    row \<in> set (queue_t (snd (queue_claim tenant worker action ln' limit lease now d))) \<and>
    row \<in> set (queue_t (snd (queue_reclaim_expired tenant actor now d)))"
proof -
  have st: "\<not> runnable now row" "\<not> exhausted now row" using assms(3) by (auto simp: runnable_def exhausted_def state_sets)
  have "queue_find (q_tenant_id row) (q_opportunity_id row) QA_SUBMIT d = Some row"
    using queue_find_current [OF assms(1,2)] assms(4) by simp
  then have enq: "\<exists>m. queue_enqueue (q_tenant_id row) co QA_SUBMIT actor ln priority avail maxa new_id now d = Inl (ConflictError m)"
    using assms(3,5,6) by (simp add: queue_enqueue_def)
  have rec: "row \<in> set (queue_t (snd (queue_reclaim_expired tenant actor now d)))"
    using reclaim_expired_others [OF assms(1,2)] assms(3) by (simp add: state_sets)
  have item: "queue_claim_item tenant worker lease now row d = (None, d)"
    using assms(3) by (simp add: queue_claim_item_def state_sets)
  show ?thesis
    using enq rec item untouched_by_claim [OF assms(1,2) st] assms(3,4)
    by (simp add: queue_requeue_def queue_cancel_def queue_resolve_def)
qed

definition example_done :: queue_row where
  "example_done = succeed_row (JObj []) 300 (claim_row ''w1'' 200 600 example_item)"

definition example_done_queue :: db where
  "example_done_queue = empty_db\<lparr>queue_t := [example_done]\<rparr>"

lemma example_done_inv: "queue_inv example_done_queue"
  by (simp add: queue_inv_def item_ok_def example_done_queue_def example_done_def item_ops example_defs state_sets)

theorem queue_succeeded_submit_final_witness:
  "queue_claim_item ''t1'' ''w1'' 600 400 example_done example_done_queue = (None, example_done_queue) \<and>
   (\<exists>m. queue_enqueue ''t1'' example_co QA_SUBMIT ''a'' LN_AUTO None None 3 ''q-2'' 400 example_done_queue = Inl (ConflictError m))"
proof -
  have p: "example_done \<in> set (queue_t example_done_queue)" "q_state example_done = QS_SUCCEEDED" "q_action example_done = QA_SUBMIT"
      "co_tenant_id example_co = q_tenant_id example_done" "co_opportunity_id example_co = q_opportunity_id example_done"
      "q_tenant_id example_done = ''t1''"
    by (simp_all add: example_done_queue_def example_done_def item_ops example_defs)
  show ?thesis using queue_succeeded_submit_final [OF example_done_inv p(1-5)] p(6) by metis
qed

text \<open>Enqueueing is idempotent: a second enqueue of the same action for the same opportunity, while
  the first item is still active, returns that item unchanged and writes nothing, whatever lane,
  priority or time it asks for.\<close>

theorem queue_enqueue_idempotent:
  assumes "queue_inv d" and "1 \<le> maxa" and "new_id \<notin> q_id ` set (queue_t d)"
    and "queue_enqueue tenant co action actor ln priority avail maxa new_id now d = Inr (row, created, d')"
  shows "row \<in> set (queue_t d') \<and> q_state row \<in> ACTIVE_QUEUE_STATES \<and>
    queue_enqueue tenant co action actor2 ln2 priority2 avail2 maxa2 new_id2 now2 d' = Inr (row, False, d')"
proof -
  from assms(4) have ten: "co_tenant_id co = tenant" by (auto simp: queue_enqueue_def split: if_splits)
  have inv: "queue_inv d'" using queue_inv_enqueue [OF assms] .
  have row: "row \<in> set (queue_t d') \<and> q_state row \<in> ACTIVE_QUEUE_STATES \<and> q_tenant_id row = tenant \<and>
      q_opportunity_id row = co_opportunity_id co \<and> q_action row = action"
  proof (cases "queue_find tenant (co_opportunity_id co) action d")
    case (Some e)
    then show ?thesis using assms(4) queue_find_identity [OF assms(1) Some]
      by (auto simp: queue_enqueue_def Let_def split: if_splits)
  next
    case None
    with assms(4) show ?thesis by (auto simp: queue_enqueue_def Let_def state_sets split: if_splits)
  qed
  then have "queue_find tenant (co_opportunity_id co) action d' = Some row"
    using queue_find_current [OF inv, of row] by simp
  with row ten show ?thesis by (auto simp: queue_enqueue_def state_sets)
qed

theorem queue_enqueue_idempotent_witness:
  "\<exists>row d'. queue_enqueue ''t1'' example_co QA_SUBMIT ''a'' LN_AUTO None None 3 ''q-1'' 100 empty_db = Inr (row, True, d') \<and>
     queue_enqueue ''t1'' example_co QA_SUBMIT ''b'' LN_MANUAL (Some 9) None 5 ''q-2'' 150 d' = Inr (row, False, d')"
proof -
  obtain row d' where e: "queue_enqueue ''t1'' example_co QA_SUBMIT ''a'' LN_AUTO None None 3 ''q-1'' 100 empty_db = Inr (row, True, d')"
    by (simp add: queue_enqueue_def queue_find_def empty_db_def Let_def example_co_def)
  have "queue_inv empty_db" "''q-1'' \<notin> q_id ` set (queue_t empty_db)" by (simp_all add: queue_inv_def empty_db_def)
  from queue_enqueue_idempotent [OF this(1) _ this(2) e] e show ?thesis by fastforce
qed

section \<open>Retries\<close>

text \<open>A worker's life with an item that fails retryably every time: claimed at each moment of the list while it waits.\<close>

fun retry_rounds :: "string \<Rightarrow> string \<Rightarrow> int \<Rightarrow> time list \<Rightarrow> queue_row \<Rightarrow> queue_row" where
  "retry_rounds worker error lease_seconds [] r = r"
| "retry_rounds worker error lease_seconds (now # ts) r =
     (if q_state r \<in> WAITING_QUEUE_STATES
      then retry_rounds worker error lease_seconds ts (fail_row error True now (claim_row worker now lease_seconds r)) else r)"

text \<open>C30. Retries run out: an item that fails retryably every time it is claimed waits for another try
  exactly as long as its attempts are below its maximum, and is \<open>FAILED\<close> for good after that many
  rounds, however many more workers come.\<close>

theorem retries_run_out:
  assumes "item_ok r" and "q_state r \<in> WAITING_QUEUE_STATES"
  shows "q_state (retry_rounds worker error lease_seconds ts r) =
      (if ts = [] then q_state r else if int (length ts) < q_max_attempts r - q_attempts r then QS_RETRY_WAIT else QS_FAILED) \<and>
    q_attempts (retry_rounds worker error lease_seconds ts r) = min (q_max_attempts r) (q_attempts r + int (length ts))"
  using assms
proof (induction ts arbitrary: r)
  case (Cons now ts)
  let ?r = "fail_row error True now (claim_row worker now lease_seconds r)"
  show ?case
  proof (cases "q_attempts r + 1 < q_max_attempts r")
    case True
    then have "item_ok ?r" "q_state ?r = QS_RETRY_WAIT" "q_attempts ?r = q_attempts r + 1" "q_max_attempts ?r = q_max_attempts r"
      using Cons.prems by (auto simp: item_ok_def fail_row_def claim_row_def HELD_QUEUE_STATES_def WAITING_QUEUE_STATES_def)
    then show ?thesis using Cons.IH [of ?r] Cons.prems(2) True by (auto simp: WAITING_QUEUE_STATES_def)
  next
    case False
    then have f: "q_state ?r = QS_FAILED" "q_attempts ?r = q_attempts r + 1"
      by (simp_all add: fail_row_def claim_row_def)
    have "q_attempts r < q_max_attempts r" using Cons.prems by (auto simp: item_ok_def WAITING_QUEUE_STATES_def)
    moreover have "retry_rounds worker error lease_seconds ts ?r = ?r" using f by (cases ts) (simp_all add: WAITING_QUEUE_STATES_def)
    ultimately show ?thesis using False f Cons.prems(2) by auto
  qed
qed (auto simp: item_ok_def)

theorem retries_run_out_witness:
  "q_state (retry_rounds ''w'' ''boom'' 600 [200, 300] example_item) = QS_RETRY_WAIT \<and>
   q_state (retry_rounds ''w'' ''boom'' 600 [200, 300, 500, 900] example_item) = QS_FAILED"
proof -
  have i: "item_ok example_item" "q_state example_item \<in> WAITING_QUEUE_STATES" "q_max_attempts example_item = 3" "q_attempts example_item = 0"
    by code_simp+
  show ?thesis
    using retries_run_out [OF i(1,2), of "''w''" "''boom''" 600 "[200, 300]"] retries_run_out [OF i(1,2), of "''w''" "''boom''" 600 "[200, 300, 500, 900]"]
    by (simp add: i(3,4))
qed

end
