(* ===== verification/Safety_Switches.thy ===== *)
theory Safety_Switches
  imports Database
begin

text \<open>
  The two switches in front of every submission: the kill switch of
  \<^verbatim>\<open>app/application/killswitch.py\<close> (a table of pause flags) and the SAFE / LIVE submission mode
  of \<^verbatim>\<open>app/execution/submission_mode.py\<close> (a process-wide dict, empty at start).
\<close>

section \<open>Kill switch\<close>

definition GLOBAL_ID :: string where "GLOBAL_ID = ''global''"

definition is_paused :: "db \<Rightarrow> string option \<Rightarrow> bool" where
  "is_paused d source =
     (let ids = GLOBAL_ID # (if truthy source then [the source] else [])
      in list_ex k_paused (filter (\<lambda>r. k_id r \<in> set ids) (kill_switches_t d)))"

definition set_paused :: "db \<Rightarrow> bool \<Rightarrow> string option \<Rightarrow> string option \<Rightarrow> kill_switch_row \<times> db" where
  "set_paused d paused reason source =
     (let switch_id = str_or source GLOBAL_ID;
          row = \<lparr>k_id = switch_id, k_paused = paused, k_reason = reason\<rparr>
      in (row, d\<lparr>kill_switches_t :=
            (if tbl_get k_id switch_id (kill_switches_t d) = None then kill_switches_t d @ [row]
             else tbl_put k_id row (kill_switches_t d))\<rparr>))"

section \<open>Submission mode\<close>

definition SAFE :: string where "SAFE = ''SAFE''"
definition LIVE :: string where "LIVE = ''LIVE''"

definition SAFE_MODE_FAILURE :: string where
  "SAFE_MODE_FAILURE = ''SAFE_MODE: live submission is not enabled (switch to LIVE SUBMISSION ENABLED first)''"

record mode_state =
  ms_mode :: string
  ms_changed_at :: "time option"
  ms_changed_by :: "string option"

type_synonym mode_states = "string \<rightharpoonup> mode_state"

definition mode_live :: "mode_state \<Rightarrow> bool" where
  "mode_live s \<longleftrightarrow> ms_mode s = LIVE"

definition get_state :: "mode_states \<Rightarrow> string \<Rightarrow> mode_state" where
  "get_state states tenant =
     (case states tenant of Some s \<Rightarrow> s | None \<Rightarrow> \<lparr>ms_mode = SAFE, ms_changed_at = None, ms_changed_by = None\<rparr>)"

definition is_live_enabled :: "mode_states \<Rightarrow> string option \<Rightarrow> bool" where
  "is_live_enabled states tenant = (if truthy tenant then mode_live (get_state states (the tenant)) else False)"

definition set_mode :: "string \<Rightarrow> string \<Rightarrow> string \<Rightarrow> time \<Rightarrow> mode_states \<Rightarrow> (mode_state \<times> mode_states) result" where
  "set_mode tenant mode actor now states =
     (if tenant = [] then Inl (ValueError ''tenant_id is required'')
      else if mode \<noteq> SAFE \<and> mode \<noteq> LIVE then Inl (ValueError ''mode must be SAFE or LIVE'')
      else let s = \<lparr>ms_mode = mode, ms_changed_at = Some now, ms_changed_by = Some (take 64 (if actor = [] then ''unknown'' else actor))\<rparr>
           in Inr (s, states(tenant \<mapsto> s)))"

definition enable_live :: "string \<Rightarrow> string \<Rightarrow> time \<Rightarrow> mode_states \<Rightarrow> (mode_state \<times> mode_states) result" where
  "enable_live tenant actor now states = set_mode tenant LIVE actor now states"

definition set_safe :: "string \<Rightarrow> string \<Rightarrow> time \<Rightarrow> mode_states \<Rightarrow> (mode_state \<times> mode_states) result" where
  "set_safe tenant actor now states = set_mode tenant SAFE actor now states"

definition reset_modes :: mode_states where
  "reset_modes = Map.empty"

section \<open>Histories\<close>

text \<open>What can happen to the modes in one process: a request to set a mode (refused ones change
  nothing) or a reset. \<open>asked_live\<close> is the specification: the last request that took effect for the
  tenant asked for \<open>LIVE\<close>, and nothing was reset since.\<close>

datatype mode_event =
    SetMode string string string time
  | ResetModes

fun mode_step :: "mode_event \<Rightarrow> mode_states \<Rightarrow> mode_states" where
  "mode_step (SetMode tenant mode actor now) states =
     (case set_mode tenant mode actor now states of Inl _ \<Rightarrow> states | Inr (_, states') \<Rightarrow> states')"
| "mode_step ResetModes states = reset_modes"

fun asked_live :: "string \<Rightarrow> mode_event list \<Rightarrow> bool" where
  "asked_live tenant [] = False"
| "asked_live tenant (ResetModes # later) = False"
| "asked_live tenant (SetMode t mode actor now # earlier) =
     (if t = tenant \<and> (mode = SAFE \<or> mode = LIVE) then mode = LIVE else asked_live tenant earlier)"

lemma safe_live [simp]: "SAFE \<noteq> LIVE" "LIVE \<noteq> SAFE"
  by (simp_all add: SAFE_def LIVE_def)

lemma mode_step_live:
  "tenant \<noteq> [] \<Longrightarrow> mode_live (get_state (mode_step ev states) tenant) =
     (case ev of ResetModes \<Rightarrow> False
      | SetMode t mode actor now \<Rightarrow>
          if t = tenant \<and> (mode = SAFE \<or> mode = LIVE) then mode = LIVE else mode_live (get_state states tenant))"
  by (cases ev) (auto simp: set_mode_def get_state_def mode_live_def reset_modes_def Let_def split: sum.split)

lemma is_paused_rows:
  "is_paused d source \<longleftrightarrow> (\<exists>r \<in> set (kill_switches_t d). k_paused r \<and> (k_id r = GLOBAL_ID \<or> (truthy source \<and> k_id r = the source)))"
  by (auto simp: is_paused_def Let_def list_ex_iff)

lemma set_paused_rows:
  assumes "distinct (map k_id (kill_switches_t d))"
  shows "r \<in> set (kill_switches_t (snd (set_paused d paused reason source))) \<longleftrightarrow>
    r = \<lparr>k_id = str_or source GLOBAL_ID, k_paused = paused, k_reason = reason\<rparr> \<or>
    r \<in> set (kill_switches_t d) \<and> k_id r \<noteq> str_or source GLOBAL_ID"
proof (cases "tbl_get k_id (str_or source GLOBAL_ID) (kill_switches_t d)")
  case None
  then have "\<forall>r \<in> set (kill_switches_t d). k_id r \<noteq> str_or source GLOBAL_ID"
    by (simp add: tbl_get_def find_None_iff)
  with None show ?thesis by (auto simp: set_paused_def Let_def)
next
  case (Some s)
  then have "s \<in> set (kill_switches_t d)" "k_id s = str_or source GLOBAL_ID" using tbl_get_Some by fastforce+
  with Some show ?thesis by (force simp: set_paused_def Let_def tbl_put_def)
qed

section \<open>Properties\<close>

text \<open>Live submission is enabled for a tenant exactly when a person asked for it and nobody took it
  back: after any history of mode requests and resets from a fresh start (newest first), the
  mode is \<open>LIVE\<close> if and only if the latest effective request for this tenant was \<open>LIVE\<close>; with no
  request, with an unknown mode or for no tenant it is \<open>SAFE\<close>.\<close>

theorem live_only_when_asked:
  "is_live_enabled (foldr mode_step history reset_modes) tenant =
     (truthy tenant \<and> asked_live (the tenant) history)"
proof -
  have "t \<noteq> [] \<Longrightarrow> mode_live (get_state (foldr mode_step history reset_modes) t) = asked_live t history" for t
  proof (induction history)
    case Nil
    then show ?case by (simp add: get_state_def reset_modes_def mode_live_def)
  next
    case (Cons ev history)
    then show ?case using mode_step_live [of t ev] by (cases ev) (auto split: sum.splits)
  qed
  then show ?thesis by (auto simp: is_live_enabled_def truthy_def split: option.splits)
qed

text \<open>The kill switch does what it says: pausing without a source stops every source; pausing a
  source stops that source and leaves the others as they were; lifting a switch removes exactly
  its own effect.\<close>

theorem kill_switch_scope:
  assumes "distinct (map k_id (kill_switches_t d))"
  shows "is_paused (snd (set_paused d paused reason switch)) source =
    ((paused \<and> (str_or switch GLOBAL_ID = GLOBAL_ID \<or> (truthy source \<and> str_or switch GLOBAL_ID = the source))) \<or>
     (\<exists>r \<in> set (kill_switches_t d). k_id r \<noteq> str_or switch GLOBAL_ID \<and> k_paused r \<and>
        (k_id r = GLOBAL_ID \<or> (truthy source \<and> k_id r = the source))))"
proof -
  let ?P = "\<lambda>r. k_paused r \<and> (k_id r = GLOBAL_ID \<or> (truthy source \<and> k_id r = the source))"
  let ?K = "\<lparr>k_id = str_or switch GLOBAL_ID, k_paused = paused, k_reason = reason\<rparr>"
  have "is_paused (snd (set_paused d paused reason switch)) source \<longleftrightarrow>
      ?P ?K \<or> (\<exists>r \<in> set (kill_switches_t d). k_id r \<noteq> str_or switch GLOBAL_ID \<and> ?P r)"
    unfolding is_paused_rows Bex_def set_paused_rows [OF assms] by blast
  then show ?thesis by simp
qed

theorem kill_switch_scope_witness:
  "is_paused (snd (set_paused empty_db True (Some ''stop'') None)) (Some ''GREENHOUSE'')"
  using kill_switch_scope [of empty_db True "Some ''stop''" None "Some ''GREENHOUSE''"]
  by (simp add: empty_db_def str_or_def)

end
