(* ===== verification/Cap_Ledger.thy ===== *)
theory Cap_Ledger
  imports Database
begin

text \<open>
  Daily and weekly application caps, \<^verbatim>\<open>app/scheduler/caps.py\<close>. A ledger row counts the slots
  reserved and released in one period of a tenant; \<^verbatim>\<open>_increment\<close> is one conditional
  \<^verbatim>\<open>UPDATE\<close>. The cache \<^verbatim>\<open>_ensured\<close> of a \<^verbatim>\<open>CapLedger\<close> object is explicit: every operation takes and
  returns it. The locale \<open>slot_ledger\<close> is what the attempt repository relies on: a reservation
  takes a day slot and a week slot or nothing, and no interleaving of reservations and
  releases gets past a cap. Period keys (the local date and ISO week of a moment) are values;
  the ledger only compares them.
\<close>

section \<open>Periods\<close>

definition DAY :: string where "DAY = ''DAY''"
definition WEEK :: string where "WEEK = ''WEEK''"

lemma day_week [simp]: "DAY \<noteq> WEEK" "WEEK \<noteq> DAY"
  by (simp_all add: DAY_def WEEK_def)

record period =
  pd_kind :: string
  pd_key :: string
  pd_starts_at :: time
  pd_ends_at :: time

record period_keys =
  pk_day :: period
  pk_week :: period

section \<open>The ledger\<close>

type_synonym period_cache = "(string \<times> string) list"

definition is_period :: "string \<Rightarrow> string \<Rightarrow> string \<Rightarrow> cap_ledger_row \<Rightarrow> bool" where
  "is_period tenant kind key r \<longleftrightarrow> l_tenant_id r = tenant \<and> l_period_kind r = kind \<and> l_period_key r = key"

definition cap_get :: "string \<Rightarrow> string \<Rightarrow> string \<Rightarrow> db \<Rightarrow> cap_ledger_row option" where
  "cap_get tenant kind key d = find (is_period tenant kind key) (ledger_t d)"

definition cap_usage :: "string \<Rightarrow> string \<Rightarrow> string \<Rightarrow> db \<Rightarrow> int" where
  "cap_usage tenant kind key d =
     (case cap_get tenant kind key d of None \<Rightarrow> 0 | Some r \<Rightarrow> max 0 (l_reserved r - l_released r))"

definition cap_ensure :: "string \<Rightarrow> string \<Rightarrow> string \<Rightarrow> period_cache \<Rightarrow> db \<Rightarrow> period_cache \<times> db" where
  "cap_ensure tenant kind key ensured d =
     (if (kind, key) \<in> set ensured then (ensured, d)
      else ((kind, key) # ensured,
            if cap_get tenant kind key d = None
            then d\<lparr>ledger_t := ledger_t d @ [\<lparr>l_tenant_id = tenant, l_period_kind = kind, l_period_key = key,
                                            l_reserved = 0, l_released = 0\<rparr>]\<rparr>
            else d))"

definition take_slot :: "cap_ledger_row \<Rightarrow> cap_ledger_row" where
  "take_slot r = r\<lparr>l_reserved := l_reserved r + 1\<rparr>"

definition cap_increment :: "string \<Rightarrow> string \<Rightarrow> string \<Rightarrow> int option \<Rightarrow> db \<Rightarrow> bool \<times> db" where
  "cap_increment tenant kind key cap d =
     (let p = (\<lambda>r. is_period tenant kind key r \<and> (case cap of None \<Rightarrow> True | Some c \<Rightarrow> l_reserved r - l_released r < c))
      in (tbl_matches p (ledger_t d) = 1, d\<lparr>ledger_t := tbl_update p take_slot (ledger_t d)\<rparr>))"

definition cap_decrement :: "string \<Rightarrow> string \<Rightarrow> string \<Rightarrow> db \<Rightarrow> db" where
  "cap_decrement tenant kind key d =
     d\<lparr>ledger_t := tbl_update (is_period tenant kind key) (\<lambda>r. r\<lparr>l_reserved := l_reserved r - 1\<rparr>) (ledger_t d)\<rparr>"

definition cap_reserve ::
  "string \<Rightarrow> string \<Rightarrow> string \<Rightarrow> int \<Rightarrow> int \<Rightarrow> period_cache \<Rightarrow> db \<Rightarrow> admission_reason option \<times> period_cache \<times> db" where
  "cap_reserve tenant day week daily_cap weekly_cap ensured d =
     (if daily_cap \<le> 0 then (Some AR_DAILY_CAP_REACHED, ensured, d)
      else if weekly_cap \<le> 0 then (Some AR_WEEKLY_CAP_REACHED, ensured, d)
      else
        let (e1, d1) = cap_ensure tenant DAY day ensured d;
            (e2, d2) = cap_ensure tenant WEEK week e1 d1;
            (day_ok, d3) = cap_increment tenant DAY day (Some daily_cap) d2
        in if \<not> day_ok then (Some AR_DAILY_CAP_REACHED, e2, d3)
           else let (week_ok, d4) = cap_increment tenant WEEK week (Some weekly_cap) d3
                in if \<not> week_ok then (Some AR_WEEKLY_CAP_REACHED, e2, cap_decrement tenant DAY day d4)
                   else (None, e2, d4))"

definition give_slot :: "cap_ledger_row \<Rightarrow> cap_ledger_row" where
  "give_slot r = r\<lparr>l_released := l_released r + 1\<rparr>"

definition cap_release_one :: "string \<Rightarrow> string \<Rightarrow> string option \<Rightarrow> period_cache \<Rightarrow> db \<Rightarrow> period_cache \<times> db" where
  "cap_release_one tenant kind key ensured d =
     (case key of
        None \<Rightarrow> (ensured, d)
      | Some k \<Rightarrow>
          if k = [] then (ensured, d)
          else let (e1, d1) = cap_ensure tenant kind k ensured d
               in (e1, d1\<lparr>ledger_t := tbl_update (is_period tenant kind k) give_slot (ledger_t d1)\<rparr>))"

definition cap_release :: "string \<Rightarrow> string option \<Rightarrow> string option \<Rightarrow> period_cache \<Rightarrow> db \<Rightarrow> period_cache \<times> db" where
  "cap_release tenant day_key week_key ensured d =
     (let (e1, d1) = cap_release_one tenant DAY day_key ensured d
      in cap_release_one tenant WEEK week_key e1 d1)"

text \<open>The operations write the ledger and nothing else.\<close>

definition only_ledger :: "db \<Rightarrow> db \<Rightarrow> bool" where
  "only_ledger d d' \<longleftrightarrow> (\<exists>rows. d' = d\<lparr>ledger_t := rows\<rparr>)"

lemma only_ledger_refl [simp]: "only_ledger d d"
  by (auto simp: only_ledger_def intro: exI [of _ "ledger_t d"])

lemma only_ledger_write: "only_ledger d x \<Longrightarrow> only_ledger d (x\<lparr>ledger_t := rows\<rparr>)"
  by (auto simp: only_ledger_def)

lemma only_ledger_steps:
  assumes "only_ledger d x"
  shows "only_ledger d (snd (cap_ensure t kind key e x))" "only_ledger d (snd (cap_increment t kind key c x))"
    "only_ledger d (cap_decrement t kind key x)"
  using assms by (simp_all add: cap_ensure_def cap_increment_def cap_decrement_def Let_def only_ledger_write)

lemma reserve_only_ledger: "only_ledger d (snd (snd (cap_reserve t day week dc wc e d)))"
  by (auto simp: cap_reserve_def Let_def case_prod_unfold intro!: only_ledger_steps)

lemma release_one_only_ledger: "only_ledger d x \<Longrightarrow> only_ledger d (snd (cap_release_one t kind key e x))"
  by (auto simp: cap_release_one_def Let_def case_prod_unfold intro!: only_ledger_steps only_ledger_write split: option.split)

lemma release_only_ledger: "only_ledger d (snd (cap_release t day week e d))"
  by (simp add: cap_release_def Let_def case_prod_unfold release_one_only_ledger)

lemma only_ledger_reads:
  assumes "only_ledger d d'"
  shows "jobs_t d' = jobs_t d" "opportunities_t d' = opportunities_t d" "candidates_t d' = candidates_t d" "queue_t d' = queue_t d"
    "applications_t d' = applications_t d" "runs_t d' = runs_t d" "preparations_t d' = preparations_t d"
    "scheduler_runs_t d' = scheduler_runs_t d"
  using assms by (auto simp: only_ledger_def)

section \<open>The ledger as counters\<close>

text \<open>\<open>cap_count\<close> is the raw counter \<open>reserved - released\<close>; \<open>ledger_inv\<close> is the unique constraint
  \<^verbatim>\<open>uq_cap_ledger_period\<close>; \<open>cache_ok\<close> says that every cached period has its row.\<close>

definition cap_count :: "string \<Rightarrow> db \<Rightarrow> string \<times> string \<Rightarrow> int" where
  "cap_count tenant d k =
     (case cap_get tenant (fst k) (snd k) d of None \<Rightarrow> 0 | Some r \<Rightarrow> l_reserved r - l_released r)"

definition l_triple :: "cap_ledger_row \<Rightarrow> string \<times> string \<times> string" where
  "l_triple r = (l_tenant_id r, l_period_kind r, l_period_key r)"

definition ledger_inv :: "db \<Rightarrow> bool" where
  "ledger_inv d \<longleftrightarrow> distinct (map l_triple (ledger_t d))"

definition cache_ok :: "string \<Rightarrow> period_cache \<Rightarrow> db \<Rightarrow> bool" where
  "cache_ok tenant ensured d \<longleftrightarrow> (\<forall>(kind, key) \<in> set ensured. cap_get tenant kind key d \<noteq> None)"

lemma is_period_triple: "is_period t kind key r \<longleftrightarrow> l_triple r = (t, kind, key)"
  by (simp add: is_period_def l_triple_def)

lemma take_give_triple [simp]:
  "l_triple (take_slot r) = l_triple r" "l_triple (give_slot r) = l_triple r"
  "l_triple (r\<lparr>l_reserved := n\<rparr>) = l_triple r"
  by (simp_all add: l_triple_def take_slot_def give_slot_def)

lemma find_triple_update:
  assumes "\<And>r. l_triple (f r) = l_triple r"
  shows "find (\<lambda>r. l_triple r = k) (tbl_update p f rows) =
    map_option (\<lambda>r. if p r then f r else r) (find (\<lambda>r. l_triple r = k) rows)"
  by (induction rows) (auto simp: tbl_update_def assms)

lemma ledger_inv_update:
  assumes "\<And>r. l_triple (f r) = l_triple r"
  shows "ledger_inv (d\<lparr>ledger_t := tbl_update p f (ledger_t d)\<rparr>) = ledger_inv d"
proof -
  have "map l_triple (tbl_update p f (ledger_t d)) = map l_triple (ledger_t d)"
    by (auto simp: tbl_update_def assms)
  then show ?thesis by (simp add: ledger_inv_def)
qed

lemma cap_get_update:
  assumes "\<And>r. l_triple (f r) = l_triple r"
  shows "cap_get t kind key (d\<lparr>ledger_t := tbl_update p f (ledger_t d)\<rparr>) =
    map_option (\<lambda>r. if p r then f r else r) (cap_get t kind key d)"
  using find_triple_update [OF assms] by (simp add: cap_get_def is_period_triple [abs_def])

lemma cap_get_Some: "cap_get t kind key d = Some r \<Longrightarrow> r \<in> set (ledger_t d) \<and> is_period t kind key r"
  by (auto simp: cap_get_def find_Some_iff)

lemma matches_period:
  assumes "ledger_inv d"
  shows "tbl_matches (\<lambda>r. is_period t kind key r \<and> q r) (ledger_t d) =
    (case cap_get t kind key d of None \<Rightarrow> 0 | Some r \<Rightarrow> if q r then 1 else 0)"
proof -
  have "distinct (map l_triple rows) \<Longrightarrow>
      length (filter (\<lambda>r. l_triple r = k \<and> q r) rows) =
      (case find (\<lambda>r. l_triple r = k) rows of None \<Rightarrow> 0 | Some r \<Rightarrow> if q r then 1 else 0)" for rows k
  proof (induction rows)
    case (Cons a rows)
    have "l_triple a = k \<Longrightarrow> filter (\<lambda>r. l_triple r = k \<and> q r) rows = []"
      using Cons.prems by (auto simp: filter_empty_conv) (metis image_eqI)
    with Cons show ?case by auto
  qed simp
  with assms show ?thesis by (simp add: tbl_matches_def cap_get_def ledger_inv_def is_period_triple [abs_def])
qed

lemma cap_get_ensure:
  "cap_get t kind key (snd (cap_ensure t kind' key' e d)) =
     (if (kind, key) = (kind', key') \<and> (kind', key') \<notin> set e \<and> cap_get t kind key d = None
      then Some \<lparr>l_tenant_id = t, l_period_kind = kind', l_period_key = key', l_reserved = 0, l_released = 0\<rparr>
      else cap_get t kind key d)"
  by (auto simp: cap_ensure_def cap_get_def is_period_def find_append split: option.splits)

lemma ledger_inv_ensure: "ledger_inv d \<Longrightarrow> ledger_inv (snd (cap_ensure t kind key e d))"
  by (auto simp: cap_ensure_def ledger_inv_def cap_get_def find_None_iff is_period_triple l_triple_def)

lemma cap_count_ensure [simp]: "cap_count t' (snd (cap_ensure t kind key e d)) k = cap_count t' d k"
proof (cases "t' = t")
  case True
  then show ?thesis by (cases k) (auto simp: cap_count_def cap_get_ensure split: option.split)
next
  case False
  have "cap_get t' kind' key' (snd (cap_ensure t kind key e d)) = cap_get t' kind' key' d" for kind' key'
    using False by (auto simp: cap_ensure_def cap_get_def is_period_def find_append split: option.splits)
  then show ?thesis by (simp add: cap_count_def)
qed

lemma ensure_row:
  assumes "cache_ok t e d"
  shows "cap_get t kind key (snd (cap_ensure t kind key e d)) \<noteq> None"
    and "cache_ok t (fst (cap_ensure t kind key e d)) (snd (cap_ensure t kind key e d))"
proof -
  show row: "cap_get t kind key (snd (cap_ensure t kind key e d)) \<noteq> None"
    using assms by (auto simp: cap_get_ensure cache_ok_def)
  have "fst (cap_ensure t kind key e d) = (if (kind, key) \<in> set e then e else (kind, key) # e)"
    by (simp add: cap_ensure_def)
  then show "cache_ok t (fst (cap_ensure t kind key e d)) (snd (cap_ensure t kind key e d))"
    using assms row by (auto simp: cache_ok_def cap_get_ensure)
qed

lemma cache_ok_mono: "cache_ok t e d \<Longrightarrow> (\<And>kind key. cap_get t kind key d \<noteq> None \<Longrightarrow> cap_get t kind key d' \<noteq> None) \<Longrightarrow> cache_ok t e d'"
  by (auto simp: cache_ok_def)

lemma increment_get:
  "cap_get t' kind' key' (snd (cap_increment t kind key (Some c) d)) =
     map_option (\<lambda>r. if is_period t kind key r \<and> l_reserved r - l_released r < c then take_slot r else r) (cap_get t' kind' key' d)"
  by (simp add: cap_increment_def cap_get_update Let_def)

lemma period_of_get: "cap_get t' kind' key' d = Some r \<Longrightarrow> is_period t kind key r \<longleftrightarrow> t' = t \<and> kind' = kind \<and> key' = key"
  by (auto simp: is_period_def dest!: cap_get_Some)

lemma increment_spec:
  assumes "ledger_inv d" and "cap_get t kind key d \<noteq> None"
  shows "fst (cap_increment t kind key (Some c) d) \<longleftrightarrow> cap_count t d (kind, key) < c"
    and "cap_count t' (snd (cap_increment t kind key (Some c) d)) k =
      cap_count t' d k + (if t' = t \<and> k = (kind, key) \<and> cap_count t d (kind, key) < c then 1 else 0)"
    and "ledger_inv (snd (cap_increment t kind key (Some c) d))"
proof -
  obtain r where r: "cap_get t kind key d = Some r" using assms(2) by auto
  show "fst (cap_increment t kind key (Some c) d) \<longleftrightarrow> cap_count t d (kind, key) < c"
    using r matches_period [OF assms(1), of t kind key "\<lambda>r. l_reserved r - l_released r < c"]
    by (simp add: cap_increment_def cap_count_def)
  show "cap_count t' (snd (cap_increment t kind key (Some c) d)) k =
      cap_count t' d k + (if t' = t \<and> k = (kind, key) \<and> cap_count t d (kind, key) < c then 1 else 0)"
    using r by (cases k; cases "cap_get t' (fst k) (snd k) d")
      (auto simp: cap_count_def increment_get take_slot_def period_of_get)
  show "ledger_inv (snd (cap_increment t kind key (Some c) d))"
    using assms(1) by (simp add: cap_increment_def ledger_inv_update Let_def)
qed

lemma decrement_spec:
  assumes "cap_get t kind key d \<noteq> None"
  shows "cap_count t' (cap_decrement t kind key d) k = cap_count t' d k - (if t' = t \<and> k = (kind, key) then 1 else 0)"
    and "ledger_inv (cap_decrement t kind key d) = ledger_inv d"
proof -
  show "cap_count t' (cap_decrement t kind key d) k = cap_count t' d k - (if t' = t \<and> k = (kind, key) then 1 else 0)"
    using assms by (cases k; cases "cap_get t' (fst k) (snd k) d")
      (auto simp: cap_count_def cap_decrement_def cap_get_update period_of_get)
qed (simp add: cap_decrement_def ledger_inv_update)

lemma updates_keep_rows [simp]:
  "cap_get t' kind' key' (snd (cap_increment t kind key (Some c) d)) = None \<longleftrightarrow> cap_get t' kind' key' d = None"
  "cap_get t' kind' key' (cap_decrement t kind key d) = None \<longleftrightarrow> cap_get t' kind' key' d = None"
  by (simp_all add: increment_get cap_decrement_def cap_get_update)

lemma cache_ok_updates [simp]:
  "cache_ok t' e (snd (cap_increment t kind key (Some c) d)) = cache_ok t' e d"
  "cache_ok t' e (cap_decrement t kind key d) = cache_ok t' e d"
  by (auto simp: cache_ok_def)

section \<open>The contract\<close>

text \<open>One operation of a worker: \<open>LReserve\<close> with the keys and caps of the moment, or \<open>LRelease\<close>.\<close>

datatype ledger_op =
    LReserve nat string string int int
  | LRelease nat "string option" "string option"

locale slot_ledger =
  fixes ok :: "'s \<Rightarrow> bool"
    and count :: "'s \<Rightarrow> string \<times> string \<Rightarrow> int"
    and reserve :: "nat \<Rightarrow> string \<Rightarrow> string \<Rightarrow> int \<Rightarrow> int \<Rightarrow> 's \<Rightarrow> admission_reason option \<times> 's"
    and release :: "nat \<Rightarrow> string option \<Rightarrow> string option \<Rightarrow> 's \<Rightarrow> 's"
  assumes reserve_ok: "ok s \<Longrightarrow> ok (snd (reserve w dk wk dc wc s))"
    and reserve_granted: "ok s \<Longrightarrow> fst (reserve w dk wk dc wc s) = None \<longleftrightarrow>
          0 < dc \<and> 0 < wc \<and> count s (DAY, dk) < dc \<and> count s (WEEK, wk) < wc"
    and reserve_count: "ok s \<Longrightarrow> count (snd (reserve w dk wk dc wc s)) k =
          count s k + (if fst (reserve w dk wk dc wc s) = None \<and> k \<in> {(DAY, dk), (WEEK, wk)} then 1 else 0)"
    and release_ok: "ok s \<Longrightarrow> ok (release w day week s)"
    and release_count: "ok s \<Longrightarrow> count (release w day week s) k \<le> count s k"
begin

text \<open>Any interleaving of the workers' operations.\<close>

fun run :: "ledger_op list \<Rightarrow> 's \<Rightarrow> 's" where
  "run [] s = s"
| "run (LReserve w dk wk dc wc # xs) s = run xs (snd (reserve w dk wk dc wc s))"
| "run (LRelease w day week # xs) s = run xs (release w day week s)"

lemma run_ok: "ok s \<Longrightarrow> ok (run xs s)"
  by (induction xs s rule: run.induct) (auto intro: reserve_ok release_ok)

lemma reserve_bound:
  "ok s \<Longrightarrow> count s k \<le> c \<Longrightarrow> (k = (DAY, dk) \<Longrightarrow> dc \<le> c) \<Longrightarrow> (k = (WEEK, wk) \<Longrightarrow> wc \<le> c) \<Longrightarrow>
     count (snd (reserve w dk wk dc wc s)) k \<le> c"
  using reserve_granted [of s w dk wk dc wc] reserve_count [of s w dk wk dc wc k] by (auto split: if_splits)

lemma run_bound:
  "ok s \<Longrightarrow> count s k \<le> c \<Longrightarrow>
   (\<forall>w dk wk dc wc. LReserve w dk wk dc wc \<in> set xs \<longrightarrow> (k = (DAY, dk) \<longrightarrow> dc \<le> c) \<and> (k = (WEEK, wk) \<longrightarrow> wc \<le> c)) \<Longrightarrow>
     count (run xs s) k \<le> c"
proof (induction xs s rule: run.induct)
  case (2 w dk wk dc wc xs s)
  have "count (snd (reserve w dk wk dc wc s)) k \<le> c"
    by (rule reserve_bound [OF 2(2,3)]) (use 2(4) in auto)
  with 2 show ?case by (simp add: reserve_ok)
next
  case (3 w day week xs s)
  from release_count [OF 3(2), of w day week k] 3(3) have "count (release w day week s) k \<le> c" by linarith
  with 3 show ?case by (simp add: release_ok)
qed simp

end

section \<open>The ledger keeps the contract\<close>

definition reserve_reason :: "int \<Rightarrow> int \<Rightarrow> int \<Rightarrow> int \<Rightarrow> admission_reason option" where
  "reserve_reason daily_cap weekly_cap used_day used_week =
     (if daily_cap \<le> 0 then Some AR_DAILY_CAP_REACHED
      else if weekly_cap \<le> 0 then Some AR_WEEKLY_CAP_REACHED
      else if daily_cap \<le> used_day then Some AR_DAILY_CAP_REACHED
      else if weekly_cap \<le> used_week then Some AR_WEEKLY_CAP_REACHED
      else None)"

lemma cap_reserve_spec:
  assumes inv: "ledger_inv d" and cache: "cache_ok t e d"
    and res: "cap_reserve t day week dc wc e d = (reason, e', d')"
  shows "reason = reserve_reason dc wc (cap_count t d (DAY, day)) (cap_count t d (WEEK, week))"
    and "cap_count t' d' k = cap_count t' d k + (if t' = t \<and> reason = None \<and> k \<in> {(DAY, day), (WEEK, week)} then 1 else 0)"
    and "ledger_inv d' \<and> cache_ok t e' d'"
proof -
  define e1 d1 where "e1 = fst (cap_ensure t DAY day e d)" and "d1 = snd (cap_ensure t DAY day e d)"
  define e2 d2 where "e2 = fst (cap_ensure t WEEK week e1 d1)" and "d2 = snd (cap_ensure t WEEK week e1 d1)"
  define d3 where "d3 = snd (cap_increment t DAY day (Some dc) d2)"
  define d4 where "d4 = snd (cap_increment t WEEK week (Some wc) d3)"
  have c1: "cache_ok t e1 d1" "cap_get t DAY day d1 \<noteq> None" using ensure_row [OF cache] by (simp_all add: e1_def d1_def)
  have c2: "cache_ok t e2 d2" "cap_get t WEEK week d2 \<noteq> None" using ensure_row [OF c1(1)] by (simp_all add: e2_def d2_def)
  have r2: "cap_get t DAY day d2 \<noteq> None" using c1(2) by (auto simp: d2_def cap_get_ensure)
  have i2: "ledger_inv d2" using inv by (simp add: d2_def d1_def ledger_inv_ensure)
  have n2: "cap_count x d2 k = cap_count x d k" for x k by (simp add: d2_def d1_def)
  note s3 = increment_spec [OF i2 r2, where c = dc, folded d3_def]
  have r3: "cap_get t WEEK week d3 \<noteq> None" "cap_get t DAY day d4 \<noteq> None" using c2(2) r2 by (simp_all add: d3_def d4_def)
  note s4 = increment_spec [OF s3(3) r3(1), where c = wc, folded d4_def]
  note s5 = decrement_spec [OF r3(2)]
  have cok: "cache_ok t e2 d3" "cache_ok t e2 d4" "cache_ok t e2 (cap_decrement t DAY day d4)"
    using c2(1) by (simp_all add: d3_def d4_def)
  have full: "cap_reserve t day week dc wc e d =
      (if dc \<le> 0 then (Some AR_DAILY_CAP_REACHED, e, d) else if wc \<le> 0 then (Some AR_WEEKLY_CAP_REACHED, e, d)
       else if \<not> cap_count t d (DAY, day) < dc then (Some AR_DAILY_CAP_REACHED, e2, d3)
       else if \<not> cap_count t d3 (WEEK, week) < wc then (Some AR_WEEKLY_CAP_REACHED, e2, cap_decrement t DAY day d4)
       else (None, e2, d4))"
    using s3(1) s4(1) n2
    by (simp add: cap_reserve_def Let_def case_prod_unfold flip: e1_def d1_def e2_def d2_def d3_def d4_def)
  have w3: "cap_count t d3 (WEEK, week) = cap_count t d (WEEK, week)" using s3(2) n2 by simp
  show "reason = reserve_reason dc wc (cap_count t d (DAY, day)) (cap_count t d (WEEK, week))"
    using res unfolding full w3 by (auto simp: reserve_reason_def split: if_splits)
  show "ledger_inv d' \<and> cache_ok t e' d'"
    using res inv cache s3(3) s4(3) s5(2) cok unfolding full by (auto split: if_splits)
  show "cap_count t' d' k = cap_count t' d k + (if t' = t \<and> reason = None \<and> k \<in> {(DAY, day), (WEEK, week)} then 1 else 0)"
    using res s3(2) [of t' k] s4(2) [of t' k] s5(1) [of t' k] n2 unfolding full w3 by (auto split: if_splits)
qed

lemma release_one_spec:
  assumes inv: "ledger_inv d" and cache: "cache_ok t e d"
  shows "cap_count t' (snd (cap_release_one t kind key e d)) k =
      cap_count t' d k - (if t' = t \<and> truthy key \<and> k = (kind, the key) then 1 else 0)"
    and "ledger_inv (snd (cap_release_one t kind key e d))"
    and "cache_ok t (fst (cap_release_one t kind key e d)) (snd (cap_release_one t kind key e d))"
proof -
  have "cap_count t' (snd (cap_release_one t kind key e d)) k =
      cap_count t' d k - (if t' = t \<and> truthy key \<and> k = (kind, the key) then 1 else 0) \<and>
    ledger_inv (snd (cap_release_one t kind key e d)) \<and>
    cache_ok t (fst (cap_release_one t kind key e d)) (snd (cap_release_one t kind key e d))"
  proof (cases "truthy key")
    case True
    then obtain x where x: "key = Some x" "x \<noteq> []" by (auto simp: truthy_def split: option.splits)
    define e1 d1 where "e1 = fst (cap_ensure t kind x e d)" and "d1 = snd (cap_ensure t kind x e d)"
    note c1 = ensure_row [OF cache, of kind x, folded e1_def d1_def]
    define d2 where "d2 = d1\<lparr>ledger_t := tbl_update (is_period t kind x) give_slot (ledger_t d1)\<rparr>"
    have g: "cap_get a b c d2 = map_option (\<lambda>r. if is_period t kind x r then give_slot r else r) (cap_get a b c d1)" for a b c
      by (simp add: d2_def cap_get_update)
    have "cap_count t' d2 k = cap_count t' d1 k - (if t' = t \<and> k = (kind, x) then 1 else 0)"
      using c1(1) by (cases k; cases "cap_get t' (fst k) (snd k) d1")
        (auto simp: cap_count_def g period_of_get give_slot_def)
    moreover have "cache_ok t e1 d2" using c1(2) by (rule cache_ok_mono) (simp add: g)
    moreover have "ledger_inv d2" using inv by (simp add: d2_def d1_def ledger_inv_update ledger_inv_ensure)
    moreover have "cap_release_one t kind key e d = (e1, d2)"
      using x by (simp add: cap_release_one_def Let_def case_prod_unfold d2_def e1_def d1_def)
    ultimately show ?thesis using True x by (simp add: d1_def)
  next
    case False
    then have "cap_release_one t kind key e d = (e, d)" by (auto simp: cap_release_one_def truthy_def split: option.splits)
    with False inv cache show ?thesis by simp
  qed
  then show "cap_count t' (snd (cap_release_one t kind key e d)) k =
      cap_count t' d k - (if t' = t \<and> truthy key \<and> k = (kind, the key) then 1 else 0)"
    and "ledger_inv (snd (cap_release_one t kind key e d))"
    and "cache_ok t (fst (cap_release_one t kind key e d)) (snd (cap_release_one t kind key e d))" by blast+
qed

lemma cap_release_spec:
  assumes "ledger_inv d" and "cache_ok t e d"
  shows "cap_count t' (snd (cap_release t day week e d)) k = cap_count t' d k
      - (if t' = t \<and> truthy day \<and> k = (DAY, the day) then 1 else 0)
      - (if t' = t \<and> truthy week \<and> k = (WEEK, the week) then 1 else 0)"
    and "ledger_inv (snd (cap_release t day week e d))"
    and "cache_ok t (fst (cap_release t day week e d)) (snd (cap_release t day week e d))"
proof -
  note a = release_one_spec [OF assms, where kind = DAY and key = day]
  note b = release_one_spec [OF a(2,3), where kind = WEEK and key = week]
  have eq: "cap_release t day week e d =
      cap_release_one t WEEK week (fst (cap_release_one t DAY day e d)) (snd (cap_release_one t DAY day e d))"
    by (simp add: cap_release_def Let_def case_prod_unfold)
  show "cap_count t' (snd (cap_release t day week e d)) k = cap_count t' d k
      - (if t' = t \<and> truthy day \<and> k = (DAY, the day) then 1 else 0)
      - (if t' = t \<and> truthy week \<and> k = (WEEK, the week) then 1 else 0)"
    unfolding eq b(1) a(1) by simp
  show "ledger_inv (snd (cap_release t day week e d))"
    and "cache_ok t (fst (cap_release t day week e d)) (snd (cap_release t day week e d))"
    unfolding eq using b(2,3) by simp_all
qed

text \<open>A row is never deleted: what one worker does keeps the caches of the others sound.\<close>

definition rows_kept :: "db \<Rightarrow> db \<Rightarrow> bool" where
  "rows_kept d d' \<longleftrightarrow> (\<forall>t kind key. cap_get t kind key d \<noteq> None \<longrightarrow> cap_get t kind key d' \<noteq> None)"

lemma rows_kept_refl [simp]: "rows_kept d d"
  by (simp add: rows_kept_def)

lemma rows_kept_trans: "rows_kept d e \<Longrightarrow> rows_kept e f \<Longrightarrow> rows_kept d f"
  by (simp add: rows_kept_def)

lemma rows_kept_ensure: "rows_kept d (snd (cap_ensure t kind key e d))"
  by (auto simp: rows_kept_def cap_ensure_def cap_get_def find_append split: option.splits)

lemma rows_kept_updates [simp]:
  "rows_kept d (snd (cap_increment t kind key (Some c) d'))  = rows_kept d d'"
  "rows_kept d (cap_decrement t kind key d') = rows_kept d d'"
  by (simp_all add: rows_kept_def)

lemma rows_kept_reserve: "rows_kept d (snd (snd (cap_reserve t day week dc wc e d)))"
  using rows_kept_trans [OF rows_kept_ensure rows_kept_ensure]
  by (auto simp: cap_reserve_def Let_def case_prod_unfold)

lemma rows_kept_release_one: "rows_kept d (snd (cap_release_one t kind key e d))"
proof -
  have "rows_kept d (d'\<lparr>ledger_t := tbl_update p give_slot (ledger_t d')\<rparr>) = rows_kept d d'" for p d'
    by (simp add: rows_kept_def cap_get_update)
  then show ?thesis
    using rows_kept_ensure by (auto simp: cap_release_one_def Let_def case_prod_unfold split: option.split)
qed

lemma rows_kept_release: "rows_kept d (snd (cap_release t day week e d))"
  using rows_kept_trans [OF rows_kept_release_one rows_kept_release_one]
  by (simp add: cap_release_def Let_def case_prod_unfold)

lemma cache_ok_kept: "cache_ok t e d \<Longrightarrow> rows_kept d d' \<Longrightarrow> cache_ok t e d'"
  by (auto simp: cache_ok_def rows_kept_def)

text \<open>Several workers, each with its own \<^verbatim>\<open>CapLedger\<close> object, over one database.\<close>

type_synonym ledger_workers = "(nat \<Rightarrow> period_cache) \<times> db"

definition worker_reserve ::
  "string \<Rightarrow> nat \<Rightarrow> string \<Rightarrow> string \<Rightarrow> int \<Rightarrow> int \<Rightarrow> ledger_workers \<Rightarrow> admission_reason option \<times> ledger_workers" where
  "worker_reserve t w dk wk dc wc s =
     (let (reason, e, d) = cap_reserve t dk wk dc wc (fst s w) (snd s) in (reason, (fst s)(w := e), d))"

definition worker_release :: "string \<Rightarrow> nat \<Rightarrow> string option \<Rightarrow> string option \<Rightarrow> ledger_workers \<Rightarrow> ledger_workers" where
  "worker_release t w day week s =
     (let (e, d) = cap_release t day week (fst s w) (snd s) in ((fst s)(w := e), d))"

fun ledger_run :: "string \<Rightarrow> ledger_op list \<Rightarrow> ledger_workers \<Rightarrow> ledger_workers" where
  "ledger_run t [] s = s"
| "ledger_run t (LReserve w dk wk dc wc # xs) s = ledger_run t xs (snd (worker_reserve t w dk wk dc wc s))"
| "ledger_run t (LRelease w day week # xs) s = ledger_run t xs (worker_release t w day week s)"

definition workers_ok :: "string \<Rightarrow> ledger_workers \<Rightarrow> bool" where
  "workers_ok t s \<longleftrightarrow> ledger_inv (snd s) \<and> (\<forall>w. cache_ok t (fst s w) (snd s))"

interpretation caps: slot_ledger "workers_ok t" "\<lambda>s. cap_count t (snd s)" "worker_reserve t" "worker_release t" for t
proof unfold_locales
  fix s :: ledger_workers and w dk wk dc wc k
  assume ok: "workers_ok t s"
  obtain reason e' d' where r: "cap_reserve t dk wk dc wc (fst s w) (snd s) = (reason, e', d')" by (rule prod_cases3)
  have pre: "ledger_inv (snd s)" "cache_ok t (fst s w) (snd s)" using ok by (simp_all add: workers_ok_def)
  note spec = cap_reserve_spec [OF pre r]
  have kept: "rows_kept (snd s) d'" using rows_kept_reserve [of "snd s" t dk wk dc wc "fst s w"] by (simp add: r)
  show "workers_ok t (snd (worker_reserve t w dk wk dc wc s))"
    using ok spec(3) cache_ok_kept [OF _ kept] by (auto simp: workers_ok_def worker_reserve_def r)
  show "(fst (worker_reserve t w dk wk dc wc s) = None) \<longleftrightarrow>
      0 < dc \<and> 0 < wc \<and> cap_count t (snd s) (DAY, dk) < dc \<and> cap_count t (snd s) (WEEK, wk) < wc"
    using spec(1) by (auto simp: worker_reserve_def r reserve_reason_def)
  show "cap_count t (snd (snd (worker_reserve t w dk wk dc wc s))) k = cap_count t (snd s) k +
      (if fst (worker_reserve t w dk wk dc wc s) = None \<and> k \<in> {(DAY, dk), (WEEK, wk)} then 1 else 0)"
    using spec(2) by (auto simp: worker_reserve_def r)
next
  fix s :: ledger_workers and w day week k
  assume ok: "workers_ok t s"
  then have pre: "ledger_inv (snd s)" "cache_ok t (fst s w) (snd s)" by (simp_all add: workers_ok_def)
  note spec = cap_release_spec [OF pre, where day = day and week = week]
  show "workers_ok t (worker_release t w day week s)"
    using ok spec(2,3) cache_ok_kept [OF _ rows_kept_release [of "snd s" t day week "fst s w"]]
    by (auto simp: workers_ok_def worker_release_def case_prod_unfold Let_def)
  show "cap_count t (snd (worker_release t w day week s)) k \<le> cap_count t (snd s) k"
    using spec(1) by (simp add: worker_release_def case_prod_unfold Let_def)
qed

lemma ledger_run_eq: "ledger_run t xs s = caps.run t xs s"
  by (induction t xs s rule: ledger_run.induct) simp_all

lemma cap_usage_count: "cap_usage t kind key d = max 0 (cap_count t d (kind, key))"
  by (simp add: cap_usage_def cap_count_def split: option.split)

lemma stale_cache_refuses:
  assumes "(DAY, day) \<in> set ensured" and "cap_get tenant DAY day d = None" and "0 < daily_cap" and "0 < weekly_cap"
  shows "fst (cap_reserve tenant day week daily_cap weekly_cap ensured d) = Some AR_DAILY_CAP_REACHED"
proof -
  let ?d = "snd (cap_ensure tenant WEEK week ensured d)"
  have "cap_get tenant DAY day ?d = None" using assms(2) by (simp add: cap_get_ensure)
  then have "\<forall>r \<in> set (ledger_t ?d). \<not> is_period tenant DAY day r"
    by (simp add: cap_get_def find_None_iff)
  then have "\<not> fst (cap_increment tenant DAY day (Some daily_cap) ?d)"
    by (simp add: cap_increment_def tbl_matches_def Let_def filter_empty_conv)
  then show ?thesis
    using assms by (simp add: cap_reserve_def cap_ensure_def [of tenant DAY] case_prod_unfold Let_def)
qed

section \<open>Properties\<close>

text \<open>C5. No interleaving of reservations and releases by any number of workers, each with its own
  cache, gets past a cap: a day on which every reservation was made under a cap of at most \<open>c\<close>
  never shows more than \<open>c\<close> slots in use, and the same holds for a week.\<close>

theorem caps_never_exceeded:
  assumes "workers_ok tenant s" and "0 \<le> c" and "kind = DAY \<or> kind = WEEK"
    and "cap_usage tenant kind key (snd s) \<le> c"
    and "\<forall>w dk wk dc wc. LReserve w dk wk dc wc \<in> set xs \<longrightarrow>
      (kind = DAY \<and> key = dk \<longrightarrow> dc \<le> c) \<and> (kind = WEEK \<and> key = wk \<longrightarrow> wc \<le> c)"
  shows "cap_usage tenant kind key (snd (ledger_run tenant xs s)) \<le> c"
proof -
  have "cap_count tenant (snd (caps.run tenant xs s)) (kind, key) \<le> c"
    by (rule caps.run_bound) (use assms in \<open>auto simp: cap_usage_count\<close>)
  then show ?thesis using assms(2) by (simp add: cap_usage_count ledger_run_eq)
qed

text \<open>C35. A reservation takes one slot of the day and one of the week together, or neither: it is
  granted exactly when both caps are positive and neither period is full, it names the cap that
  refused it, and a refused reservation leaves every counter of every tenant as it was, the day
  slot taken before the week turned out to be full included.\<close>

theorem cap_reserve_both_or_neither:
  assumes "ledger_inv d" and "cache_ok tenant ensured d"
    and "cap_reserve tenant day week daily_cap weekly_cap ensured d = (reason, ensured', d')"
  shows "reason = reserve_reason daily_cap weekly_cap (cap_count tenant d (DAY, day)) (cap_count tenant d (WEEK, week)) \<and>
    (if reason = None
     then cap_count tenant d' (DAY, day) = cap_count tenant d (DAY, day) + 1 \<and>
          cap_count tenant d' (WEEK, week) = cap_count tenant d (WEEK, week) + 1
     else \<forall>t k. cap_count t d' k = cap_count t d k)"
  using cap_reserve_spec [OF assms] by auto

text \<open>The cache of known periods is not safe across a savepoint rollback, contrary to its
  comment: if a period is cached but its row is gone (the rollback of the reservation that
  inserted it), every later reservation of that object is refused as if the day were full,
  whatever the caps and although nothing is reserved.\<close>

theorem cap_reserve_stale_cache:
  assumes "(DAY, day) \<in> set ensured" and "cap_get tenant DAY day d = None" and "0 < daily_cap" and "0 < weekly_cap"
  shows "cap_usage tenant DAY day d = 0 \<and>
    fst (cap_reserve tenant day week daily_cap weekly_cap ensured d) = Some AR_DAILY_CAP_REACHED"
  using stale_cache_refuses [OF assms] assms(2) by (simp add: cap_usage_def)

definition example_ledger :: db where
  "example_ledger = empty_db\<lparr>ledger_t := [
     \<lparr>l_tenant_id = ''t1'', l_period_kind = DAY, l_period_key = ''2026-09-14'', l_reserved = 2, l_released = 0\<rparr>,
     \<lparr>l_tenant_id = ''t1'', l_period_kind = WEEK, l_period_key = ''2026-W38'', l_reserved = 5, l_released = 0\<rparr>]\<rparr>"

lemma example_ledger_ok: "ledger_inv example_ledger" "cache_ok t [] example_ledger"
  by (simp_all add: ledger_inv_def example_ledger_def l_triple_def cache_ok_def)

lemma example_ledger_get:
  "cap_get ''t1'' DAY ''2026-09-14'' example_ledger = Some
     \<lparr>l_tenant_id = ''t1'', l_period_kind = DAY, l_period_key = ''2026-09-14'', l_reserved = 2, l_released = 0\<rparr>"
  "cap_get ''t1'' WEEK ''2026-W38'' example_ledger = Some
     \<lparr>l_tenant_id = ''t1'', l_period_kind = WEEK, l_period_key = ''2026-W38'', l_reserved = 5, l_released = 0\<rparr>"
  "cap_get ''t1'' DAY ''2026-09-15'' example_ledger = None"
  by (simp_all add: cap_get_def is_period_def example_ledger_def)

theorem caps_never_exceeded_witness:
  "cap_usage ''t1'' DAY ''2026-09-14'' (snd (ledger_run ''t1''
     [LReserve 1 ''2026-09-14'' ''2026-W38'' 3 10, LReserve 2 ''2026-09-14'' ''2026-W38'' 3 10] (\<lambda>_. [], example_ledger))) \<le> 3"
  by (rule caps_never_exceeded)
    (auto simp: workers_ok_def example_ledger_ok cap_usage_def example_ledger_get)

theorem cap_reserve_both_or_neither_witness:
  "fst (cap_reserve ''t1'' ''2026-09-14'' ''2026-W38'' 3 5 [] example_ledger) = Some AR_WEEKLY_CAP_REACHED"
proof -
  obtain r e d where c: "cap_reserve ''t1'' ''2026-09-14'' ''2026-W38'' 3 5 [] example_ledger = (r, e, d)"
    by (rule prod_cases3)
  from cap_reserve_both_or_neither [OF example_ledger_ok c] c show ?thesis
    by (simp add: reserve_reason_def cap_count_def example_ledger_get)
qed

theorem cap_reserve_stale_cache_witness:
  "fst (cap_reserve ''t1'' ''2026-09-15'' ''2026-W38'' 50 300 [(DAY, ''2026-09-15'')] example_ledger) = Some AR_DAILY_CAP_REACHED"
  using cap_reserve_stale_cache [of "''2026-09-15''" "[(DAY, ''2026-09-15'')]" "''t1''" example_ledger 50 300 "''2026-W38''"]
  by (simp add: example_ledger_get)

end
