(* ===== verification/Policy.thy ===== *)
theory Policy
  imports Database
begin

text \<open>
  The candidate's application policy, \<^verbatim>\<open>app/pipeline/policy.py\<close>: fit bands, the policy object
  read from its row, the band configuration and the company key. \<open>split_by\<close> is the reference
  definition the company key is compared with. Policy fields other components own
  (\<^verbatim>\<open>ai_settings\<close>, \<^verbatim>\<open>learning_settings\<close>, \<^verbatim>\<open>priority_weights\<close>) are left out.
\<close>

section \<open>The policy object\<close>

record application_policy =
  tenant_id :: string
  enabled_bands :: "fit_band list"
  band_thresholds :: "(string \<times> int) list"
  daily_cap :: int
  weekly_cap :: int
  tailoring_by_band :: "(string \<times> tailoring_level) list"
  lane_by_band :: "(string \<times> lane) list"
  cover_letter_by_band :: "(string \<times> string) list"
  cooldown_days :: int
  blocked_companies :: "string list"
  preferred_locations :: "string list"
  preferred_role_families :: "string list"
  minimum_eligibility :: eligibility_decision
  policy_duplicates :: duplicate_policy
  minimum_fit_score :: "int option"
  timezone :: string
  policy_version :: int

definition DEFAULT_BAND_THRESHOLDS :: "(string \<times> int) list" where
  "DEFAULT_BAND_THRESHOLDS = [(''HIGH'', 70), (''MEDIUM'', 45)]"

definition DEFAULT_ENABLED_BANDS :: "fit_band list" where
  "DEFAULT_ENABLED_BANDS = [FB_HIGH, FB_MEDIUM, FB_LOW]"

definition DEFAULT_TAILORING :: "(string \<times> tailoring_level) list" where
  "DEFAULT_TAILORING = [(''HIGH'', TL_L2), (''MEDIUM'', TL_L1), (''LOW'', TL_L0)]"

definition DEFAULT_LANES :: "(string \<times> lane) list" where
  "DEFAULT_LANES = [(''HIGH'', LN_REVIEW), (''MEDIUM'', LN_REVIEW), (''LOW'', LN_REVIEW)]"

definition DEFAULT_COVER_LETTERS :: "(string \<times> string) list" where
  "DEFAULT_COVER_LETTERS = [(''HIGH'', ''LIGHT''), (''MEDIUM'', ''TEMPLATE''), (''LOW'', ''DISABLED'')]"

text \<open>\<^verbatim>\<open>dict.get(key, default)\<close>, and \<^verbatim>\<open>xs or default\<close> on a list or dict.\<close>

definition dict_get :: "('k \<times> 'v) list \<Rightarrow> 'k \<Rightarrow> 'v \<Rightarrow> 'v" where
  "dict_get m k v = (case map_of m k of Some x \<Rightarrow> x | None \<Rightarrow> v)"

definition list_or :: "'a list \<Rightarrow> 'a list \<Rightarrow> 'a list" where
  "list_or xs ys = (if xs = [] then ys else xs)"

definition high_threshold :: "(string \<times> int) list \<Rightarrow> int" where
  "high_threshold thresholds = dict_get thresholds ''HIGH'' 70"

definition medium_threshold :: "(string \<times> int) list \<Rightarrow> int" where
  "medium_threshold thresholds = dict_get thresholds ''MEDIUM'' 45"

definition band_for :: "int option \<Rightarrow> (string \<times> int) list \<Rightarrow> fit_band option" where
  "band_for fit_score thresholds =
     (case fit_score of
        None \<Rightarrow> None
      | Some s \<Rightarrow>
          let t = list_or thresholds DEFAULT_BAND_THRESHOLDS in
          Some (if s > high_threshold t then FB_HIGH else if s \<ge> medium_threshold t then FB_MEDIUM else FB_LOW))"

definition policy_from_row :: "application_policy_row \<Rightarrow> application_policy" where
  "policy_from_row row =
     \<lparr>tenant_id = pr_tenant_id row,
      enabled_bands = list_or (pr_enabled_bands row) DEFAULT_ENABLED_BANDS,
      band_thresholds = list_or (pr_band_thresholds row) DEFAULT_BAND_THRESHOLDS,
      daily_cap = pr_daily_cap row, weekly_cap = pr_weekly_cap row,
      tailoring_by_band = list_or (pr_tailoring_by_band row) DEFAULT_TAILORING,
      lane_by_band = list_or (pr_lane_by_band row) DEFAULT_LANES,
      cover_letter_by_band =
        (case pr_cover_letter_by_band row of None \<Rightarrow> DEFAULT_COVER_LETTERS | Some m \<Rightarrow> list_or m DEFAULT_COVER_LETTERS),
      cooldown_days = pr_cooldown_days row, blocked_companies = pr_blocked_companies row,
      preferred_locations = pr_preferred_locations row, preferred_role_families = pr_preferred_role_families row,
      minimum_eligibility = pr_minimum_eligibility row, policy_duplicates = pr_duplicate_policy row,
      minimum_fit_score = pr_minimum_fit_score row, timezone = str_or (pr_timezone row) ''UTC'',
      policy_version = pr_version row\<rparr>"

record fit_band_range =
  fr_band :: fit_band
  fr_min_score :: int
  fr_max_score :: int
  fr_enabled :: bool
  fr_lane :: lane
  fr_tailoring_level :: tailoring_level
  fr_cover_letter :: string

definition band_range :: "application_policy \<Rightarrow> fit_band \<Rightarrow> int \<Rightarrow> int \<Rightarrow> fit_band_range" where
  "band_range policy band lo hi =
     \<lparr>fr_band = band, fr_min_score = lo, fr_max_score = hi, fr_enabled = (band \<in> set (enabled_bands policy)),
      fr_lane = dict_get (lane_by_band policy) (fit_band_value band) LN_REVIEW,
      fr_tailoring_level = dict_get (tailoring_by_band policy) (fit_band_value band) TL_L0,
      fr_cover_letter = dict_get (cover_letter_by_band policy) (fit_band_value band) ''DISABLED''\<rparr>"

definition fit_band_config :: "application_policy \<Rightarrow> fit_band_range list" where
  "fit_band_config policy =
     (let high = high_threshold (band_thresholds policy); medium = medium_threshold (band_thresholds policy)
      in [band_range policy FB_HIGH (high + 1) 100, band_range policy FB_MEDIUM medium high,
          band_range policy FB_LOW 0 (max (medium - 1) 0)])"

section \<open>The company key\<close>

definition COMPANY_SUFFIXES :: "string list" where
  "COMPANY_SUFFIXES = [''inc'', ''llc'', ''ltd'', ''limited'', ''gmbh'', ''bv'', ''plc'', ''corp'', ''corporation'',
     ''co'', ''pvt'', ''private'']"

text \<open>\<^verbatim>\<open>re.sub("[p]+", rep, s)\<close> for a character class \<open>p\<close>: each maximal run becomes \<open>rep\<close>.\<close>

function sub_runs :: "(char \<Rightarrow> bool) \<Rightarrow> string \<Rightarrow> string \<Rightarrow> string" where
  "sub_runs p rep [] = []"
| "sub_runs p rep (c # cs) = (if p c then rep @ sub_runs p rep (dropWhile p cs) else c # sub_runs p rep cs)"
  by pat_completeness auto
termination
  by (relation "measure (\<lambda>(p, rep, s). length s)") (auto simp: le_imp_less_Suc length_dropWhile_le)

definition not_alnum :: "char \<Rightarrow> bool" where
  "not_alnum c = (\<not> (py_islower c \<or> py_isdigit c))"

text \<open>On ASCII text the NFKD fold is the identity.\<close>

definition company_key :: "string option \<Rightarrow> string" where
  "company_key name =
     (let text = sub_runs not_alnum '' '' (py_lower (str_or name []))
      in join_with '' '' (filter (\<lambda>w. w \<notin> set COMPANY_SUFFIXES) (py_split text)))"

section \<open>The company key against a direct definition\<close>

fun split_by :: "(char \<Rightarrow> bool) \<Rightarrow> string \<Rightarrow> string \<Rightarrow> string list" where
  "split_by p w [] = (if w = [] then [] else [w])"
| "split_by p w (c # cs) =
     (if p c then (if w = [] then split_by p [] cs else w # split_by p [] cs) else split_by p (w @ [c]) cs)"

lemma split_by_dropWhile: "split_by p [] (dropWhile p s) = split_by p [] s"
  by (induction s) auto

lemma split_ws_sub_runs:
  "(\<And>c. py_isspace c \<Longrightarrow> p c) \<Longrightarrow> split_ws_aux w (sub_runs p '' '' s) = split_by p w s"
proof (induction s arbitrary: w rule: length_induct)
  case (1 s)
  have sp: "py_isspace CHR '' ''" by (simp add: py_isspace_def)
  show ?case
  proof (cases s)
    case Nil
    then show ?thesis by simp
  next
    case (Cons c cs)
    have drop: "split_ws_aux v (sub_runs p '' '' (dropWhile p cs)) = split_by p v (dropWhile p cs)" for v
      using 1 Cons by (simp add: le_imp_less_Suc length_dropWhile_le)
    have rest: "split_ws_aux v (sub_runs p '' '' cs) = split_by p v cs" for v
      using 1 Cons by simp
    show ?thesis
      using 1(2) [of c] Cons drop rest sp by (auto simp: split_by_dropWhile)
  qed
qed

lemma split_by_append:
  "p c \<Longrightarrow> split_by p w (a @ c # b) = split_by p w a @ split_by p [] b"
  by (induction a arbitrary: w) auto

lemma split_by_word:
  "\<not> list_ex p v \<Longrightarrow> split_by p w (v @ s) = split_by p (w @ v) s"
  by (induction v arbitrary: w) auto

text \<open>The words: non-empty and free of separators.\<close>

definition word_of :: "(char \<Rightarrow> bool) \<Rightarrow> string \<Rightarrow> bool" where
  "word_of p w = (w \<noteq> [] \<and> \<not> list_ex p w)"

lemma split_by_words: "\<not> list_ex p w \<Longrightarrow> \<forall>v \<in> set (split_by p w s). word_of p v"
proof (induction s arbitrary: w)
  case (Cons c s)
  from Cons.IH [of "[]"] Cons.IH [of "w @ [c]"] Cons.prems show ?case by (simp add: word_of_def)
qed (simp add: word_of_def)

lemma split_by_join:
  "p (CHR '' '') \<Longrightarrow> \<forall>w \<in> set ws. word_of p w \<Longrightarrow> split_by p [] (join_with '' '' ws) = ws"
proof (induction ws rule: induct_list012)
  case (2 w)
  then show ?case using split_by_word [of p w "[]" "[]"] by (simp add: word_of_def)
next
  case (3 w v ws)
  then show ?case using split_by_word [of p w "[]" "'' '' @ join_with '' '' (v # ws)"] by (simp add: word_of_def)
qed simp

lemma space_not_alnum: "py_isspace c \<Longrightarrow> not_alnum c"
  by (auto simp: py_isspace_def not_alnum_def py_islower_def py_isdigit_def Let_def)

definition company_words :: "string \<Rightarrow> string list" where
  "company_words s = filter (\<lambda>w. w \<notin> set COMPANY_SUFFIXES) (split_by not_alnum [] (py_lower s))"

text \<open>The key is the list of the lower-case alphanumeric words that are no legal suffix.\<close>

lemma company_key_words: "company_key (Some s) = join_with '' '' (company_words s)"
  using split_ws_sub_runs [of not_alnum "[]" "py_lower s", OF space_not_alnum]
  by (simp add: company_key_def company_words_def py_split_def Let_def str_or_def)

lemma lower_char_fix: "\<not> not_alnum c \<Longrightarrow> lower_char c = c"
  by (auto simp: not_alnum_def lower_char_def py_isupper_def py_islower_def py_isdigit_def Let_def)

lemma lower_char_idem [simp]: "lower_char (lower_char c) = lower_char c"
proof (cases "py_isupper c")
  case True
  then have "(of_char (lower_char c) :: nat) = of_char c + 32"
    by (simp add: lower_char_def py_isupper_def Let_def)
  with True show ?thesis by (simp add: lower_char_def [of "lower_char c"] py_isupper_def Let_def)
qed (simp add: lower_char_def)

lemma company_words_char: "w \<in> set (company_words s) \<Longrightarrow> word_of not_alnum w"
  using split_by_words [of not_alnum "[]" "py_lower s"] by (simp add: company_words_def)

lemma lower_join: "py_lower (join_with '' '' ws) = join_with '' '' (map py_lower ws)"
  by (induction ws rule: induct_list012) (simp_all add: py_lower_def lower_char_def py_isupper_def)

lemma company_words_join:
  assumes "\<forall>w \<in> set ws. word_of not_alnum w \<and> w \<notin> set COMPANY_SUFFIXES"
  shows "company_words (join_with '' '' ws) = ws"
proof -
  have "map py_lower ws = ws"
    using assms by (auto simp: py_lower_def lower_char_fix word_of_def list_ex_iff intro!: map_idI)
  moreover have "split_by not_alnum [] (join_with '' '' ws) = ws"
    by (rule split_by_join) (use assms in \<open>auto simp: not_alnum_def py_islower_def py_isdigit_def\<close>)
  ultimately show ?thesis using assms by (simp add: company_words_def lower_join)
qed

lemma company_words_key: "company_words (company_key (Some s)) = company_words s"
  unfolding company_key_words using company_words_char [of _ s]
  by (intro company_words_join) (auto simp: company_words_def)

lemma company_words_append:
  assumes "not_alnum c" and "\<not> py_isupper c"
  shows "company_words (a @ c # b) = company_words a @ company_words b"
proof -
  have "not_alnum (lower_char c)" using assms by (simp add: lower_char_def)
  then show ?thesis by (simp add: company_words_def py_lower_def split_by_append)
qed

lemma suffix_words:
  assumes "py_lower x \<in> set COMPANY_SUFFIXES"
  shows "company_words x = []"
proof -
  have "list_all (\<lambda>w. split_by not_alnum [] w = [w]) COMPANY_SUFFIXES"
    by (simp add: COMPANY_SUFFIXES_def not_alnum_def py_islower_def py_isdigit_def)
  then have "split_by not_alnum [] (py_lower x) = [py_lower x]" using assms by (auto simp: list_all_iff)
  with assms show ?thesis by (simp add: company_words_def)
qed

section \<open>Properties\<close>

text \<open>The company key is a normal form: taking the key of a key changes nothing, so keys
  computed from stored keys and keys computed from names agree.\<close>

theorem company_key_idempotent: "company_key (Some (company_key name)) = company_key name"
proof (cases name)
  case None
  then show ?thesis by (simp add: company_key_def py_split_def str_or_def py_lower_def)
next
  case (Some s)
  then show ?thesis using company_words_key [of s] company_key_words by metis
qed

text \<open>Legal suffixes, case, punctuation and spacing do not change a company's identity: a
  name followed by any separator and a legal suffix in any case, with or without a further
  separator (\<^verbatim>\<open>"Acme, Inc."\<close>), has the key of the name.\<close>

theorem company_key_ignores_suffix:
  assumes "py_lower suffix \<in> set COMPANY_SUFFIXES"
    and "not_alnum c" "\<not> py_isupper c" and "not_alnum e" "\<not> py_isupper e"
  shows "company_key (Some (name @ c # suffix)) = company_key (Some name) \<and>
    company_key (Some (name @ c # suffix @ [e])) = company_key (Some name) \<and>
    company_key (Some (py_lower name)) = company_key (Some name)"
proof -
  have nil: "company_words suffix = []" "company_words [] = []"
    using suffix_words [OF assms(1)] by (simp_all add: company_words_def py_lower_def)
  have "company_words (suffix @ e # []) = []" using company_words_append [OF assms(4,5), of suffix "[]"] nil by simp
  then have "company_words (name @ c # suffix @ [e]) = company_words name" "company_words (name @ c # suffix) = company_words name"
    using company_words_append [OF assms(2,3), of name] nil by simp_all
  moreover have "company_words (py_lower name) = company_words name"
    by (simp add: company_words_def py_lower_def comp_def)
  ultimately show ?thesis by (simp only: company_key_words simp_thms)
qed

theorem company_key_ignores_suffix_witness:
  "company_key (Some ''Acme, Inc.'') = company_key (Some ''Acme,'')"
proof -
  have "py_lower ''Inc'' = ''inc''" by code_simp
  then have "py_lower ''Inc'' \<in> set COMPANY_SUFFIXES" by (simp add: COMPANY_SUFFIXES_def)
  then show ?thesis
    using company_key_ignores_suffix [of "''Inc''" "CHR '' ''" "CHR ''.''" "''Acme,''"]
    by (simp add: not_alnum_def py_isupper_def py_islower_def py_isdigit_def)
qed

text \<open>The band configuration shown to the candidate is the rule that bands are assigned by:
  for thresholds \<open>0 < MEDIUM \<le> HIGH \<le> 100\<close> a score from 0 to 100 falls in exactly the band whose
  range contains it, and that range carries the band's lane and tailoring level.\<close>

theorem fit_band_config_matches_band_for:
  assumes "band_thresholds policy \<noteq> []"
    and "0 < medium_threshold (band_thresholds policy)"
    and "medium_threshold (band_thresholds policy) \<le> high_threshold (band_thresholds policy)"
    and "high_threshold (band_thresholds policy) \<le> 100"
    and "0 \<le> score" and "score \<le> 100"
  shows "\<exists>r. filter (\<lambda>r. fr_min_score r \<le> score \<and> score \<le> fr_max_score r) (fit_band_config policy) = [r] \<and>
    band_for (Some score) (band_thresholds policy) = Some (fr_band r) \<and>
    fr_enabled r = (fr_band r \<in> set (enabled_bands policy))"
  using assms by (auto simp: fit_band_config_def band_for_def band_range_def Let_def list_or_def)

definition example_policy :: application_policy where
  "example_policy = policy_from_row \<lparr>pr_id = ''p1'', pr_tenant_id = ''t1'', pr_enabled_bands = [FB_HIGH, FB_MEDIUM], pr_band_thresholds = [],
     pr_daily_cap = 2, pr_weekly_cap = 10, pr_tailoring_by_band = [], pr_lane_by_band = [], pr_cover_letter_by_band = None,
     pr_cooldown_days = 90, pr_blocked_companies = [''Initech''], pr_preferred_locations = [],
     pr_preferred_role_families = [], pr_minimum_eligibility = ED_UNCERTAIN, pr_duplicate_policy = DP_BLOCK,
     pr_minimum_fit_score = Some 50, pr_timezone = None,
     pr_priority_weights = JObj [], pr_ai_settings = JObj [], pr_learning_settings = JObj [], pr_version = 1\<rparr>"

lemma example_policy_thresholds [simp]:
  "band_thresholds example_policy = DEFAULT_BAND_THRESHOLDS"
  "high_threshold DEFAULT_BAND_THRESHOLDS = 70" "medium_threshold DEFAULT_BAND_THRESHOLDS = 45"
  by (simp_all add: example_policy_def policy_from_row_def list_or_def high_threshold_def medium_threshold_def
      dict_get_def DEFAULT_BAND_THRESHOLDS_def)

theorem fit_band_config_matches_band_for_witness:
  "\<exists>r. filter (\<lambda>r. fr_min_score r \<le> 70 \<and> 70 \<le> fr_max_score r) (fit_band_config example_policy) = [r] \<and>
     band_for (Some 70) DEFAULT_BAND_THRESHOLDS = Some (fr_band r)"
proof -
  have "DEFAULT_BAND_THRESHOLDS \<noteq> []" by (simp add: DEFAULT_BAND_THRESHOLDS_def)
  then show ?thesis using fit_band_config_matches_band_for [of example_policy 70] by auto
qed

end
