(* ===== verification/Identity.thy ===== *)
theory Identity
  imports Policy
begin

text \<open>
  Opportunity identity, \<^verbatim>\<open>app/pipeline/identity.py\<close>, and the duplicate key of
  \<^verbatim>\<open>app/scheduler/attempts.py\<close>. The regular expressions are lists of items with Python's
  backtracking semantics: \<open>rx_alts\<close> lists what an item can leave over, in Python's order of
  preference, and \<open>rx_match\<close> takes the first way through the pattern. SHA-256 is a parameter.
  The text is ASCII, so the en dash of the job-code pattern cannot occur.
\<close>

section \<open>Regular expressions\<close>

text \<open>\<open>RRange p lo hi\<close> is a greedy repetition of a character class, \<open>ROptional ls\<close> an optional group of
  literals matched without case, \<open>REnd\<close> the anchor \<^verbatim>\<open>$\<close>.\<close>

datatype rx_item =
    RRange "char \<Rightarrow> bool" nat "nat option"
  | ROptional "string list"
  | REnd

definition run_length :: "(char \<Rightarrow> bool) \<Rightarrow> nat option \<Rightarrow> string \<Rightarrow> nat" where
  "run_length p hi s = (let k = length (takeWhile p s) in case hi of None \<Rightarrow> k | Some h \<Rightarrow> min h k)"

fun rx_alts :: "rx_item \<Rightarrow> string \<Rightarrow> string list" where
  "rx_alts (RRange p lo hi) s = map (\<lambda>n. drop n s) (rev [lo..<Suc (run_length p hi s)])"
| "rx_alts (ROptional ls) s =
     map (\<lambda>l. drop (length l) s) (filter (\<lambda>l. starts_with l (py_lower s)) ls) @ [s]"
| "rx_alts REnd s = (if s = [] \<or> s = [CHR 0x0A] then [s] else [])"

fun first_some :: "('a \<Rightarrow> 'b option) \<Rightarrow> 'a list \<Rightarrow> 'b option" where
  "first_some f [] = None"
| "first_some f (x # xs) = (case f x of None \<Rightarrow> first_some f xs | Some y \<Rightarrow> Some y)"

primrec rx_match :: "rx_item list \<Rightarrow> string \<Rightarrow> string option" where
  "rx_match [] = (\<lambda>s. Some s)"
| "rx_match (i # is) = (\<lambda>s. first_some (rx_match is) (rx_alts i s))"

text \<open>\<^verbatim>\<open>re.sub\<close> for a pattern that never matches the empty string.\<close>

function rx_sub :: "rx_item list \<Rightarrow> string \<Rightarrow> string \<Rightarrow> string" where
  "rx_sub pat rep [] = []"
| "rx_sub pat rep (c # cs) =
     (case rx_match pat (c # cs) of
        Some rest \<Rightarrow> if length rest < length (c # cs) then rep @ rx_sub pat rep rest else c # rx_sub pat rep cs
      | None \<Rightarrow> c # rx_sub pat rep cs)"
  by pat_completeness auto
termination
  by (relation "measure (\<lambda>(pat, rep, s). length s)") auto

definition opening_bracket :: "char \<Rightarrow> bool" where
  "opening_bracket c \<longleftrightarrow> c = CHR ''('' \<or> c = CHR ''[''"

definition closing_bracket :: "char \<Rightarrow> bool" where
  "closing_bracket c \<longleftrightarrow> c = CHR '')'' \<or> c = CHR '']''"

definition PARENTHETICAL_RE :: "rx_item list" where
  "PARENTHETICAL_RE =
     [RRange py_isspace 0 None, RRange opening_bracket 1 (Some 1), RRange (\<lambda>c. \<not> closing_bracket c) 0 None,
      RRange closing_bracket 1 (Some 1), RRange py_isspace 0 None]"

definition JOB_CODE_RE :: "rx_item list" where
  "JOB_CODE_RE =
     [RRange py_isspace 0 None, RRange (\<lambda>c. c \<in> set ''-|#'') 1 (Some 1), RRange py_isspace 0 None,
      ROptional [''req'', ''job'', ''id'', ''r''], RRange (\<lambda>c. py_isspace c \<or> c \<in> set ''#:'') 0 None,
      RRange (\<lambda>c. py_islower c \<or> py_isupper c) 0 (Some 3), RRange py_isdigit 3 None, RRange py_isspace 0 None, REnd]"

definition collapse_ws :: "string \<Rightarrow> string" where
  "collapse_ws s = sub_runs py_isspace '' '' s"

definition REMOTE_HINTS :: "string list" where
  "REMOTE_HINTS = [''remote'', ''anywhere'', ''work from home'', ''wfh'', ''distributed'']"

section \<open>Identity\<close>

record opportunity_identity =
  oi_company :: string
  oi_title :: string
  oi_location_bucket :: string

definition identity_raw :: "opportunity_identity \<Rightarrow> string" where
  "identity_raw i = oi_company i @ ''|'' @ oi_title i @ ''|'' @ oi_location_bucket i"

definition identity_key :: "(string \<Rightarrow> string) \<Rightarrow> opportunity_identity \<Rightarrow> string" where
  "identity_key sha256 i = sha256 (identity_raw i)"

definition normalize_title_for_identity :: "string \<Rightarrow> string" where
  "normalize_title_for_identity title =
     (let text = rx_sub PARENTHETICAL_RE '' '' title;
          text = rx_sub JOB_CODE_RE [] text
      in py_lower (py_strip (collapse_ws text)))"

definition is_remote :: "string \<Rightarrow> string option \<Rightarrow> bool" where
  "is_remote text remote_type \<longleftrightarrow>
     py_lower (str_or remote_type []) = ''remote'' \<or> list_ex (\<lambda>h. contains h text) REMOTE_HINTS"

definition location_bucket :: "string option \<Rightarrow> string option \<Rightarrow> string" where
  "location_bucket location remote_type =
     (let text = py_lower (py_strip (str_or location []))
      in if is_remote text remote_type then ''remote''
         else if text = [] then []
         else let first = takeWhile (\<lambda>c. c \<noteq> CHR '','') text;
                  first = rx_sub PARENTHETICAL_RE '' '' first
              in py_strip (collapse_ws first))"

definition identity_for_job :: "job_row \<Rightarrow> opportunity_identity" where
  "identity_for_job job =
     \<lparr>oi_company = collapse_ws (py_lower (py_strip (j_company job))),
      oi_title = normalize_title_for_identity (str_or (Some (j_title job)) (j_original_title job)),
      oi_location_bucket = location_bucket (j_location job) (j_remote_type job)\<rparr>"

definition duplicate_key :: "string \<Rightarrow> string \<Rightarrow> string" where
  "duplicate_key company title = company_key (Some company) @ ''|'' @ normalize_title_for_identity title"

section \<open>Properties\<close>

lemma bar_cut:
  assumes "a @ CHR ''|'' # x = b @ CHR ''|'' # y" "CHR ''|'' \<notin> set a" "CHR ''|'' \<notin> set b"
  shows "a = b \<and> x = y"
  using assms by (induction a arbitrary: b) (case_tac b; fastforce)+

text \<open>Two openings whose normalised company and title have no vertical bar share the text the
  identity key hashes exactly when company, title and location bucket agree: up to a collision of
  the hash, equality of keys is equality of identities.\<close>

theorem identity_raw_separates:
  assumes "CHR ''|'' \<notin> set (oi_company (identity_for_job a))" "CHR ''|'' \<notin> set (oi_company (identity_for_job b))"
    and "CHR ''|'' \<notin> set (oi_title (identity_for_job a))" "CHR ''|'' \<notin> set (oi_title (identity_for_job b))"
    and no_collision: "sha256 (identity_raw (identity_for_job a)) = sha256 (identity_raw (identity_for_job b)) \<Longrightarrow>
      identity_raw (identity_for_job a) = identity_raw (identity_for_job b)"
  shows "identity_key sha256 (identity_for_job a) = identity_key sha256 (identity_for_job b) \<longleftrightarrow>
    identity_for_job a = identity_for_job b"
proof
  assume "identity_key sha256 (identity_for_job a) = identity_key sha256 (identity_for_job b)"
  then have raw: "identity_raw (identity_for_job a) = identity_raw (identity_for_job b)"
    using no_collision by (simp add: identity_key_def)
  with assms(1,2) have "oi_company (identity_for_job a) = oi_company (identity_for_job b) \<and>
      oi_title (identity_for_job a) @ CHR ''|'' # oi_location_bucket (identity_for_job a) =
      oi_title (identity_for_job b) @ CHR ''|'' # oi_location_bucket (identity_for_job b)"
    unfolding identity_raw_def by (intro bar_cut) simp_all
  moreover from this assms(3,4) have "oi_title (identity_for_job a) = oi_title (identity_for_job b) \<and>
      oi_location_bucket (identity_for_job a) = oi_location_bucket (identity_for_job b)"
    by (intro bar_cut) simp_all
  ultimately show "identity_for_job a = identity_for_job b" by simp
qed simp

definition example_job :: job_row where
  "example_job = \<lparr>j_id = ''job-1'', j_source = ''GREENHOUSE'', j_application_url = None, j_source_url = ''u'', j_company = ''Acme'',
     j_title = ''Engineer'', j_original_title = ''Engineer'', j_location = Some ''Berlin'', j_remote_type = None,
     j_job_status = ''OPEN'', j_deadline = None, j_first_seen_at = None, j_content_hash = ''h''\<rparr>"

theorem identity_raw_separates_witness:
  "identity_key (\<lambda>s. s) (identity_for_job example_job) \<noteq>
     identity_key (\<lambda>s. s) (identity_for_job (example_job\<lparr>j_location := Some ''Munich''\<rparr>)) \<and>
   identity_key (\<lambda>s. s) (identity_for_job example_job) =
     identity_key (\<lambda>s. s) (identity_for_job (example_job\<lparr>j_title := ''ENGINEER (m/f/d) - Req 12345''\<rparr>))"
proof -
  let ?b = "example_job\<lparr>j_location := Some ''Munich''\<rparr>" and ?c = "example_job\<lparr>j_title := ''ENGINEER (m/f/d) - Req 12345''\<rparr>"
  have ids: "identity_for_job example_job = \<lparr>oi_company = ''acme'', oi_title = ''engineer'', oi_location_bucket = ''berlin''\<rparr>"
    "identity_for_job ?b = \<lparr>oi_company = ''acme'', oi_title = ''engineer'', oi_location_bucket = ''munich''\<rparr>"
    "identity_for_job ?c = \<lparr>oi_company = ''acme'', oi_title = ''engineer'', oi_location_bucket = ''berlin''\<rparr>"
    by code_simp+
  show ?thesis
    using identity_raw_separates [of example_job ?b "\<lambda>s. s"] identity_raw_separates [of example_job ?c "\<lambda>s. s"] by (simp add: ids)
qed

text \<open>A vertical bar in the company name makes two different openings one: the company
  \<open>Acme|Data\<close> hiring an \<open>Engineer\<close> and the company \<open>Acme\<close> hiring a \<open>Data|Engineer\<close> get the same key,
  whatever the hash.\<close>

theorem identity_key_bar_collision:
  "identity_key sha256 (identity_for_job (j\<lparr>j_company := ''Acme|Data'', j_title := ''Engineer''\<rparr>)) =
     identity_key sha256 (identity_for_job (j\<lparr>j_company := ''Acme'', j_title := ''Data|Engineer''\<rparr>)) \<and>
   identity_for_job (j\<lparr>j_company := ''Acme|Data'', j_title := ''Engineer''\<rparr>) \<noteq>
     identity_for_job (j\<lparr>j_company := ''Acme'', j_title := ''Data|Engineer''\<rparr>)"
proof -
  have names: "collapse_ws (py_lower (py_strip ''Acme|Data'')) = ''acme|data''"
    "collapse_ws (py_lower (py_strip ''Acme'')) = ''acme''"
    "normalize_title_for_identity ''Engineer'' = ''engineer''"
    "normalize_title_for_identity ''Data|Engineer'' = ''data|engineer''"
    by code_simp+
  then show ?thesis by (simp add: identity_key_def identity_raw_def identity_for_job_def str_or_def)
qed

end
