(* ===== verification/Attempts.thy ===== *)
theory Attempts
  imports Cap_Ledger Identity
begin

text \<open>
  Application attempts as the scheduler sees them, \<^verbatim>\<open>app/scheduler/attempts.py\<close>: which attempts
  hold a cap slot, the cool-down and duplicate indexes, and the writes of \<^verbatim>\<open>AttemptRepository\<close>.
  The guarded transition interprets \<open>guarded_machine\<close>. The savepoint of \<^verbatim>\<open>reserve\<close> is modelled:
  on an integrity error the tables are the ones before the call, while the ledger object's cache
  of known periods, which no rollback touches, keeps what it learnt.
\<close>

section \<open>Reading attempts\<close>

definition APPLIED_STATES :: "opportunity_state set" where
  "APPLIED_STATES = {OS_SUBMITTED, OS_VERIFICATION_PENDING, OS_VERIFIED, OS_INTERVIEWING, OS_OFFER, OS_REJECTED}"

definition holds_slot :: "application_row \<Rightarrow> bool" where
  "holds_slot row \<longleftrightarrow> a_reserved_at row \<noteq> None \<and> a_released_at row = None"

definition is_submitted :: "application_row \<Rightarrow> bool" where
  "is_submitted row \<longleftrightarrow> a_status row \<in> SUBMITTED_STATUSES \<or> a_status row = AS_REJECTED"

definition is_in_flight :: "application_row \<Rightarrow> bool" where
  "is_in_flight row \<longleftrightarrow> a_status row \<in> IN_FLIGHT_STATUSES"

section \<open>The cool-down index\<close>

record cooldown_index =
  cd_until :: "string \<rightharpoonup> time"
  cd_source :: "string \<rightharpoonup> string"

definition empty_cooldown :: cooldown_index where
  "empty_cooldown = \<lparr>cd_until = Map.empty, cd_source = Map.empty\<rparr>"

definition cooldown_add :: "string \<Rightarrow> time option \<Rightarrow> int \<Rightarrow> string \<Rightarrow> cooldown_index \<Rightarrow> cooldown_index" where
  "cooldown_add company started n_days source idx =
     (case started of
        None \<Rightarrow> idx
      | Some t \<Rightarrow>
          if n_days \<le> 0 then idx
          else let key = company_key (Some company); ends = t + days n_days
               in if (case cd_until idx key of None \<Rightarrow> True | Some u \<Rightarrow> u < ends)
                  then idx\<lparr>cd_until := (cd_until idx)(key \<mapsto> ends), cd_source := (cd_source idx)(key \<mapsto> source)\<rparr>
                  else idx)"

definition active_until :: "cooldown_index \<Rightarrow> string \<Rightarrow> time \<Rightarrow> time option" where
  "active_until idx company now =
     (case cd_until idx (company_key (Some company)) of
        None \<Rightarrow> None
      | Some ends \<Rightarrow> if now < ends then Some ends else None)"

text \<open>\<^verbatim>\<open>build_indexes\<close>. The duplicate index is a dict of sets, here the list of its
  (key, opportunity id) pairs.\<close>

type_synonym duplicate_index = "(string \<times> string) list"

definition opt_or :: "'a option \<Rightarrow> 'a option \<Rightarrow> 'a option" where
  "opt_or x y = (case x of None \<Rightarrow> y | Some _ \<Rightarrow> x)"

definition index_attempt ::
  "(string \<rightharpoonup> opportunity_row) \<Rightarrow> int \<Rightarrow> string \<times> application_row \<Rightarrow>
   cooldown_index \<times> duplicate_index \<Rightarrow> cooldown_index \<times> duplicate_index" where
  "index_attempt opportunities n_days entry idx =
     (case opportunities (fst entry) of
        None \<Rightarrow> idx
      | Some opp \<Rightarrow>
          let row = snd entry; live = holds_slot row \<or> is_submitted row;
              cd = (if is_submitted row
                    then cooldown_add (o_company opp) (opt_or (opt_or (a_submitted_at row) (a_reserved_at row)) (Some (a_updated_at row)))
                           n_days ''submitted'' (fst idx)
                    else if holds_slot row then cooldown_add (o_company opp) (a_reserved_at row) n_days ''in_progress'' (fst idx)
                    else fst idx)
          in (cd, if live then (duplicate_key (o_company opp) (o_title opp), fst entry) # snd idx else snd idx))"

definition index_candidate ::
  "(string \<rightharpoonup> opportunity_row) \<Rightarrow> string set \<Rightarrow> int \<Rightarrow> candidate_opportunity_row \<Rightarrow>
   cooldown_index \<times> duplicate_index \<Rightarrow> cooldown_index \<times> duplicate_index" where
  "index_candidate opportunities attempted n_days co idx =
     (if co_state co \<in> APPLIED_STATES \<and> co_opportunity_id co \<notin> attempted
      then case opportunities (co_opportunity_id co) of
             None \<Rightarrow> idx
           | Some opp \<Rightarrow>
               (cooldown_add (o_company opp) (Some (co_state_changed_at co)) n_days ''state'' (fst idx),
                (duplicate_key (o_company opp) (o_title opp), co_opportunity_id co) # snd idx)
      else idx)"

definition build_indexes ::
  "(string \<times> application_row) list \<Rightarrow> (string \<rightharpoonup> opportunity_row) \<Rightarrow> candidate_opportunity_row list \<Rightarrow> int \<Rightarrow>
   cooldown_index \<times> duplicate_index" where
  "build_indexes attempts opportunities candidates n_days =
     fold (index_candidate opportunities (set (map fst attempts)) n_days) candidates
       (fold (index_attempt opportunities n_days) attempts (empty_cooldown, []))"

section \<open>Writes\<close>

definition get_for_opportunity :: "string \<Rightarrow> string \<Rightarrow> db \<Rightarrow> application_row option" where
  "get_for_opportunity tenant opportunity d =
     find (\<lambda>a. a_tenant_id a = Some tenant \<and> a_opportunity_id a = Some opportunity) (applications_t d)"

definition add_event ::
  "application_row \<Rightarrow> string \<Rightarrow> application_status option \<Rightarrow> application_status option \<Rightarrow> (string \<times> json) list \<Rightarrow> db \<Rightarrow> db" where
  "add_event row event_type from_status to_status metadata d =
     d\<lparr>events_t := events_t d @
       [\<lparr>ev_application_id = a_id row, ev_event_type = event_type, ev_from_status = from_status,
         ev_to_status = to_status, ev_metadata = metadata\<rparr>]\<rparr>"

definition flush_application :: "time \<Rightarrow> application_row \<Rightarrow> db \<Rightarrow> application_row \<times> db" where
  "flush_application now row d = (let row' = row\<lparr>a_updated_at := now\<rparr> in (row', put_application row' d))"

definition blank_application :: "string \<Rightarrow> string \<Rightarrow> time \<Rightarrow> application_row" where
  "blank_application new_id job now =
     \<lparr>a_id = new_id, a_job_id = job, a_tenant_id = None, a_opportunity_id = None, a_candidate_opportunity_id = None,
      a_preparation_id = None, a_attempt_number = 1, a_lane = None, a_tailoring_level = None, a_cap_day = None,
      a_cap_week = None, a_reserved_at = None, a_released_at = None, a_status = AS_DISCOVERED, a_status_reason = None,
      a_blocked_reason = None, a_submission_key = None, a_execution_count = 0, a_last_execution_id = None,
      a_submitted_at = None, a_verified_at = None, a_external_application_id = None, a_result_url = None,
      a_confirmation = None, a_adapter = None, a_dry_run = True, a_tailored_artifact_ids = [], a_updated_at = now\<rparr>"

text \<open>The two unique constraints a flushed attempt can violate, against the other rows of the
  table: \<^verbatim>\<open>job_id\<close>, and \<^verbatim>\<open>(tenant_id, opportunity_id)\<close>.\<close>

definition integrity_ok :: "application_row \<Rightarrow> db \<Rightarrow> bool" where
  "integrity_ok row d \<longleftrightarrow>
     (\<forall>a \<in> set (applications_t d). a_id a \<noteq> a_id row \<longrightarrow>
        a_job_id a \<noteq> a_job_id row \<and>
        \<not> (a_tenant_id row \<noteq> None \<and> a_opportunity_id row \<noteq> None \<and>
           a_tenant_id a = a_tenant_id row \<and> a_opportunity_id a = a_opportunity_id row))"

definition reserved_row ::
  "string \<Rightarrow> candidate_opportunity_row \<Rightarrow> opportunity_row \<Rightarrow> string \<Rightarrow> string \<Rightarrow> lane \<Rightarrow> tailoring_level \<Rightarrow>
   application_row option \<Rightarrow> string \<Rightarrow> string \<Rightarrow> time \<Rightarrow> application_row" where
  "reserved_row tenant co opp day week ln level existing job new_id now =
     (let row = (case existing of
                   None \<Rightarrow> (blank_application new_id job now)\<lparr>a_tenant_id := Some tenant, a_opportunity_id := Some (o_id opp),
                              a_candidate_opportunity_id := Some (co_id co), a_status := AS_QUALIFIED, a_attempt_number := 1\<rparr>
                 | Some r \<Rightarrow> r\<lparr>a_tenant_id := Some tenant, a_opportunity_id := Some (o_id opp),
                              a_candidate_opportunity_id := Some (co_id co), a_attempt_number := a_attempt_number r + 1,
                              a_status := AS_QUALIFIED, a_preparation_id := None, a_confirmation := None\<rparr>)
      in row\<lparr>a_lane := Some ln, a_tailoring_level := Some level, a_cap_day := Some day, a_cap_week := Some week,
             a_reserved_at := Some now, a_released_at := None, a_updated_at := now\<rparr>)"

text \<open>\<^verbatim>\<open>reserve\<close>: \<open>Inr (Inl row)\<close> is \<^verbatim>\<open>(row, None)\<close>, \<open>Inr (Inr reason)\<close> is \<^verbatim>\<open>(None, reason)\<close>. A missing
  canonical job violates the not-null constraint of \<^verbatim>\<open>job_id\<close>.\<close>

definition attempt_reserve ::
  "string \<Rightarrow> candidate_opportunity_row \<Rightarrow> opportunity_row \<Rightarrow> string \<Rightarrow> string \<Rightarrow> int \<Rightarrow> int \<Rightarrow> lane \<Rightarrow> tailoring_level \<Rightarrow>
   application_row option \<Rightarrow> string \<Rightarrow> string \<Rightarrow> time \<Rightarrow> period_cache \<Rightarrow> db \<Rightarrow>
   (application_row + admission_reason) result \<times> period_cache \<times> db" where
  "attempt_reserve tenant co opp day week day_cap week_cap ln level existing run_id new_id now ensured d =
     (let (reason, e1, d1) = cap_reserve tenant day week day_cap week_cap ensured d;
          conflict = (Inl (ConflictError ''attempt already exists for this opportunity''), e1, d)
      in case reason of
        Some r \<Rightarrow> (Inr (Inr r), e1, d1)
      | None \<Rightarrow>
         (case (existing, o_canonical_job_id opp) of
            (None, None) \<Rightarrow> conflict
          | (_, job) \<Rightarrow>
             let row = reserved_row tenant co opp day week ln level existing (case job of None \<Rightarrow> [] | Some j \<Rightarrow> j) new_id now
             in if \<not> integrity_ok row d1 then conflict
                else let d2 = (case existing of None \<Rightarrow> d1\<lparr>applications_t := applications_t d1 @ [row]\<rparr>
                                             | Some _ \<Rightarrow> put_application row d1)
                     in (Inr (Inl row), e1,
                         add_event row ''scheduled'' (map_option a_status existing) (Some (a_status row))
                           [(''run_id'', JStr run_id), (''cap_day'', JStr day), (''cap_week'', JStr week),
                            (''attempt'', JInt (a_attempt_number row))] d2)))"

definition mark_ready :: "application_row \<Rightarrow> string \<Rightarrow> string \<Rightarrow> time \<Rightarrow> db \<Rightarrow> bool \<times> application_row \<times> db" where
  "mark_ready row preparation_id run_id now d =
     (if a_status row = AS_READY \<and> a_preparation_id row = Some preparation_id then (False, row, d)
      else let (row', d1) = flush_application now (row\<lparr>a_status := AS_READY, a_preparation_id := Some preparation_id\<rparr>) d
           in (True, row', add_event row' ''prepared'' (Some (a_status row)) (Some AS_READY)
                 [(''run_id'', JStr run_id), (''preparation_id'', JStr preparation_id)] d1))"

definition mark_preparing ::
  "application_row \<Rightarrow> string option \<Rightarrow> string \<Rightarrow> string \<Rightarrow> time \<Rightarrow> db \<Rightarrow> bool \<times> application_row \<times> db" where
  "mark_preparing row preparation_id run_id note now d =
     (if a_status row = AS_PREPARING \<and> a_preparation_id row = preparation_id then (False, row, d)
      else let (row', d1) = flush_application now
                 (row\<lparr>a_status := AS_PREPARING,
                      a_preparation_id := (if truthy preparation_id then preparation_id else a_preparation_id row)\<rparr>) d
           in (True, row', add_event row' ''preparing'' (Some (a_status row)) (Some AS_PREPARING)
                 [(''run_id'', JStr run_id), (''note'', JStr note)] d1))"

text \<open>The effect of \<^verbatim>\<open>transition\<close> on the row; the row is unchanged when the status is.\<close>

definition attempt_move ::
  "string option \<Rightarrow> time \<Rightarrow> application_row \<Rightarrow> application_status \<Rightarrow> bool \<Rightarrow> application_row result" where
  "attempt_move reason now row new_status force =
     (if a_status row = new_status then Inr row
      else if \<not> force \<and> new_status \<notin> ATTEMPT_TRANSITIONS (a_status row)
      then Inl (ConflictError (''Illegal attempt transition '' @ application_status_value (a_status row) @ '' -> ''
                  @ application_status_value new_status))
      else Inr (row\<lparr>a_status := new_status, a_status_reason := clip_or_none 256 reason, a_updated_at := now\<rparr>))"

definition attempt_transition ::
  "application_row \<Rightarrow> application_status \<Rightarrow> string \<Rightarrow> string option \<Rightarrow> (string \<times> json) list \<Rightarrow> bool \<Rightarrow> time \<Rightarrow> db \<Rightarrow>
   (bool \<times> application_row \<times> db) result" where
  "attempt_transition row new_status actor reason metadata force now d =
     (if a_status row = new_status then Inr (False, row, d)
      else bind_result (attempt_move reason now row new_status force) (\<lambda>row'.
        Inr (True, row', add_event row' (''attempt:'' @ py_lower (application_status_value new_status))
               (Some (a_status row)) (Some new_status)
               ([(''actor'', JStr actor), (''reason'', j_opt_str reason)] @ metadata) (put_application row' d))))"

definition release_attempt ::
  "string \<Rightarrow> application_row \<Rightarrow> application_status \<Rightarrow> string \<Rightarrow> string \<Rightarrow> time \<Rightarrow> period_cache \<Rightarrow> db \<Rightarrow>
   application_row \<times> period_cache \<times> db" where
  "release_attempt tenant row status reason run_id now ensured d =
     (let event = (\<lambda>row' d'. add_event row' ''released'' (Some (a_status row)) (Some status)
                     [(''run_id'', JStr run_id), (''reason'', JStr reason)] d')
      in if \<not> holds_slot row
         then if a_status row \<noteq> status
              then let (row', d1) = flush_application now (row\<lparr>a_status := status, a_status_reason := Some (take 256 reason)\<rparr>) d
                   in (row', ensured, event row' d1)
              else (row, ensured, d)
         else let (e1, d1) = cap_release tenant (a_cap_day row) (a_cap_week row) ensured d;
                  (row', d2) = flush_application now
                    (row\<lparr>a_released_at := Some now, a_status := status, a_status_reason := Some (take 256 reason)\<rparr>) d1
              in (row', e1, event row' d2))"

section \<open>The transition is a guarded machine\<close>

definition attempt_allowed :: "application_status \<Rightarrow> application_status \<Rightarrow> bool" where
  "attempt_allowed s s' \<longleftrightarrow> s' \<in> ATTEMPT_TRANSITIONS s"

interpretation attempt_machine: guarded_machine a_status attempt_allowed "attempt_move reason now" for reason now
  by unfold_locales (auto simp: attempt_move_def attempt_allowed_def split: if_splits)

lemma attempt_transition_effect:
  "attempt_transition row s actor reason md force now d = Inr (changed, row', d') \<Longrightarrow>
     attempt_move reason now row s force = Inr row' \<and> a_status row' = s \<and> (changed \<longleftrightarrow> a_status row \<noteq> s) \<and>
     applications_t d' = (if changed then tbl_put a_id row' (applications_t d) else applications_t d) \<and>
     ledger_t d' = ledger_t d \<and> queue_t d' = queue_t d \<and> runs_t d' = runs_t d \<and> candidates_t d' = candidates_t d"
  by (auto simp: attempt_transition_def attempt_move_def add_event_def split: if_splits)

section \<open>Slots and attempts\<close>

text \<open>\<open>slots_held\<close> counts the attempts of a tenant that hold a slot of a period; the ledger covers
  them when no counter is below that number.\<close>

definition in_period :: "string \<Rightarrow> string \<times> string \<Rightarrow> application_row \<Rightarrow> bool" where
  "in_period t k a \<longleftrightarrow> a_tenant_id a = Some t \<and> holds_slot a \<and>
     ((fst k = DAY \<and> a_cap_day a = Some (snd k)) \<or> (fst k = WEEK \<and> a_cap_week a = Some (snd k)))"

definition slots_held :: "string \<Rightarrow> db \<Rightarrow> string \<times> string \<Rightarrow> nat" where
  "slots_held t d k = tbl_matches (in_period t k) (applications_t d)"

definition slots_covered :: "string \<Rightarrow> db \<Rightarrow> bool" where
  "slots_covered t d \<longleftrightarrow> (\<forall>k. int (slots_held t d k) \<le> cap_count t d k)"

definition applications_inv :: "db \<Rightarrow> bool" where
  "applications_inv d \<longleftrightarrow> distinct (map a_id (applications_t d))"

lemma matches_put:
  assumes "distinct (map key rows)" and "r \<in> set rows" and "key r' = key r"
  shows "tbl_matches p (tbl_put key r' rows) + (if p r then 1 else 0) = tbl_matches p rows + (if p r' then 1 else 0)"
  using assms
proof (induction rows)
  case (Cons a rows)
  show ?case
  proof (cases "key a = key r")
    case True
    have "\<And>x. x \<in> set rows \<Longrightarrow> key x \<noteq> key r" using Cons.prems(1) True by (metis distinct.simps(2) image_eqI list.simps(9) set_map)
    then have "tbl_put key r' rows = rows" using Cons.prems(3) by (simp add: tbl_put_def map_idI)
    moreover have "a = r" using Cons.prems True by (auto simp: rev_image_eqI)
    ultimately show ?thesis using Cons.prems(3) by (auto simp: tbl_put_def tbl_matches_def)
  next
    case False
    then show ?thesis using Cons by (auto simp: tbl_put_def tbl_matches_def)
  qed
qed simp

lemma ledger_frame [simp]:
  "cap_count t (put_application a d) k = cap_count t d k" "cap_count t (add_event a ev f u m d) k = cap_count t d k"
  "cap_count t (d\<lparr>applications_t := xs\<rparr>) k = cap_count t d k"
  "applications_t (add_event a ev f u m d) = applications_t d" "ledger_t (add_event a ev f u m d) = ledger_t d"
  by (simp_all add: cap_count_def cap_get_def add_event_def put_application_def)

lemma applications_ledger [simp]:
  "applications_t (snd (snd (cap_reserve t dk wk dc wc e d))) = applications_t d"
  "applications_t (snd (cap_release t day week e d)) = applications_t d"
  by (simp_all only: only_ledger_reads [OF reserve_only_ledger] only_ledger_reads [OF release_only_ledger])

lemma integrity_same_rows: "applications_t d = applications_t d' \<Longrightarrow> integrity_ok row d = integrity_ok row d'"
  by (simp add: integrity_ok_def)

lemma slots_held_put:
  assumes "applications_inv d" and "row \<in> set (applications_t d)" and "a_id row' = a_id row"
  shows "slots_held t (put_application row' d) k + (if in_period t k row then 1 else 0) =
    slots_held t d k + (if in_period t k row' then 1 else 0)"
  using matches_put [of a_id "applications_t d" row row'] assms
  by (simp add: slots_held_def applications_inv_def)

lemma slots_covered_put:
  assumes "slots_covered t d" and "applications_inv d" and "row \<in> set (applications_t d)" and "a_id row' = a_id row"
    and "\<And>k. in_period t k row' \<Longrightarrow> in_period t k row"
  shows "slots_covered t (put_application row' d)"
  unfolding slots_covered_def
proof
  fix k
  have "int (slots_held t d k) \<le> cap_count t d k" using assms(1) unfolding slots_covered_def by blast
  then show "int (slots_held t (put_application row' d) k) \<le> cap_count t (put_application row' d) k"
    using slots_held_put [OF assms(2-4), of t k] assms(5) [of k] by (auto split: if_splits)
qed

lemma slots_covered_cong:
  "slots_covered t d \<Longrightarrow> applications_t d' = applications_t d \<Longrightarrow> ledger_t d' = ledger_t d \<Longrightarrow> slots_covered t d'"
  by (simp add: slots_covered_def slots_held_def cap_count_def cap_get_def)

lemma applications_inv_put [simp]: "applications_inv (put_application r d) = applications_inv d"
  by (simp add: applications_inv_def)

lemma ledger_inv_cong: "ledger_t d' = ledger_t d \<Longrightarrow> ledger_inv d' = ledger_inv d"
  by (simp add: ledger_inv_def)

lemma reserved_row_fields:
  "in_period t k (reserved_row tenant co opp day week ln level existing job new_id now) \<longleftrightarrow>
     tenant = t \<and> (k = (DAY, day) \<or> k = (WEEK, week))"
  "existing = Some r \<Longrightarrow> a_id (reserved_row tenant co opp day week ln level existing job new_id now) = a_id r"
  "existing = None \<Longrightarrow> a_id (reserved_row tenant co opp day week ln level existing job new_id now) = new_id"
  "a_status (reserved_row tenant co opp day week ln level existing job new_id now) = AS_QUALIFIED"
  "a_submission_key (reserved_row tenant co opp day week ln level (Some r) job new_id now) = a_submission_key r"
  by (cases k; auto simp: in_period_def reserved_row_def Let_def holds_slot_def blank_application_def split: option.split)+

text \<open>What a granted reservation does to the tables.\<close>

lemma attempt_reserve_granted:
  assumes "attempt_reserve t co opp day week dc wc ln level existing run_id new_id now e d = (Inr (Inl row), e', d')"
  obtains d1 job where "cap_reserve t day week dc wc e d = (None, e', d1)"
    and "row = reserved_row t co opp day week ln level existing job new_id now"
    and "integrity_ok row d"
    and "applications_t d' = (case existing of None \<Rightarrow> applications_t d @ [row] | Some _ \<Rightarrow> tbl_put a_id row (applications_t d))"
    and "ledger_t d' = ledger_t d1"
proof -
  obtain reason e1 d1 where c: "cap_reserve t day week dc wc e d = (reason, e1, d1)" by (rule prod_cases3)
  have "applications_t d1 = applications_t d" using applications_ledger(1) [of t day week dc wc e d] by (simp add: c)
  then show ?thesis using assms that [of d1] integrity_same_rows [of d1 d]
    by (auto simp: attempt_reserve_def c Let_def split: option.splits if_splits)
qed

lemma attempt_reserve_covered:
  assumes "attempt_reserve t co opp day week dc wc ln level existing run_id new_id now e d = (Inr (Inl row), e', d')"
    and inv: "slots_covered t d" "applications_inv d" "ledger_inv d" and cache: "cache_ok t e d"
    and ex: "\<And>r. existing = Some r \<Longrightarrow> r \<in> set (applications_t d)"
    and fresh: "new_id \<notin> a_id ` set (applications_t d)"
  shows "slots_covered t d' \<and> applications_inv d' \<and> ledger_inv d' \<and>
    cap_count t d' (DAY, day) \<le> dc \<and> cap_count t d' (WEEK, week) \<le> wc"
proof -
  obtain d1 job where c: "cap_reserve t day week dc wc e d = (None, e', d1)"
    and row: "row = reserved_row t co opp day week ln level existing job new_id now"
    and apps: "applications_t d' = (case existing of None \<Rightarrow> applications_t d @ [row] | Some _ \<Rightarrow> tbl_put a_id row (applications_t d))"
    and led: "ledger_t d' = ledger_t d1" using attempt_reserve_granted [OF assms(1)] .
  note spec = cap_reserve_spec [OF inv(3) cache c]
  have cnt: "cap_count t d' k = cap_count t d k + (if k \<in> {(DAY, day), (WEEK, week)} then 1 else 0)" for k
    using spec(2) [of t k] led by (simp add: cap_count_def cap_get_def)
  have held: "slots_held t d' k \<le> slots_held t d k + (if k \<in> {(DAY, day), (WEEK, week)} then 1 else 0)" for k
  proof (cases existing)
    case None
    then show ?thesis using apps by (simp add: slots_held_def tbl_matches_def row reserved_row_fields(1))
  next
    case (Some r)
    have "slots_held t d' k = slots_held t (put_application row d) k" using apps Some by (simp add: slots_held_def)
    then show ?thesis
      using slots_held_put [OF inv(2) ex [OF Some], of row t k] Some
      by (auto simp: row reserved_row_fields(1,2) split: if_splits)
  qed
  have "slots_covered t d'" unfolding slots_covered_def
  proof
    fix k
    have "int (slots_held t d k) \<le> cap_count t d k" using inv(1) unfolding slots_covered_def by blast
    then show "int (slots_held t d' k) \<le> cap_count t d' k" using held [of k] cnt [of k] by (auto split: if_splits)
  qed
  moreover have "applications_inv d'"
    using inv(2) fresh apps by (cases existing) (auto simp: applications_inv_def row reserved_row_fields(3))
  moreover have "ledger_inv d'" using spec(3) led ledger_inv_cong by blast
  moreover have "cap_count t d (DAY, day) < dc" "cap_count t d (WEEK, week) < wc"
    using spec(1) by (auto simp: reserve_reason_def split: if_splits)
  ultimately show ?thesis using cnt [of "(DAY, day)"] cnt [of "(WEEK, week)"] by auto
qed

lemma release_attempt_covered:
  assumes inv: "slots_covered t d" "applications_inv d" "ledger_inv d" and cache: "cache_ok t e d"
    and row: "row \<in> set (applications_t d)" "a_tenant_id row = Some t"
    and res: "release_attempt t row status reason run_id now e d = (row', e', d')"
  shows "slots_covered t d' \<and> applications_inv d' \<and> ledger_inv d'"
proof (cases "holds_slot row")
  case False
  define new where "new = row\<lparr>a_status := status, a_status_reason := Some (take 256 reason), a_updated_at := now\<rparr>"
  have np: "\<not> in_period t k new" for k using False by (auto simp: new_def in_period_def holds_slot_def)
  have cov: "slots_covered t (put_application new d)"
    by (rule slots_covered_put [OF inv(1,2) row(1)]) (simp_all add: np, simp add: new_def)
  have "d' = d \<or> applications_t d' = applications_t (put_application new d) \<and> ledger_t d' = ledger_t d"
    using res False by (auto simp: release_attempt_def flush_application_def new_def Let_def split: if_splits)
  then show ?thesis
    using inv cov slots_covered_cong [OF cov, of d'] ledger_inv_cong [of d' d] applications_inv_put [of new d]
    by (auto simp: applications_inv_def)
next
  case True
  define new where "new = row\<lparr>a_released_at := Some now, a_status := status, a_status_reason := Some (take 256 reason), a_updated_at := now\<rparr>"
  define d1 where "d1 = snd (cap_release t (a_cap_day row) (a_cap_week row) e d)"
  note spec = cap_release_spec [OF inv(3) cache, where day = "a_cap_day row" and week = "a_cap_week row", folded d1_def]
  have d': "applications_t d' = applications_t (put_application new d)" "ledger_t d' = ledger_t d1"
    using res True
    by (auto simp: release_attempt_def flush_application_def new_def Let_def case_prod_unfold d1_def)
  have np: "\<not> in_period t k new" for k by (simp add: new_def in_period_def holds_slot_def)
  have "slots_covered t d'" unfolding slots_covered_def
  proof
    fix k
    have "int (slots_held t d k) \<le> cap_count t d k" using inv(1) unfolding slots_covered_def by blast
    moreover have "slots_held t d' k + (if in_period t k row then 1 else 0) = slots_held t d k"
      using slots_held_put [OF inv(2) row(1), of new t k] np d'(1) by (simp add: slots_held_def new_def)
    moreover have "cap_count t d' k = cap_count t d1 k" using d'(2) by (simp add: cap_count_def cap_get_def)
    moreover have "cap_count t d k - (if in_period t k row then 1 else 0) \<le> cap_count t d1 k"
      using spec(1) [of t k] row(2) True
      by (cases k) (auto simp: in_period_def truthy_def split: option.splits if_splits)
    ultimately show "int (slots_held t d' k) \<le> cap_count t d' k" by (auto split: if_splits)
  qed
  moreover have "applications_inv d'" using inv(2) d'(1) by (simp add: applications_inv_def)
  moreover have "ledger_inv d'" using spec(2) d'(2) ledger_inv_cong by blast
  ultimately show ?thesis by simp
qed

section \<open>Steps of the attempt repository\<close>

text \<open>One write of \<^verbatim>\<open>AttemptRepository\<close> for a tenant, on rows of the table; each worker has a cache that
  names existing rows only.\<close>

inductive attempt_step :: "string \<Rightarrow> db \<Rightarrow> db \<Rightarrow> bool" for tenant where
  reserve: "attempt_reserve tenant co opp day week dc wc ln level existing run_id new_id now e d = (Inr (Inl row), e', d') \<Longrightarrow>
     cache_ok tenant e d \<Longrightarrow> (\<And>r. existing = Some r \<Longrightarrow> r \<in> set (applications_t d)) \<Longrightarrow>
     new_id \<notin> a_id ` set (applications_t d) \<Longrightarrow> attempt_step tenant d d'"
| refuse: "attempt_reserve tenant co opp day week dc wc ln level existing run_id new_id now e d = (Inr (Inr reason), e', d') \<Longrightarrow>
     cache_ok tenant e d \<Longrightarrow> attempt_step tenant d d'"
| ready: "row \<in> set (applications_t d) \<Longrightarrow> mark_ready row prep run_id now d = (b, row', d') \<Longrightarrow> attempt_step tenant d d'"
| preparing: "row \<in> set (applications_t d) \<Longrightarrow> mark_preparing row prep run_id note now d = (b, row', d') \<Longrightarrow> attempt_step tenant d d'"
| transition: "row \<in> set (applications_t d) \<Longrightarrow>
     attempt_transition row s actor reason md force now d = Inr (b, row', d') \<Longrightarrow> attempt_step tenant d d'"
| release: "row \<in> set (applications_t d) \<Longrightarrow> a_tenant_id row = Some tenant \<Longrightarrow> cache_ok tenant e d \<Longrightarrow>
     release_attempt tenant row status reason run_id now e d = (row', e', d') \<Longrightarrow> attempt_step tenant d d'"

definition attempts_inv :: "string \<Rightarrow> db \<Rightarrow> bool" where
  "attempts_inv t d \<longleftrightarrow> slots_covered t d \<and> applications_inv d \<and> ledger_inv d"

text \<open>A write that keeps the slot columns.\<close>

lemma same_slot_inv:
  assumes "attempts_inv t d" and "row \<in> set (applications_t d)"
    and "applications_t d' = tbl_put a_id row' (applications_t d)" and "ledger_t d' = ledger_t d"
    and "a_id row' = a_id row" "a_tenant_id row' = a_tenant_id row" "a_reserved_at row' = a_reserved_at row"
      "a_released_at row' = a_released_at row" "a_cap_day row' = a_cap_day row" "a_cap_week row' = a_cap_week row"
  shows "attempts_inv t d'"
proof -
  have "in_period t k row' \<longleftrightarrow> in_period t k row" for k using assms(5-) by (simp add: in_period_def holds_slot_def)
  then have "slots_covered t (put_application row' d)"
    using assms slots_covered_put [of t d row row'] by (simp add: attempts_inv_def)
  then show ?thesis
    using assms slots_covered_cong [of t "put_application row' d" d'] ledger_inv_cong [of d' d] applications_inv_put [of row' d]
    by (simp add: attempts_inv_def applications_inv_def)
qed

lemma attempt_refuse_inv:
  assumes "attempt_reserve t co opp day week dc wc ln level existing run_id new_id now e d = (Inr (Inr reason), e', d')"
    and "cache_ok t e d" and "attempts_inv t d"
  shows "attempts_inv t d'"
proof -
  obtain r e1 d1 where c: "cap_reserve t day week dc wc e d = (r, e1, d1)" by (rule prod_cases3)
  have inv: "ledger_inv d" using assms(3) by (simp add: attempts_inv_def)
  have r: "r = Some reason" "d' = d1" using assms(1) by (auto simp: attempt_reserve_def c Let_def split: option.splits if_splits)
  have "cap_count t d1 k = cap_count t d k" for k using cap_reserve_spec(2) [OF inv assms(2) c, of t k] r by simp
  moreover have "applications_t d1 = applications_t d" using applications_ledger(1) [of t day week dc wc e d] by (simp add: c)
  ultimately show ?thesis
    using assms(3) cap_reserve_spec(3) [OF inv assms(2) c] r
    by (simp add: attempts_inv_def slots_covered_def slots_held_def applications_inv_def)
qed

lemma attempt_step_inv: "attempt_step t d d' \<Longrightarrow> attempts_inv t d \<Longrightarrow> attempts_inv t d'"
proof (induction rule: attempt_step.induct)
  case (reserve co opp day week dc wc ln level existing run_id new_id now e d row e' d')
  then show ?case using attempt_reserve_covered [OF reserve(1)] by (simp add: attempts_inv_def)
next
  case (refuse co opp day week dc wc ln level existing run_id new_id now e d reason e' d')
  then show ?case using attempt_refuse_inv by blast
next
  case (ready row d prep run_id now b row' d')
  show ?case
  proof (cases b)
    case True
    with ready(2) show ?thesis
      by (intro same_slot_inv [where row' = row', OF ready(3,1)])
        (auto simp: mark_ready_def flush_application_def Let_def split: if_splits)
  qed (use ready in \<open>auto simp: mark_ready_def flush_application_def Let_def split: if_splits\<close>)
next
  case (preparing row d prep run_id why now b row' d')
  show ?case
  proof (cases b)
    case True
    with preparing(2) show ?thesis
      by (intro same_slot_inv [where row' = row', OF preparing(3,1)])
        (auto simp: mark_preparing_def flush_application_def Let_def split: if_splits)
  qed (use preparing in \<open>auto simp: mark_preparing_def flush_application_def Let_def split: if_splits\<close>)
next
  case (transition row d s actor reason md force now b row' d')
  from attempt_transition_effect [OF transition(2)]
  have eff: "attempt_move reason now row s force = Inr row'" "b \<longleftrightarrow> a_status row \<noteq> s" "ledger_t d' = ledger_t d"
    "applications_t d' = (if b then tbl_put a_id row' (applications_t d) else applications_t d)" by auto
  show ?case
  proof (cases b)
    case True
    with eff show ?thesis
      by (intro same_slot_inv [where row' = row', OF transition(3,1)]) (auto simp: attempt_move_def split: if_splits)
  next
    case False
    with transition show ?thesis by (auto simp: attempt_transition_def split: if_splits)
  qed
next
  case (release row d e status reason run_id now row' e' d')
  then show ?case using release_attempt_covered [OF _ _ _ release(3,1,2,4)] by (simp add: attempts_inv_def)
qed

interpretation attempt_steps: step_system "attempt_step t" "attempts_inv t" for t
  by unfold_locales (rule attempt_step_inv)

section \<open>The cool-down index against its specification\<close>

definition covered :: "cooldown_index \<Rightarrow> string \<Rightarrow> time \<Rightarrow> bool" where
  "covered idx key now \<longleftrightarrow> (\<exists>u. cd_until idx key = Some u \<and> now < u)"

lemma active_until_covered: "active_until idx company now \<noteq> None \<longleftrightarrow> covered idx (company_key (Some company)) now"
  by (auto simp: active_until_def covered_def split: option.splits)

lemma covered_add:
  "covered (cooldown_add c st n src idx) key now \<longleftrightarrow>
     covered idx key now \<or> (key = company_key (Some c) \<and> 0 < n \<and> (\<exists>t. st = Some t \<and> now < t + days n))"
  by (auto simp: covered_def cooldown_add_def Let_def split: option.splits if_splits)

text \<open>When an attempt starts a cool-down, and the windows the index stands for.\<close>

definition attempt_start :: "application_row \<Rightarrow> time option" where
  "attempt_start row =
     (if is_submitted row then opt_or (opt_or (a_submitted_at row) (a_reserved_at row)) (Some (a_updated_at row))
      else if holds_slot row then a_reserved_at row else None)"

definition in_cooldown ::
  "(string \<times> application_row) list \<Rightarrow> (string \<rightharpoonup> opportunity_row) \<Rightarrow> candidate_opportunity_row list \<Rightarrow> int \<Rightarrow> string \<Rightarrow> time \<Rightarrow> bool" where
  "in_cooldown attempts opportunities candidates n_days company now \<longleftrightarrow> 0 < n_days \<and>
     ((\<exists>entry \<in> set attempts. \<exists>opp t. opportunities (fst entry) = Some opp \<and>
         company_key (Some company) = company_key (Some (o_company opp)) \<and>
         attempt_start (snd entry) = Some t \<and> now < t + days n_days) \<or>
      (\<exists>co \<in> set candidates. co_state co \<in> APPLIED_STATES \<and> co_opportunity_id co \<notin> set (map fst attempts) \<and>
         (\<exists>opp. opportunities (co_opportunity_id co) = Some opp \<and> company_key (Some company) = company_key (Some (o_company opp)) \<and>
         now < co_state_changed_at co + days n_days)))"

lemma covered_attempt:
  "covered (fst (index_attempt opps n entry idx)) key now \<longleftrightarrow>
     covered (fst idx) key now \<or> (0 < n \<and> (\<exists>opp t. opps (fst entry) = Some opp \<and> key = company_key (Some (o_company opp)) \<and>
       attempt_start (snd entry) = Some t \<and> now < t + days n))"
  by (auto simp: index_attempt_def attempt_start_def covered_add Let_def split: option.splits)

lemma covered_attempts:
  "covered (fst (fold (index_attempt opps n) attempts idx)) key now \<longleftrightarrow>
     covered (fst idx) key now \<or> (\<exists>entry \<in> set attempts. 0 < n \<and> (\<exists>opp t. opps (fst entry) = Some opp \<and>
       key = company_key (Some (o_company opp)) \<and> attempt_start (snd entry) = Some t \<and> now < t + days n))"
  by (induction attempts arbitrary: idx) (auto simp: covered_attempt)

lemma covered_candidate:
  "covered (fst (index_candidate opps att n co idx)) key now \<longleftrightarrow>
     covered (fst idx) key now \<or> (0 < n \<and> co_state co \<in> APPLIED_STATES \<and> co_opportunity_id co \<notin> att \<and>
       (\<exists>opp. opps (co_opportunity_id co) = Some opp \<and> key = company_key (Some (o_company opp)) \<and> now < co_state_changed_at co + days n))"
  by (auto simp: index_candidate_def covered_add split: option.splits)

lemma covered_candidates:
  "covered (fst (fold (index_candidate opps att n) cos idx)) key now \<longleftrightarrow>
     covered (fst idx) key now \<or> (\<exists>co \<in> set cos. 0 < n \<and> co_state co \<in> APPLIED_STATES \<and> co_opportunity_id co \<notin> att \<and>
       (\<exists>opp. opps (co_opportunity_id co) = Some opp \<and> key = company_key (Some (o_company opp)) \<and> now < co_state_changed_at co + days n))"
  by (induction cos arbitrary: idx) (auto simp: covered_candidate)

lemma covered_build:
  "covered (fst (build_indexes attempts opportunities candidates n_days)) (company_key (Some company)) now \<longleftrightarrow>
     in_cooldown attempts opportunities candidates n_days company now"
proof -
  have "\<not> covered empty_cooldown key now" for key by (simp add: covered_def empty_cooldown_def)
  then show ?thesis
    unfolding build_indexes_def in_cooldown_def covered_candidates covered_attempts fst_conv by blast
qed

text \<open>What is in the duplicate index when no candidates are given.\<close>

lemma duplicates_attempts:
  "(key, oid) \<in> set (snd (fold (index_attempt opps n) attempts idx)) \<longleftrightarrow>
     (key, oid) \<in> set (snd idx) \<or>
     (\<exists>row opp. (oid, row) \<in> set attempts \<and> opps oid = Some opp \<and> key = duplicate_key (o_company opp) (o_title opp) \<and>
        (holds_slot row \<or> is_submitted row))"
proof (induction attempts arbitrary: idx)
  case (Cons entry attempts)
  have "(key, oid) \<in> set (snd (index_attempt opps n entry idx)) \<longleftrightarrow> (key, oid) \<in> set (snd idx) \<or>
     (\<exists>opp. fst entry = oid \<and> opps oid = Some opp \<and> key = duplicate_key (o_company opp) (o_title opp) \<and>
        (holds_slot (snd entry) \<or> is_submitted (snd entry)))"
    by (auto simp: index_attempt_def Let_def split: option.splits)
  then show ?case unfolding fold_simps comp_def Cons.IH by (cases entry) auto
qed simp

lemma cooldown_key_cong:
  "company_key (Some a) = company_key (Some b) \<Longrightarrow> active_until idx a now = active_until idx b now"
  by (simp add: active_until_def)

text \<open>A sequence of unforced transitions of an attempt.\<close>

fun attempt_moves :: "string option \<Rightarrow> time \<Rightarrow> application_row \<Rightarrow> application_status list \<Rightarrow> application_row result" where
  "attempt_moves reason now row [] = Inr row"
| "attempt_moves reason now row (s # ss) =
     (case attempt_move reason now row s False of Inl e \<Rightarrow> Inl e | Inr row' \<Rightarrow> attempt_moves reason now row' ss)"

lemma attempt_moves_eq: "attempt_moves reason now row ss = attempt_machine.moves reason now row ss"
  by (induction ss arbitrary: row) (auto split: sum.split)

section \<open>Properties\<close>


text \<open>C27. A granted reservation respects both caps: afterwards at most \<open>daily_cap\<close> attempts hold a slot
  of the day and at most \<open>weekly_cap\<close> one of the week, and the new attempt is one of them, with the
  slot recorded on it.\<close>

theorem attempt_reserve_within_caps:
  assumes "attempt_reserve tenant co opp day week dcap wcap ln level existing run_id new_id now e d = (Inr (Inl row), e', d')"
    and "attempts_inv tenant d" and "cache_ok tenant e d"
    and "\<forall>r. existing = Some r \<longrightarrow> r \<in> set (applications_t d)" and "new_id \<notin> a_id ` set (applications_t d)"
  shows "int (slots_held tenant d' (DAY, day)) \<le> dcap \<and> int (slots_held tenant d' (WEEK, week)) \<le> wcap \<and>
    row \<in> set (applications_t d') \<and> a_status row = AS_QUALIFIED \<and>
    in_period tenant (DAY, day) row \<and> in_period tenant (WEEK, week) row"
proof -
  have c: "slots_covered tenant d' \<and> cap_count tenant d' (DAY, day) \<le> dcap \<and> cap_count tenant d' (WEEK, week) \<le> wcap"
    using attempt_reserve_covered [OF assms(1)] assms(2-) by (simp add: attempts_inv_def)
  then have "int (slots_held tenant d' (DAY, day)) \<le> dcap" "int (slots_held tenant d' (WEEK, week)) \<le> wcap"
    unfolding slots_covered_def by (meson order_trans)+
  moreover obtain d1 job where row: "row = reserved_row tenant co opp day week ln level existing job new_id now"
    and apps: "applications_t d' = (case existing of None \<Rightarrow> applications_t d @ [row] | Some _ \<Rightarrow> tbl_put a_id row (applications_t d))"
    using attempt_reserve_granted [OF assms(1)] by metis
  moreover have "row \<in> set (applications_t d')"
  proof (cases existing)
    case (Some r)
    then have "r \<in> set (applications_t d)" "a_id r = a_id row" using assms(4) row reserved_row_fields(2) [OF Some] by auto
    then show ?thesis using apps Some by (force simp: tbl_put_def)
  qed (simp add: apps)
  ultimately show ?thesis using reserved_row_fields(1,4) by simp
qed

text \<open>An attempt that may have reached the employer is never sent back for another submission by
  ordinary transitions: any sequence of allowed moves from \<open>UNCERTAIN\<close>, \<open>SUBMITTED\<close> or \<open>VERIFIED\<close> to
  \<open>SUBMITTING\<close> goes through \<open>NEEDS_REVIEW\<close> or \<open>CLOSED\<close>.\<close>

theorem submitted_attempt_needs_review_first:
  assumes "attempt_moves reason now row ss = Inr row'"
    and "a_status row \<in> {AS_UNCERTAIN, AS_SUBMITTED, AS_VERIFIED, AS_INTERVIEWING, AS_REJECTED}"
    and "a_status row' = AS_SUBMITTING"
  shows "AS_NEEDS_REVIEW \<in> set ss \<or> AS_CLOSED \<in> set ss"
proof (rule ccontr)
  let ?S = "{AS_UNCERTAIN, AS_SUBMITTED, AS_VERIFIED, AS_INTERVIEWING, AS_REJECTED}"
  assume no: "\<not> ?thesis"
  have "a_status row' \<in> ?S"
    by (rule attempt_machine.moves_avoiding [of ?S "{AS_NEEDS_REVIEW, AS_CLOSED}" reason now row ss row'])
      (use assms no in \<open>auto simp: attempt_allowed_def attempt_moves_eq\<close>)
  with assms(3) show False by simp
qed

text \<open>The cool-down index says what it should: a company is cooling down at a moment exactly
  when some opening at the same company (by company key) has a submitted attempt, an attempt
  still holding a slot, or, without an attempt, an applied candidate state, whose window of
  \<open>cooldown_days\<close> has not ended; at the exact end the company is allowed again.\<close>

theorem cooldown_index_exact:
  "(active_until (fst (build_indexes attempts opportunities candidates n_days)) company now \<noteq> None) =
     in_cooldown attempts opportunities candidates n_days company now"
  unfolding active_until_covered by (rule covered_build)

text \<open>A reservation that loses the race on the attempt row leaves the ledger object unusable for the
  day: the savepoint rolls the ledger row back but not the cache, so when it was the first
  reservation of the day every later one of the same repository object is refused with
  \<open>DAILY_CAP_REACHED\<close> although no slot is in use.\<close>

theorem attempt_conflict_poisons_ledger:
  assumes "attempt_reserve tenant co opp day week dcap wcap ln level None run_id new_id now e d = (Inl err, e', d')"
    and "cap_get tenant DAY day d = None" and "0 < dcap2" and "0 < wcap2"
  shows "d' = d \<and> cap_usage tenant DAY day d' = 0 \<and>
    fst (attempt_reserve tenant co2 opp2 day week dcap2 wcap2 ln2 level2 existing2 run_id new_id2 now2 e' d')
      = Inr (Inr AR_DAILY_CAP_REACHED)"
proof -
  obtain r e1 d1 where c: "cap_reserve tenant day week dcap wcap e d = (r, e1, d1)" by (rule prod_cases3)
  from assms(1) have st: "r = None" "e' = e1" "d' = d"
    by (auto simp: attempt_reserve_def c Let_def split: option.splits if_splits)
  have "(DAY, day) \<in> set e1"
    using c st(1) by (auto simp: cap_reserve_def cap_ensure_def Let_def case_prod_unfold split: if_splits)
  then have refuse: "fst (cap_reserve tenant day week dcap2 wcap2 e1 d) = Some AR_DAILY_CAP_REACHED"
    using stale_cache_refuses assms(2-4) by blast
  have "cap_usage tenant DAY day d = 0" using assms(2) by (simp add: cap_usage_def)
  then show ?thesis
    using refuse st by (auto simp: attempt_reserve_def Let_def case_prod_unfold)
qed

text \<open>Two tenants cannot both apply to one opening: the unique \<^verbatim>\<open>job_id\<close> of the attempts table makes
  a reservation fail with a conflict when another tenant's attempt already has the opening's
  canonical job, although the identity of an attempt is documented as (tenant, opportunity).\<close>

theorem attempt_reserve_other_tenant_conflict:
  assumes "a \<in> set (applications_t d)" and "a_tenant_id a \<noteq> Some tenant" and "o_canonical_job_id opp = Some (a_job_id a)"
    and "a_id a \<noteq> new_id" and "ledger_inv d" and "cache_ok tenant e d"
    and "0 < dcap" "0 < wcap" "cap_count tenant d (DAY, day) < dcap" "cap_count tenant d (WEEK, week) < wcap"
  shows "\<exists>m e'. attempt_reserve tenant co opp day week dcap wcap ln level None run_id new_id now e d = (Inl (ConflictError m), e', d)"
proof -
  obtain r e1 d1 where c: "cap_reserve tenant day week dcap wcap e d = (r, e1, d1)" by (rule prod_cases3)
  have "r = None" using cap_reserve_spec(1) [OF assms(5,6) c] assms(7-) by (simp add: reserve_reason_def)
  moreover have "applications_t d1 = applications_t d" using applications_ledger(1) [of tenant day week dcap wcap e d] by (simp add: c)
  then have "\<not> integrity_ok (reserved_row tenant co opp day week ln level None (a_job_id a) new_id now) d1"
    using assms(1,4) by (auto simp: integrity_ok_def reserved_row_def blank_application_def Let_def)
  ultimately show ?thesis using assms(3) by (simp add: attempt_reserve_def c Let_def)
qed

section \<open>Concrete instances\<close>

abbreviation example_reserve :: "db \<Rightarrow> (application_row + admission_reason) result \<times> period_cache \<times> db" where
  "example_reserve d \<equiv> attempt_reserve ''t1'' example_co example_opp ''2026-09-14'' ''2026-W38'' 2 10 LN_AUTO TL_L1 None ''run'' ''app-1'' 500 [] d"

definition example_attempt :: application_row where
  "example_attempt = reserved_row ''t1'' example_co example_opp ''2026-09-14'' ''2026-W38'' LN_AUTO TL_L1 None ''job-1'' ''app-1'' 500"

lemma example_reserve_granted: "\<exists>e' d'. example_reserve empty_db = (Inr (Inl example_attempt), e', d')"
proof -
  obtain r e1 d1 where c: "cap_reserve ''t1'' ''2026-09-14'' ''2026-W38'' 2 10 [] empty_db = (r, e1, d1)" by (rule prod_cases3)
  have "ledger_inv empty_db" "cache_ok ''t1'' [] empty_db" by (simp_all add: ledger_inv_def empty_db_def cache_ok_def)
  from cap_reserve_spec(1) [OF this c] have "r = None"
    by (simp add: reserve_reason_def cap_count_def cap_get_def empty_db_def)
  moreover have "applications_t d1 = []"
    using applications_ledger(1) [of "''t1''" "''2026-09-14''" "''2026-W38''" 2 10 "[]" empty_db] unfolding c by (simp add: empty_db_def)
  ultimately show ?thesis
    by (simp add: attempt_reserve_def c Let_def example_opp_def integrity_ok_def example_attempt_def)
qed

lemma attempts_inv_empty: "attempts_inv t empty_db" "cache_ok t [] d"
  by (simp_all add: attempts_inv_def slots_covered_def slots_held_def tbl_matches_def applications_inv_def
      ledger_inv_def cap_count_def cap_get_def empty_db_def cache_ok_def)


theorem attempt_reserve_within_caps_witness:
  "\<exists>e' d'. example_reserve empty_db = (Inr (Inl example_attempt), e', d') \<and> int (slots_held ''t1'' d' (DAY, ''2026-09-14'')) \<le> 2"
proof -
  obtain e' d' where r: "example_reserve empty_db = (Inr (Inl example_attempt), e', d')" using example_reserve_granted by blast
  have "''app-1'' \<notin> a_id ` set (applications_t empty_db)" by (simp add: empty_db_def)
  from attempt_reserve_within_caps [OF r attempts_inv_empty _ this] r show ?thesis by simp
qed

definition example_uncertain :: application_row where
  "example_uncertain = example_attempt\<lparr>a_status := AS_UNCERTAIN\<rparr>"

lemma example_moves:
  "\<exists>row'. attempt_moves None 900 example_uncertain [AS_NEEDS_REVIEW, AS_READY, AS_SUBMITTING] = Inr row' \<and> a_status row' = AS_SUBMITTING"
  by (simp add: attempt_move_def example_uncertain_def)

theorem submitted_attempt_needs_review_first_witness:
  "AS_NEEDS_REVIEW \<in> set [AS_NEEDS_REVIEW, AS_READY, AS_SUBMITTING] \<or> AS_CLOSED \<in> set [AS_NEEDS_REVIEW, AS_READY, AS_SUBMITTING]"
proof -
  obtain row' where r: "attempt_moves None 900 example_uncertain [AS_NEEDS_REVIEW, AS_READY, AS_SUBMITTING] = Inr row'"
    "a_status row' = AS_SUBMITTING" using example_moves by blast
  show ?thesis by (rule submitted_attempt_needs_review_first [OF r(1) _ r(2)]) (simp add: example_uncertain_def)
qed

definition example_taken :: db where
  "example_taken = empty_db\<lparr>applications_t := [example_attempt\<lparr>a_id := ''app-0'', a_tenant_id := Some ''t0''\<rparr>]\<rparr>"

lemma example_taken_facts:
  "cap_get ''t1'' kind key example_taken = None" "ledger_inv example_taken"
  "a \<in> set (applications_t example_taken) \<longleftrightarrow> a = example_attempt\<lparr>a_id := ''app-0'', a_tenant_id := Some ''t0''\<rparr>"
  "a_job_id example_attempt = ''job-1''"
  by (simp_all add: example_taken_def empty_db_def cap_get_def ledger_inv_def example_attempt_def reserved_row_def
      blank_application_def Let_def)

theorem attempt_reserve_other_tenant_conflict_witness:
  "\<exists>m e'. example_reserve example_taken = (Inl (ConflictError m), e', example_taken)"
  by (rule attempt_reserve_other_tenant_conflict [of "example_attempt\<lparr>a_id := ''app-0'', a_tenant_id := Some ''t0''\<rparr>"])
    (simp_all add: example_taken_facts attempts_inv_empty cap_count_def example_opp_def)

lemma example_conflict: "\<exists>err e' d'. example_reserve example_taken = (Inl err, e', d')"
proof -
  obtain r e1 d1 where c: "cap_reserve ''t1'' ''2026-09-14'' ''2026-W38'' 2 10 [] example_taken = (r, e1, d1)" by (rule prod_cases3)
  have "r = None" using cap_reserve_spec(1) [OF _ _ c] by (simp add: example_taken_facts attempts_inv_empty reserve_reason_def cap_count_def)
  moreover have "applications_t d1 = applications_t example_taken"
    using applications_ledger(1) [of "''t1''" "''2026-09-14''" "''2026-W38''" 2 10 "[]" example_taken] by (simp add: c)
  moreover have "\<not> integrity_ok example_attempt d1" using calculation(2)
    by (auto simp: integrity_ok_def example_taken_facts example_attempt_def reserved_row_def blank_application_def Let_def example_taken_def)
  ultimately show ?thesis by (simp add: attempt_reserve_def c Let_def example_opp_def example_attempt_def)
qed

theorem attempt_conflict_poisons_ledger_witness:
  "\<exists>err e' d'. example_reserve example_taken = (Inl err, e', d') \<and>
     fst (attempt_reserve ''t1'' example_co (example_opp\<lparr>o_id := ''opp-2'', o_canonical_job_id := Some ''job-2''\<rparr>)
       ''2026-09-14'' ''2026-W38'' 50 300 LN_AUTO TL_L1 None ''run'' ''app-2'' 501 e' d') = Inr (Inr AR_DAILY_CAP_REACHED)"
proof -
  obtain err e' d' where r: "example_reserve example_taken = (Inl err, e', d')" using example_conflict by blast
  from attempt_conflict_poisons_ledger [OF r example_taken_facts(1)] r show ?thesis by simp
qed

end
