(* ===== verification/Opportunity_Repo.thy ===== *)
theory Opportunity_Repo
  imports Attempts
begin

text \<open>
  \<^verbatim>\<open>OpportunityRepository\<close> of \<^verbatim>\<open>app/pipeline/repository.py\<close>: the shared opening a job row resolves to
  (new, known, reposted, closed) and the candidate's relationship with it (the guarded
  transition, the recorded eligibility, fit, priority and admission). The ids of inserted rows
  are parameters.
\<close>

section \<open>The candidate opportunity\<close>

definition j_opt_enum :: "('a \<Rightarrow> string) \<Rightarrow> 'a option \<Rightarrow> json" where
  "j_opt_enum value x = j_opt_str (map_option value x)"

definition co_snapshot :: "candidate_opportunity_row \<Rightarrow> (string \<times> json) list" where
  "co_snapshot row =
     [(''state'', JStr (opportunity_state_value (co_state row))),
      (''eligibility_status'', j_opt_enum eligibility_decision_value (co_eligibility_status row)),
      (''fit_score'', j_opt_int (co_fit_score row)), (''fit_band'', j_opt_enum fit_band_value (co_fit_band row)),
      (''priority_score'', j_opt_int (co_priority_score row)), (''application_id'', j_opt_str (co_application_id row)),
      (''policy_admitted'', j_opt_bool (co_policy_admitted row)), (''policy_reason'', j_opt_str (co_policy_reason row)),
      (''skipped_reason'', j_opt_str (co_skipped_reason row)), (''fit_policy_version'', j_opt_int (co_fit_policy_version row)),
      (''admission_policy_version'', j_opt_int (co_admission_policy_version row)),
      (''gate_ruleset_version'', j_opt_str (co_gate_ruleset_version row))]"

definition co_record ::
  "string \<Rightarrow> candidate_opportunity_row \<Rightarrow> candidate_opportunity_row \<Rightarrow> string \<Rightarrow> string \<Rightarrow> (string \<times> json) list \<Rightarrow> string option \<Rightarrow> db \<Rightarrow> db" where
  "co_record tenant old after action actor extra summary d =
     audit_record tenant ''candidate_opportunity'' (co_id after) action actor
       (Some (JObj (co_snapshot old))) (Some (JObj (co_snapshot after @ extra))) summary d"

text \<open>\<^verbatim>\<open>transition\<close> on the row.\<close>

definition co_move ::
  "string option \<Rightarrow> time \<Rightarrow> candidate_opportunity_row \<Rightarrow> opportunity_state \<Rightarrow> bool \<Rightarrow> candidate_opportunity_row result" where
  "co_move reason now row new_state force =
     (if co_state row = new_state then Inr row
      else if \<not> force \<and> new_state \<notin> ALLOWED_TRANSITIONS (co_state row)
      then Inl (ConflictError (''Illegal opportunity transition '' @ opportunity_state_value (co_state row) @ '' -> ''
                  @ opportunity_state_value new_state))
      else Inr (row\<lparr>co_state := new_state, co_state_changed_at := now,
                    co_skipped_reason := (if new_state = OS_SKIPPED then clip_or_none 256 reason
                                          else if co_state row = OS_SKIPPED then None else co_skipped_reason row)\<rparr>))"

definition co_transition ::
  "string \<Rightarrow> candidate_opportunity_row \<Rightarrow> opportunity_state \<Rightarrow> string \<Rightarrow> string option \<Rightarrow> bool \<Rightarrow> time \<Rightarrow> db \<Rightarrow>
   (candidate_opportunity_row \<times> db) result" where
  "co_transition tenant row new_state actor reason force now d =
     (if co_state row = new_state then Inr (row, d)
      else bind_result (co_move reason now row new_state force) (\<lambda>row'.
        Inr (row', co_record tenant row row' (''state:'' @ opportunity_state_value new_state) actor [] reason (put_candidate row' d))))"

definition for_opportunity :: "string \<Rightarrow> string \<Rightarrow> db \<Rightarrow> candidate_opportunity_row option" where
  "for_opportunity tenant opportunity d =
     find (\<lambda>r. co_tenant_id r = tenant \<and> co_opportunity_id r = opportunity) (candidates_t d)"

definition new_candidate :: "string \<Rightarrow> string \<Rightarrow> string \<Rightarrow> time \<Rightarrow> candidate_opportunity_row" where
  "new_candidate tenant opportunity new_id now =
     \<lparr>co_id = new_id, co_tenant_id = tenant, co_opportunity_id = opportunity, co_state = OS_DISCOVERED,
      co_eligibility_status = None, co_eligibility_decision_id = None, co_fit_score = None, co_fit_band = None,
      co_match_id = None, co_priority_score = None, co_priority_score_id = None, co_application_id = None,
      co_policy_admitted = None, co_policy_reason = None, co_skipped_reason = None, co_scheduler_code = None,
      co_scheduler_reason = None, co_scheduler_run_id = None, co_scheduler_decided_at = None,
      co_fit_policy_version = None, co_admission_policy_version = None, co_gate_ruleset_version = None,
      co_state_changed_at = now, co_last_evaluated_at = None\<rparr>"

definition ensure_candidate_opportunity ::
  "string \<Rightarrow> opportunity_row \<Rightarrow> string \<Rightarrow> string \<Rightarrow> time \<Rightarrow> db \<Rightarrow> candidate_opportunity_row \<times> bool \<times> db" where
  "ensure_candidate_opportunity tenant opp actor new_id now d =
     (case for_opportunity tenant (o_id opp) d of
        Some row \<Rightarrow> (row, False, d)
      | None \<Rightarrow>
          let row = new_candidate tenant (o_id opp) new_id now
          in (row, True, audit_record tenant ''candidate_opportunity'' new_id ''created'' actor None (Some (JObj (co_snapshot row))) None
                (d\<lparr>candidates_t := candidates_t d @ [row]\<rparr>)))"

section \<open>Eligibility, fit, priority, admission\<close>

primrec STATE_FOR_DECISION :: "eligibility_decision \<Rightarrow> opportunity_state" where
  "STATE_FOR_DECISION ED_ELIGIBLE = OS_ELIGIBLE"
| "STATE_FOR_DECISION ED_LIKELY = OS_ELIGIBLE"
| "STATE_FOR_DECISION ED_UNCERTAIN = OS_UNCERTAIN"
| "STATE_FOR_DECISION ED_REVIEW = OS_UNCERTAIN"
| "STATE_FOR_DECISION ED_INELIGIBLE = OS_INELIGIBLE"

definition eligibility_row :: "eligibility_decision \<Rightarrow> string \<Rightarrow> time \<Rightarrow> candidate_opportunity_row \<Rightarrow> candidate_opportunity_row" where
  "eligibility_row decision decision_id now row =
     (let row1 = row\<lparr>co_eligibility_status := Some decision, co_eligibility_decision_id := Some decision_id, co_last_evaluated_at := Some now\<rparr>;
          target = STATE_FOR_DECISION decision
      in if co_state row \<in> EVALUATION_STATES \<and> co_state row \<noteq> target
         then row1\<lparr>co_state := target, co_state_changed_at := now\<rparr> else row1)"

definition record_eligibility ::
  "string \<Rightarrow> candidate_opportunity_row \<Rightarrow> job_row \<Rightarrow> eligibility_decision \<Rightarrow> string \<Rightarrow> string list \<Rightarrow> json list \<Rightarrow> json list \<Rightarrow> json list \<Rightarrow>
   string \<Rightarrow> string \<Rightarrow> string \<Rightarrow> time \<Rightarrow> db \<Rightarrow> candidate_opportunity_row \<times> db" where
  "record_eligibility tenant row job decision confidence reason_codes matched failed uncertain ruleset_version actor decision_id now d =
     (let d1 = d\<lparr>decisions_t := decisions_t d @
            [\<lparr>ed_id = decision_id, ed_tenant_id = tenant, ed_candidate_opportunity_id = co_id row, ed_job_id = j_id job,
              ed_job_content_hash = j_content_hash job, ed_decision = decision, ed_confidence = confidence,
              ed_reason_codes = reason_codes, ed_matched_constraints = matched, ed_failed_constraints = failed,
              ed_uncertain_constraints = uncertain, ed_ruleset_version = ruleset_version, ed_evaluated_at = now\<rparr>]\<rparr>;
          row' = eligibility_row decision decision_id now row; d' = put_candidate row' d1
      in (row', if co_state row' \<noteq> co_state row \<or> co_eligibility_status row \<noteq> Some decision
                then co_record tenant row row' (''eligibility:'' @ eligibility_decision_value decision) actor []
                       (Some (take 512 (join_with '', '' reason_codes))) d'
                else d'))"

definition record_fit ::
  "string \<Rightarrow> candidate_opportunity_row \<Rightarrow> string \<Rightarrow> int option \<Rightarrow> fit_band option \<Rightarrow> string \<Rightarrow> int option \<Rightarrow> time \<Rightarrow> db \<Rightarrow>
   candidate_opportunity_row \<times> db" where
  "record_fit tenant row match_id fit_score band actor version now d =
     (let row' = row\<lparr>co_match_id := Some match_id, co_fit_score := fit_score, co_fit_band := band,
                     co_fit_policy_version := (case version of None \<Rightarrow> co_fit_policy_version row | Some v \<Rightarrow> Some v),
                     co_last_evaluated_at := Some now\<rparr>;
          d' = put_candidate row' d
      in (row', if co_fit_score row \<noteq> co_fit_score row' \<or> co_fit_band row \<noteq> co_fit_band row' \<or>
                   co_fit_policy_version row \<noteq> co_fit_policy_version row'
                then co_record tenant row row' ''fit'' actor [] None d' else d'))"

definition record_priority ::
  "string \<Rightarrow> candidate_opportunity_row \<Rightarrow> int \<Rightarrow> (string \<times> json) list \<Rightarrow> json \<Rightarrow> string \<Rightarrow> string \<Rightarrow> string \<Rightarrow> time \<Rightarrow> db \<Rightarrow>
   candidate_opportunity_row \<times> db" where
  "record_priority tenant row score components weights weights_version score_id actor now d =
     (let d1 = d\<lparr>scores_t := scores_t d @
            [\<lparr>ps_id = score_id, ps_tenant_id = tenant, ps_candidate_opportunity_id = co_id row, ps_score = score,
              ps_components = JObj (components @ [(''weights'', weights)]), ps_weights_version = weights_version,
              ps_computed_at = now\<rparr>]\<rparr>;
          row' = row\<lparr>co_priority_score := Some score, co_priority_score_id := Some score_id\<rparr>; d' = put_candidate row' d1
      in (row', if co_priority_score row \<noteq> Some score then co_record tenant row row' ''priority'' actor [] None d' else d'))"

definition record_admission ::
  "string \<Rightarrow> candidate_opportunity_row \<Rightarrow> bool \<Rightarrow> string \<Rightarrow> string \<Rightarrow> int option \<Rightarrow> string option \<Rightarrow> json option \<Rightarrow> db \<Rightarrow>
   candidate_opportunity_row \<times> db" where
  "record_admission tenant row admitted reason actor version ruleset gates d =
     (let row' = row\<lparr>co_policy_admitted := Some admitted, co_policy_reason := Some (take 256 reason),
                     co_admission_policy_version := (case version of None \<Rightarrow> co_admission_policy_version row | Some v \<Rightarrow> Some v),
                     co_gate_ruleset_version := (case ruleset of None \<Rightarrow> co_gate_ruleset_version row | Some v \<Rightarrow> Some v)\<rparr>;
          d' = put_candidate row' d
      in (row', if co_policy_admitted row \<noteq> Some admitted \<or> co_policy_reason row \<noteq> co_policy_reason row' \<or>
                   co_admission_policy_version row \<noteq> co_admission_policy_version row' \<or>
                   co_gate_ruleset_version row \<noteq> co_gate_ruleset_version row'
                then co_record tenant row row' ''admission'' actor
                       (case gates of None \<Rightarrow> [] | Some g \<Rightarrow> if g = JObj [] then [] else [(''gates'', g)]) (Some reason) d'
                else d'))"

section \<open>The shared opportunity\<close>

definition job_ended :: "job_row \<Rightarrow> bool" where
  "job_ended job \<longleftrightarrow> j_job_status job = ''CLOSED'' \<or> j_job_status job = ''EXPIRED''"

text \<open>\<^verbatim>\<open>_links_with_jobs\<close>: the jobs linked to an opportunity.\<close>

definition linked_jobs :: "string \<Rightarrow> db \<Rightarrow> job_row list" where
  "linked_jobs opportunity d =
     List.map_filter (\<lambda>l. if oj_opportunity_id l = opportunity then get_job d (oj_job_id l) else None) (opportunity_jobs_t d)"

definition seen_again :: "time \<Rightarrow> opportunity_row \<Rightarrow> opportunity_row" where
  "seen_again now opp =
     opp\<lparr>o_last_seen_at := now,
         o_company_key := (if truthy (o_company_key opp) then o_company_key opp else Some (company_key (Some (o_company opp))))\<rparr>"

definition relinked_row :: "job_row \<Rightarrow> time \<Rightarrow> opportunity_row \<Rightarrow> opportunity_row" where
  "relinked_row job now opp =
     (let opp1 = seen_again now opp;
          opp2 = (if j_deadline job \<noteq> None \<and> o_deadline opp1 = None then opp1\<lparr>o_deadline := j_deadline job\<rparr> else opp1)
      in if \<not> job_ended job \<and> o_status opp = OPP_CLOSED
         then opp2\<lparr>o_status := OPP_REPOSTED, o_repost_count := o_repost_count opp + 1, o_reposted_at := Some now\<rparr> else opp2)"

definition matched_row :: "job_row \<Rightarrow> bool \<Rightarrow> time \<Rightarrow> opportunity_row \<Rightarrow> opportunity_row" where
  "matched_row job is_repost now opp =
     (let opp1 = seen_again now opp;
          opp2 = (if j_deadline job \<noteq> None then opp1\<lparr>o_deadline := j_deadline job\<rparr> else opp1)
      in if is_repost
         then opp2\<lparr>o_repost_count := o_repost_count opp + 1, o_reposted_at := Some now, o_status := OPP_REPOSTED,
                   o_canonical_job_id := Some (j_id job)\<rparr>
         else if o_status opp = OPP_CLOSED then opp2\<lparr>o_status := OPP_OPEN\<rparr> else opp2)"

definition new_opportunity :: "(string \<Rightarrow> string) \<Rightarrow> job_row \<Rightarrow> string \<Rightarrow> time \<Rightarrow> opportunity_row" where
  "new_opportunity sha256 job new_id now =
     \<lparr>o_id = new_id, o_identity_key = identity_key sha256 (identity_for_job job), o_canonical_job_id = Some (j_id job),
      o_company = j_company job, o_company_key = Some (company_key (Some (j_company job))), o_title = j_title job,
      o_location_bucket = oi_location_bucket (identity_for_job job), o_status = OPP_OPEN,
      o_first_seen_at = (case j_first_seen_at job of Some t \<Rightarrow> t | None \<Rightarrow> now), o_last_seen_at = now,
      o_deadline = j_deadline job, o_repost_count = 0, o_reposted_at = None\<rparr>"

definition add_link :: "string \<Rightarrow> string \<Rightarrow> string \<Rightarrow> bool \<Rightarrow> db \<Rightarrow> db" where
  "add_link opportunity job linked_by is_repost d =
     d\<lparr>opportunity_jobs_t := opportunity_jobs_t d @
       [\<lparr>oj_opportunity_id = opportunity, oj_job_id = job, oj_linked_by = linked_by, oj_is_repost = is_repost\<rparr>]\<rparr>"

definition resolve_opportunity ::
  "(string \<Rightarrow> string) \<Rightarrow> job_row \<Rightarrow> string \<Rightarrow> time \<Rightarrow> db \<Rightarrow> opportunity_row \<times> bool \<times> string \<times> db" where
  "resolve_opportunity sha256 job new_id now d =
     (case (case find (\<lambda>l. oj_job_id l = j_id job) (opportunity_jobs_t d) of
              None \<Rightarrow> None | Some l \<Rightarrow> get_opportunity d (oj_opportunity_id l)) of
        Some opp \<Rightarrow>
          let opp' = relinked_row job now opp; reposted = \<not> job_ended job \<and> o_status opp = OPP_CLOSED;
              d1 = put_opportunity opp' d;
              d2 = (if reposted
                    then d1\<lparr>opportunity_jobs_t := map (\<lambda>l. if oj_job_id l = j_id job then l\<lparr>oj_is_repost := True\<rparr> else l) (opportunity_jobs_t d1)\<rparr>
                    else d1)
          in (opp', False, if reposted then ''repost'' else ''existing_link'', d2)
      | None \<Rightarrow>
         (case find (\<lambda>o'. o_identity_key o' = identity_key sha256 (identity_for_job job)) (opportunities_t d) of
            None \<Rightarrow>
              let opp = new_opportunity sha256 job new_id now
              in (opp, True, ''new'', add_link new_id (j_id job) ''new'' False (d\<lparr>opportunities_t := opportunities_t d @ [opp]\<rparr>))
          | Some opp \<Rightarrow>
              let is_repost = list_all job_ended (linked_jobs (o_id opp) d);
                  opp' = matched_row job is_repost now opp
              in (opp', False, if is_repost then ''repost'' else ''identity_key'',
                  put_opportunity opp' (add_link (o_id opp) (j_id job) ''identity_key'' is_repost d))))"

definition close_opportunity_if_all_jobs_closed :: "opportunity_row \<Rightarrow> db \<Rightarrow> bool \<times> opportunity_row \<times> db" where
  "close_opportunity_if_all_jobs_closed opp d =
     (let jobs = linked_jobs (o_id opp) d
      in if jobs \<noteq> [] \<and> list_all job_ended jobs
         then if o_status opp \<noteq> OPP_CLOSED
              then let opp' = opp\<lparr>o_status := OPP_CLOSED\<rparr> in (True, opp', put_opportunity opp' d)
              else (True, opp, d)
         else (False, opp, d))"

section \<open>Company cool-down\<close>

definition company_in_cooldown :: "string \<Rightarrow> string \<Rightarrow> int \<Rightarrow> time \<Rightarrow> db \<Rightarrow> bool" where
  "company_in_cooldown tenant company n_days now d =
     (if n_days \<le> 0 then False
      else let candidates = filter (\<lambda>c. co_tenant_id c = tenant \<and> get_opportunity d (co_opportunity_id c) \<noteq> None) (candidates_t d);
               opps = (\<lambda>oid. if oid \<in> set (map co_opportunity_id candidates)
                             then (case get_opportunity d oid of
                                     None \<Rightarrow> None
                                   | Some o' \<Rightarrow> if company_key (Some (o_company o')) = company_key (Some company) then Some o' else None)
                             else None);
               attempts = List.map_filter (\<lambda>a. case a_opportunity_id a of
                             None \<Rightarrow> None
                           | Some oid \<Rightarrow> if a_tenant_id a = Some tenant \<and> opps oid \<noteq> None then Some (oid, a) else None) (applications_t d)
           in active_until (fst (build_indexes attempts opps (filter (\<lambda>c. opps (co_opportunity_id c) \<noteq> None) candidates) n_days)) company now \<noteq> None)"

section \<open>The transition is a guarded machine\<close>

definition co_allowed :: "opportunity_state \<Rightarrow> opportunity_state \<Rightarrow> bool" where
  "co_allowed s s' \<longleftrightarrow> s' \<in> ALLOWED_TRANSITIONS s"

interpretation co_machine: guarded_machine co_state co_allowed "co_move reason now" for reason now
  by unfold_locales (auto simp: co_move_def co_allowed_def split: if_splits)

lemma co_transition_effect:
  "co_transition t row s actor reason force now d = Inr (row', d') \<Longrightarrow>
     co_state row' = s \<and> applications_t d' = applications_t d \<and> queue_t d' = queue_t d \<and> runs_t d' = runs_t d \<and>
     ledger_t d' = ledger_t d \<and> opportunities_t d' = opportunities_t d \<and> kill_switches_t d' = kill_switches_t d \<and>
     preparations_t d' = preparations_t d"
  by (auto simp: co_transition_def co_move_def co_record_def split: if_splits)

lemma evaluation_targets:
  "s \<in> EVALUATION_STATES \<Longrightarrow> s \<noteq> STATE_FOR_DECISION e \<Longrightarrow> STATE_FOR_DECISION e \<in> ALLOWED_TRANSITIONS s"
  by (cases e) (auto simp: EVALUATION_STATES_def)

lemma co_transition_forced: "\<exists>row' d'. co_transition t row s actor reason True now d = Inr (row', d')"
  by (auto simp: co_transition_def co_move_def)

fun co_moves :: "string option \<Rightarrow> time \<Rightarrow> candidate_opportunity_row \<Rightarrow> opportunity_state list \<Rightarrow> candidate_opportunity_row result" where
  "co_moves reason now row [] = Inr row"
| "co_moves reason now row (s # ss) =
     (case co_move reason now row s False of Inl e \<Rightarrow> Inl e | Inr row' \<Rightarrow> co_moves reason now row' ss)"

lemma co_moves_eq: "co_moves reason now row ss = co_machine.moves reason now row ss"
  by (induction ss arbitrary: row) (auto split: sum.split)

section \<open>Properties\<close>

text \<open>Once a candidate has applied, ordinary transitions never take the opportunity back before the
  submission: from \<open>SUBMITTED\<close> on, any sequence of allowed moves stays among the states after a
  submission, and \<open>CLOSED\<close> is final.\<close>

theorem applied_opportunity_stays_applied:
  assumes "co_moves reason now row ss = Inr row'"
  shows "(if co_state row = OS_CLOSED then co_state row' = OS_CLOSED
          else if co_state row \<in> APPLIED_STATES then co_state row' \<in> APPLIED_STATES \<union> {OS_CLOSED} else True)"
proof -
  have "co_state row = OS_CLOSED \<Longrightarrow> co_state row' \<in> {OS_CLOSED}"
    using assms by (intro co_machine.moves_closed [of "{OS_CLOSED}" reason now row ss row'])
      (auto simp: co_allowed_def co_moves_eq)
  moreover have "co_state row \<in> APPLIED_STATES \<union> {OS_CLOSED} \<Longrightarrow> co_state row' \<in> APPLIED_STATES \<union> {OS_CLOSED}"
    using assms by (intro co_machine.moves_closed [of "APPLIED_STATES \<union> {OS_CLOSED}" reason now row ss row'])
      (auto simp: co_allowed_def co_moves_eq APPLIED_STATES_def)
  ultimately show ?thesis by auto
qed

theorem applied_opportunity_stays_applied_witness:
  "\<exists>row'. co_moves None 5 (example_co\<lparr>co_state := OS_SUBMITTED\<rparr>) [OS_VERIFIED, OS_INTERVIEWING, OS_REJECTED] = Inr row' \<and>
     co_state row' \<in> APPLIED_STATES \<union> {OS_CLOSED}"
proof -
  obtain row' where r: "co_moves None 5 (example_co\<lparr>co_state := OS_SUBMITTED\<rparr>) [OS_VERIFIED, OS_INTERVIEWING, OS_REJECTED] = Inr row'"
    by (simp add: co_move_def)
  with applied_opportunity_stays_applied [OF r] show ?thesis by (auto simp: APPLIED_STATES_def)
qed

text \<open>Recording an eligibility decision moves a candidate opportunity only while it is still being
  evaluated, only along the transition table, and to the state the decision stands for; a later
  state (queued, submitted, skipped, closed) is never touched. The row always points at the decision
  just appended to the history.\<close>

theorem record_eligibility_moves_legally:
  assumes "record_eligibility tenant row job decision confidence codes ms fs us ruleset actor decision_id now d = (row', d')"
  shows "(if co_state row \<in> EVALUATION_STATES then co_state row' = STATE_FOR_DECISION decision else co_state row' = co_state row) \<and>
    (co_state row' = co_state row \<or> co_allowed (co_state row) (co_state row')) \<and>
    co_eligibility_status row' = Some decision \<and>
    (\<exists>e. decisions_t d' = decisions_t d @ [e] \<and> ed_decision e = decision \<and> co_eligibility_decision_id row' = Some (ed_id e))"
proof -
  have r: "row' = eligibility_row decision decision_id now row" using assms by (simp add: record_eligibility_def Let_def)
  have "\<exists>e. decisions_t d' = decisions_t d @ [e] \<and> ed_decision e = decision \<and> ed_id e = decision_id"
    using assms by (auto simp: record_eligibility_def Let_def co_record_def audit_record_def put_candidate_def)
  moreover have "co_eligibility_decision_id row' = Some decision_id" by (simp add: r eligibility_row_def Let_def)
  ultimately show ?thesis
    using evaluation_targets [of "co_state row" decision] by (auto simp: r eligibility_row_def co_allowed_def Let_def)
qed

theorem record_eligibility_moves_legally_witness:
  "co_state (fst (record_eligibility ''t1'' (example_co\<lparr>co_state := OS_DISCOVERED\<rparr>) example_job ED_LIKELY ''HIGH'' [] [] [] []
     ''r1'' ''a'' ''d1'' 5 empty_db)) = OS_ELIGIBLE"
proof -
  obtain r d where e: "record_eligibility ''t1'' (example_co\<lparr>co_state := OS_DISCOVERED\<rparr>) example_job ED_LIKELY ''HIGH'' [] [] [] []
     ''r1'' ''a'' ''d1'' 5 empty_db = (r, d)"
    by fastforce
  from record_eligibility_moves_legally [OF e] e show ?thesis by (simp add: EVALUATION_STATES_def)
qed

definition identity_inv :: "db \<Rightarrow> bool" where
  "identity_inv d \<longleftrightarrow> distinct (map o_id (opportunities_t d)) \<and>
     (\<forall>l \<in> set (opportunity_jobs_t d). get_opportunity d (oj_opportunity_id l) \<noteq> None)"

definition linked_to :: "job_row \<Rightarrow> db \<Rightarrow> opportunity_row option" where
  "linked_to job d =
     (case find (\<lambda>l. oj_job_id l = j_id job) (opportunity_jobs_t d) of
        None \<Rightarrow> None | Some l \<Rightarrow> get_opportunity d (oj_opportunity_id l))"

lemma linked_to_cases:
  "identity_inv d \<Longrightarrow> linked_to job d = None \<longleftrightarrow> find (\<lambda>l. oj_job_id l = j_id job) (opportunity_jobs_t d) = None"
  by (auto simp: linked_to_def identity_inv_def dest!: find_Some_in split: option.splits)

lemma resolve_linked:
  assumes "linked_to job d = Some opp" and "resolve_opportunity sha job new_id now d = (opp', created, how, d')"
  shows "\<not> created \<and> opp' = relinked_row job now opp \<and> opportunities_t d' = opportunities_t (put_opportunity opp' d)"
  using assms by (auto simp: resolve_opportunity_def linked_to_def Let_def)

lemma find_relink:
  "find (\<lambda>l. oj_job_id l = k) (map (\<lambda>l. if oj_job_id l = k then l\<lparr>oj_is_repost := True\<rparr> else l) ls) =
     map_option (\<lambda>l. l\<lparr>oj_is_repost := True\<rparr>) (find (\<lambda>l. oj_job_id l = k) ls)"
  by (induction ls) auto

lemma o_id_rows [simp]:
  "o_id (relinked_row job now opp) = o_id opp" "o_id (matched_row job b now opp) = o_id opp"
  "o_id (new_opportunity sha job i now) = i"
  by (simp_all add: relinked_row_def matched_row_def seen_again_def new_opportunity_def Let_def)

text \<open>After a resolution the job is linked to the opportunity it returned.\<close>

lemma resolve_links:
  assumes inv: "identity_inv d" and fresh: "new_id \<notin> o_id ` set (opportunities_t d)"
    and res: "resolve_opportunity sha job new_id now d = (opp, created, how, d')"
  shows "linked_to job d' = Some opp"
proof (cases "linked_to job d")
  case (Some o1)
  then obtain l where l: "find (\<lambda>l. oj_job_id l = j_id job) (opportunity_jobs_t d) = Some l" "get_opportunity d (oj_opportunity_id l) = Some o1"
    by (auto simp: linked_to_def split: option.splits)
  have o1: "oj_opportunity_id l = o_id o1" using l(2) opportunities.get_key by metis
  have opp: "opp = relinked_row job now o1" and tbl: "opportunities_t d' = opportunities_t (put_opportunity opp d)"
    using resolve_linked [OF Some res] by auto
  have get: "get_opportunity d' (o_id o1) = Some opp"
    using tbl l(2) opportunities.get_put_same [of d opp] by (simp add: get_opportunity_def opp o1)
  have "\<exists>l'. find (\<lambda>l. oj_job_id l = j_id job) (opportunity_jobs_t d') = Some l' \<and> oj_opportunity_id l' = o_id o1"
    using res Some l o1 by (auto simp: resolve_opportunity_def Let_def find_relink put_opportunity_def split: if_splits)
  then show ?thesis using get by (auto simp: linked_to_def)
next
  case None
  then have no: "find (\<lambda>l. oj_job_id l = j_id job) (opportunity_jobs_t d) = None" using linked_to_cases [OF inv] by simp
  let ?k = "\<lambda>o'. o_identity_key o' = identity_key sha (identity_for_job job)"
  show ?thesis
  proof (cases "find ?k (opportunities_t d)")
    case None
    then have "d' = add_link new_id (j_id job) ''new'' False (d\<lparr>opportunities_t := opportunities_t d @ [opp]\<rparr>)" "o_id opp = new_id"
      using res no by (auto simp: resolve_opportunity_def Let_def)
    moreover have "tbl_get o_id new_id (opportunities_t d) = None"
      using fresh by (auto simp: tbl_get_def find_None_iff)
    ultimately show ?thesis
      using no by (simp add: linked_to_def add_link_def find_append get_opportunity_def tbl_get_def)
  next
    case (Some o1)
    then have d': "d' = put_opportunity opp (add_link (o_id o1) (j_id job) ''identity_key'' (list_all job_ended (linked_jobs (o_id o1) d)) d)"
      and opp: "o_id opp = o_id o1"
      using res no by (auto simp: resolve_opportunity_def Let_def)
    have "o1 \<in> set (opportunities_t d)" using Some by (auto simp: find_Some_iff)
    then have "tbl_get o_id (o_id o1) (opportunities_t d) = Some o1" using inv tbl_get_distinct by (auto simp: identity_inv_def)
    then show ?thesis
      using no opp by (simp add: d' linked_to_def add_link_def put_opportunity_def find_append get_opportunity_def tbl_get_put)
  qed
qed

text \<open>C36. A job row keeps its opportunity: however a posting was resolved the first time (new
  opening, known opening, repost), resolving it again finds the same opportunity, creates
  none, and adds no row to the table.\<close>

theorem resolve_opportunity_stable:
  assumes "identity_inv d" and "new_id \<notin> o_id ` set (opportunities_t d)"
    and "resolve_opportunity sha256 job new_id now d = (opp, created, how, d1)"
    and "resolve_opportunity sha256 job2 new_id2 now2 d1 = (opp2, created2, how2, d2)" and "j_id job2 = j_id job"
  shows "\<not> created2 \<and> o_id opp2 = o_id opp \<and> map o_id (opportunities_t d2) = map o_id (opportunities_t d1)"
proof -
  have "linked_to job2 d1 = Some opp" using resolve_links [OF assms(1-3)] assms(5) by (simp add: linked_to_def)
  from resolve_linked [OF this assms(4)] show ?thesis by (auto simp: put_opportunity_def)
qed

theorem resolve_opportunity_stable_witness:
  "\<exists>opp d1 opp2 how2 d2. resolve_opportunity (\<lambda>s. s) example_job ''o-1'' 5 empty_db = (opp, True, ''new'', d1) \<and>
     resolve_opportunity (\<lambda>s. s) example_job ''o-2'' 6 d1 = (opp2, False, how2, d2) \<and> o_id opp2 = o_id opp"
proof -
  obtain opp d1 where r: "resolve_opportunity (\<lambda>s. s) example_job ''o-1'' 5 empty_db = (opp, True, ''new'', d1)"
    by (simp add: resolve_opportunity_def empty_db_def Let_def)
  obtain opp2 c2 how2 d2 where r2: "resolve_opportunity (\<lambda>s. s) example_job ''o-2'' 6 d1 = (opp2, c2, how2, d2)"
    by (rule prod_cases4)
  have "identity_inv empty_db" "''o-1'' \<notin> o_id ` set (opportunities_t empty_db)" by (simp_all add: identity_inv_def empty_db_def)
  from resolve_opportunity_stable [OF this r r2 refl] r r2 show ?thesis by auto
qed

end
