(* ===== verification/Gates.thy ===== *)
theory Gates
  imports Policy
begin

text \<open>
  The Tier-1 gate set, \<^verbatim>\<open>app/pipeline/gates.py\<close>, and the admission decision derived from it
  (\<^verbatim>\<open>evaluate_admission\<close> and \<^verbatim>\<open>_reason_for\<close> of \<^verbatim>\<open>app/pipeline/policy.py\<close>). The geography and role
  assessments are values the callers pass in; the gates read the fields modelled here.
\<close>

section \<open>Gates and reports\<close>

datatype gate =
    CANDIDATE_SKIP
  | OPENING_OPEN
  | EVALUATED
  | HARD_ELIGIBILITY
  | MINIMUM_ELIGIBILITY
  | COMPANY_BLOCKLIST
  | GEOGRAPHY
  | ROLE_RELEVANCE
  | FIT_SCORED
  | BAND_ENABLED
  | FIT_FLOOR
  | NOT_ALREADY_SUBMITTED
  | NO_DUPLICATE_APPLICATION
  | CANDIDATE_INFO_COMPLETE
  | EVIDENCE_RESOLVED
  | APPLICATION_SUPPORTED

primrec gate_value :: "gate \<Rightarrow> string" where
  "gate_value CANDIDATE_SKIP = ''CANDIDATE_SKIP''"
| "gate_value OPENING_OPEN = ''OPENING_OPEN''"
| "gate_value EVALUATED = ''EVALUATED''"
| "gate_value HARD_ELIGIBILITY = ''HARD_ELIGIBILITY''"
| "gate_value MINIMUM_ELIGIBILITY = ''MINIMUM_ELIGIBILITY''"
| "gate_value COMPANY_BLOCKLIST = ''COMPANY_BLOCKLIST''"
| "gate_value GEOGRAPHY = ''GEOGRAPHY''"
| "gate_value ROLE_RELEVANCE = ''ROLE_RELEVANCE''"
| "gate_value FIT_SCORED = ''FIT_SCORED''"
| "gate_value BAND_ENABLED = ''BAND_ENABLED''"
| "gate_value FIT_FLOOR = ''FIT_FLOOR''"
| "gate_value NOT_ALREADY_SUBMITTED = ''NOT_ALREADY_SUBMITTED''"
| "gate_value NO_DUPLICATE_APPLICATION = ''NO_DUPLICATE_APPLICATION''"
| "gate_value CANDIDATE_INFO_COMPLETE = ''CANDIDATE_INFO_COMPLETE''"
| "gate_value EVIDENCE_RESOLVED = ''EVIDENCE_RESOLVED''"
| "gate_value APPLICATION_SUPPORTED = ''APPLICATION_SUPPORTED''"

record gate_spec =
  gs_gate :: gate
  gs_code :: admission_reason
  gs_parameter :: "string option"
  gs_static :: bool

definition GATE_RULESET_VERSION :: string where
  "GATE_RULESET_VERSION = ''tier1-gates-v3''"

definition spec_of :: "gate \<Rightarrow> admission_reason \<Rightarrow> string option \<Rightarrow> bool \<Rightarrow> gate_spec" where
  "spec_of g c p s = \<lparr>gs_gate = g, gs_code = c, gs_parameter = p, gs_static = s\<rparr>"

definition GATE_CATALOG :: "gate_spec list" where
  "GATE_CATALOG =
     [spec_of CANDIDATE_SKIP AR_USER_BLOCKED None True,
      spec_of OPENING_OPEN AR_OPPORTUNITY_CLOSED None True,
      spec_of EVALUATED AR_NOT_EVALUATED None True,
      spec_of HARD_ELIGIBILITY AR_INELIGIBLE None True,
      spec_of MINIMUM_ELIGIBILITY AR_BELOW_MINIMUM_ELIGIBILITY (Some ''minimum_eligibility'') True,
      spec_of COMPANY_BLOCKLIST AR_COMPANY_BLOCKED (Some ''blocked_companies'') True,
      spec_of GEOGRAPHY AR_OUTSIDE_TARGET_GEOGRAPHY None True,
      spec_of ROLE_RELEVANCE AR_IRRELEVANT_ROLE None True,
      spec_of FIT_SCORED AR_NOT_SCORED None True,
      spec_of BAND_ENABLED AR_BAND_DISABLED (Some ''enabled_bands'') True,
      spec_of FIT_FLOOR AR_BELOW_FIT_THRESHOLD (Some ''minimum_fit_score'') True,
      spec_of NOT_ALREADY_SUBMITTED AR_ALREADY_SUBMITTED (Some ''duplicate_policy'') False,
      spec_of NO_DUPLICATE_APPLICATION AR_DUPLICATE_APPLICATION (Some ''duplicate_policy'') False,
      spec_of CANDIDATE_INFO_COMPLETE AR_NEEDS_USER_INPUT None False,
      spec_of EVIDENCE_RESOLVED AR_NEEDS_REVIEW None False,
      spec_of APPLICATION_SUPPORTED AR_NEEDS_REVIEW None False]"

definition STATIC_GATES :: "gate_spec list" where
  "STATIC_GATES = filter gs_static GATE_CATALOG"

record gate_result =
  gr_gate :: gate
  gr_passed :: bool
  gr_code :: admission_reason
  gr_detail :: string

record gate_report =
  rep_ruleset_version :: string
  rep_policy_version :: int
  rep_results :: "gate_result list"

definition report_passed :: "gate_report \<Rightarrow> bool" where
  "report_passed r = list_all gr_passed (rep_results r)"

definition report_failed :: "gate_report \<Rightarrow> gate_result option" where
  "report_failed r = find (\<lambda>g. \<not> gr_passed g) (rep_results r)"

definition report_code :: "gate_report \<Rightarrow> admission_reason" where
  "report_code r = (case report_failed r of Some g \<Rightarrow> gr_code g | None \<Rightarrow> AR_ADMITTED)"

text \<open>\<^verbatim>\<open>to_dict\<close> of a result and of a report, as stored with a recorded admission.\<close>

definition gate_result_to_dict :: "gate_result \<Rightarrow> json" where
  "gate_result_to_dict r = JObj
     [(''gate'', JStr (gate_value (gr_gate r))), (''passed'', JBool (gr_passed r)),
      (''code'', JStr (admission_reason_value (gr_code r))), (''detail'', JStr (gr_detail r))]"

definition report_to_dict :: "gate_report \<Rightarrow> json" where
  "report_to_dict r = JObj
     [(''ruleset_version'', JStr (rep_ruleset_version r)), (''policy_version'', JInt (rep_policy_version r)),
      (''passed'', JBool (report_passed r)),
      (''failed_gate'', case report_failed r of Some g \<Rightarrow> JStr (gate_value (gr_gate g)) | None \<Rightarrow> JNull),
      (''gates'', JList (map gate_result_to_dict (rep_results r)))]"

section \<open>What the gates read\<close>

datatype geo_tier =
    GT_PRIMARY
  | GT_SECONDARY
  | GT_INTERNATIONAL
  | GT_UNCONFIRMED
  | GT_EXCLUDED
  | GT_NO_TARGET

primrec geo_tier_value :: "geo_tier \<Rightarrow> string" where
  "geo_tier_value GT_PRIMARY = ''PRIMARY''"
| "geo_tier_value GT_SECONDARY = ''SECONDARY''"
| "geo_tier_value GT_INTERNATIONAL = ''INTERNATIONAL''"
| "geo_tier_value GT_UNCONFIRMED = ''UNCONFIRMED''"
| "geo_tier_value GT_EXCLUDED = ''EXCLUDED''"
| "geo_tier_value GT_NO_TARGET = ''NO_TARGET''"

record geo_assessment =
  ga_tier :: geo_tier
  ga_in_policy :: bool
  ga_detail :: string

datatype relevance =
    RELEVANT
  | ADJACENT
  | UNKNOWN_RELEVANCE
  | WEAK
  | UNRELATED
  | NOT_ASSESSED

primrec relevance_value :: "relevance \<Rightarrow> string" where
  "relevance_value RELEVANT = ''RELEVANT''"
| "relevance_value ADJACENT = ''ADJACENT''"
| "relevance_value UNKNOWN_RELEVANCE = ''UNKNOWN''"
| "relevance_value WEAK = ''WEAK''"
| "relevance_value UNRELATED = ''UNRELATED''"
| "relevance_value NOT_ASSESSED = ''NOT_ASSESSED''"

record role_assessment =
  ra_relevance :: relevance
  ra_family :: string
  ra_detail :: string
  ra_in_policy :: bool

definition ra_label :: "role_assessment \<Rightarrow> string" where
  "ra_label r = relevance_value (ra_relevance r) @ '' '' @ ra_family r"

definition gate_result_of :: "gate \<Rightarrow> bool \<Rightarrow> admission_reason \<Rightarrow> string \<Rightarrow> gate_result" where
  "gate_result_of g p c det = \<lparr>gr_gate = g, gr_passed = p, gr_code = c, gr_detail = det\<rparr>"

definition below_minimum :: "application_policy \<Rightarrow> eligibility_decision option \<Rightarrow> bool" where
  "below_minimum policy decision =
     (case decision of
        None \<Rightarrow> False
      | Some e \<Rightarrow> e \<noteq> ED_INELIGIBLE \<and> ELIGIBILITY_RANK e < ELIGIBILITY_RANK (minimum_eligibility policy))"

definition company_blocked :: "application_policy \<Rightarrow> string option \<Rightarrow> bool" where
  "company_blocked policy company \<longleftrightarrow>
     truthy company \<and> company_key company \<in> set (map (\<lambda>c. company_key (Some c)) (blocked_companies policy))"

definition below_floor :: "application_policy \<Rightarrow> int option \<Rightarrow> bool" where
  "below_floor policy fit_score =
     (case (minimum_fit_score policy, fit_score) of (Some fl, Some s) \<Rightarrow> s < fl | _ \<Rightarrow> False)"

definition show_opt_int :: "int option \<Rightarrow> string" where
  "show_opt_int x = (case x of None \<Rightarrow> ''None'' | Some n \<Rightarrow> show_int n)"

definition evaluate_gates ::
  "application_policy \<Rightarrow> eligibility_decision option \<Rightarrow> fit_band option \<Rightarrow> string option \<Rightarrow> int option \<Rightarrow>
   opportunity_status option \<Rightarrow> opportunity_state option \<Rightarrow> geo_assessment option \<Rightarrow> role_assessment option \<Rightarrow> gate_report" where
  "evaluate_gates policy decision fit_band company fit_score opportunity_status candidate_state geography role =
     (let skipped = candidate_state = Some OS_SKIPPED;
          closed = opportunity_status = Some OPP_CLOSED \<or> candidate_state = Some OS_CLOSED;
          evaluated = decision \<noteq> None;
          ineligible = decision = Some ED_INELIGIBLE;
          below_min = below_minimum policy decision;
          dval = (case decision of None \<Rightarrow> [] | Some e \<Rightarrow> eligibility_decision_value e);
          mval = eligibility_decision_value (minimum_eligibility policy);
          blocked = company_blocked policy company;
          outside = (case geography of None \<Rightarrow> False | Some g \<Rightarrow> \<not> ga_in_policy g);
          detail = (case geography of None \<Rightarrow> ''n/a (no location assessment)''
                    | Some g \<Rightarrow> geo_tier_value (ga_tier g) @ '': '' @ ga_detail g);
          irrelevant = (case role of None \<Rightarrow> False | Some r \<Rightarrow> \<not> ra_in_policy r);
          role_detail = (case role of None \<Rightarrow> ''n/a (no role assessment)'' | Some r \<Rightarrow> ra_label r @ '': '' @ ra_detail r);
          scored = fit_band \<noteq> None;
          bval = (case fit_band of None \<Rightarrow> [] | Some b \<Rightarrow> fit_band_value b);
          band_off = (case fit_band of None \<Rightarrow> False | Some b \<Rightarrow> b \<notin> set (enabled_bands policy));
          is_below = below_floor policy fit_score
      in \<lparr>rep_ruleset_version = GATE_RULESET_VERSION, rep_policy_version = policy_version policy, rep_results =
         [gate_result_of CANDIDATE_SKIP (\<not> skipped) AR_USER_BLOCKED
            (if skipped then ''skipped by the candidate'' else ''not skipped''),
          gate_result_of OPENING_OPEN (\<not> closed) AR_OPPORTUNITY_CLOSED
            (if closed then ''opening is closed at the source'' else ''open''),
          gate_result_of EVALUATED evaluated AR_NOT_EVALUATED
            (if \<not> evaluated then ''no Tier 1 decision yet'' else ''decision '' @ dval),
          gate_result_of HARD_ELIGIBILITY (\<not> ineligible) AR_INELIGIBLE
            (if ineligible then ''INELIGIBLE'' else if \<not> evaluated then ''n/a (not evaluated)'' else ''not ineligible''),
          gate_result_of MINIMUM_ELIGIBILITY (\<not> below_min) AR_BELOW_MINIMUM_ELIGIBILITY
            (if below_min then dval @ '' is below minimum_eligibility='' @ mval
             else if \<not> evaluated \<or> ineligible then ''n/a'' else dval @ '' >= '' @ mval),
          gate_result_of COMPANY_BLOCKLIST (\<not> blocked) AR_COMPANY_BLOCKED
            (if blocked then ''company is on the blocklist'' else ''not blocked''),
          gate_result_of GEOGRAPHY (\<not> outside) AR_OUTSIDE_TARGET_GEOGRAPHY (take 300 detail),
          gate_result_of ROLE_RELEVANCE (\<not> irrelevant) AR_IRRELEVANT_ROLE (take 300 role_detail),
          gate_result_of FIT_SCORED scored AR_NOT_SCORED
            (if \<not> scored then ''no fit score / band yet''
             else ''band '' @ bval @ (case fit_score of None \<Rightarrow> [] | Some s \<Rightarrow> '', score '' @ show_int s)),
          gate_result_of BAND_ENABLED (\<not> band_off) AR_BAND_DISABLED
            (if band_off then ''band '' @ bval @ '' is disabled by the policy''
             else if \<not> scored then ''n/a'' else ''band '' @ bval @ '' enabled''),
          gate_result_of FIT_FLOOR (\<not> is_below) AR_BELOW_FIT_THRESHOLD
            (if is_below then ''fit '' @ show_opt_int fit_score @ '' < minimum_fit_score '' @ show_opt_int (minimum_fit_score policy)
             else if minimum_fit_score policy = None then ''no floor set''
             else ''fit '' @ show_opt_int fit_score @ '' >= '' @ show_opt_int (minimum_fit_score policy))]\<rparr>)"

section \<open>Admission\<close>

record admission =
  ad_admitted :: bool
  ad_reason :: string
  ad_lane :: "lane option"
  ad_tailoring_level :: "tailoring_level option"
  ad_code :: admission_reason
  ad_gates :: "gate_report option"

definition replace_char :: "char \<Rightarrow> char \<Rightarrow> string \<Rightarrow> string" where
  "replace_char a b s = map (\<lambda>c. if c = a then b else c) s"

text \<open>\<^verbatim>\<open>_reason_for\<close>; \<open>None\<close> is the \<^verbatim>\<open>AttributeError\<close> of \<^verbatim>\<open>.value\<close> on a missing decision or band.\<close>

definition reason_for ::
  "gate_report \<Rightarrow> eligibility_decision option \<Rightarrow> fit_band option \<Rightarrow> int option \<Rightarrow> application_policy \<Rightarrow> string option" where
  "reason_for report decision fit_band fit_score policy =
     (let dval = map_option eligibility_decision_value decision; bval = map_option fit_band_value fit_band
      in case report_failed report of
        None \<Rightarrow> (case (dval, bval) of (Some dv, Some b) \<Rightarrow> Some (''admitted:'' @ dv @ '':'' @ b) | _ \<Rightarrow> None)
      | Some g \<Rightarrow>
         (case gr_code g of
            AR_NOT_EVALUATED \<Rightarrow> Some ''not_evaluated''
          | AR_INELIGIBLE \<Rightarrow> Some ''ineligible''
          | AR_BELOW_MINIMUM_ELIGIBILITY \<Rightarrow> map_option (\<lambda>dv. ''below_minimum_eligibility:'' @ dv) dval
          | AR_COMPANY_BLOCKED \<Rightarrow> Some ''company_blocked''
          | AR_OUTSIDE_TARGET_GEOGRAPHY \<Rightarrow>
              Some (''outside_target_geography:'' @ takeWhile (\<lambda>c. c \<noteq> CHR '':'') (gr_detail g))
          | AR_IRRELEVANT_ROLE \<Rightarrow>
              Some (''irrelevant_role:'' @ replace_char (CHR '' '') (CHR ''/'') (takeWhile (\<lambda>c. c \<noteq> CHR '':'') (gr_detail g)))
          | AR_NOT_SCORED \<Rightarrow> Some ''not_scored''
          | AR_BAND_DISABLED \<Rightarrow> map_option (\<lambda>b. ''band_disabled:'' @ b) bval
          | AR_BELOW_FIT_THRESHOLD \<Rightarrow>
              Some (''below_fit_threshold:'' @ show_opt_int fit_score @ ''<'' @ show_opt_int (minimum_fit_score policy))
          | AR_OPPORTUNITY_CLOSED \<Rightarrow> Some ''opportunity_closed''
          | AR_USER_BLOCKED \<Rightarrow> Some ''skipped_by_candidate''
          | c \<Rightarrow> Some (py_lower (admission_reason_value c))))"

definition evaluate_admission ::
  "application_policy \<Rightarrow> eligibility_decision option \<Rightarrow> fit_band option \<Rightarrow> string option \<Rightarrow> int option \<Rightarrow>
   opportunity_status option \<Rightarrow> opportunity_state option \<Rightarrow> geo_assessment option \<Rightarrow> role_assessment option \<Rightarrow> admission option" where
  "evaluate_admission policy decision fit_band company fit_score opportunity_status candidate_state geography role =
     (let report = evaluate_gates policy decision fit_band company fit_score opportunity_status candidate_state geography role
      in case reason_for report decision fit_band fit_score policy of
        None \<Rightarrow> None
      | Some reason \<Rightarrow>
          if \<not> report_passed report
          then Some \<lparr>ad_admitted = False, ad_reason = reason, ad_lane = None, ad_tailoring_level = None,
                     ad_code = report_code report, ad_gates = Some report\<rparr>
          else case fit_band of
            None \<Rightarrow> None
          | Some b \<Rightarrow>
              Some \<lparr>ad_admitted = True, ad_reason = reason,
                    ad_lane = Some (dict_get (lane_by_band policy) (fit_band_value b) LN_REVIEW),
                    ad_tailoring_level = Some (dict_get (tailoring_by_band policy) (fit_band_value b) TL_L0),
                    ad_code = AR_ADMITTED, ad_gates = Some report\<rparr>)"

section \<open>Specification of the decision\<close>

text \<open>The admission rule, and the reason as the candidate would state it: the first of these
  conditions that fails.\<close>

definition admissible ::
  "application_policy \<Rightarrow> eligibility_decision option \<Rightarrow> fit_band option \<Rightarrow> string option \<Rightarrow> int option \<Rightarrow>
   opportunity_status option \<Rightarrow> opportunity_state option \<Rightarrow> geo_assessment option \<Rightarrow> role_assessment option \<Rightarrow> bool" where
  "admissible policy decision band company score ostatus cstate geo role \<longleftrightarrow>
     cstate \<noteq> Some OS_SKIPPED \<and> cstate \<noteq> Some OS_CLOSED \<and> ostatus \<noteq> Some OPP_CLOSED \<and>
     (case decision of None \<Rightarrow> False
      | Some e \<Rightarrow> e \<noteq> ED_INELIGIBLE \<and> ELIGIBILITY_RANK (minimum_eligibility policy) \<le> ELIGIBILITY_RANK e) \<and>
     \<not> company_blocked policy company \<and>
     (case geo of None \<Rightarrow> True | Some g \<Rightarrow> ga_in_policy g) \<and>
     (case role of None \<Rightarrow> True | Some r \<Rightarrow> ra_in_policy r) \<and>
     (case band of None \<Rightarrow> False | Some b \<Rightarrow> b \<in> set (enabled_bands policy)) \<and>
     \<not> below_floor policy score"

definition refusal_code ::
  "application_policy \<Rightarrow> eligibility_decision option \<Rightarrow> fit_band option \<Rightarrow> string option \<Rightarrow> int option \<Rightarrow>
   opportunity_status option \<Rightarrow> opportunity_state option \<Rightarrow> geo_assessment option \<Rightarrow> role_assessment option \<Rightarrow> admission_reason" where
  "refusal_code policy decision band company score ostatus cstate geo role =
     (if cstate = Some OS_SKIPPED then AR_USER_BLOCKED
      else if ostatus = Some OPP_CLOSED \<or> cstate = Some OS_CLOSED then AR_OPPORTUNITY_CLOSED
      else if decision = None then AR_NOT_EVALUATED
      else if decision = Some ED_INELIGIBLE then AR_INELIGIBLE
      else if below_minimum policy decision then AR_BELOW_MINIMUM_ELIGIBILITY
      else if company_blocked policy company then AR_COMPANY_BLOCKED
      else if (case geo of None \<Rightarrow> False | Some g \<Rightarrow> \<not> ga_in_policy g) then AR_OUTSIDE_TARGET_GEOGRAPHY
      else if (case role of None \<Rightarrow> False | Some r \<Rightarrow> \<not> ra_in_policy r) then AR_IRRELEVANT_ROLE
      else if band = None then AR_NOT_SCORED
      else if (case band of None \<Rightarrow> False | Some b \<Rightarrow> b \<notin> set (enabled_bands policy)) then AR_BAND_DISABLED
      else if below_floor policy score then AR_BELOW_FIT_THRESHOLD
      else AR_ADMITTED)"

lemma report_passed_iff:
  "report_passed (evaluate_gates policy decision band company score ostatus cstate geo role) \<longleftrightarrow>
     admissible policy decision band company score ostatus cstate geo role"
  by (auto simp: report_passed_def evaluate_gates_def gate_result_of_def Let_def admissible_def below_minimum_def
      split: option.split)

lemma report_code_eq:
  "report_code (evaluate_gates policy decision band company score ostatus cstate geo role) =
     refusal_code policy decision band company score ostatus cstate geo role"
  unfolding report_code_def report_failed_def evaluate_gates_def refusal_code_def Let_def gate_result_of_def by simp

lemma report_failed_iff: "report_failed r = None \<longleftrightarrow> report_passed r"
  by (auto simp: report_failed_def report_passed_def find_None_iff list_all_iff)

lemma reason_for_total:
  "\<exists>reason. reason_for (evaluate_gates policy decision band company score ostatus cstate geo role) decision band score policy
     = Some reason"
proof -
  let ?r = "evaluate_gates policy decision band company score ostatus cstate geo role"
  show ?thesis
  proof (cases "report_failed ?r")
    case None
    then have "admissible policy decision band company score ostatus cstate geo role"
      using report_failed_iff report_passed_iff by blast
    then have "decision \<noteq> None" "band \<noteq> None" by (auto simp: admissible_def split: option.splits)
    with None show ?thesis by (auto simp: reason_for_def Let_def)
  next
    case (Some g)
    then have code: "gr_code g = refusal_code policy decision band company score ostatus cstate geo role"
      using report_code_eq [of policy decision band company score ostatus cstate geo role] by (simp add: report_code_def)
    have "gr_code g = AR_BELOW_MINIMUM_ELIGIBILITY \<Longrightarrow> decision \<noteq> None"
      "gr_code g = AR_BAND_DISABLED \<Longrightarrow> band \<noteq> None"
      unfolding code refusal_code_def by (auto split: if_splits)
    with Some show ?thesis by (cases "gr_code g") (auto simp: reason_for_def Let_def)
  qed
qed

lemma evaluate_admission_cases:
  obtains (admitted) reason b where
    "admissible policy decision band company score ostatus cstate geo role" "band = Some b"
    "evaluate_admission policy decision band company score ostatus cstate geo role =
       Some \<lparr>ad_admitted = True, ad_reason = reason,
             ad_lane = Some (dict_get (lane_by_band policy) (fit_band_value b) LN_REVIEW),
             ad_tailoring_level = Some (dict_get (tailoring_by_band policy) (fit_band_value b) TL_L0),
             ad_code = AR_ADMITTED,
             ad_gates = Some (evaluate_gates policy decision band company score ostatus cstate geo role)\<rparr>"
  | (refused) reason where
    "\<not> admissible policy decision band company score ostatus cstate geo role"
    "evaluate_admission policy decision band company score ostatus cstate geo role =
       Some \<lparr>ad_admitted = False, ad_reason = reason, ad_lane = None, ad_tailoring_level = None,
             ad_code = refusal_code policy decision band company score ostatus cstate geo role,
             ad_gates = Some (evaluate_gates policy decision band company score ostatus cstate geo role)\<rparr>"
proof -
  let ?r = "evaluate_gates policy decision band company score ostatus cstate geo role"
  obtain reason where re: "reason_for ?r decision band score policy = Some reason" using reason_for_total by blast
  show thesis
  proof (cases "admissible policy decision band company score ostatus cstate geo role")
    case True
    then obtain b where "band = Some b" by (auto simp: admissible_def split: option.splits)
    with re True show thesis by (intro admitted) (simp_all add: evaluate_admission_def Let_def report_passed_iff)
  next
    case False
    with re show thesis by (intro refused) (simp_all add: evaluate_admission_def Let_def report_passed_iff report_code_eq)
  qed
qed

lemma refusal_code_admitted:
  "refusal_code policy decision band company score ostatus cstate geo role = AR_ADMITTED \<longleftrightarrow>
     admissible policy decision band company score ostatus cstate geo role"
  unfolding refusal_code_def admissible_def below_minimum_def
  by (cases decision; cases band; cases geo; cases role) auto

section \<open>Properties\<close>

text \<open>C4. The admission decision is total and is exactly the candidate's rule: it never fails on a
  missing decision or band, admits an opportunity exactly when it is open, not skipped,
  evaluated at or above the candidate's minimum, not at a blocked company, inside the target
  geography and role families, scored in an enabled band and not under the fit floor, and an
  admitted one gets the lane and tailoring level its band has in the policy.\<close>

theorem evaluate_admission_exact:
  "\<exists>a. evaluate_admission policy decision band company score ostatus cstate geo role = Some a \<and>
     ad_admitted a = admissible policy decision band company score ostatus cstate geo role \<and>
     ad_lane a = (if ad_admitted a
       then map_option (\<lambda>b. dict_get (lane_by_band policy) (fit_band_value b) LN_REVIEW) band else None) \<and>
     ad_tailoring_level a = (if ad_admitted a
       then map_option (\<lambda>b. dict_get (tailoring_by_band policy) (fit_band_value b) TL_L0) band else None)"
  by (rule evaluate_admission_cases [of policy decision band company score ostatus cstate geo role]) simp_all

text \<open>C34. The reason code of a refusal is that of the first failing gate in the order of the
  catalogue, and \<open>ADMITTED\<close> exactly when every gate passed; the report names every static gate of
  the catalogue once, in the catalogue's order and with the catalogue's code, whatever the input.\<close>

theorem gate_report_follows_catalog:
  "map (\<lambda>g. (gr_gate g, gr_code g)) (rep_results (evaluate_gates policy decision band company score ostatus cstate geo role))
     = map (\<lambda>s. (gs_gate s, gs_code s)) STATIC_GATES \<and>
   report_code (evaluate_gates policy decision band company score ostatus cstate geo role) =
     refusal_code policy decision band company score ostatus cstate geo role \<and>
   (refusal_code policy decision band company score ostatus cstate geo role = AR_ADMITTED) =
     admissible policy decision band company score ostatus cstate geo role"
proof (intro conjI)
  show "map (\<lambda>g. (gr_gate g, gr_code g)) (rep_results (evaluate_gates policy decision band company score ostatus cstate geo role))
     = map (\<lambda>s. (gs_gate s, gs_code s)) STATIC_GATES"
    by (simp add: evaluate_gates_def gate_result_of_def STATIC_GATES_def GATE_CATALOG_def spec_of_def Let_def)
  show "(refusal_code policy decision band company score ostatus cstate geo role = AR_ADMITTED) =
     admissible policy decision band company score ostatus cstate geo role"
    by (rule refusal_code_admitted)
qed (rule report_code_eq)

end
