(* ===== verification/Periods.thy ===== *)
theory Periods
  imports Cap_Ledger
begin

text \<open>
  Dates and cap periods: what \<^verbatim>\<open>app/scheduler/caps.py\<close> uses of Python's \<^verbatim>\<open>datetime\<close> (the proleptic
  Gregorian calendar, ISO weeks, \<^verbatim>\<open>isoformat\<close>) and \<^verbatim>\<open>period_keys\<close>. A time zone is what
  \<^verbatim>\<open>astimezone\<close> uses of it: the offset at a UTC instant and the offset of a wall-clock time.
\<close>

section \<open>Calendar\<close>

definition day_us :: int where "day_us = 86400000000"
definition hour_us :: int where "hour_us = 3600000000"

text \<open>The civil date of a day number (days since 1970-01-01), and back.\<close>

definition civil_from_days :: "int \<Rightarrow> int \<times> int \<times> int" where
  "civil_from_days n =
     (let z = n + 719468; era = z div 146097; doe = z mod 146097;
          yoe = (doe - doe div 1460 + doe div 36524 - doe div 146096) div 365;
          doy = doe - (365 * yoe + yoe div 4 - yoe div 100);
          mp = (5 * doy + 2) div 153;
          dd = doy - (153 * mp + 2) div 5 + 1;
          mm = (if mp < 10 then mp + 3 else mp - 9)
      in (yoe + era * 400 + (if mm \<le> 2 then 1 else 0), mm, dd))"

definition days_from_civil :: "int \<Rightarrow> int \<Rightarrow> int \<Rightarrow> int" where
  "days_from_civil y m dd =
     (let y' = (if m \<le> 2 then y - 1 else y); era = y' div 400; yoe = y' mod 400;
          doy = (153 * (if m > 2 then m - 3 else m + 9) + 2) div 5 + dd - 1;
          doe = yoe * 365 + yoe div 4 - yoe div 100 + doy
      in era * 146097 + doe - 719468)"

definition iso_weekday :: "int \<Rightarrow> int" where
  "iso_weekday n = (n + 3) mod 7 + 1"

text \<open>\<^verbatim>\<open>isocalendar\<close>: the year and number of the ISO week, the one of its Thursday.\<close>

definition iso_year_week :: "int \<Rightarrow> int \<times> int" where
  "iso_year_week n =
     (let thursday = n - (iso_weekday n - 1) + 3; (y, _, _) = civil_from_days thursday
      in (y, (thursday - days_from_civil y 1 1) div 7 + 1))"

definition pad_int :: "nat \<Rightarrow> int \<Rightarrow> string" where
  "pad_int w n = (let s = show_int n in replicate (w - length s) CHR ''0'' @ s)"

definition show_date :: "int \<Rightarrow> string" where
  "show_date n = (let (y, m, dd) = civil_from_days n in pad_int 4 y @ ''-'' @ pad_int 2 m @ ''-'' @ pad_int 2 dd)"

text \<open>\<^verbatim>\<open>isoformat()\<close> of a naive and of an aware UTC datetime.\<close>

definition isoformat_naive :: "time \<Rightarrow> string" where
  "isoformat_naive t =
     (let r = t mod day_us; us = r mod 1000000; s = r div 1000000
      in show_date (t div day_us) @ ''T'' @ pad_int 2 (s div 3600) @ '':'' @ pad_int 2 (s div 60 mod 60) @ '':'' @ pad_int 2 (s mod 60)
         @ (if us = 0 then [] else ''.'' @ pad_int 6 us))"

definition isoformat :: "time \<Rightarrow> string" where
  "isoformat t = isoformat_naive t @ ''+00:00''"

section \<open>Periods\<close>

record zone =
  z_offset :: "time \<Rightarrow> time"
  z_local_offset :: "time \<Rightarrow> time"

definition to_local :: "zone \<Rightarrow> time \<Rightarrow> time" where
  "to_local z t = t + z_offset z t"

definition to_utc :: "zone \<Rightarrow> time \<Rightarrow> time" where
  "to_utc z l = l - z_local_offset z l"

text \<open>\<^verbatim>\<open>replace(hour=0)\<close>: the hour of the wall clock set to zero.\<close>

definition replace_hour :: "time \<Rightarrow> time" where
  "replace_hour l = l - (l mod day_us) div hour_us * hour_us"

definition period_keys_of :: "zone \<Rightarrow> time \<Rightarrow> period_keys" where
  "period_keys_of z now_utc =
     (let local = to_local z now_utc;
          day_no = local div day_us;
          day_start = day_no * day_us;
          day_end = replace_hour (day_start + days 1 + 2 * hour_us);
          week_start = replace_hour (day_start - days (iso_weekday day_no - 1));
          week_end = replace_hour (week_start + days 7 + 2 * hour_us);
          (iso_year, iso_week) = iso_year_week day_no
      in \<lparr>pk_day = \<lparr>pd_kind = DAY, pd_key = show_date day_no, pd_starts_at = to_utc z day_start, pd_ends_at = to_utc z day_end\<rparr>,
          pk_week = \<lparr>pd_kind = WEEK, pd_key = show_int iso_year @ ''-W'' @ pad_int 2 iso_week,
                     pd_starts_at = to_utc z week_start, pd_ends_at = to_utc z week_end\<rparr>\<rparr>)"

definition fixed_zone :: "time \<Rightarrow> zone" where
  "fixed_zone off = \<lparr>z_offset = (\<lambda>_. off), z_local_offset = (\<lambda>_. off)\<rparr>"

section \<open>Properties\<close>

lemma day_us_days: "days n = n * day_us"
  by (simp add: days_def seconds_def day_us_def)

lemma replace_hour_day: "replace_hour (n * day_us + 2 * hour_us) = n * day_us" "replace_hour (n * day_us) = n * day_us"
  by (simp_all add: replace_hour_def day_us_def hour_us_def)

lemma iso_weekday_range: "0 \<le> iso_weekday n - 1" "iso_weekday n - 1 \<le> 6"
  using pos_mod_bound [of 7 "n + 3"] by (simp_all add: iso_weekday_def)

lemma week_monday: "iso_weekday (n - (iso_weekday n - 1)) = 1"
  by (simp add: iso_weekday_def) presburger

lemma period_bounds:
  assumes "n = (now + off) div day_us"
  shows "pd_starts_at (pk_day (period_keys_of (fixed_zone off) now)) = n * day_us - off"
    and "pd_ends_at (pk_day (period_keys_of (fixed_zone off) now)) = (n + 1) * day_us - off"
    and "pd_starts_at (pk_week (period_keys_of (fixed_zone off) now)) = (n - (iso_weekday n - 1)) * day_us - off"
    and "pd_ends_at (pk_week (period_keys_of (fixed_zone off) now)) = (n - (iso_weekday n - 1) + 7) * day_us - off"
proof -
  let ?w = "n - (iso_weekday n - 1)"
  have e: "n * day_us + days 1 + 2 * hour_us = (n + 1) * day_us + 2 * hour_us"
    "n * day_us - days (iso_weekday n - 1) = ?w * day_us" "?w * day_us + days 7 + 2 * hour_us = (?w + 7) * day_us + 2 * hour_us"
    by (simp_all add: day_us_days algebra_simps)
  show "pd_starts_at (pk_day (period_keys_of (fixed_zone off) now)) = n * day_us - off"
    and "pd_ends_at (pk_day (period_keys_of (fixed_zone off) now)) = (n + 1) * day_us - off"
    and "pd_starts_at (pk_week (period_keys_of (fixed_zone off) now)) = ?w * day_us - off"
    and "pd_ends_at (pk_week (period_keys_of (fixed_zone off) now)) = (?w + 7) * day_us - off"
    by (simp_all add: period_keys_of_def Let_def case_prod_unfold to_local_def to_utc_def fixed_zone_def
        assms [symmetric] e replace_hour_day)
qed

text \<open>The cap periods of a moment contain it: in a zone without clock changes the day runs from
  local midnight to the next one, the week is seven days from a local Monday, both contain the
  moment, and the day lies inside the week.\<close>

theorem periods_contain_now:
  fixes off now :: int
  defines "p \<equiv> period_keys_of (fixed_zone off) now"
  shows "pd_starts_at (pk_day p) \<le> now \<and> now < pd_ends_at (pk_day p) \<and>
    pd_ends_at (pk_day p) = pd_starts_at (pk_day p) + days 1 \<and> (pd_starts_at (pk_day p) + off) mod day_us = 0 \<and>
    pd_starts_at (pk_week p) \<le> pd_starts_at (pk_day p) \<and> pd_ends_at (pk_day p) \<le> pd_ends_at (pk_week p) \<and>
    pd_ends_at (pk_week p) = pd_starts_at (pk_week p) + days 7 \<and>
    iso_weekday ((pd_starts_at (pk_week p) + off) div day_us) = 1"
proof -
  define n where "n = (now + off) div day_us"
  note b = period_bounds [OF n_def, folded p_def]
  have pos: "0 < day_us" by (simp add: day_us_def)
  have "n * day_us + (now + off) mod day_us = now + off" "(n + 1) * day_us = n * day_us + day_us"
    by (simp_all add: n_def distrib_right)
  then have "n * day_us \<le> now + off" "now + off < (n + 1) * day_us"
    using pos_mod_bound [OF pos, of "now + off"] pos_mod_sign [OF pos, of "now + off"] by linarith+
  moreover have "(n - (iso_weekday n - 1)) * day_us \<le> n * day_us" "(n + 1) * day_us \<le> (n - (iso_weekday n - 1) + 7) * day_us"
    using iso_weekday_range [of n] pos by (auto intro: mult_right_mono)
  ultimately show ?thesis
    using week_monday [of n] pos unfolding b by (simp add: day_us_days algebra_simps)
qed

end
