(* ===== verification/Decisions.thy ===== *)
theory Decisions
  imports Gates Attempts Periods
begin

text \<open>
  The scheduler's pure decisions, \<^verbatim>\<open>app/scheduler/decisions.py\<close>: \<^verbatim>\<open>ordering_key\<close>,
  \<^verbatim>\<open>_attempt_verdict\<close> and \<^verbatim>\<open>decide\<close>. The indexes of the context are dicts, here maps. \<open>decide\<close> returns
  \<open>None\<close> where the code would raise (through \<^verbatim>\<open>evaluate_admission\<close>); it is shown never to.
\<close>

section \<open>Context and verdict\<close>

record verdict =
  v_code :: admission_reason
  v_reason :: string
  v_lane :: "lane option"
  v_level :: "tailoring_level option"
  v_queue_item_id :: "string option"
  v_application_id :: "string option"
  v_preparation_id :: "string option"
  v_gates :: "gate_report option"

definition verdict_of :: "admission_reason \<Rightarrow> string \<Rightarrow> verdict" where
  "verdict_of code reason =
     \<lparr>v_code = code, v_reason = reason, v_lane = None, v_level = None, v_queue_item_id = None, v_application_id = None,
      v_preparation_id = None, v_gates = None\<rparr>"

record decision_context =
  ctx_policy :: application_policy
  ctx_now :: time
  ctx_cooldown :: cooldown_index
  ctx_duplicates :: duplicate_index
  ctx_attempts :: "string \<rightharpoonup> application_row"
  ctx_queue_items :: "string \<rightharpoonup> queue_row"
  ctx_preparations :: "string \<rightharpoonup> preparation_row"
  ctx_geography :: "string \<rightharpoonup> geo_assessment"
  ctx_relevance :: "string \<rightharpoonup> role_assessment"

section \<open>Ordering\<close>

primrec RELEVANCE_RANK :: "relevance \<Rightarrow> int" where
  "RELEVANCE_RANK RELEVANT = 0"
| "RELEVANCE_RANK ADJACENT = 1"
| "RELEVANCE_RANK NOT_ASSESSED = 2"
| "RELEVANCE_RANK UNKNOWN_RELEVANCE = 2"
| "RELEVANCE_RANK WEAK = 3"
| "RELEVANCE_RANK UNRELATED = 4"

definition ordering_eligibility_rank :: "eligibility_decision option \<Rightarrow> int" where
  "ordering_eligibility_rank e =
     (if e = Some ED_ELIGIBLE \<or> e = Some ED_LIKELY then 0 else if e = Some ED_UNCERTAIN then 1 else 2)"

definition band_rank :: "fit_band option \<Rightarrow> int" where
  "band_rank b = (case b of Some FB_HIGH \<Rightarrow> 0 | Some FB_MEDIUM \<Rightarrow> 1 | Some FB_LOW \<Rightarrow> 2 | None \<Rightarrow> 3)"

text \<open>The tuple Python compares; the missing deadline's infinity is the pair \<open>(1, 0)\<close>.\<close>

definition ordering_key ::
  "candidate_opportunity_row \<Rightarrow> opportunity_row \<Rightarrow> role_assessment option \<Rightarrow>
   int \<times> int \<times> int \<times> int \<times> (int \<times> time) \<times> time \<times> string" where
  "ordering_key co opp role =
     (ordering_eligibility_rank (co_eligibility_status co),
      (case role of None \<Rightarrow> 2 | Some r \<Rightarrow> RELEVANCE_RANK (ra_relevance r)),
      band_rank (co_fit_band co),
      - (case co_priority_score co of Some p \<Rightarrow> p | None \<Rightarrow> - 1),
      (case o_deadline opp of Some t \<Rightarrow> (0, t) | None \<Rightarrow> (1, 0)),
      - o_first_seen_at opp,
      o_id opp)"

section \<open>An existing attempt\<close>

definition reposted_after :: "opportunity_row \<Rightarrow> application_row \<Rightarrow> bool" where
  "reposted_after opp row =
     (case (o_reposted_at opp, opt_or (opt_or (a_submitted_at row) (a_reserved_at row)) (Some (a_updated_at row))) of
        (Some reposted, Some applied) \<Rightarrow> reposted > applied
      | _ \<Rightarrow> False)"

definition attempt_verdict ::
  "decision_context \<Rightarrow> candidate_opportunity_row \<Rightarrow> opportunity_row \<Rightarrow> application_row \<Rightarrow> verdict option" where
  "attempt_verdict ctx co opp row =
     (let item = ctx_queue_items ctx (o_id opp); prep = ctx_preparations ctx (co_id co);
          with_app = (\<lambda>v. v\<lparr>v_application_id := Some (a_id row)\<rparr>);
          item_state = map_option q_state item
      in if is_submitted row
         then if reposted_after opp row
              then if policy_duplicates (ctx_policy ctx) = DP_BLOCK
                   then Some (with_app (verdict_of AR_DUPLICATE_OPPORTUNITY ''applied before this repost; duplicate_policy=BLOCK''))
                   else None
              else Some (with_app (verdict_of AR_ALREADY_SUBMITTED (''attempt '' @ py_lower (application_status_value (a_status row)))))
         else if holds_slot row \<or> is_in_flight row
         then if a_status row = AS_BLOCKED
              then Some ((with_app (verdict_of AR_NEEDS_REVIEW (take 200 (''execution handed off: '' @
                     str_or (a_blocked_reason row) (str_or (a_status_reason row) ''blocked'')))))\<lparr>v_preparation_id := a_preparation_id row\<rparr>)
              else if a_status row = AS_NEEDS_USER_INPUT
              then Some ((with_app (verdict_of AR_NEEDS_USER_INPUT (take 200 (str_or (a_status_reason row) ''execution needs the candidate''))))
                     \<lparr>v_preparation_id := a_preparation_id row\<rparr>)
              else if a_status row = AS_NEEDS_REVIEW
              then Some ((with_app (verdict_of AR_NEEDS_REVIEW (take 200 (str_or (a_status_reason row) ''execution needs a human look''))))
                     \<lparr>v_preparation_id := a_preparation_id row\<rparr>)
              else if item_state = Some QS_BLOCKED
              then Some ((with_app (verdict_of AR_NEEDS_USER_INPUT (take 200 (str_or (q_last_error (the item)) ''blocked''))))
                     \<lparr>v_queue_item_id := map_option q_id item, v_preparation_id := map_option p_id prep\<rparr>)
              else if item_state = Some QS_NEEDS_REVIEW
              then Some ((with_app (verdict_of AR_NEEDS_REVIEW (take 200 (str_or (q_last_error (the item)) ''needs review''))))
                     \<lparr>v_queue_item_id := map_option q_id item, v_preparation_id := map_option p_id prep\<rparr>)
              else if a_status row = AS_READY
              then Some ((with_app (verdict_of AR_ALREADY_IN_PROGRESS ''ready for execution''))
                     \<lparr>v_queue_item_id := map_option q_id item, v_preparation_id := a_preparation_id row\<rparr>)
              else Some ((with_app (verdict_of AR_ALREADY_IN_PROGRESS (''attempt in progress ('' @
                     (case item of Some i \<Rightarrow> py_lower (queue_state_value (q_state i))
                      | None \<Rightarrow> py_lower (application_status_value (a_status row))) @ '')'')))
                     \<lparr>v_queue_item_id := map_option q_id item\<rparr>)
         else None)"

section \<open>The decision\<close>

definition other_openings :: "duplicate_index \<Rightarrow> opportunity_row \<Rightarrow> string list" where
  "other_openings duplicates opp =
     remdups (map snd (filter (\<lambda>(k, oid). k = duplicate_key (o_company opp) (o_title opp) \<and> oid \<noteq> o_id opp) duplicates))"

text \<open>Everything after the attempt and state checks (4 to 9 of the source's list).\<close>

definition decide_open :: "decision_context \<Rightarrow> candidate_opportunity_row \<Rightarrow> opportunity_row \<Rightarrow> application_row option \<Rightarrow> verdict option" where
  "decide_open ctx co opp row =
     (case evaluate_admission (ctx_policy ctx) (co_eligibility_status co) (co_fit_band co) (Some (o_company opp)) (co_fit_score co)
             (Some (o_status opp)) (Some (co_state co)) (ctx_geography ctx (o_id opp)) (ctx_relevance ctx (o_id opp)) of
        None \<Rightarrow> None
      | Some adm \<Rightarrow>
         (let item = ctx_queue_items ctx (o_id opp); prep = ctx_preparations ctx (co_id co); item_state = map_option q_state item;
              others = other_openings (ctx_duplicates ctx) opp;
              with_item = (\<lambda>v. v\<lparr>v_queue_item_id := map_option q_id item, v_application_id := map_option a_id row\<rparr>)
          in if \<not> ad_admitted adm then Some ((verdict_of (ad_code adm) (ad_reason adm))\<lparr>v_gates := ad_gates adm\<rparr>)
             else if item_state = Some QS_CANCELLED
             then Some (with_item (verdict_of AR_USER_BLOCKED ''PREPARE item cancelled; requeue to reconsider''))
             else if item_state = Some QS_FAILED
             then Some (with_item (verdict_of AR_NEEDS_REVIEW ''preparation failed permanently; requeue to retry''))
             else if row = None \<and> map_option p_status prep = Some PS_NEEDS_USER_INPUT
             then Some ((verdict_of AR_NEEDS_USER_INPUT ''preparation needs answers from the candidate'')\<lparr>v_preparation_id := map_option p_id prep\<rparr>)
             else if row = None \<and> map_option p_status prep = Some PS_NEEDS_REVIEW
             then Some ((verdict_of AR_NEEDS_REVIEW ''preparation needs a human look'')\<lparr>v_preparation_id := map_option p_id prep\<rparr>)
             else if others \<noteq> []
             then Some (verdict_of AR_DUPLICATE_APPLICATION
                    (''already applied to the same title at this company ('' @ show_int (int (length others)) @ '' other opening)''))
             else case active_until (ctx_cooldown ctx) (o_company opp) (ctx_now ctx) of
               Some until \<Rightarrow> Some (verdict_of AR_COOLDOWN_ACTIVE (''company cool-down until '' @ isoformat until))
             | None \<Rightarrow>
                 if daily_cap (ctx_policy ctx) \<le> 0 then Some (verdict_of AR_DAILY_CAP_REACHED ''daily_cap is 0 (paused)'')
                 else if weekly_cap (ctx_policy ctx) \<le> 0 then Some (verdict_of AR_WEEKLY_CAP_REACHED ''weekly_cap is 0 (paused)'')
                 else Some ((verdict_of AR_ADMITTED (ad_reason adm))
                        \<lparr>v_lane := ad_lane adm, v_level := ad_tailoring_level adm, v_application_id := map_option a_id row,
                         v_gates := ad_gates adm\<rparr>)))"

definition decide :: "decision_context \<Rightarrow> candidate_opportunity_row \<Rightarrow> opportunity_row \<Rightarrow> verdict option" where
  "decide ctx co opp =
     (if co_state co = OS_SKIPPED then Some (verdict_of AR_USER_BLOCKED (str_or (co_skipped_reason co) ''skipped by candidate''))
      else if o_status opp = OPP_CLOSED \<or> co_state co = OS_CLOSED
      then Some (verdict_of AR_OPPORTUNITY_CLOSED ''opening is closed at the source'')
      else case ctx_attempts ctx (o_id opp) of
        Some row \<Rightarrow>
          (case attempt_verdict ctx co opp row of Some v \<Rightarrow> Some v | None \<Rightarrow> decide_open ctx co opp (Some row))
      | None \<Rightarrow>
          if co_state co \<in> APPLIED_STATES
          then Some (verdict_of AR_ALREADY_SUBMITTED (''candidate opportunity is '' @ opportunity_state_value (co_state co)))
          else if co_state co = OS_APPROVED \<or> co_state co = OS_SUBMITTING
          then Some (verdict_of AR_ALREADY_IN_PROGRESS (''candidate opportunity is '' @ opportunity_state_value (co_state co)))
          else decide_open ctx co opp None)"

section \<open>Specification\<close>

text \<open>When an existing attempt leaves the way open: it ended without a submission and holds no slot,
  or it was submitted before a repost and the policy allows reposts.\<close>

definition attempt_open :: "application_policy \<Rightarrow> opportunity_row \<Rightarrow> application_row \<Rightarrow> bool" where
  "attempt_open policy opp row \<longleftrightarrow>
     (if is_submitted row then reposted_after opp row \<and> policy_duplicates policy \<noteq> DP_BLOCK
      else \<not> holds_slot row \<and> \<not> is_in_flight row)"

definition may_admit :: "decision_context \<Rightarrow> candidate_opportunity_row \<Rightarrow> opportunity_row \<Rightarrow> bool" where
  "may_admit ctx co opp \<longleftrightarrow>
     admissible (ctx_policy ctx) (co_eligibility_status co) (co_fit_band co) (Some (o_company opp)) (co_fit_score co)
       (Some (o_status opp)) (Some (co_state co)) (ctx_geography ctx (o_id opp)) (ctx_relevance ctx (o_id opp)) \<and>
     (case ctx_attempts ctx (o_id opp) of
        Some row \<Rightarrow> attempt_open (ctx_policy ctx) opp row
      | None \<Rightarrow> co_state co \<notin> APPLIED_STATES \<and> co_state co \<noteq> OS_APPROVED \<and> co_state co \<noteq> OS_SUBMITTING \<and>
          map_option p_status (ctx_preparations ctx (co_id co)) \<noteq> Some PS_NEEDS_USER_INPUT \<and>
          map_option p_status (ctx_preparations ctx (co_id co)) \<noteq> Some PS_NEEDS_REVIEW) \<and>
     map_option q_state (ctx_queue_items ctx (o_id opp)) \<noteq> Some QS_CANCELLED \<and>
     map_option q_state (ctx_queue_items ctx (o_id opp)) \<noteq> Some QS_FAILED \<and>
     other_openings (ctx_duplicates ctx) opp = [] \<and>
     active_until (ctx_cooldown ctx) (o_company opp) (ctx_now ctx) = None \<and>
     0 < daily_cap (ctx_policy ctx) \<and> 0 < weekly_cap (ctx_policy ctx)"

lemma attempt_verdict_None: "attempt_verdict ctx co opp row = None \<longleftrightarrow> attempt_open (ctx_policy ctx) opp row"
  by (simp add: attempt_verdict_def attempt_open_def Let_def)

lemma verdict_code [simp]: "v_code (verdict_of c r) = c"
  by (simp add: verdict_of_def)

lemma attempt_verdict_code: "attempt_verdict ctx co opp row = Some v \<Longrightarrow> v_code v \<noteq> AR_ADMITTED"
  by (auto simp: attempt_verdict_def Let_def split: if_splits)

lemma admissible_live:
  "admissible policy decision band company score (Some ostatus) (Some cstate) geo role \<Longrightarrow>
     cstate \<noteq> OS_SKIPPED \<and> cstate \<noteq> OS_CLOSED \<and> ostatus \<noteq> OPP_CLOSED"
  by (simp add: admissible_def)

lemma decide_open_value:
  "\<exists>v. decide_open ctx co opp row = Some v \<and>
     (v_code v = AR_ADMITTED) =
       (admissible (ctx_policy ctx) (co_eligibility_status co) (co_fit_band co) (Some (o_company opp)) (co_fit_score co)
          (Some (o_status opp)) (Some (co_state co)) (ctx_geography ctx (o_id opp)) (ctx_relevance ctx (o_id opp)) \<and>
        (row = None \<longrightarrow> map_option p_status (ctx_preparations ctx (co_id co)) \<notin> {Some PS_NEEDS_USER_INPUT, Some PS_NEEDS_REVIEW}) \<and>
        map_option q_state (ctx_queue_items ctx (o_id opp)) \<notin> {Some QS_CANCELLED, Some QS_FAILED} \<and>
        other_openings (ctx_duplicates ctx) opp = [] \<and>
        active_until (ctx_cooldown ctx) (o_company opp) (ctx_now ctx) = None \<and>
        0 < daily_cap (ctx_policy ctx) \<and> 0 < weekly_cap (ctx_policy ctx)) \<and>
     v_lane v = (if v_code v = AR_ADMITTED
       then map_option (\<lambda>b. dict_get (lane_by_band (ctx_policy ctx)) (fit_band_value b) LN_REVIEW) (co_fit_band co) else None) \<and>
     v_level v = (if v_code v = AR_ADMITTED
       then map_option (\<lambda>b. dict_get (tailoring_by_band (ctx_policy ctx)) (fit_band_value b) TL_L0) (co_fit_band co) else None)"
proof (rule evaluate_admission_cases [of "ctx_policy ctx" "co_eligibility_status co" "co_fit_band co" "Some (o_company opp)"
      "co_fit_score co" "Some (o_status opp)" "Some (co_state co)" "ctx_geography ctx (o_id opp)" "ctx_relevance ctx (o_id opp)"],
    goal_cases)
  case (1 reason b)
  then show ?case
    by (cases "active_until (ctx_cooldown ctx) (o_company opp) (ctx_now ctx)") (auto simp: decide_open_def verdict_of_def Let_def)
next
  case (2 reason)
  then show ?case by (simp add: decide_open_def Let_def verdict_of_def refusal_code_admitted)
qed

lemma attempt_verdict_plain: "attempt_verdict ctx co opp row = Some v \<Longrightarrow> v_lane v = None \<and> v_level v = None"
  by (auto simp: attempt_verdict_def verdict_of_def Let_def split: if_splits)

section \<open>Properties\<close>

text \<open>C33. The scheduler's decision never fails and says \<open>ADMITTED\<close> exactly when the policy's admission
  rule holds, no earlier attempt stands in the way (one that holds a slot, is in flight or was
  submitted, a repost the policy allows apart), no human ended or has to settle the preparation, the
  candidate did not apply to the same title at the company, the company is out of its cool-down and
  neither cap is paused. Only an admitted verdict carries a lane and a tailoring level, the ones the
  policy gives the band, and the priority score has no say in it.\<close>

theorem decide_exact:
  "\<exists>v. decide ctx co opp = Some v \<and>
     (v_code v = AR_ADMITTED) = may_admit ctx co opp \<and>
     v_lane v = (if may_admit ctx co opp
       then map_option (\<lambda>b. dict_get (lane_by_band (ctx_policy ctx)) (fit_band_value b) LN_REVIEW) (co_fit_band co) else None) \<and>
     v_level v = (if may_admit ctx co opp
       then map_option (\<lambda>b. dict_get (tailoring_by_band (ctx_policy ctx)) (fit_band_value b) TL_L0) (co_fit_band co) else None) \<and>
     decide ctx (co\<lparr>co_priority_score := p\<rparr>) opp = Some v"
proof -
  have priority: "decide ctx (co\<lparr>co_priority_score := p\<rparr>) opp = decide ctx co opp"
    by (simp add: decide_def decide_open_def attempt_verdict_def cong: option.case_cong)
  show ?thesis
  proof (cases "co_state co = OS_SKIPPED \<or> o_status opp = OPP_CLOSED \<or> co_state co = OS_CLOSED")
    case True
    then have "\<not> may_admit ctx co opp" by (auto simp: may_admit_def admissible_def)
    with True show ?thesis unfolding priority by (auto simp: decide_def verdict_of_def)
  next
    case live: False
    show ?thesis
    proof (cases "ctx_attempts ctx (o_id opp)")
      case None
      with live show ?thesis unfolding priority
        using decide_open_value [of ctx co opp None] by (auto simp: decide_def may_admit_def verdict_of_def)
    next
      case (Some row)
      show ?thesis
      proof (cases "attempt_verdict ctx co opp row")
        case None
        then have "attempt_open (ctx_policy ctx) opp row" by (simp add: attempt_verdict_None)
        with None Some live show ?thesis unfolding priority
          using decide_open_value [of ctx co opp "Some row"] by (auto simp: decide_def may_admit_def)
      next
        case (Some v)
        then have "\<not> may_admit ctx co opp"
          using \<open>ctx_attempts ctx (o_id opp) = Some row\<close> by (simp add: may_admit_def flip: attempt_verdict_None [of ctx co])
        with Some live \<open>ctx_attempts ctx (o_id opp) = Some row\<close> show ?thesis unfolding priority
          using attempt_verdict_code [OF Some] attempt_verdict_plain [OF Some] by (simp add: decide_def)
      qed
    qed
  qed
qed

end
