(* ===== verification/Preconditions.thy ===== *)
theory Preconditions
  imports Decisions "HOL-Library.List_Lexorder" "HOL-Library.Char_ord"
begin

text \<open>
  The checks immediately before a submission, \<^verbatim>\<open>app/execution/preconditions.py\<close>: the attempt, its
  preparation, the opening, the policy and the cap slot are looked at again. Every check has a
  fresh \<^verbatim>\<open>CapLedger\<close>, so the cache of known periods starts empty. The attempt row the check may
  change is returned and stored.
\<close>

section \<open>Reports\<close>

record precondition_failure =
  pf_code :: precondition_code
  pf_message :: string
  pf_detail :: "(string \<times> json) list"

record precondition_report =
  pr_ok :: bool
  pr_failures :: "precondition_failure list"
  pr_stale_inputs :: "string list"
  pr_cap_day_key :: "string option"
  pr_cap_week_key :: "string option"

definition fail_of :: "precondition_code \<Rightarrow> string \<Rightarrow> (string \<times> json) list \<Rightarrow> precondition_failure" where
  "fail_of code message detail = \<lparr>pf_code = code, pf_message = message, pf_detail = detail\<rparr>"

definition when_fail :: "bool \<Rightarrow> precondition_failure \<Rightarrow> precondition_failure list" where
  "when_fail c f = (if c then [f] else [])"

section \<open>The single checks\<close>

definition expected_status :: "bool \<Rightarrow> application_status" where
  "expected_status executing = (if executing then AS_SUBMITTING else AS_READY)"

definition attempt_failures :: "bool \<Rightarrow> application_row \<Rightarrow> precondition_failure list" where
  "attempt_failures executing attempt =
     when_fail (a_status attempt \<noteq> expected_status executing)
       (fail_of PC_ATTEMPT_NOT_READY (''attempt is '' @ application_status_value (a_status attempt) @ '', not '' @
          application_status_value (expected_status executing)) [(''status'', JStr (application_status_value (a_status attempt)))]) @
     when_fail (a_released_at attempt \<noteq> None) (fail_of PC_SLOT_RELEASED ''the attempt's cap slot was released'' [])"

definition unanswered :: "preparation_row \<Rightarrow> string list" where
  "unanswered p = map pa_question (filter (\<lambda>a. pa_required a \<and> pa_status a = PA_NEEDS_USER_INPUT) (p_answers p))"

definition preparation_failures ::
  "string \<Rightarrow> application_row \<Rightarrow> preparation_row option \<Rightarrow> string list \<Rightarrow> precondition_failure list" where
  "preparation_failures tenant attempt preparation stale_inputs =
     (case preparation of
        None \<Rightarrow> [fail_of PC_PREPARATION_MISSING ''no preparation attached'' []]
      | Some p \<Rightarrow>
          when_fail (p_tenant_id p \<noteq> tenant) (fail_of PC_TENANT_MISMATCH ''preparation belongs to another tenant'' []) @
          when_fail (truthy (a_opportunity_id attempt) \<and> Some (p_opportunity_id p) \<noteq> a_opportunity_id attempt)
            (fail_of PC_OPPORTUNITY_MISMATCH ''preparation is for another opportunity'' []) @
          (if p_status p = PS_INVALIDATED then [fail_of PC_PREPARATION_INVALIDATED ''preparation was invalidated'' []]
           else if p_status p = PS_SUPERSEDED
           then [fail_of PC_PREPARATION_NOT_CURRENT ''a newer preparation version exists'' [(''version'', JInt (p_version p))]]
           else when_fail (p_status p \<noteq> PS_READY)
             (fail_of PC_PREPARATION_NOT_READY (''preparation is '' @ preparation_status_value (p_status p))
                [(''status'', JStr (preparation_status_value (p_status p)))])) @
          when_fail (p_validation_status p \<noteq> VL_PASSED)
            (fail_of PC_VALIDATION_FAILED (''truth validation is '' @ validation_status_value (p_validation_status p)) []) @
          when_fail (unanswered p \<noteq> [])
            (fail_of PC_USER_INPUT_REQUIRED (show_int (int (length (unanswered p))) @ '' required answer(s) missing'')
               [(''questions'', JList (map JStr (take 10 (unanswered p))))]) @
          when_fail (stale_inputs \<noteq> [])
            (fail_of PC_PREPARATION_STALE (''inputs changed since preparation: '' @ join_with '', '' stale_inputs)
               [(''inputs'', JList (map JStr stale_inputs))]))"

text \<open>\<^verbatim>\<open>_check_company_history\<close>: the other attempts of the tenant at the company, and what they rule out.\<close>

definition same_company :: "opportunity_row \<Rightarrow> opportunity_row \<Rightarrow> bool" where
  "same_company opp o' \<longleftrightarrow>
     o_company_key o' = Some (company_key (Some (o_company opp))) \<or>
     (o_company_key o' = None \<and> py_lower (o_company o') = py_lower (o_company opp))"

definition company_attempts :: "string \<Rightarrow> application_row \<Rightarrow> opportunity_row \<Rightarrow> db \<Rightarrow> (application_row \<times> opportunity_row) list" where
  "company_attempts tenant attempt opp d =
     List.map_filter (\<lambda>a. case a_opportunity_id a of
         None \<Rightarrow> None
       | Some oid \<Rightarrow>
          (case get_opportunity d oid of
             None \<Rightarrow> None
           | Some o' \<Rightarrow> if a_tenant_id a = Some tenant \<and> a_id a \<noteq> a_id attempt \<and> same_company opp o' then Some (a, o') else None))
       (applications_t d)"

definition check_company_history ::
  "string \<Rightarrow> application_policy \<Rightarrow> application_row \<Rightarrow> opportunity_row \<Rightarrow> time \<Rightarrow> db \<Rightarrow> precondition_failure list" where
  "check_company_history tenant policy attempt opp now d =
     (let rows = company_attempts tenant attempt opp d;
          same = map_of (map (\<lambda>(a, o'). (o_id o', o')) rows);
          attempts = map (\<lambda>(a, o'). (o_id o', a)) rows
      in if attempts = [] then []
         else let (cooldown, duplicates) = build_indexes attempts same [] (cooldown_days policy);
                  others = other_openings duplicates opp
              in (case active_until cooldown (o_company opp) now of
                    None \<Rightarrow> []
                  | Some until \<Rightarrow> [fail_of PC_COOLDOWN_ACTIVE (''company cool-down until '' @ isoformat until)
                                    [(''until'', JStr (isoformat until))]]) @
                 when_fail (others \<noteq> [])
                   (fail_of PC_DUPLICATE_APPLICATION ''already applied to the same title at this company''
                      [(''opportunities'', JList (map JStr (sort others)))]) @
                 when_fail (o_status opp = OPP_REPOSTED \<and> policy_duplicates policy = DP_BLOCK \<and>
                     (case map_of attempts (o_id opp) of None \<Rightarrow> False | Some previous \<Rightarrow> a_status previous \<in> SUBMITTED_STATUSES))
                   (fail_of PC_DUPLICATE_OPPORTUNITY ''applied before this repost; duplicate_policy=BLOCK'' []))"

definition opening_failures ::
  "string \<Rightarrow> application_policy \<Rightarrow> application_row \<Rightarrow> candidate_opportunity_row option \<Rightarrow> opportunity_row option \<Rightarrow> time \<Rightarrow> db \<Rightarrow>
   precondition_failure list" where
  "opening_failures tenant policy attempt co opportunity now d =
     (case opportunity of
        None \<Rightarrow> [fail_of PC_OPPORTUNITY_CLOSED ''opportunity missing'' []]
      | Some opp \<Rightarrow>
          when_fail (o_status opp = OPP_CLOSED) (fail_of PC_OPPORTUNITY_CLOSED ''opening is closed at the source'' []) @
          (case co of
             None \<Rightarrow> []
           | Some c \<Rightarrow> when_fail (co_state c = OS_CLOSED \<or> co_state c = OS_SKIPPED)
               (fail_of PC_OPPORTUNITY_CLOSED (''candidate opportunity is '' @ opportunity_state_value (co_state c)) [])) @
          when_fail (company_key (Some (o_company opp)) \<in> set (map (\<lambda>c. company_key (Some c)) (blocked_companies policy)))
            (fail_of PC_COMPANY_BLOCKED ''company is on the blocklist'' [(''company'', JStr (o_company opp))]) @
          check_company_history tenant policy attempt opp now d)"

section \<open>Caps\<close>

definition same_period :: "string \<Rightarrow> string \<Rightarrow> application_row \<Rightarrow> bool" where
  "same_period day week attempt \<longleftrightarrow> holds_slot attempt \<and> a_cap_day attempt = Some day \<and> a_cap_week attempt = Some week"

definition refreshed_row :: "string \<Rightarrow> string \<Rightarrow> time \<Rightarrow> application_row \<Rightarrow> application_row" where
  "refreshed_row day week now attempt =
     attempt\<lparr>a_cap_day := Some day, a_cap_week := Some week,
             a_reserved_at := (if a_reserved_at attempt = None then Some now else a_reserved_at attempt),
             a_released_at := None\<rparr>"

definition cap_reason_failure :: "admission_reason \<Rightarrow> string \<Rightarrow> string \<Rightarrow> precondition_failure" where
  "cap_reason_failure reason day week =
     (if reason = AR_DAILY_CAP_REACHED
      then fail_of PC_DAILY_CAP_REACHED (''daily cap reached for '' @ day) [(''period'', JStr day)]
      else fail_of PC_WEEKLY_CAP_REACHED (''weekly cap reached for '' @ week) [(''period'', JStr day)])"

definition check_caps ::
  "string \<Rightarrow> application_policy \<Rightarrow> application_row \<Rightarrow> string \<Rightarrow> string \<Rightarrow> bool \<Rightarrow> time \<Rightarrow> db \<Rightarrow>
   precondition_failure option \<times> application_row \<times> db" where
  "check_caps tenant policy attempt day week reserve now d =
     (if daily_cap policy \<le> 0 then (Some (fail_of PC_DAILY_CAP_REACHED ''daily_cap is 0 (paused)'' []), attempt, d)
      else if weekly_cap policy \<le> 0 then (Some (fail_of PC_WEEKLY_CAP_REACHED ''weekly_cap is 0 (paused)'' []), attempt, d)
      else if same_period day week attempt then (None, attempt, d)
      else if \<not> reserve
      then if cap_usage tenant DAY day d \<ge> daily_cap policy
           then (Some (fail_of PC_DAILY_CAP_REACHED ''no daily capacity left for a refreshed reservation'' [(''period'', JStr day)]), attempt, d)
           else if cap_usage tenant WEEK week d \<ge> weekly_cap policy
           then (Some (fail_of PC_WEEKLY_CAP_REACHED ''no weekly capacity left for a refreshed reservation'' [(''period'', JStr week)]), attempt, d)
           else (None, attempt, d)
      else case cap_reserve tenant day week (daily_cap policy) (weekly_cap policy) [] d of
        (Some reason, _, d1) \<Rightarrow> (Some (cap_reason_failure reason day week), attempt, d1)
      | (None, e1, d1) \<Rightarrow>
          let d2 = (if holds_slot attempt then snd (cap_release tenant (a_cap_day attempt) (a_cap_week attempt) e1 d1) else d1);
              row = (refreshed_row day week now attempt)\<lparr>a_updated_at := now\<rparr>
          in (None, row, put_application row d2))"

section \<open>The whole check\<close>

definition check ::
  "string \<Rightarrow> application_policy \<Rightarrow> zone \<Rightarrow> application_row \<Rightarrow> preparation_row option \<Rightarrow> candidate_opportunity_row option \<Rightarrow>
   opportunity_row option \<Rightarrow> string list \<Rightarrow> bool \<Rightarrow> bool \<Rightarrow> time \<Rightarrow> db \<Rightarrow> precondition_report \<times> application_row \<times> db" where
  "check tenant policy zn attempt preparation co opportunity stale_inputs reserve executing now d =
     (let refused = (\<lambda>f. \<lparr>pr_ok = False, pr_failures = [f], pr_stale_inputs = [], pr_cap_day_key = None, pr_cap_week_key = None\<rparr>)
      in if a_tenant_id attempt \<noteq> Some tenant
         then (refused (fail_of PC_TENANT_MISMATCH ''attempt belongs to another tenant'' []), attempt, d)
         else if a_status attempt \<in> SUBMITTED_STATUSES \<and> a_status attempt \<noteq> expected_status executing
         then (refused (fail_of PC_ALREADY_SUBMITTED (''attempt is '' @ application_status_value (a_status attempt))
                 [(''status'', JStr (application_status_value (a_status attempt)))]), attempt, d)
         else
           let failures = attempt_failures executing attempt @ preparation_failures tenant attempt preparation stale_inputs @
                 opening_failures tenant policy attempt co opportunity now d;
               keys = period_keys_of zn now; day = pd_key (pk_day keys); week = pd_key (pk_week keys);
               report = \<lparr>pr_ok = (failures = []), pr_failures = failures, pr_stale_inputs = stale_inputs,
                         pr_cap_day_key = Some day, pr_cap_week_key = Some week\<rparr>
           in if failures \<noteq> [] then (report, attempt, d)
              else case check_caps tenant policy attempt day week reserve now d of
                (None, row, d1) \<Rightarrow> (report, row, d1)
              | (Some f, row, d1) \<Rightarrow> (report\<lparr>pr_ok := False, pr_failures := failures @ [f]\<rparr>, row, d1))"

section \<open>Specification\<close>

text \<open>What another attempt of the tenant at the company must not be: inside the cool-down, a second
  opening of the same title, or an earlier application to the reposted opening under \<open>BLOCK\<close>.\<close>

definition no_obstacle :: "application_policy \<Rightarrow> opportunity_row \<Rightarrow> time \<Rightarrow> application_row \<times> opportunity_row \<Rightarrow> bool" where
  "no_obstacle policy opp now entry \<longleftrightarrow>
     (let a = fst entry; o' = snd entry in
      \<not> (0 < cooldown_days policy \<and> company_key (Some (o_company opp)) = company_key (Some (o_company o')) \<and>
         (\<exists>t. attempt_start a = Some t \<and> now < t + days (cooldown_days policy))) \<and>
      \<not> (o_id o' \<noteq> o_id opp \<and> duplicate_key (o_company o') (o_title o') = duplicate_key (o_company opp) (o_title opp) \<and>
         (holds_slot a \<or> is_submitted a)))"

definition history_clear :: "string \<Rightarrow> application_policy \<Rightarrow> application_row \<Rightarrow> opportunity_row \<Rightarrow> time \<Rightarrow> db \<Rightarrow> bool" where
  "history_clear tenant policy attempt opp now d \<longleftrightarrow>
     list_all (no_obstacle policy opp now) (company_attempts tenant attempt opp d) \<and>
     \<not> (o_status opp = OPP_REPOSTED \<and> policy_duplicates policy = DP_BLOCK \<and>
        (\<exists>previous. map_of (map (\<lambda>(a, o'). (o_id o', a)) (company_attempts tenant attempt opp d)) (o_id opp) = Some previous \<and>
           a_status previous \<in> SUBMITTED_STATUSES))"

definition may_submit ::
  "string \<Rightarrow> application_policy \<Rightarrow> application_row \<Rightarrow> preparation_row option \<Rightarrow> candidate_opportunity_row option \<Rightarrow> opportunity_row option \<Rightarrow>
   string list \<Rightarrow> bool \<Rightarrow> time \<Rightarrow> db \<Rightarrow> bool" where
  "may_submit tenant policy attempt preparation co opportunity stale_inputs executing now d \<longleftrightarrow>
     a_tenant_id attempt = Some tenant \<and> a_status attempt = expected_status executing \<and> a_released_at attempt = None \<and>
     (case preparation of None \<Rightarrow> False
      | Some p \<Rightarrow> p_tenant_id p = tenant \<and> \<not> (truthy (a_opportunity_id attempt) \<and> Some (p_opportunity_id p) \<noteq> a_opportunity_id attempt) \<and>
          p_status p = PS_READY \<and> p_validation_status p = VL_PASSED \<and> unanswered p = [] \<and> stale_inputs = []) \<and>
     (case opportunity of None \<Rightarrow> False
      | Some opp \<Rightarrow> o_status opp \<noteq> OPP_CLOSED \<and> (case co of None \<Rightarrow> True | Some c \<Rightarrow> co_state c \<noteq> OS_CLOSED \<and> co_state c \<noteq> OS_SKIPPED) \<and>
          company_key (Some (o_company opp)) \<notin> set (map (\<lambda>c. company_key (Some c)) (blocked_companies policy)) \<and>
          history_clear tenant policy attempt opp now d)"

definition slot_available :: "string \<Rightarrow> application_policy \<Rightarrow> zone \<Rightarrow> application_row \<Rightarrow> time \<Rightarrow> db \<Rightarrow> bool" where
  "slot_available tenant policy zn attempt now d \<longleftrightarrow>
     (let day = pd_key (pk_day (period_keys_of zn now)); week = pd_key (pk_week (period_keys_of zn now)) in
      0 < daily_cap policy \<and> 0 < weekly_cap policy \<and>
      (same_period day week attempt \<or>
       (cap_usage tenant DAY day d < daily_cap policy \<and> cap_usage tenant WEEK week d < weekly_cap policy)))"

section \<open>The checks against their specification\<close>

lemma when_fail_Nil [simp]: "when_fail c f = [] \<longleftrightarrow> \<not> c"
  by (simp add: when_fail_def)

lemma company_attempts_rows:
  "(a, o') \<in> set (company_attempts tenant attempt opp d) \<Longrightarrow>
     get_opportunity d (o_id o') = Some o' \<and> a_opportunity_id a = Some (o_id o') \<and> a \<in> set (applications_t d) \<and>
     a_tenant_id a = Some tenant \<and> a_id a \<noteq> a_id attempt"
  by (auto simp: company_attempts_def in_map_filter get_opportunity_def dest: tbl_get_Some split: option.splits if_splits)

lemma same_lookup:
  assumes "(a, o') \<in> set (company_attempts tenant attempt opp d)"
  shows "map_of (map (\<lambda>(a, o'). (o_id o', o')) (company_attempts tenant attempt opp d)) (o_id o') = Some o'"
proof -
  let ?m = "map (\<lambda>(a, o'). (o_id o', o')) (company_attempts tenant attempt opp d)"
  have "o_id o' \<in> fst ` set ?m" using assms by force
  then have "map_of ?m (o_id o') \<noteq> None" using map_of_eq_None_iff [of ?m "o_id o'"] by blast
  then obtain x where x: "map_of ?m (o_id o') = Some x" by blast
  then obtain b where b: "(b, x) \<in> set (company_attempts tenant attempt opp d)" "o_id x = o_id o'"
    by (auto dest!: map_of_SomeD)
  have "get_opportunity d (o_id o') = Some x" using company_attempts_rows [OF b(1)] by (simp only: b(2))
  moreover have "get_opportunity d (o_id o') = Some o'" using company_attempts_rows [OF assms] by blast
  ultimately have "x = o'" by simp
  with x show ?thesis by blast
qed

lemma other_openings_Nil:
  "other_openings duplicates opp = [] \<longleftrightarrow>
     (\<forall>oid. (duplicate_key (o_company opp) (o_title opp), oid) \<in> set duplicates \<longrightarrow> oid = o_id opp)"
  by (auto simp: other_openings_def filter_empty_conv)

lemma history_cooldown:
  fixes tenant attempt opp d
  defines "rows \<equiv> company_attempts tenant attempt opp d"
  shows "active_until (fst (build_indexes (map (\<lambda>(a, o'). (o_id o', a)) rows) (map_of (map (\<lambda>(a, o'). (o_id o', o')) rows)) [] n))
      (o_company opp) now = None \<longleftrightarrow>
    (\<forall>(a, o') \<in> set rows. \<not> (0 < n \<and> company_key (Some (o_company opp)) = company_key (Some (o_company o')) \<and>
         (\<exists>t. attempt_start a = Some t \<and> now < t + days n)))"
proof -
  have lookup: "(a, o') \<in> set rows \<Longrightarrow> map_of (map (\<lambda>(a, o'). (o_id o', o')) rows) (o_id o') = Some o'" for a o'
    unfolding rows_def by (rule same_lookup)
  have "active_until (fst (build_indexes (map (\<lambda>(a, o'). (o_id o', a)) rows) (map_of (map (\<lambda>(a, o'). (o_id o', o')) rows)) [] n))
      (o_company opp) now \<noteq> None \<longleftrightarrow>
    (\<exists>(a, o') \<in> set rows. 0 < n \<and> company_key (Some (o_company opp)) = company_key (Some (o_company o')) \<and>
         (\<exists>t. attempt_start a = Some t \<and> now < t + days n))"
    unfolding active_until_covered covered_build in_cooldown_def using lookup by (auto simp: Bex_def) fastforce+
  then show ?thesis by blast
qed

lemma history_duplicates:
  fixes tenant attempt opp d
  defines "rows \<equiv> company_attempts tenant attempt opp d"
  shows "other_openings (snd (build_indexes (map (\<lambda>(a, o'). (o_id o', a)) rows) (map_of (map (\<lambda>(a, o'). (o_id o', o')) rows)) [] n)) opp = [] \<longleftrightarrow>
    (\<forall>(a, o') \<in> set rows. \<not> (o_id o' \<noteq> o_id opp \<and> duplicate_key (o_company o') (o_title o') = duplicate_key (o_company opp) (o_title opp) \<and>
         (holds_slot a \<or> is_submitted a)))"
proof -
  have lookup: "(a, o') \<in> set rows \<Longrightarrow> map_of (map (\<lambda>(a, o'). (o_id o', o')) rows) (o_id o') = Some o'" for a o'
    unfolding rows_def by (rule same_lookup)
  show ?thesis
    unfolding other_openings_Nil build_indexes_def fold_Nil id_apply duplicates_attempts using lookup by (auto; fastforce)
qed

lemma check_company_history_Nil:
  "check_company_history tenant policy attempt opp now d = [] \<longleftrightarrow> history_clear tenant policy attempt opp now d"
proof (cases "company_attempts tenant attempt opp d = []")
  case True
  then show ?thesis by (simp add: check_company_history_def history_clear_def)
next
  case False
  then show ?thesis
    using history_cooldown [of tenant attempt opp d "cooldown_days policy" now]
      history_duplicates [of tenant attempt opp d "cooldown_days policy"]
    by (auto simp: check_company_history_def history_clear_def no_obstacle_def Let_def list_all_iff case_prod_unfold split: option.splits)
qed

lemma attempt_failures_Nil:
  "attempt_failures executing attempt = [] \<longleftrightarrow> a_status attempt = expected_status executing \<and> a_released_at attempt = None"
  by (auto simp: attempt_failures_def)

lemma preparation_failures_Nil:
  "preparation_failures tenant attempt preparation stale_inputs = [] \<longleftrightarrow>
     (case preparation of None \<Rightarrow> False
      | Some p \<Rightarrow> p_tenant_id p = tenant \<and> \<not> (truthy (a_opportunity_id attempt) \<and> Some (p_opportunity_id p) \<noteq> a_opportunity_id attempt) \<and>
          p_status p = PS_READY \<and> p_validation_status p = VL_PASSED \<and> unanswered p = [] \<and> stale_inputs = [])"
  by (cases preparation) (auto simp: preparation_failures_def)

lemma opening_failures_Nil:
  "opening_failures tenant policy attempt co opportunity now d = [] \<longleftrightarrow>
     (case opportunity of None \<Rightarrow> False
      | Some opp \<Rightarrow> o_status opp \<noteq> OPP_CLOSED \<and> (case co of None \<Rightarrow> True | Some c \<Rightarrow> co_state c \<noteq> OS_CLOSED \<and> co_state c \<noteq> OS_SKIPPED) \<and>
          company_key (Some (o_company opp)) \<notin> set (map (\<lambda>c. company_key (Some c)) (blocked_companies policy)) \<and>
          history_clear tenant policy attempt opp now d)"
  by (cases opportunity; cases co) (simp_all add: opening_failures_def check_company_history_Nil)

lemma cache_ok_Nil [simp]: "cache_ok t [] d"
  by (simp add: cache_ok_def)

lemma check_caps_none:
  assumes "ledger_inv d"
  shows "fst (check_caps tenant policy attempt day week reserve now d) = None \<longleftrightarrow>
    0 < daily_cap policy \<and> 0 < weekly_cap policy \<and>
    (same_period day week attempt \<or> (cap_usage tenant DAY day d < daily_cap policy \<and> cap_usage tenant WEEK week d < weekly_cap policy))"
proof -
  obtain r e1 d1 where c: "cap_reserve tenant day week (daily_cap policy) (weekly_cap policy) [] d = (r, e1, d1)" by (rule prod_cases3)
  have "r = reserve_reason (daily_cap policy) (weekly_cap policy) (cap_count tenant d (DAY, day)) (cap_count tenant d (WEEK, week))"
    using cap_reserve_spec(1) [OF assms cache_ok_Nil c] .
  then show ?thesis
    by (cases "0 < daily_cap policy \<and> 0 < weekly_cap policy")
      (auto simp: check_caps_def c reserve_reason_def cap_usage_count Let_def split: option.splits)
qed

text \<open>The slots an attempt holds, and the balance of a check: what the ledger counts changes by
  exactly what the attempt row holds more or less.\<close>

definition slots_of :: "string \<Rightarrow> string \<times> string \<Rightarrow> application_row \<Rightarrow> int" where
  "slots_of t k a = (if in_period t k a then 1 else 0)"

lemma check_caps_balance:
  assumes inv: "ledger_inv d" and keys: "a_cap_day attempt \<noteq> Some []" "a_cap_week attempt \<noteq> Some []" and t: "a_tenant_id attempt = Some tenant"
    and res: "check_caps tenant policy attempt day week reserve now d = (f, row, d')"
  shows "cap_count tenant d' k = cap_count tenant d k + slots_of tenant k row - slots_of tenant k attempt"
    and "f = None \<Longrightarrow> reserve \<Longrightarrow> in_period tenant (DAY, day) row \<and> in_period tenant (WEEK, week) row"
    and "f \<noteq> None \<Longrightarrow> row = attempt" and "ledger_inv d'"
proof -
  obtain r e1 d1 where c: "cap_reserve tenant day week (daily_cap policy) (weekly_cap policy) [] d = (r, e1, d1)" by (rule prod_cases3)
  note s = cap_reserve_spec [OF inv cache_ok_Nil c]
  note rel = cap_release_spec [OF conjunct1 [OF s(3)] conjunct2 [OF s(3)], where day = "a_cap_day attempt" and week = "a_cap_week attempt"]
  let ?row = "(refreshed_row day week now attempt)\<lparr>a_updated_at := now\<rparr>"
  have held: "slots_of tenant k ?row = (if k \<in> {(DAY, day), (WEEK, week)} then 1 else 0)"
    using t by (cases k) (auto simp: slots_of_def in_period_def refreshed_row_def holds_slot_def)
  have old: "slots_of tenant k attempt = (if holds_slot attempt then
      (if truthy (a_cap_day attempt) \<and> k = (DAY, the (a_cap_day attempt)) then 1 else 0) +
      (if truthy (a_cap_week attempt) \<and> k = (WEEK, the (a_cap_week attempt)) then 1 else 0) else 0)"
    using t keys by (cases k) (auto simp: slots_of_def in_period_def truthy_def split: option.splits)
  consider (granted) "r = None" "f = None" "row = ?row" "\<not> same_period day week attempt"
      "d' = put_application ?row (if holds_slot attempt then snd (cap_release tenant (a_cap_day attempt) (a_cap_week attempt) e1 d1) else d1)"
    | (refused) x where "r = Some x" "f \<noteq> None" "row = attempt" "d' = d1"
    | (kept) "row = attempt" "d' = d" "f \<noteq> None \<or> \<not> reserve \<or> same_period day week attempt"
    using res by (cases r) (auto simp: check_caps_def c Let_def split: if_splits)
  then show "cap_count tenant d' k = cap_count tenant d k + slots_of tenant k row - slots_of tenant k attempt"
    using s(2) [of tenant k] rel(1) [of tenant k] held old by cases (auto split: if_splits)
  show "f = None \<Longrightarrow> reserve \<Longrightarrow> in_period tenant (DAY, day) row \<and> in_period tenant (WEEK, week) row"
    using res t by (cases r) (auto simp: check_caps_def c Let_def in_period_def same_period_def refreshed_row_def holds_slot_def split: if_splits)
  show "f \<noteq> None \<Longrightarrow> row = attempt"
    using res by (cases r) (auto simp: check_caps_def c Let_def split: if_splits)
  show "ledger_inv d'"
    using res inv s(3) rel(2) by (cases r) (auto simp: check_caps_def c Let_def put_application_def ledger_inv_def split: if_splits)
qed

text \<open>The failures of a check are those of its parts.\<close>

lemma fail_code [simp]: "pf_code (fail_of code m x) = code"
  by (simp add: fail_of_def)

lemma when_fail_codes: "pf_code ` set (when_fail c f) = (if c then {pf_code f} else {})"
  by (simp add: when_fail_def)

lemma part_codes:
  "PC_DUPLICATE_OPPORTUNITY \<notin> pf_code ` set (attempt_failures executing attempt)"
  "PC_DUPLICATE_OPPORTUNITY \<notin> pf_code ` set (preparation_failures tenant attempt preparation stale_inputs)"
  "check_caps tenant policy attempt day week reserve now d = (Some f, row, d') \<Longrightarrow> pf_code f \<noteq> PC_DUPLICATE_OPPORTUNITY"
  subgoal by (simp add: attempt_failures_def image_Un when_fail_codes)
  subgoal by (cases preparation) (simp_all add: preparation_failures_def image_Un when_fail_codes)
  subgoal by (auto simp: check_caps_def cap_reason_failure_def Let_def split: if_splits option.splits prod.splits)
  done

lemma opening_codes:
  "PC_DUPLICATE_OPPORTUNITY \<in> pf_code ` set (opening_failures tenant policy attempt co (Some opp) now d) \<longleftrightarrow>
     PC_DUPLICATE_OPPORTUNITY \<in> pf_code ` set (check_company_history tenant policy attempt opp now d)"
  by (cases co) (simp_all add: opening_failures_def image_Un when_fail_codes)

lemma check_codes:
  "pf_code ` set (pr_failures (fst (check tenant policy zn attempt preparation co opportunity stale_inputs reserve executing now d))) \<subseteq>
     {PC_TENANT_MISMATCH, PC_ALREADY_SUBMITTED} \<union> pf_code ` set (attempt_failures executing attempt) \<union>
     pf_code ` set (preparation_failures tenant attempt preparation stale_inputs) \<union>
     pf_code ` set (opening_failures tenant policy attempt co opportunity now d) \<union>
     {pf_code f |f row d' day week. check_caps tenant policy attempt day week reserve now d = (Some f, row, d')}"
  by (auto simp: check_def Let_def split: prod.split option.split)

lemma check_ok_iff:
  assumes "ledger_inv d"
  shows "pr_ok (fst (check tenant policy zn attempt preparation co opportunity stale_inputs reserve executing now d)) =
    (may_submit tenant policy attempt preparation co opportunity stale_inputs executing now d \<and>
     slot_available tenant policy zn attempt now d)"
proof -
  define day week where "day = pd_key (pk_day (period_keys_of zn now))" and "week = pd_key (pk_week (period_keys_of zn now))"
  obtain f row d1 where c: "check_caps tenant policy attempt day week reserve now d = (f, row, d1)" by (rule prod_cases3)
  have f: "f = None \<longleftrightarrow> slot_available tenant policy zn attempt now d"
    using check_caps_none [OF assms, of tenant policy attempt day week reserve now] c
    by (simp add: slot_available_def Let_def flip: day_def week_def)
  show ?thesis
    using c f unfolding check_def may_submit_def Let_def
    by (auto simp: attempt_failures_Nil preparation_failures_Nil opening_failures_Nil simp flip: day_def week_def split: option.splits)
qed

text \<open>What a check leaves alone: every table but the ledger and the attempt's own row, and of that row
  everything but the slot.\<close>

lemma check_frame:
  assumes "check tenant policy zn attempt preparation co opportunity stale_inputs reserve executing now d = (rep, row, d')"
  shows "runs_t d' = runs_t d" "queue_t d' = queue_t d" "candidates_t d' = candidates_t d" "preparations_t d' = preparations_t d"
    and "applications_t d' = applications_t d \<and> row = attempt \<or> applications_t d' = tbl_put a_id row (applications_t d)"
    and "a_id row = a_id attempt" "a_tenant_id row = a_tenant_id attempt" "a_opportunity_id row = a_opportunity_id attempt"
      "a_status row = a_status attempt" "a_submission_key row = a_submission_key attempt"
      "a_execution_count row = a_execution_count attempt"
proof -
  have res: "runs_t (snd (snd (cap_reserve t dk wk dc wc e d))) = runs_t d \<and> queue_t (snd (snd (cap_reserve t dk wk dc wc e d))) = queue_t d \<and>
      candidates_t (snd (snd (cap_reserve t dk wk dc wc e d))) = candidates_t d \<and>
      preparations_t (snd (snd (cap_reserve t dk wk dc wc e d))) = preparations_t d" for t dk wk dc wc e d
    by (simp only: only_ledger_reads [OF reserve_only_ledger])
  have rel: "runs_t (snd (cap_release t dk wk e d)) = runs_t d \<and> queue_t (snd (cap_release t dk wk e d)) = queue_t d \<and>
      candidates_t (snd (cap_release t dk wk e d)) = candidates_t d \<and> preparations_t (snd (cap_release t dk wk e d)) = preparations_t d" for t dk wk e d
    by (simp only: only_ledger_reads [OF release_only_ledger])
  consider (same) "row = attempt" "d' = d" | (caps) day week f where "check_caps tenant policy attempt day week reserve now d = (f, row, d')"
    using assms by (auto simp: check_def Let_def split: if_splits prod.splits option.splits)
  then have "(runs_t d' = runs_t d \<and> queue_t d' = queue_t d \<and> candidates_t d' = candidates_t d \<and> preparations_t d' = preparations_t d) \<and>
      (applications_t d' = applications_t d \<and> row = attempt \<or> applications_t d' = tbl_put a_id row (applications_t d)) \<and>
      a_id row = a_id attempt \<and> a_tenant_id row = a_tenant_id attempt \<and> a_opportunity_id row = a_opportunity_id attempt \<and>
      a_status row = a_status attempt \<and> a_submission_key row = a_submission_key attempt \<and> a_execution_count row = a_execution_count attempt"
  proof cases
    case caps
    obtain r e1 d1 where c: "cap_reserve tenant day week (daily_cap policy) (weekly_cap policy) [] d = (r, e1, d1)" by (rule prod_cases3)
    have d1: "runs_t d1 = runs_t d" "queue_t d1 = queue_t d" "candidates_t d1 = candidates_t d" "preparations_t d1 = preparations_t d"
      "applications_t d1 = applications_t d"
      using res [of tenant day week "daily_cap policy" "weekly_cap policy" "[]" d]
        applications_ledger(1) [of tenant day week "daily_cap policy" "weekly_cap policy" "[]" d] c by simp_all
    show ?thesis
      using caps d1 rel applications_ledger(2)
      by (cases r) (auto simp: check_caps_def c Let_def refreshed_row_def split: if_splits)
  qed simp
  then show "runs_t d' = runs_t d" "queue_t d' = queue_t d" "candidates_t d' = candidates_t d" "preparations_t d' = preparations_t d"
    and "applications_t d' = applications_t d \<and> row = attempt \<or> applications_t d' = tbl_put a_id row (applications_t d)"
    and "a_id row = a_id attempt" "a_tenant_id row = a_tenant_id attempt" "a_opportunity_id row = a_opportunity_id attempt"
      "a_status row = a_status attempt" "a_submission_key row = a_submission_key attempt"
      "a_execution_count row = a_execution_count attempt" by blast+
qed

section \<open>Properties\<close>

text \<open>C24. The submission check lets an attempt through exactly when everything holds again at that
  moment: the attempt is the tenant's, in the expected state (\<open>READY\<close> to start, \<open>SUBMITTING\<close> at the
  pre-submit gate) and not released, its preparation is current, validated, fully answered and not
  stale, the opening and the candidate's state are live, the company is neither blocked nor in a
  cool-down nor already applied to for the same title, and the cap slot is held for the current
  periods or can be taken. A preview and a real check always agree.\<close>

theorem preconditions_exact:
  assumes "ledger_inv d"
  shows "pr_ok (fst (check tenant policy zn attempt preparation co opportunity stale_inputs reserve executing now d)) =
    (may_submit tenant policy attempt preparation co opportunity stale_inputs executing now d \<and>
     slot_available tenant policy zn attempt now d)"
  by (rule check_ok_iff [OF assms])

text \<open>C25. The submission check keeps the books: what the ledger counts for a period changes by exactly the
  slots the attempt holds afterwards less those it held before, so a reservation of the same day and
  week is consumed and never counted twice, and one of an earlier period is exchanged for one of the
  current. When a reserving check passes, the attempt holds a slot of the current day and week; when
  a check fails, the attempt is untouched.\<close>

theorem preconditions_balance:
  assumes "check tenant policy zn attempt preparation co opportunity stale_inputs reserve executing now d = (rep, row, d')"
    and "ledger_inv d" and "a_cap_day attempt \<noteq> Some []" and "a_cap_week attempt \<noteq> Some []"
  shows "cap_count tenant d' k = cap_count tenant d k + slots_of tenant k row - slots_of tenant k attempt \<and>
    (if pr_ok rep
     then reserve = False \<or>
       (in_period tenant (DAY, pd_key (pk_day (period_keys_of zn now))) row \<and>
        in_period tenant (WEEK, pd_key (pk_week (period_keys_of zn now))) row)
     else row = attempt)"
proof -
  define day week where "day = pd_key (pk_day (period_keys_of zn now))" and "week = pd_key (pk_week (period_keys_of zn now))"
  obtain f row1 d1 where c: "check_caps tenant policy attempt day week reserve now d = (f, row1, d1)" by (rule prod_cases3)
  from assms(1) consider "row = attempt" "d' = d" "\<not> pr_ok rep"
    | "a_tenant_id attempt = Some tenant" "row = row1" "d' = d1" "pr_ok rep = (f = None)"
    by (auto simp: check_def Let_def c simp flip: day_def week_def split: if_splits option.splits)
  then show ?thesis
  proof cases
    case 2
    note b = check_caps_balance [OF assms(2-4) 2(1) c]
    from b(1) [of k] b(2,3) 2 show ?thesis by (auto simp flip: day_def week_def)
  qed simp
qed

text \<open>The repost rule is never applied at submission: with one attempt per tenant and opening (the
  table's unique constraint) the query that looks for an earlier application to the same opening
  leaves out the only row there is, so no submission check reports \<open>DUPLICATE_OPPORTUNITY\<close>, whatever
  the duplicate policy and the state of the opening.\<close>

theorem repost_check_never_fires:
  assumes "attempt \<in> set (applications_t d)" and "a_opportunity_id attempt = Some (o_id opp)"
    and "\<And>a. a \<in> set (applications_t d) \<Longrightarrow> a_tenant_id a = Some tenant \<Longrightarrow> a_opportunity_id a = Some (o_id opp) \<Longrightarrow> a_id a = a_id attempt"
  shows "PC_DUPLICATE_OPPORTUNITY \<notin>
    pf_code ` set (pr_failures (fst (check tenant policy zn attempt preparation co (Some opp) stale_inputs reserve executing now d)))"
proof -
  have "map_of (map (\<lambda>(a, o'). (o_id o', a)) (company_attempts tenant attempt opp d)) (o_id opp) = None"
    using company_attempts_rows [of _ _ tenant attempt opp d] assms(3) by (force simp: map_of_eq_None_iff)
  then have "PC_DUPLICATE_OPPORTUNITY \<notin> pf_code ` set (check_company_history tenant policy attempt opp now d)"
    by (auto simp: check_company_history_def Let_def image_Un when_fail_codes case_prod_unfold split: option.split)
  then have hist: "PC_DUPLICATE_OPPORTUNITY \<notin> pf_code ` set (opening_failures tenant policy attempt co (Some opp) now d)"
    unfolding opening_codes .
  show ?thesis
  proof
    assume "PC_DUPLICATE_OPPORTUNITY \<in> pf_code ` set (pr_failures (fst (check tenant policy zn attempt preparation co (Some opp)
      stale_inputs reserve executing now d)))"
    from subsetD [OF check_codes this] hist part_codes(1) [of executing attempt]
      part_codes(2) [of tenant attempt preparation stale_inputs]
    obtain f row d' day week where "check_caps tenant policy attempt day week reserve now d = (Some f, row, d')"
      "pf_code f = PC_DUPLICATE_OPPORTUNITY" unfolding Un_iff by (elim disjE) auto
    then show False using part_codes(3) by blast
  qed
qed

text \<open>An attempt reserved yesterday, ready today.\<close>

definition example_preparation :: preparation_row where
  "example_preparation = \<lparr>p_id = ''p1'', p_tenant_id = ''t1'', p_candidate_opportunity_id = ''co1'', p_opportunity_id = ''opp-1'', p_version = 1,
     p_status = PS_READY, p_validation_status = VL_PASSED, p_answers = [], p_job_id = Some ''job-1'', p_job_content_hash = None,
     p_tailoring_level = TL_L0, p_lane = LN_AUTO, p_cover_letter_mode = CM_DISABLED, p_positioning_variant_id = None,
     p_positioning_variant_version = None, p_positioning_reason = None, p_validation_report = JObj [], p_input_fingerprint = ''f'', p_inputs = [],
     p_evidence_keys = [], p_ai_used = False, p_ai_provider = None, p_ai_model = None, p_ai_calls = 0, p_approved_at = None,
     p_approved_by = None, p_updated_at = 0\<rparr>"

definition example_ready :: application_row where
  "example_ready = (blank_application ''a1'' ''job1'' 0)\<lparr>a_tenant_id := Some ''t1'', a_opportunity_id := Some ''opp-1'',
     a_preparation_id := Some ''p1'', a_status := AS_READY, a_cap_day := Some ''1969-12-31'', a_cap_week := Some ''1970-W01'',
     a_reserved_at := Some 0\<rparr>"

definition example_ready_db :: db where
  "example_ready_db = empty_db\<lparr>opportunities_t := [example_opp], applications_t := [example_ready], preparations_t := [example_preparation],
     ledger_t := [\<lparr>l_tenant_id = ''t1'', l_period_kind = DAY, l_period_key = ''1969-12-31'', l_reserved = 1, l_released = 0\<rparr>,
                  \<lparr>l_tenant_id = ''t1'', l_period_kind = WEEK, l_period_key = ''1970-W01'', l_reserved = 1, l_released = 0\<rparr>]\<rparr>"

abbreviation example_check :: "precondition_report \<times> application_row \<times> db" where
  "example_check \<equiv> check ''t1'' example_policy (fixed_zone 0) example_ready (Some example_preparation) (Some example_co) (Some example_opp)
     [] True False 5 example_ready_db"

lemma example_ready_ok: "ledger_inv example_ready_db" "a_cap_day example_ready \<noteq> Some []" "a_cap_week example_ready \<noteq> Some []"
  by code_simp+

lemma example_check_eval:
  "(pr_ok (fst example_check), fst (snd example_check)) =
     (True, (refreshed_row ''1970-01-01'' ''1970-W01'' 5 example_ready)\<lparr>a_updated_at := 5\<rparr>)"
  by code_simp

theorem preconditions_exact_witness:
  "may_submit ''t1'' example_policy example_ready (Some example_preparation) (Some example_co) (Some example_opp) [] False 5 example_ready_db \<and>
   slot_available ''t1'' example_policy (fixed_zone 0) example_ready 5 example_ready_db"
proof -
  have "pr_ok (fst example_check)" using example_check_eval by simp
  then show ?thesis using preconditions_exact [OF example_ready_ok(1)] by blast
qed

lemma example_check_row:
  "fst (snd example_check) = (refreshed_row ''1970-01-01'' ''1970-W01'' 5 example_ready)\<lparr>a_updated_at := 5\<rparr>"
  using example_check_eval by simp

theorem preconditions_balance_witness:
  "cap_count ''t1'' (snd (snd example_check)) (DAY, ''1970-01-01'') = 1 \<and>
   cap_count ''t1'' (snd (snd example_check)) (DAY, ''1969-12-31'') = 0 \<and>
   cap_count ''t1'' (snd (snd example_check)) (WEEK, ''1970-W01'') = 1"
proof -
  obtain rep row d' where c: "example_check = (rep, row, d')" by (rule prod_cases3)
  note b = preconditions_balance [OF c example_ready_ok]
  have row: "row = (refreshed_row ''1970-01-01'' ''1970-W01'' 5 example_ready)\<lparr>a_updated_at := 5\<rparr>"
    using c by (metis example_check_row fst_conv snd_conv)
  have s: "slots_of ''t1'' (DAY, ''1970-01-01'') row = 1" "slots_of ''t1'' (DAY, ''1970-01-01'') example_ready = 0"
    "slots_of ''t1'' (DAY, ''1969-12-31'') row = 0" "slots_of ''t1'' (DAY, ''1969-12-31'') example_ready = 1"
    "slots_of ''t1'' (WEEK, ''1970-W01'') row = 1" "slots_of ''t1'' (WEEK, ''1970-W01'') example_ready = 1"
    unfolding row by code_simp+
  have n: "cap_count ''t1'' example_ready_db (DAY, ''1970-01-01'') = 0" "cap_count ''t1'' example_ready_db (DAY, ''1969-12-31'') = 1"
    "cap_count ''t1'' example_ready_db (WEEK, ''1970-W01'') = 1" by code_simp+
  show ?thesis using b s n by (simp add: c)
qed

theorem repost_check_never_fires_witness:
  "PC_DUPLICATE_OPPORTUNITY \<notin> pf_code ` set (pr_failures (fst (check ''t1'' example_policy (fixed_zone 0) example_ready (Some example_preparation)
     (Some example_co) (Some (example_opp\<lparr>o_status := OPP_REPOSTED\<rparr>)) [] True False 5 example_ready_db)))"
  by (rule repost_check_never_fires) (auto simp: example_ready_db_def example_ready_def example_opp_def)

end
