(* ===== verification/Exec_Base.thy ===== *)
theory Exec_Base
  imports Preconditions Work_Queue Safety_Switches Opportunity_Repo
begin

text \<open>
  The building blocks of \<^verbatim>\<open>app/execution/service.py\<close>: what an executor reports, the environment of
  the service, the reads, and the helpers that settle an attempt, its run and its queue item
  together (\<^verbatim>\<open>_finish_run\<close>, \<^verbatim>\<open>_handoff\<close>, \<^verbatim>\<open>_settle_preconditions\<close>, \<^verbatim>\<open>_apply_verification\<close>, \<^verbatim>\<open>_report\<close>).

  The service's collaborators that are not modelled are fields of the environment: the staleness
  of a preparation's inputs (\<open>x_stale\<close>), the signal inbox (\<open>x_emit\<close>), the documents
  (\<open>x_documents\<close>), the target's system (\<open>x_ats_family\<close>), the field mapping (\<open>x_blocking\<close>), the executors (\<open>x_executors\<close>) and the source of
  new ids (\<open>x_fresh\<close>). An executor sees a package, which is a function of the attempt and the
  database. Every operation takes the moment \<open>now\<close> it runs at.
\<close>

section \<open>Results\<close>

record verification_result =
  vr_status :: verification_status
  vr_method :: verification_method
  vr_detail :: "string option"
  vr_external_application_id :: "string option"
  vr_confirmation_reference :: "string option"
  vr_application_url :: "string option"

record execution_result =
  er_outcome :: execution_outcome
  er_submit_attempted :: bool
  er_handoff_reason :: "handoff_reason option"
  er_error_class :: "error_class option"
  er_message :: "string option"
  er_application_url :: "string option"
  er_external_application_id :: "string option"
  er_confirmation_reference :: "string option"
  er_stopped_at :: "string option"
  er_remaining_steps :: "string list"
  er_resumable :: bool
  er_verification :: "verification_result option"

definition result_of :: "execution_outcome \<Rightarrow> string option \<Rightarrow> execution_result" where
  "result_of outcome message =
     \<lparr>er_outcome = outcome, er_submit_attempted = False, er_handoff_reason = None, er_error_class = None, er_message = message,
      er_application_url = None, er_external_application_id = None, er_confirmation_reference = None, er_stopped_at = None,
      er_remaining_steps = [], er_resumable = True, er_verification = None\<rparr>"

section \<open>Executors\<close>

text \<open>An \<^verbatim>\<open>ExecutorError\<close> or any other exception.\<close>

datatype executor_exn =
    ExecutorError (x_message: string) (x_before_submit: bool) (x_retryable: bool) (x_class: error_class)
  | OtherException (x_type: string) (x_text: string)

text \<open>A run of \<^verbatim>\<open>Executor.execute\<close> as seen by the service: it may call the gate it was given, as often
  as it likes and using the answers, it may press submit, and it ends with a result or an exception.\<close>

datatype script =
    Return execution_result
  | Raise executor_exn
  | Gate "string list \<Rightarrow> script"
  | Press script

record form_snapshot =
  fs_fields :: "string list"
  fs_handoff :: bool

record executor =
  e_kind :: executor_kind
  e_dry_run :: bool
  e_can_handle :: "application_row \<Rightarrow> db \<Rightarrow> bool"
  e_prepare :: "application_row \<Rightarrow> db \<Rightarrow> executor_exn + form_snapshot"
  e_execute :: "application_row \<Rightarrow> form_snapshot \<Rightarrow> db \<Rightarrow> script"
  e_verify :: "application_row \<Rightarrow> execution_result \<Rightarrow> db \<Rightarrow> executor_exn + verification_result"

record exec_env =
  x_tenant :: string
  x_actor :: string
  x_policy :: application_policy
  x_zone :: zone
  x_modes :: mode_states
  x_max_attempts :: int
  x_lease_seconds :: int
  x_fresh :: "db \<Rightarrow> string"
  x_stale :: "preparation_row \<Rightarrow> db \<Rightarrow> string list result"
  x_documents :: "preparation_row \<Rightarrow> db \<Rightarrow> string list"
  x_ats_family :: "application_row \<Rightarrow> db \<Rightarrow> string"
  x_blocking :: "application_row \<Rightarrow> form_snapshot \<Rightarrow> db \<Rightarrow> nat \<times> nat"
  x_emit :: "execution_run_row \<Rightarrow> application_row \<Rightarrow> db \<Rightarrow> db"
  x_executors :: "executor_kind \<rightharpoonup> executor"

section \<open>Reads\<close>

definition get_attempt :: "exec_env \<Rightarrow> string \<Rightarrow> db \<Rightarrow> application_row option" where
  "get_attempt x application_id d = find (\<lambda>a. a_tenant_id a = Some (x_tenant x) \<and> a_id a = application_id) (applications_t d)"

definition require_attempt :: "exec_env \<Rightarrow> string \<Rightarrow> db \<Rightarrow> application_row result" where
  "require_attempt x application_id d =
     (case get_attempt x application_id d of
        None \<Rightarrow> Inl (NotFoundError (''Application attempt not found: '' @ application_id))
      | Some a \<Rightarrow> Inr a)"

definition get_run :: "exec_env \<Rightarrow> string \<Rightarrow> db \<Rightarrow> execution_run_row option" where
  "get_run x run_id d = find (\<lambda>r. r_tenant_id r = x_tenant x \<and> r_id r = run_id) (runs_t d)"

definition require_run :: "exec_env \<Rightarrow> string \<Rightarrow> db \<Rightarrow> execution_run_row result" where
  "require_run x run_id d =
     (case get_run x run_id d of None \<Rightarrow> Inl (NotFoundError (''Execution run not found: '' @ run_id)) | Some r \<Rightarrow> Inr r)"

definition runs_for :: "exec_env \<Rightarrow> string \<Rightarrow> db \<Rightarrow> execution_run_row list" where
  "runs_for x application_id d =
     sort_key (\<lambda>r. - r_run_number r) (filter (\<lambda>r. r_tenant_id r = x_tenant x \<and> r_application_id r = application_id) (runs_t d))"

definition crashed_run :: "exec_env \<Rightarrow> application_row \<Rightarrow> db \<Rightarrow> execution_run_row option" where
  "crashed_run x attempt d =
     (case filter (\<lambda>r. r_status r = ES_RUNNING) (runs_for x (a_id attempt) d) of [] \<Rightarrow> None | r # _ \<Rightarrow> Some r)"

definition load_preparation :: "exec_env \<Rightarrow> string \<Rightarrow> db \<Rightarrow> preparation_row option" where
  "load_preparation x preparation_id d = find (\<lambda>p. p_tenant_id p = x_tenant x \<and> p_id p = preparation_id) (preparations_t d)"

definition opt_truthy :: "string option \<Rightarrow> (string \<Rightarrow> 'a option) \<Rightarrow> 'a option" where
  "opt_truthy k f = (if truthy k then f (the k) else None)"

definition exec_context ::
  "exec_env \<Rightarrow> application_row \<Rightarrow> db \<Rightarrow> preparation_row option \<times> candidate_opportunity_row option \<times> opportunity_row option" where
  "exec_context x attempt d =
     (opt_truthy (a_preparation_id attempt) (\<lambda>k. load_preparation x k d),
      opt_truthy (a_candidate_opportunity_id attempt) (get_candidate d),
      opt_truthy (a_opportunity_id attempt) (get_opportunity d))"

definition stale_inputs_of :: "exec_env \<Rightarrow> preparation_row option \<Rightarrow> db \<Rightarrow> string list" where
  "stale_inputs_of x preparation d =
     (case preparation of
        None \<Rightarrow> []
      | Some p \<Rightarrow> if p_status p \<noteq> PS_READY then []
                  else case x_stale x p d of Inl _ \<Rightarrow> [''unavailable''] | Inr names \<Rightarrow> names)"

definition job_source :: "application_row \<Rightarrow> db \<Rightarrow> string option" where
  "job_source attempt d = (if a_job_id attempt = [] then None else map_option j_source (get_job d (a_job_id attempt)))"

text \<open>\<^verbatim>\<open>checker.check\<close> on the attempt's context.\<close>

definition exec_check :: "exec_env \<Rightarrow> application_row \<Rightarrow> bool \<Rightarrow> bool \<Rightarrow> time \<Rightarrow> db \<Rightarrow> precondition_report \<times> application_row \<times> db" where
  "exec_check x attempt reserve executing now d =
     (let (preparation, co, opportunity) = exec_context x attempt d
      in check (x_tenant x) (x_policy x) (x_zone x) attempt preparation co opportunity (stale_inputs_of x preparation d)
           reserve executing now d)"

definition item_for :: "exec_env \<Rightarrow> application_row \<Rightarrow> db \<Rightarrow> queue_row option" where
  "item_for x attempt d = opt_truthy (a_opportunity_id attempt) (\<lambda>oid. queue_find (x_tenant x) oid QA_SUBMIT d)"

definition attempt_for_item :: "exec_env \<Rightarrow> queue_row \<Rightarrow> db \<Rightarrow> application_row option result" where
  "attempt_for_item x item d =
     (if q_tenant_id item \<noteq> x_tenant x then Inl (NotFoundError ''Queue item not found in this tenant'')
      else Inr (find (\<lambda>a. a_tenant_id a = Some (x_tenant x) \<and> a_opportunity_id a = Some (q_opportunity_id item)) (applications_t d)))"

section \<open>Small writes\<close>

text \<open>\<^verbatim>\<open>_audit\<close>; the summary is the event's reason or message.\<close>

definition text_of :: "string \<Rightarrow> (string \<times> json) list \<Rightarrow> string option" where
  "text_of key detail = (case map_of detail key of Some (JStr s) \<Rightarrow> if s = [] then None else Some s | _ \<Rightarrow> None)"

definition exec_audit :: "exec_env \<Rightarrow> application_row \<Rightarrow> string \<Rightarrow> (string \<times> json) list \<Rightarrow> db \<Rightarrow> db" where
  "exec_audit x attempt action after d =
     audit_record (x_tenant x) ''application_attempt'' (a_id attempt) action (x_actor x) None
       (Some (JObj ((''status'', JStr (application_status_value (a_status attempt))) # after)))
       (opt_or (text_of ''reason'' after) (text_of ''message'' after)) d"

definition move_candidate :: "exec_env \<Rightarrow> application_row \<Rightarrow> opportunity_state \<Rightarrow> string \<Rightarrow> time \<Rightarrow> db \<Rightarrow> db" where
  "move_candidate x attempt st reason now d =
     (case opt_truthy (a_candidate_opportunity_id attempt) (get_candidate d) of
        None \<Rightarrow> d
      | Some co \<Rightarrow>
          if co_state co = st then d
          else case co_transition (x_tenant x) co st (x_actor x) (Some reason) False now d of
            Inr (_, d') \<Rightarrow> d'
          | Inl _ \<Rightarrow> (case co_transition (x_tenant x) co st (x_actor x) (Some reason) True now d of Inr (_, d') \<Rightarrow> d' | Inl _ \<Rightarrow> d))"

definition finish_run ::
  "execution_run_row \<Rightarrow> execution_status \<Rightarrow> execution_outcome option \<Rightarrow> error_class option \<Rightarrow> string option \<Rightarrow> time \<Rightarrow> execution_run_row" where
  "finish_run run status outcome error message now =
     run\<lparr>r_status := status,
         r_outcome := opt_or outcome (r_outcome run),
         r_error_class := opt_or error (r_error_class run),
         r_error_message := (if truthy message then map_option (take 2000) message else r_error_message run),
         r_finished_at := Some now\<rparr>"

text \<open>A forced attempt transition; it cannot be refused.\<close>

definition force_attempt ::
  "exec_env \<Rightarrow> application_row \<Rightarrow> application_status \<Rightarrow> string option \<Rightarrow> (string \<times> json) list \<Rightarrow> time \<Rightarrow> db \<Rightarrow> application_row \<times> db" where
  "force_attempt x attempt status reason metadata now d =
     (case attempt_transition attempt status (x_actor x) reason metadata True now d of
        Inr (_, row, d') \<Rightarrow> (row, d') | Inl _ \<Rightarrow> (attempt, d))"

definition codes_of :: "precondition_report \<Rightarrow> precondition_code list" where
  "codes_of report = map pf_code (pr_failures report)"

definition j_codes :: "precondition_code list \<Rightarrow> json" where
  "j_codes codes = JList (map JStr (sort (remdups (map precondition_code_value codes))))"

definition period_end :: "exec_env \<Rightarrow> precondition_code \<Rightarrow> time \<Rightarrow> time" where
  "period_end x code now =
     (let keys = period_keys_of (x_zone x) now
      in if code = PC_DAILY_CAP_REACHED then pd_ends_at (pk_day keys) else pd_ends_at (pk_week keys))"

definition park_item :: "exec_env \<Rightarrow> queue_row \<Rightarrow> string \<Rightarrow> application_status \<Rightarrow> string \<Rightarrow> time \<Rightarrow> db \<Rightarrow> (queue_row \<times> db) result" where
  "park_item x item worker status reason now d =
     (if status \<in> {AS_NEEDS_USER_INPUT, AS_BLOCKED} then queue_block (x_tenant x) worker reason now item d
      else if status \<in> {AS_FAILED, AS_CANCELLED, AS_CLOSED} then queue_cancel (x_tenant x) (x_actor x) (Some reason) now item d
      else Inr (queue_needs_review (x_tenant x) worker reason now item d))"

section \<open>Hand-off and failed preconditions\<close>

definition handoff_detail :: "handoff_reason \<Rightarrow> string \<Rightarrow> string option \<Rightarrow> string list \<Rightarrow> bool \<Rightarrow> (string \<times> json) list" where
  "handoff_detail reason message stopped_at remaining resumable =
     [(''reason'', JStr (handoff_reason_value reason)), (''message'', JStr message), (''stopped_at'', j_opt_str stopped_at),
      (''remaining_steps'', JList (map JStr remaining)), (''resumable'', JBool resumable)]"

definition exec_handoff ::
  "exec_env \<Rightarrow> queue_row \<Rightarrow> string \<Rightarrow> application_row \<Rightarrow> execution_run_row option \<Rightarrow> handoff_reason \<Rightarrow> string \<Rightarrow> string option \<Rightarrow>
   string list \<Rightarrow> bool \<Rightarrow> time \<Rightarrow> db \<Rightarrow> (queue_row \<times> execution_run_row option \<times> application_row \<times> db) result" where
  "exec_handoff x item worker attempt run reason message stopped_at remaining resumable now d =
     (let detail = handoff_detail reason message stopped_at remaining resumable;
          run' = map_option (\<lambda>r. finish_run (r\<lparr>r_handoff_reason := Some reason, r_handoff := detail\<rparr>) ES_HANDOFF (Some EO_HANDOFF) None None now) run;
          d1 = (case run' of None \<Rightarrow> d | Some r \<Rightarrow> put_run r d);
          text = handoff_reason_value reason @ '': '' @ message;
          (row, d2) = flush_application now (attempt\<lparr>a_submission_key := None, a_blocked_reason := Some (handoff_reason_value reason)\<rparr>) d1;
          meta = (''run_id'', j_opt_str (map_option r_id run)) # detail;
          (row', d3) = force_attempt x row AS_BLOCKED (Some (take 256 text)) meta now d2
      in bind_result (queue_block (x_tenant x) worker text now item d3) (\<lambda>(item', d4).
           Inr (item', run', row', exec_audit x row' ''execution:handoff'' meta d4)))"

definition invalidate_preparation :: "exec_env \<Rightarrow> preparation_row \<Rightarrow> string \<Rightarrow> time \<Rightarrow> db \<Rightarrow> db" where
  "invalidate_preparation x p reason now d =
     (let p' = p\<lparr>p_status := PS_INVALIDATED, p_updated_at := now\<rparr>
      in audit_record (x_tenant x) ''preparation'' (p_id p) ''invalidated'' (x_actor x)
           (Some (JObj [(''status'', JStr (preparation_status_value (p_status p)))]))
           (Some (JObj [(''status'', JStr (preparation_status_value PS_INVALIDATED))])) (Some reason) (put_preparation p' d))"

definition reprepare :: "exec_env \<Rightarrow> application_row \<Rightarrow> preparation_row option \<Rightarrow> string \<Rightarrow> time \<Rightarrow> db \<Rightarrow> (application_row \<times> db) result" where
  "reprepare x attempt preparation message now d =
     (let d1 = (case preparation of
                  None \<Rightarrow> d
                | Some p \<Rightarrow> if p_status p = PS_READY
                            then invalidate_preparation x p (take 256 (''stale at execution: '' @ message)) now d else d);
          (row, d2) = flush_application now (attempt\<lparr>a_submission_key := None\<rparr>) d1;
          (row', d3) = force_attempt x row AS_PREPARING (Some (take 256 (''re-preparing: '' @ message))) [] now d2
      in case opt_truthy (a_opportunity_id attempt) (\<lambda>oid. queue_find (x_tenant x) oid QA_PREPARE d3) of
           Some prepare_item \<Rightarrow>
             if q_state prepare_item \<notin> {QS_PENDING, QS_CLAIMED, QS_PROCESSING, QS_RETRY_WAIT}
             then bind_result (queue_requeue (x_tenant x) (x_actor x) (Some ''stale preparation at execution'') True True now prepare_item d3)
                    (\<lambda>(_, d4). Inr (row', d4))
             else Inr (row', d3)
         | None \<Rightarrow>
             (case opt_truthy (a_candidate_opportunity_id attempt) (get_candidate d3) of
                None \<Rightarrow> Inr (row', d3)
              | Some co \<Rightarrow>
                  bind_result (queue_enqueue (x_tenant x) co QA_PREPARE (x_actor x)
                      (case a_lane attempt of None \<Rightarrow> LN_REVIEW | Some l \<Rightarrow> l) (co_priority_score co) None DEFAULT_MAX_ATTEMPTS (x_fresh x d3) now d3)
                    (\<lambda>(_, _, d4). Inr (row', d4))))"

definition blank_run :: "exec_env \<Rightarrow> application_row \<Rightarrow> queue_row \<Rightarrow> string \<Rightarrow> string \<Rightarrow> execution_run_row" where
  "blank_run x attempt item worker new_id =
     \<lparr>r_id = new_id, r_tenant_id = x_tenant x, r_application_id = a_id attempt, r_preparation_id = a_preparation_id attempt,
      r_candidate_opportunity_id = a_candidate_opportunity_id attempt, r_opportunity_id = a_opportunity_id attempt,
      r_queue_item_id = Some (q_id item), r_executor_kind = None, r_worker_id = Some worker, r_idempotency_key = [],
      r_run_number = a_execution_count attempt, r_status = ES_RUNNING, r_outcome = None, r_submit_invoked = False,
      r_finished_at = None, r_application_url = None, r_external_application_id = None, r_confirmation_reference = None,
      r_verification_status = VS_NOT_ATTEMPTED, r_verification_method = None, r_verification_detail = None,
      r_error_class = None, r_error_message = None, r_handoff_reason = None, r_handoff = [], r_preconditions = []\<rparr>"

definition failures_message :: "precondition_report \<Rightarrow> string" where
  "failures_message report =
     take 2000 (join_with ''; '' (map (\<lambda>f. precondition_code_value (pf_code f) @ '': '' @ pf_message f) (pr_failures report)))"

definition run_key :: "exec_env \<Rightarrow> application_row \<Rightarrow> string \<Rightarrow> string" where
  "run_key x attempt suffix = x_tenant x @ '':'' @ a_id attempt @ '':'' @ show_int (a_attempt_number attempt) @ '':'' @ suffix"

definition POLICY_STOPS :: "precondition_code set" where
  "POLICY_STOPS = {PC_COMPANY_BLOCKED, PC_OPPORTUNITY_CLOSED, PC_DUPLICATE_APPLICATION, PC_DUPLICATE_OPPORTUNITY, PC_ALREADY_SUBMITTED}"

definition settle_preconditions ::
  "exec_env \<Rightarrow> queue_row \<Rightarrow> string \<Rightarrow> application_row \<Rightarrow> preparation_row option \<Rightarrow> precondition_report \<Rightarrow> time \<Rightarrow> db \<Rightarrow>
   (queue_row \<times> application_row \<times> db) result" where
  "settle_preconditions x item worker attempt preparation report now d =
     (let codes = set (codes_of report); message = failures_message report;
          run = (blank_run x attempt item worker (x_fresh x d))
            \<lparr>r_idempotency_key := run_key x attempt (''pre:'' @ isoformat_naive now),
             r_status := ES_PRECONDITION_FAILED, r_error_class := Some EC_POLICY, r_error_message := Some message,
             r_preconditions := map (\<lambda>f. (pf_code f, pf_message f)) (pr_failures report), r_finished_at := Some now\<rparr>;
          d1 = d\<lparr>runs_t := runs_t d @ [run]\<rparr>;
          (row, d2) = flush_application now (attempt\<lparr>a_last_execution_id := Some (r_id run)\<rparr>) d1;
          meta = [(''run_id'', JStr (r_id run))]; tenant = x_tenant x
      in if codes \<inter> {PC_PREPARATION_STALE, PC_PREPARATION_NOT_CURRENT} \<noteq> {}
         then bind_result (reprepare x row preparation message now (put_run (run\<lparr>r_status := ES_STALE\<rparr>) d2)) (\<lambda>(row', d3).
                let (item', d4) = queue_needs_review tenant worker (take 2000 (''stale preparation: '' @ message)) now item d3
                in Inr (item', row', exec_audit x row' ''execution:stale'' (meta @ [(''inputs'', JList (map JStr (pr_stale_inputs report)))]) d4))
         else if codes \<inter> POLICY_STOPS \<noteq> {}
         then if PC_ALREADY_SUBMITTED \<in> codes
              then bind_result (queue_succeed tenant worker (JObj [(''outcome'', JStr ''already_submitted'')]) now item d2) (\<lambda>(item', d3).
                     Inr (item', row, d3))
              else let (row', _, d3) = release_attempt tenant row AS_CLOSED (take 256 message) (r_id run) now [] d2
                   in bind_result (queue_cancel tenant (x_actor x) (Some (take 512 message)) now item d3) (\<lambda>(item', d4).
                        Inr (item', row', exec_audit x row' ''execution:blocked_by_policy'' (meta @ [(''codes'', j_codes (codes_of report))]) d4))
         else if PC_COOLDOWN_ACTIVE \<in> codes
         then let until = (case find (\<lambda>f. pf_code f = PC_COOLDOWN_ACTIVE) (pr_failures report) of
                             None \<Rightarrow> None | Some f \<Rightarrow> (case map_of (pf_detail f) ''until'' of Some (JStr u) \<Rightarrow> Some u | _ \<Rightarrow> None));
                  (row1, d3) = force_attempt x row AS_BLOCKED (Some (take 256 message)) meta now d2;
                  (row', d4) = flush_application now (row1\<lparr>a_blocked_reason := Some ''COOLDOWN_ACTIVE''\<rparr>) d3
              in bind_result (queue_block tenant worker (''cooldown active until '' @ (case until of None \<Rightarrow> ''None'' | Some u \<Rightarrow> u)) now item d4)
                   (\<lambda>(item', d5). Inr (item', row', exec_audit x row' ''execution:cooldown_blocked'' (meta @ [(''until'', j_opt_str until)]) d5))
         else if codes \<inter> {PC_DAILY_CAP_REACHED, PC_WEEKLY_CAP_REACHED} \<noteq> {}
         then let cap = (if PC_DAILY_CAP_REACHED \<in> codes then PC_DAILY_CAP_REACHED else PC_WEEKLY_CAP_REACHED)
              in bind_result (queue_release tenant worker (Some (take 512 message)) now item d2) (\<lambda>(item1, d3).
                   let item' = item1\<lparr>q_available_at := period_end x cap now\<rparr>
                   in Inr (item', row, exec_audit x row ''execution:cap_wait'' (meta @ [(''codes'', j_codes [cap])]) (put_item item' d3)))
         else if PC_USER_INPUT_REQUIRED \<in> codes
         then let (row', d3) = force_attempt x row AS_NEEDS_USER_INPUT (Some (take 256 message)) meta now d2
              in bind_result (queue_block tenant worker (take 2000 message) now item d3) (\<lambda>(item', d4).
                   Inr (item', row', exec_audit x row' ''execution:needs_user_input'' meta d4))
         else let (row', d3) = force_attempt x row AS_NEEDS_REVIEW (Some (take 256 message)) meta now d2;
                  (item', d4) = queue_needs_review tenant worker (take 2000 message) now item d3
              in Inr (item', row', exec_audit x row' ''execution:precondition_failed'' (meta @ [(''codes'', j_codes (codes_of report))]) d4))"

section \<open>Verification\<close>

text \<open>The fields a verification overwrites, on the run and on the attempt.\<close>

definition verified_run :: "verification_result \<Rightarrow> execution_run_row \<Rightarrow> execution_run_row" where
  "verified_run v run =
     run\<lparr>r_verification_status := vr_status v, r_verification_method := Some (vr_method v),
         r_verification_detail := clip_or_none 512 (vr_detail v),
         r_external_application_id := (if truthy (vr_external_application_id v) then vr_external_application_id v else r_external_application_id run),
         r_confirmation_reference := (if truthy (vr_confirmation_reference v) then vr_confirmation_reference v else r_confirmation_reference run),
         r_application_url := (if truthy (vr_application_url v) then vr_application_url v else r_application_url run)\<rparr>"

definition verified_attempt :: "verification_result \<Rightarrow> application_row \<Rightarrow> application_row" where
  "verified_attempt v attempt =
     attempt\<lparr>a_external_application_id := (if truthy (vr_external_application_id v) then vr_external_application_id v else a_external_application_id attempt),
             a_confirmation := (if truthy (vr_confirmation_reference v) then vr_confirmation_reference v else a_confirmation attempt),
             a_result_url := (if truthy (vr_application_url v) then vr_application_url v else a_result_url attempt)\<rparr>"

definition resolve_unless_succeeded ::
  "exec_env \<Rightarrow> queue_row option \<Rightarrow> json \<Rightarrow> string option \<Rightarrow> time \<Rightarrow> db \<Rightarrow> (queue_row option \<times> db) result" where
  "resolve_unless_succeeded x item res reason now d =
     (case item of
        None \<Rightarrow> Inr (None, d)
      | Some i \<Rightarrow>
          if q_state i \<noteq> QS_SUCCEEDED
          then bind_result (queue_resolve (x_tenant x) (x_actor x) res reason now i d) (\<lambda>(i', d'). Inr (Some i', d'))
          else Inr (Some i, d))"

definition set_submitted_at :: "time \<Rightarrow> application_row \<Rightarrow> application_row" where
  "set_submitted_at now row = row\<lparr>a_submitted_at := opt_or (a_submitted_at row) (Some now)\<rparr>"

text \<open>The \<open>VERIFIED\<close> branch on the attempt.\<close>

definition mark_verified :: "exec_env \<Rightarrow> execution_run_row \<Rightarrow> application_row \<Rightarrow> verification_result \<Rightarrow> time \<Rightarrow> db \<Rightarrow> (application_row \<times> db) result" where
  "mark_verified x run attempt v now d =
     (if a_status attempt = AS_VERIFIED then Inr (attempt, d)
      else let (row, d1) = (if a_status attempt \<noteq> AS_SUBMITTED
                            then let (r, d') = force_attempt x attempt AS_SUBMITTED (Some ''verified'') [] now d
                                 in flush_application now (set_submitted_at now r) d'
                            else (attempt, d))
           in bind_result (attempt_transition row AS_VERIFIED (x_actor x) (Some (str_or (vr_detail v) ''verified''))
                  [(''run_id'', JStr (r_id run)), (''method'', JStr (verification_method_value (vr_method v)))] False now d1) (\<lambda>(_, row1, d2).
                let (row2, d3) = flush_application now (row1\<lparr>a_verified_at := Some now\<rparr>) d2
                in Inr (row2, move_candidate x row2 OS_VERIFIED ''verified'' now d3)))"

definition apply_verification ::
  "exec_env \<Rightarrow> execution_run_row \<Rightarrow> application_row \<Rightarrow> verification_result \<Rightarrow> queue_row option \<Rightarrow> time \<Rightarrow> db \<Rightarrow>
   (execution_run_row \<times> application_row \<times> queue_row option \<times> db) result" where
  "apply_verification x run attempt v item now d =
     (let run0 = verified_run v run; row0 = verified_attempt v attempt;
          (row, d0) = (if row0 = attempt then (attempt, d) else flush_application now row0 d);
          meta = [(''run_id'', JStr (r_id run))];
          method = (''method'', JStr (verification_method_value (vr_method v)));
          emit = (\<lambda>(run', row', item', d'). Inr (run', row', item', x_emit x run' row' d'))
      in case vr_status v of
        VS_VERIFIED \<Rightarrow>
          let run1 = finish_run run0 ES_VERIFIED None None None now; d1 = put_run run1 d0
          in bind_result (mark_verified x run1 row v now d1) (\<lambda>(row', d2).
             bind_result (resolve_unless_succeeded x item (JObj [(''outcome'', JStr ''VERIFIED''), (''run_id'', JStr (r_id run))])
                            (Some ''verified after an uncertain submit'') now d2) (\<lambda>(item', d3).
             emit (run1, row', item', exec_audit x row' ''execution:verified'' (meta @ [method]) d3)))
      | VS_LIKELY \<Rightarrow>
          let run1 = finish_run run0 ES_SUBMITTED None None None now; d1 = put_run run1 d0
          in if a_status row = AS_UNCERTAIN
             then bind_result (attempt_transition row AS_SUBMITTED (x_actor x) (Some (str_or (vr_detail v) ''likely submitted'')) meta False now d1)
               (\<lambda>(_, row1, d2).
                  let (row2, d3) = flush_application now (set_submitted_at now row1) d2;
                      d4 = move_candidate x row2 OS_SUBMITTED ''likely submitted'' now d3
                  in bind_result (resolve_unless_succeeded x item (JObj [(''outcome'', JStr ''LIKELY_SUBMITTED''), (''run_id'', JStr (r_id run))])
                                    None now d4) (\<lambda>(item', d5).
                     emit (run1, row2, item', exec_audit x row2 ''execution:likely_submitted'' meta d5)))
             else emit (run1, row, item, exec_audit x row ''execution:likely_submitted'' meta d1)
      | VS_FAILED \<Rightarrow>
          let run1 = finish_run run0 ES_VERIFICATION_FAILED None None None now; d1 = put_run run1 d0;
              (row', d2) = force_attempt x row AS_NEEDS_REVIEW
                (Some (take 256 (''verification failed: '' @ str_or (vr_detail v) []))) meta now d1;
              (item', d3) = (case item of
                 None \<Rightarrow> (None, d2)
               | Some i \<Rightarrow> if q_state i \<notin> {QS_NEEDS_REVIEW, QS_SUCCEEDED, QS_CANCELLED}
                           then let (i', d') = queue_needs_review (x_tenant x) (x_actor x) ''verification failed; a person must decide whether to retry'' now i d2
                                in (Some i', d')
                           else (Some i, d2))
          in emit (run1, row', item', exec_audit x row' ''execution:verification_failed'' meta d3)
      | st \<Rightarrow>
          let run1 = run0\<lparr>r_verification_status := (if st = VS_UNKNOWN \<and> r_status run0 = ES_UNKNOWN then VS_PENDING else st)\<rparr>
          in emit (run1, row, item, exec_audit x row ''execution:verification_unknown'' meta (put_run run1 d0)))"

section \<open>Reporting a result\<close>

primrec ATTEMPT_FOR_OUTCOME :: "execution_outcome \<Rightarrow> application_status option" where
  "ATTEMPT_FOR_OUTCOME EO_HANDOFF = Some AS_BLOCKED"
| "ATTEMPT_FOR_OUTCOME EO_NEEDS_USER_INPUT = Some AS_NEEDS_USER_INPUT"
| "ATTEMPT_FOR_OUTCOME EO_NEEDS_REVIEW = Some AS_NEEDS_REVIEW"
| "ATTEMPT_FOR_OUTCOME EO_FORM_CHANGED = Some AS_NEEDS_REVIEW"
| "ATTEMPT_FOR_OUTCOME EO_SUBMITTED = None"
| "ATTEMPT_FOR_OUTCOME EO_RETRYABLE_FAILURE = None"
| "ATTEMPT_FOR_OUTCOME EO_PERMANENT_FAILURE = None"
| "ATTEMPT_FOR_OUTCOME EO_UNKNOWN = None"
| "ATTEMPT_FOR_OUTCOME EO_DRY_RUN = None"

definition reported_run :: "execution_result \<Rightarrow> execution_run_row \<Rightarrow> execution_run_row" where
  "reported_run res run =
     run\<lparr>r_outcome := Some (er_outcome res), r_submit_invoked := (r_submit_invoked run \<or> er_submit_attempted res),
         r_application_url := er_application_url res, r_external_application_id := er_external_application_id res,
         r_confirmation_reference := er_confirmation_reference res, r_error_class := er_error_class res,
         r_error_message := clip_or_none 2000 (er_message res)\<rparr>"

type_synonym report_rows = "queue_row \<times> execution_run_row \<times> application_row \<times> db"

definition report_submitted ::
  "exec_env \<Rightarrow> queue_row \<Rightarrow> string \<Rightarrow> execution_run_row \<Rightarrow> application_row \<Rightarrow> execution_result \<Rightarrow> time \<Rightarrow> db \<Rightarrow> report_rows result" where
  "report_submitted x item worker run attempt res now d =
     (let run1 = finish_run run ES_SUBMITTED (Some EO_SUBMITTED) None None now; meta = [(''run_id'', JStr (r_id run))] in
      bind_result (attempt_transition attempt AS_SUBMITTED (x_actor x) (Some (str_or (er_message res) ''submitted'')) meta False now (put_run run1 d))
        (\<lambda>(_, row, d1).
          let (row', d2) = flush_application now
                (row\<lparr>a_submitted_at := Some now, a_result_url := er_application_url res,
                     a_external_application_id := er_external_application_id res, a_confirmation := er_confirmation_reference res\<rparr>) d1
          in bind_result (queue_succeed (x_tenant x) worker
                (JObj [(''outcome'', JStr ''SUBMITTED''), (''run_id'', JStr (r_id run)), (''application_id'', JStr (a_id attempt))]) now item d2)
              (\<lambda>(item', d3).
                 let d4 = move_candidate x row' OS_SUBMITTED ''submitted'' now d3;
                     d5 = exec_audit x row' ''execution:submitted'' (meta @ [(''reference'', j_opt_str (er_confirmation_reference res))]) d4
                 in case er_verification res of
                      None \<Rightarrow> Inr (item', run1, row', x_emit x run1 row' d5)
                    | Some v \<Rightarrow> bind_result (apply_verification x run1 row' v None now d5) (\<lambda>(run2, row2, _, d6).
                                  Inr (item', run2, row2, d6)))))"

text \<open>A result that puts the attempt back to \<open>READY\<close> (\<open>DRY_RUN\<close>, \<open>RETRYABLE_FAILURE\<close>, a cap found full at
  the gate): the submission key is cleared first.\<close>

definition reopen_attempt ::
  "exec_env \<Rightarrow> execution_run_row \<Rightarrow> application_row \<Rightarrow> application_status \<Rightarrow> string \<Rightarrow> time \<Rightarrow> db \<Rightarrow> (application_row \<times> db) result" where
  "reopen_attempt x run attempt status reason now d =
     (let (row, d1) = flush_application now (attempt\<lparr>a_submission_key := None\<rparr>) d
      in bind_result (attempt_transition row status (x_actor x) (Some reason) [(''run_id'', JStr (r_id run))] False now d1)
           (\<lambda>(_, row', d2). Inr (row', d2)))"

definition cap_wait :: "execution_result \<Rightarrow> bool" where
  "cap_wait res \<longleftrightarrow> er_outcome res = EO_NEEDS_REVIEW \<and> er_error_class res = Some EC_POLICY \<and> contains ''CAP_REACHED'' (str_or (er_message res) [])"

definition exec_report ::
  "exec_env \<Rightarrow> queue_row \<Rightarrow> string \<Rightarrow> execution_run_row \<Rightarrow> application_row \<Rightarrow> execution_result \<Rightarrow> time \<Rightarrow> db \<Rightarrow> report_rows result" where
  "exec_report x item worker run0 attempt res now d =
     (let run = reported_run res run0; tenant = x_tenant x; meta = [(''run_id'', JStr (r_id run0))];
          class = (''error_class'', j_opt_str (map_option error_class_value (r_error_class run)));
          finish = (\<lambda>status r. finish_run r status (Some (er_outcome res)) None None now)
      in case er_outcome res of
        EO_SUBMITTED \<Rightarrow> report_submitted x item worker run attempt res now d
      | EO_DRY_RUN \<Rightarrow>
          let run1 = finish ES_DRY_RUN (run\<lparr>r_submit_invoked := False\<rparr>)
          in bind_result (reopen_attempt x run1 attempt AS_READY (str_or (er_message res) ''dry run'') now (put_run run1 d)) (\<lambda>(row, d1).
             let (item', d2) = queue_needs_review tenant worker (take 2000 (''dry run complete: '' @ str_or (er_message res) [])) now item d1
             in Inr (item', run1, row, exec_audit x row ''execution:dry_run'' meta d2))
      | EO_UNKNOWN \<Rightarrow>
          let run1 = (finish ES_UNKNOWN (run\<lparr>r_submit_invoked := True\<rparr>))\<lparr>r_verification_status := VS_PENDING\<rparr>
          in bind_result (attempt_transition attempt AS_UNCERTAIN (x_actor x) (Some (str_or (er_message res) ''submit outcome unknown'')) meta False now
                            (put_run run1 d)) (\<lambda>(_, row, d1).
             let (item', d2) = queue_needs_review tenant worker
                   ''submit outcome unknown: verify before anything else; never resubmitted automatically'' now item d1;
                 d3 = exec_audit x row ''execution:unknown'' (meta @ [class]) d2
             in Inr (item', run1, row, x_emit x run1 row d3))
      | EO_RETRYABLE_FAILURE \<Rightarrow>
          let run1 = finish ES_FAILED_RETRYABLE run; reason = str_or (er_message res) ''retryable failure''
          in bind_result (reopen_attempt x run1 attempt AS_READY reason now (put_run run1 d)) (\<lambda>(row, d1).
             bind_result (queue_fail tenant worker reason True now item d1) (\<lambda>(item', d2).
             bind_result (if q_state item' = QS_FAILED
                          then bind_result (attempt_transition row AS_NEEDS_REVIEW (x_actor x) (Some ''retries exhausted'') meta False now d2)
                                 (\<lambda>(_, row', d3). Inr (row', d3))
                          else Inr (row, d2)) (\<lambda>(row', d3).
             Inr (item', run1, row', exec_audit x row' ''execution:retryable_failure''
                    (meta @ [class, (''queue_state'', JStr (queue_state_value (q_state item')))]) d3))))
      | EO_PERMANENT_FAILURE \<Rightarrow>
          let run1 = finish ES_FAILED_PERMANENT run; reason = str_or (er_message res) ''permanent failure'';
              (row, _, d1) = release_attempt tenant attempt AS_FAILED reason (r_id run0) now [] (put_run run1 d)
          in bind_result (queue_fail tenant worker reason False now item d1) (\<lambda>(item', d2).
             Inr (item', run1, row, exec_audit x row ''execution:permanent_failure'' (meta @ [class]) d2))
      | EO_HANDOFF \<Rightarrow>
          bind_result (exec_handoff x item worker attempt (Some run)
              (case er_handoff_reason res of None \<Rightarrow> HR_USER_CONFIRMATION_REQUIRED | Some h \<Rightarrow> h) (str_or (er_message res) ''human handoff'')
              (er_stopped_at res) (er_remaining_steps res) (er_resumable res) now (put_run run d)) (\<lambda>(item', run', row, d1).
             Inr (item', case run' of None \<Rightarrow> run | Some r \<Rightarrow> r, row, d1))
      | _ \<Rightarrow>
          if cap_wait res
          then let run1 = finish_run run ES_PRECONDITION_FAILED (Some EO_NEEDS_REVIEW) (Some EC_POLICY) (er_message res) now;
                   msg = str_or (er_message res) [];
                   code = (if contains ''WEEKLY_CAP_REACHED'' msg then PC_WEEKLY_CAP_REACHED else PC_DAILY_CAP_REACHED)
               in bind_result (reopen_attempt x run1 attempt AS_READY (str_or (er_message res) ''cap reached at submit'') now (put_run run1 d)) (\<lambda>(row, d1).
                  bind_result (queue_release tenant worker (Some (take 512 (str_or (er_message res) ''cap reached''))) now item d1) (\<lambda>(item1, d2).
                  let item' = item1\<lparr>q_available_at := period_end x code now\<rparr>
                  in Inr (item', run1, row, exec_audit x row ''execution:cap_wait''
                       (meta @ [(''codes'', j_codes [code]), (''at'', JStr ''pre_submit_gate'')]) (put_item item' d2))))
          else let run1 = finish (if er_outcome res = EO_NEEDS_USER_INPUT then ES_NEEDS_USER_INPUT else ES_NEEDS_REVIEW) run;
                   text = str_or (er_message res) (py_lower (execution_outcome_value (er_outcome res)));
                   reason = (if er_outcome res = EO_FORM_CHANGED then ''FORM_CHANGED: '' @ text else text);
                   status = (case ATTEMPT_FOR_OUTCOME (er_outcome res) of None \<Rightarrow> AS_NEEDS_REVIEW | Some s \<Rightarrow> s)
               in bind_result (reopen_attempt x run1 attempt status reason now (put_run run1 d)) (\<lambda>(row, d1).
                  bind_result (if er_outcome res = EO_NEEDS_USER_INPUT
                               then queue_block tenant worker (''needs_user_input: '' @ reason) now item d1
                               else Inr (queue_needs_review tenant worker reason now item d1)) (\<lambda>(item', d2).
                  Inr (item', run1, row, exec_audit x row (''execution:'' @ py_lower (execution_outcome_value (er_outcome res))) meta d2))))"

end
