(* ===== verification/Execution.thy ===== *)
theory Execution
  imports Exec_Base
begin

text \<open>
  \<^verbatim>\<open>ExecutionService\<close> of \<^verbatim>\<open>app/execution/service.py\<close>: queueing ready attempts, the guarded start, the
  pre-submit gate, execution by an executor, recovery of lost runs, verification and the human
  actions. A handler is a function of the database that returns its result and the committed
  database; an exception before the commit leaves the database as it was.
\<close>

section \<open>Commit and rollback\<close>

definition commit_or_rollback :: "db \<Rightarrow> ('a \<times> db) result \<Rightarrow> 'a result \<times> db" where
  "commit_or_rollback d r = (case r of Inl e \<Rightarrow> (Inl e, d) | Inr (v, d') \<Rightarrow> (Inr v, d'))"

section \<open>Queue integration\<close>

definition PARKED :: "queue_state set" where
  "PARKED = {QS_BLOCKED, QS_NEEDS_REVIEW, QS_FAILED, QS_CANCELLED}"

definition ready_key :: "application_row \<Rightarrow> (int \<times> time) \<times> string" where
  "ready_key a = ((case a_reserved_at a of None \<Rightarrow> (0, 0) | Some t \<Rightarrow> (1, t)), a_id a)"

definition ready_attempts :: "exec_env \<Rightarrow> nat \<Rightarrow> db \<Rightarrow> application_row list" where
  "ready_attempts x limit d =
     take limit (sort_key ready_key (filter (\<lambda>a. a_tenant_id a = Some (x_tenant x) \<and> a_status a = AS_READY \<and> a_released_at a = None \<and>
        a_preparation_id a \<noteq> None) (applications_t d)))"

definition enqueue_attempt :: "exec_env \<Rightarrow> application_row \<Rightarrow> time \<Rightarrow> db \<Rightarrow> (string \<times> db) result" where
  "enqueue_attempt x attempt now d =
     (case opt_truthy (a_candidate_opportunity_id attempt) (\<lambda>k. find (\<lambda>c. co_tenant_id c = x_tenant x \<and> co_id c = k) (candidates_t d)) of
        None \<Rightarrow> Inr (''no_candidate_opportunity'', d)
      | Some co \<Rightarrow>
         (case queue_find (x_tenant x) (str_or (a_opportunity_id attempt) []) QA_SUBMIT d of
            Some existing \<Rightarrow> Inr (if q_state existing \<notin> PARKED then ''already_queued'' else ''parked'', d)
          | None \<Rightarrow>
              bind_result (queue_enqueue (x_tenant x) co QA_SUBMIT (x_actor x) (case a_lane attempt of None \<Rightarrow> LN_REVIEW | Some l \<Rightarrow> l)
                  (co_priority_score co) None (x_max_attempts x) (x_fresh x d) now d)
                (\<lambda>(_, _, d'). Inr (''enqueued'', d'))))"

fun enqueue_all :: "exec_env \<Rightarrow> application_row list \<Rightarrow> time \<Rightarrow> db \<Rightarrow> (string list \<times> db) result" where
  "enqueue_all x [] now d = Inr ([], d)"
| "enqueue_all x (a # as) now d =
     bind_result (enqueue_attempt x a now d) (\<lambda>(c, d1).
     bind_result (enqueue_all x as now d1) (\<lambda>(cs, d2). Inr (c # cs, d2)))"

definition enqueue_ready :: "exec_env \<Rightarrow> nat \<Rightarrow> time \<Rightarrow> db \<Rightarrow> (string list \<times> db) result" where
  "enqueue_ready x limit now d = enqueue_all x (ready_attempts x (if limit = 0 then 10000 else limit) d) now d"

definition exec_claim :: "exec_env \<Rightarrow> string \<Rightarrow> nat \<Rightarrow> lane option \<Rightarrow> time \<Rightarrow> db \<Rightarrow> queue_row list \<times> db" where
  "exec_claim x worker limit ln now d = queue_claim (x_tenant x) worker (Some QA_SUBMIT) ln limit (x_lease_seconds x) now d"

definition heartbeat :: "exec_env \<Rightarrow> queue_row \<Rightarrow> string \<Rightarrow> time \<Rightarrow> db \<Rightarrow> queue_row result \<times> db" where
  "heartbeat x item worker now d = commit_or_rollback d (queue_extend_lease worker (x_lease_seconds x) now item d)"

section \<open>Start\<close>

datatype start_outcome =
    SO_started
  | SO_no_attempt
  | SO_already_submitted
  | SO_awaiting_verification
  | SO_not_ready application_status
  | SO_paused
  | SO_precondition_failed "precondition_code list"
  | SO_no_executor
  | SO_document_failed "string list"
  | SO_handoff
  | SO_lost_race

type_synonym start_result = "(start_outcome \<times> execution_run_row option) \<times> db"

text \<open>The mutex: the guarded update \<open>READY\<close> to \<open>SUBMITTING\<close> and the run row.\<close>

definition mutex_guard :: "application_row \<Rightarrow> application_row \<Rightarrow> bool" where
  "mutex_guard attempt a \<longleftrightarrow> a_id a = a_id attempt \<and> a_status a = AS_READY \<and> a_submission_key a = None"

definition submitting_row :: "string \<Rightarrow> int \<Rightarrow> string \<Rightarrow> time \<Rightarrow> application_row \<Rightarrow> application_row" where
  "submitting_row key run_number reason now a =
     a\<lparr>a_status := AS_SUBMITTING, a_submission_key := Some key, a_execution_count := run_number, a_status_reason := Some reason,
       a_updated_at := now\<rparr>"

definition start_mutex ::
  "exec_env \<Rightarrow> queue_row \<Rightarrow> string \<Rightarrow> executor \<Rightarrow> application_row \<Rightarrow> precondition_report \<Rightarrow> time \<Rightarrow> db \<Rightarrow> (execution_run_row \<times> db) option" where
  "start_mutex x item worker executor attempt report now d =
     (let run_number = a_execution_count attempt + 1;
          key = run_key x attempt (show_int run_number);
          kind = executor_kind_value (e_kind executor)
      in if tbl_matches (mutex_guard attempt) (applications_t d) \<noteq> 1 then None
         else let row = submitting_row key run_number (''executing with '' @ kind) now attempt;
                  d1 = d\<lparr>applications_t := tbl_update (mutex_guard attempt)
                           (submitting_row key run_number (''executing with '' @ kind) now) (applications_t d)\<rparr>;
                  run = (blank_run x attempt item worker (x_fresh x d1))
                    \<lparr>r_executor_kind := Some (e_kind executor), r_idempotency_key := key, r_run_number := run_number,
                     r_preconditions := map (\<lambda>f. (pf_code f, pf_message f)) (pr_failures report)\<rparr>;
                  d2 = d1\<lparr>runs_t := runs_t d1 @ [run]\<rparr>;
                  (row', d3) = flush_application now (row\<lparr>a_last_execution_id := Some (r_id run)\<rparr>) d2;
                  d4 = add_event row' ''attempt:submitting'' (Some AS_READY) (Some AS_SUBMITTING)
                         [(''run_id'', JStr (r_id run)), (''executor'', JStr kind), (''worker'', JStr worker)] d3
              in Some (run, exec_audit x row' ''execution:started''
                        [(''run_id'', JStr (r_id run)), (''executor'', JStr kind), (''worker_id'', JStr worker)] d4))"

text \<open>From a \<open>READY\<close> attempt on: kill switch, preconditions, executor, documents, mutex. \<open>d0\<close> is the last
  committed database, which a lost race rolls back to.\<close>

definition start_ready ::
  "exec_env \<Rightarrow> queue_row \<Rightarrow> string \<Rightarrow> executor_kind \<Rightarrow> application_row \<Rightarrow> time \<Rightarrow> db \<Rightarrow> db \<Rightarrow> start_result result" where
  "start_ready x item worker kind attempt now d0 d =
     (let tenant = x_tenant x; source = job_source attempt d in
      if is_paused d source
      then bind_result (queue_release tenant worker (Some ''kill switch paused'') now item d) (\<lambda>(item1, d1).
             let item' = item1\<lparr>q_available_at := now + minutes 10\<rparr>
             in Inr ((SO_paused, None), exec_audit x attempt ''execution:paused'' [(''source'', j_opt_str source)] (put_item item' d1)))
      else
        let (report, attempt1, d1) = exec_check x attempt True False now d; preparation = fst (exec_context x attempt d)
        in if \<not> pr_ok report
           then bind_result (settle_preconditions x item worker attempt1 preparation report now d1) (\<lambda>(_, _, d2).
                  Inr ((SO_precondition_failed (codes_of report), None), d2))
           else case x_executors x kind of
             None \<Rightarrow>
               bind_result (queue_release tenant worker (Some (''no executor registered for '' @ executor_kind_value kind)) now item d1)
                 (\<lambda>(_, d2). Inr ((SO_no_executor, None), d2))
           | Some executor \<Rightarrow>
              (case (case preparation of None \<Rightarrow> [''no preparation''] | Some p \<Rightarrow> x_documents x p d1) of
                 p # ps \<Rightarrow>
                   let message = ''documents: '' @ take 1500 (join_with ''; '' (p # ps));
                       (row, d2) = force_attempt x attempt1 AS_NEEDS_REVIEW (Some (take 256 message)) [] now d1;
                       (_, d3) = queue_needs_review tenant worker message now item d2
                   in Inr ((SO_document_failed (p # ps), None),
                           exec_audit x row ''execution:document_failed'' [(''problems'', JList (map JStr (take 5 (p # ps))))] d3)
               | [] \<Rightarrow>
                   if \<not> e_can_handle executor attempt1 d1
                   then bind_result (exec_handoff x item worker attempt1 None HR_AMBIGUOUS_FORM
                            (executor_kind_value kind @ '' cannot handle '' @ x_ats_family x attempt1 d1) (Some ''before_form'') [''choose another executor''] True now d1)
                          (\<lambda>(_, _, _, d2). Inr ((SO_handoff, None), d2))
                   else case start_mutex x item worker executor attempt1 report now d1 of
                     Some (run, d2) \<Rightarrow> Inr ((SO_started, Some run), d2)
                   | None \<Rightarrow>
                       bind_result (queue_require tenant (q_id item) d0) (\<lambda>item0.
                       bind_result (queue_release tenant worker (Some ''another worker took this attempt'') now item0 d0) (\<lambda>(_, d2).
                         Inr ((SO_lost_race, None), d2)))))"

text \<open>An attempt found \<open>SUBMITTING\<close>: its executor was lost. \<open>Inl\<close> settles the item, \<open>Inr\<close> goes on.\<close>

definition reclaim_submitting ::
  "exec_env \<Rightarrow> queue_row \<Rightarrow> string \<Rightarrow> application_row \<Rightarrow> time \<Rightarrow> db \<Rightarrow> start_result + application_row \<times> db" where
  "reclaim_submitting x item worker attempt now d =
     (let reopen = (\<lambda>d1. let (row, d2) = flush_application now (attempt\<lparr>a_submission_key := None\<rparr>) d1
                         in force_attempt x row AS_READY (Some ''reclaimed after a lost executor'') [] now d2)
      in case crashed_run x attempt d of
        None \<Rightarrow> Inr (reopen d)
      | Some run \<Rightarrow>
          if r_submit_invoked run
          then let run' = finish_run run ES_UNKNOWN (Some EO_UNKNOWN) (Some EC_EXECUTOR_CRASH) (Some ''executor lost after submit was invoked'') now;
                   (row, d1) = force_attempt x attempt AS_UNCERTAIN (Some ''executor lost after submit was invoked'') [] now (put_run run' d);
                   (_, d2) = queue_needs_review (x_tenant x) worker
                     ''awaiting verification: earlier executor was lost after pressing submit'' now item d1
               in Inl ((SO_awaiting_verification, None),
                       exec_audit x row ''execution:unknown'' [(''run_id'', JStr (r_id run)), (''reason'', JStr ''lost after submit'')] d2)
          else Inr (reopen (put_run (finish_run run ES_FAILED_RETRYABLE (Some EO_RETRYABLE_FAILURE) (Some EC_EXECUTOR_CRASH)
                                      (Some ''executor lost before submit; safe to retry'') now) d)))"

definition start_attempt ::
  "exec_env \<Rightarrow> queue_row \<Rightarrow> string \<Rightarrow> executor_kind \<Rightarrow> application_row \<Rightarrow> time \<Rightarrow> db \<Rightarrow> db \<Rightarrow> start_result result" where
  "start_attempt x item worker kind attempt now d0 d =
     (let tenant = x_tenant x;
          ready = (\<lambda>row d1.
            if a_status row \<noteq> AS_READY
            then bind_result (park_item x item worker (a_status row) (str_or (a_status_reason row) (application_status_value (a_status row))) now d1)
                   (\<lambda>(_, d2). Inr ((SO_not_ready (a_status row), None), d2))
            else start_ready x item worker kind row now d0 d1)
      in if a_status attempt = AS_SUBMITTED \<or> a_status attempt = AS_VERIFIED
         then bind_result (queue_succeed tenant worker
                  (JObj [(''outcome'', JStr ''already_submitted''), (''application_id'', JStr (a_id attempt))]) now item d)
                (\<lambda>(_, d1). Inr ((SO_already_submitted, None), d1))
         else if a_status attempt = AS_UNCERTAIN
         then Inr ((SO_awaiting_verification, None),
                   snd (queue_needs_review tenant worker ''awaiting verification of an earlier submit; never resubmitted automatically'' now item d))
         else if a_status attempt = AS_SUBMITTING
         then case reclaim_submitting x item worker attempt now d of
                Inl settled \<Rightarrow> Inr settled
              | Inr (row, d1) \<Rightarrow> ready row d1
         else ready attempt d)"

text \<open>The item must be claimed by the worker, or already be processed by it.\<close>

definition begin_item :: "exec_env \<Rightarrow> queue_row \<Rightarrow> string \<Rightarrow> time \<Rightarrow> db \<Rightarrow> (queue_row \<times> db) result" where
  "begin_item x item worker now d =
     (if q_state item = QS_CLAIMED then queue_start (x_tenant x) worker now item d
      else if q_state item \<noteq> QS_PROCESSING \<or> q_claimed_by item \<noteq> Some worker
      then Inl (ConflictError (''Item is '' @ queue_state_value (q_state item) @ '' and owned by '' @ str_or (q_claimed_by item) ''nobody''))
      else Inr (item, d))"

definition start_item ::
  "exec_env \<Rightarrow> queue_row \<Rightarrow> string \<Rightarrow> executor_kind \<Rightarrow> time \<Rightarrow> db \<Rightarrow> start_result result" where
  "start_item x item worker kind now d =
     bind_result (attempt_for_item x item d) (\<lambda>found.
     bind_result (begin_item x item worker now d) (\<lambda>(item1, d1).
     case found of
       None \<Rightarrow> bind_result (queue_fail (x_tenant x) worker ''no application attempt for this opportunity'' False now item1 d1)
                 (\<lambda>(_, d2). Inr ((SO_no_attempt, None), d2))
     | Some attempt \<Rightarrow> start_attempt x item1 worker kind attempt now d d1))"

text \<open>A missing executor is reported after the commit.\<close>

definition exec_start ::
  "exec_env \<Rightarrow> queue_row \<Rightarrow> string \<Rightarrow> executor_kind \<Rightarrow> time \<Rightarrow> db \<Rightarrow> (start_outcome \<times> execution_run_row option) result \<times> db" where
  "exec_start x item worker kind now d =
     (case commit_or_rollback d (start_item x item worker kind now d) of
        (Inr (SO_no_executor, _), d') \<Rightarrow> (Inl (ValidationFailed (''No executor registered for '' @ executor_kind_value kind)), d')
      | r \<Rightarrow> r)"

section \<open>The pre-submit gate\<close>

text \<open>The callback handed to an in-process executor; a failed check is rolled back, a passed one (which
  may have refreshed the cap slot) committed.\<close>

definition pre_submit_gate :: "exec_env \<Rightarrow> string \<Rightarrow> time \<Rightarrow> db \<Rightarrow> string list \<times> db" where
  "pre_submit_gate x application_id now d =
     (case get_attempt x application_id d of
        None \<Rightarrow> ([''attempt vanished''], d)
      | Some attempt \<Rightarrow>
          let (report, _, d1) = exec_check x attempt True True now d
          in ((if \<not> is_live_enabled (x_modes x) (Some (x_tenant x)) then [SAFE_MODE_FAILURE] else []) @
              (if is_paused d (job_source attempt d) then [''PAUSED: the kill switch is on''] else []) @
              map (\<lambda>f. precondition_code_value (pf_code f) @ '': '' @ pf_message f) (pr_failures report),
              if pr_ok report then d1 else d))"

text \<open>The running execution of an item, as \<^verbatim>\<open>report_result\<close> and \<^verbatim>\<open>gate\<close> look it up.\<close>

definition running_execution :: "exec_env \<Rightarrow> queue_row \<Rightarrow> string \<Rightarrow> db \<Rightarrow> (application_row \<times> execution_run_row) result" where
  "running_execution x item worker d =
     bind_result (assert_owner item worker) (\<lambda>_.
     bind_result (attempt_for_item x item d) (\<lambda>found.
     case found of
       None \<Rightarrow> Inl (NotFoundError ''No application attempt for this queue item'')
     | Some attempt \<Rightarrow>
        (case crashed_run x attempt d of
           None \<Rightarrow> Inl (ConflictError ''No running execution for this item; call start first'')
         | Some run \<Rightarrow> if r_queue_item_id run \<noteq> Some (q_id item)
                       then Inl (ConflictError ''No running execution for this item; call start first'')
                       else Inr (attempt, run))))"

definition exec_gate :: "exec_env \<Rightarrow> queue_row \<Rightarrow> string \<Rightarrow> time \<Rightarrow> db \<Rightarrow> string list result \<times> db" where
  "exec_gate x item worker now d =
     (case running_execution x item worker d of
        Inl e \<Rightarrow> (Inl e, d)
      | Inr (attempt, run) \<Rightarrow>
          let meta = [(''run_id'', JStr (r_id run))];
              refused = (\<lambda>failures. [(''run_id'', JStr (r_id run)), (''failures'', JList (map JStr (take 5 failures)))])
          in if r_submit_invoked run
             then (Inr [''SUBMIT_ALREADY_INVOKED: a submit was already recorded for this run; report the result or verify''], d)
             else if (case q_lease_expires_at item of None \<Rightarrow> False | Some t \<Rightarrow> t < now)
             then (Inr [''LEASE_EXPIRED: the lease on this item lapsed; heartbeat or claim it again before submitting''],
                   exec_audit x attempt ''execution:gate_refused'' (refused [''LEASE_EXPIRED'']) d)
             else let (failures, d1) = pre_submit_gate x (a_id attempt) now d
                  in if failures \<noteq> [] then (Inr failures, exec_audit x attempt ''execution:gate_refused'' (refused failures) d1)
                     else (Inr [], exec_audit x attempt ''execution:gate_passed'' meta (put_run (run\<lparr>r_submit_invoked := True\<rparr>) d1)))"

section \<open>Results from executors\<close>

text \<open>Asking the executor what a submission is worth; a crash is \<open>UNKNOWN\<close>.\<close>

definition crash_verification :: "executor_exn \<Rightarrow> verification_result" where
  "crash_verification e =
     \<lparr>vr_status = VS_UNKNOWN, vr_method = VM_NONE,
      vr_detail = Some (''verify crashed: '' @ (case e of ExecutorError _ _ _ _ \<Rightarrow> ''ExecutorError'' | OtherException t _ \<Rightarrow> t)),
      vr_external_application_id = None, vr_confirmation_reference = None, vr_application_url = None\<rparr>"

definition verify_submitted :: "exec_env \<Rightarrow> executor option \<Rightarrow> application_row \<Rightarrow> execution_result \<Rightarrow> db \<Rightarrow> execution_result" where
  "verify_submitted x executor attempt res d =
     (if er_outcome res = EO_SUBMITTED \<and> er_verification res = None
      then case executor of
             None \<Rightarrow> res
           | Some e \<Rightarrow> (case e_verify e attempt res d of
                          Inr v \<Rightarrow> res\<lparr>er_verification := Some v\<rparr>
                        | Inl exn \<Rightarrow> res\<lparr>er_verification := Some (crash_verification exn)\<rparr>)
      else res)"

definition report_result :: "exec_env \<Rightarrow> queue_row \<Rightarrow> string \<Rightarrow> execution_result \<Rightarrow> time \<Rightarrow> db \<Rightarrow> (queue_row \<times> execution_run_row \<times> application_row) result \<times> db" where
  "report_result x item worker res now d =
     commit_or_rollback d
       (bind_result (running_execution x item worker d) (\<lambda>(attempt, run).
        bind_result (exec_report x item worker run attempt
            (verify_submitted x (case r_executor_kind run of None \<Rightarrow> None | Some k \<Rightarrow> x_executors x k) attempt res d) now d)
          (\<lambda>(item', run', row, d'). Inr ((item', run', row), d'))))"

definition handoff_item ::
  "exec_env \<Rightarrow> queue_row \<Rightarrow> string \<Rightarrow> handoff_reason \<Rightarrow> string \<Rightarrow> string option \<Rightarrow> string list \<Rightarrow> time \<Rightarrow> db \<Rightarrow>
   (queue_row \<times> execution_run_row \<times> application_row) result \<times> db" where
  "handoff_item x item worker reason message stopped_at remaining now d =
     report_result x item worker ((result_of EO_HANDOFF (Some message))
       \<lparr>er_handoff_reason := Some reason, er_stopped_at := stopped_at, er_remaining_steps := remaining\<rparr>) now d"

text \<open>The interaction of an executor with its gate: the number of times it pressed submit, its end and
  the database.\<close>

primrec run_script :: "(db \<Rightarrow> string list \<times> db) \<Rightarrow> script \<Rightarrow> db \<Rightarrow> nat \<times> (executor_exn + execution_result) \<times> db" where
  "run_script gate (Return res) = (\<lambda>d. (0, Inr res, d))"
| "run_script gate (Raise e) = (\<lambda>d. (0, Inl e, d))"
| "run_script gate (Gate k) = (\<lambda>d. let (failures, d') = gate d in run_script gate (k failures) d')"
| "run_script gate (Press s) = (\<lambda>d. let (n, r, d') = run_script gate s d in (Suc n, r, d'))"

section \<open>Execute\<close>

text \<open>What the service makes of the end of an executor's run. The first component says that the run's
  \<^verbatim>\<open>submit_invoked\<close> is taken back.\<close>

definition settle_script :: "bool \<Rightarrow> executor_exn + execution_result \<Rightarrow> bool \<times> execution_result" where
  "settle_script dry_run ending =
     (case ending of
        Inr res \<Rightarrow> (False, res)
      | Inl (ExecutorError msg before_submit retryable cls) \<Rightarrow>
          if before_submit \<or> dry_run
          then (True, (result_of (if retryable \<or> dry_run then EO_RETRYABLE_FAILURE else EO_PERMANENT_FAILURE) (Some msg))\<lparr>er_error_class := Some cls\<rparr>)
          else (False, (result_of EO_UNKNOWN (Some msg))\<lparr>er_submit_attempted := True, er_error_class := Some cls\<rparr>)
      | Inl (OtherException typ text) \<Rightarrow>
          if dry_run
          then (False, (result_of EO_RETRYABLE_FAILURE (Some (take 500 (''dry run crashed: '' @ typ))))\<lparr>er_error_class := Some EC_EXECUTOR_CRASH\<rparr>)
          else (False, (result_of EO_UNKNOWN (Some (typ @ '': '' @ text)))\<lparr>er_submit_attempted := True, er_error_class := Some EC_EXECUTOR_CRASH\<rparr>))"

definition prepare_failure :: "executor_exn \<Rightarrow> execution_result" where
  "prepare_failure e =
     (case e of
        ExecutorError msg _ retryable cls \<Rightarrow>
          (result_of (if retryable then EO_RETRYABLE_FAILURE else EO_PERMANENT_FAILURE) (Some msg))\<lparr>er_error_class := Some cls\<rparr>
      | OtherException typ text \<Rightarrow>
          (result_of EO_RETRYABLE_FAILURE (Some (take 500 (''prepare crashed: '' @ typ @ '': '' @ text))))\<lparr>er_error_class := Some EC_EXECUTOR_CRASH\<rparr>)"

definition blocked_result :: "form_snapshot \<Rightarrow> nat \<times> nat \<Rightarrow> execution_result option" where
  "blocked_result form counts =
     (let (needs_input, needs_review) = counts in
      if 0 < needs_input \<and> \<not> fs_handoff form
      then Some ((result_of EO_NEEDS_USER_INPUT (Some (show_int (int needs_input) @ '' required field(s) need the candidate'')))
                   \<lparr>er_stopped_at := Some ''form_mapping''\<rparr>)
      else if 0 < needs_review \<and> \<not> fs_handoff form
      then Some ((result_of EO_HANDOFF (Some (show_int (int needs_review) @ '' required field(s) cannot be filled safely'')))
                   \<lparr>er_handoff_reason := Some HR_UNKNOWN_REQUIRED_FIELD, er_stopped_at := Some ''form_mapping'',
                    er_remaining_steps := [''answer the unknown field(s)'', ''submit'']\<rparr>)
      else None)"

type_synonym execute_result = "nat \<times> (start_outcome + execution_outcome) result \<times> db"

text \<open>\<^verbatim>\<open>_report\<close> on the rows as they are now, committed; the first component counts the presses of submit.\<close>

definition exec_finish ::
  "exec_env \<Rightarrow> queue_row \<Rightarrow> string \<Rightarrow> application_row \<Rightarrow> nat \<Rightarrow> execution_run_row \<Rightarrow> execution_result \<Rightarrow> time \<Rightarrow> db \<Rightarrow> execute_result" where
  "exec_finish x item worker attempt presses run res now d =
     (let row = (case get_attempt x (a_id attempt) d of None \<Rightarrow> attempt | Some a \<Rightarrow> a)
      in case exec_report x item worker run row res now d of
           Inl e \<Rightarrow> (presses, Inl e, d)
         | Inr (_, _, _, d') \<Rightarrow> (presses, Inr (Inr (er_outcome res)), d'))"

text \<open>From here the executor may press submit: that is recorded and committed first.\<close>

definition exec_submit ::
  "exec_env \<Rightarrow> queue_row \<Rightarrow> string \<Rightarrow> executor \<Rightarrow> application_row \<Rightarrow> execution_run_row \<Rightarrow> form_snapshot \<Rightarrow> time \<Rightarrow> db \<Rightarrow> execute_result" where
  "exec_submit x item worker executor attempt run form now d =
     (let run1 = (if e_dry_run executor then run else run\<lparr>r_submit_invoked := True\<rparr>);
          d1 = (if e_dry_run executor then d else put_run run1 d);
          (presses, ending, d2) = run_script (pre_submit_gate x (a_id attempt) now) (e_execute executor attempt form d1) d1;
          (undo, res) = settle_script (e_dry_run executor) ending;
          run2 = (if undo then run1\<lparr>r_submit_invoked := False\<rparr> else run1)
      in exec_finish x item worker attempt presses run2 (verify_submitted x (Some executor) attempt res d2) now d2)"

definition exec_drive ::
  "exec_env \<Rightarrow> queue_row \<Rightarrow> string \<Rightarrow> executor \<Rightarrow> application_row \<Rightarrow> execution_run_row \<Rightarrow> time \<Rightarrow> db \<Rightarrow> execute_result" where
  "exec_drive x item worker executor attempt run now d =
     (case e_prepare executor attempt d of
        Inl exn \<Rightarrow> exec_finish x item worker attempt 0 run (prepare_failure exn) now d
      | Inr form \<Rightarrow>
         (case blocked_result form (x_blocking x attempt form d) of
            Some res \<Rightarrow> exec_finish x item worker attempt 0 run res now d
          | None \<Rightarrow> exec_submit x item worker executor attempt run form now d))"

definition exec_execute :: "exec_env \<Rightarrow> queue_row \<Rightarrow> string \<Rightarrow> executor_kind \<Rightarrow> time \<Rightarrow> db \<Rightarrow> execute_result" where
  "exec_execute x item worker kind now d =
     (case exec_start x item worker kind now d of
        (Inl e, d1) \<Rightarrow> (0, Inl e, d1)
      | (Inr (outcome, None), d1) \<Rightarrow> (0, Inr (Inl outcome), d1)
      | (Inr (outcome, Some run), d1) \<Rightarrow>
         (case (x_executors x kind, get_attempt x (r_application_id run) d1, get_item d1 (q_id item)) of
            (Some executor, Some attempt, Some item1) \<Rightarrow> exec_drive x item1 worker executor attempt run now d1
          | _ \<Rightarrow> (0, Inl (NotFoundError (''Application attempt not found: '' @ r_application_id run)), d1)))"

section \<open>Recovery of lost runs\<close>

definition live_lease :: "queue_row option \<Rightarrow> time \<Rightarrow> bool" where
  "live_lease item now =
     (case item of
        None \<Rightarrow> False
      | Some i \<Rightarrow> q_state i \<in> HELD_QUEUE_STATES \<and> (case q_lease_expires_at i of None \<Rightarrow> False | Some t \<Rightarrow> now \<le> t))"

definition recovered_item :: "time \<Rightarrow> queue_row \<Rightarrow> queue_row" where
  "recovered_item now i =
     i\<lparr>q_state := QS_PENDING, q_claimed_by := None, q_claimed_at := None, q_lease_expires_at := None, q_available_at := now,
       q_updated_at := now\<rparr>"

definition recover_clicked :: "exec_env \<Rightarrow> execution_run_row \<Rightarrow> application_row \<Rightarrow> queue_row option \<Rightarrow> time \<Rightarrow> db \<Rightarrow> db" where
  "recover_clicked x run attempt item now d =
     (let run' = (finish_run run ES_UNKNOWN (Some EO_UNKNOWN) (Some EC_EXECUTOR_CRASH)
                    (Some ''worker lost after submit was invoked (recovered at startup)'') now)\<lparr>r_verification_status := VS_PENDING\<rparr>;
          (row, d1) = force_attempt x attempt AS_UNCERTAIN (Some ''worker lost after submit was invoked'') [] now (put_run run' d);
          d2 = (case item of
                  None \<Rightarrow> d1
                | Some i \<Rightarrow> if q_state i \<notin> {QS_SUCCEEDED, QS_CANCELLED, QS_NEEDS_REVIEW}
                            then snd (queue_needs_review (x_tenant x) (x_actor x) ''awaiting verification: worker was lost after pressing submit'' now i d1)
                            else d1);
          d3 = exec_audit x row ''execution:unknown'' [(''run_id'', JStr (r_id run)), (''reason'', JStr ''recovered: lost after submit'')] d2
      in x_emit x run' row d3)"

definition recover_unclicked :: "exec_env \<Rightarrow> execution_run_row \<Rightarrow> application_row \<Rightarrow> queue_row option \<Rightarrow> time \<Rightarrow> db \<Rightarrow> db" where
  "recover_unclicked x run attempt item now d =
     (let run' = finish_run run ES_FAILED_RETRYABLE (Some EO_RETRYABLE_FAILURE) (Some EC_EXECUTOR_CRASH)
                   (Some ''worker lost before submit (recovered at startup); safe to retry'') now;
          d0 = put_run run' d;
          (row, d1) = (if a_status attempt = AS_SUBMITTING
                       then let (r, d') = flush_application now (attempt\<lparr>a_submission_key := None\<rparr>) d0
                            in force_attempt x r AS_READY (Some ''reclaimed after a lost worker'') [] now d'
                       else (attempt, d0));
          d2 = (case item of
                  None \<Rightarrow> d1
                | Some i \<Rightarrow> if q_state i \<in> HELD_QUEUE_STATES
                            then queue_record (x_tenant x) (recovered_item now i) ''lease_expired'' (x_actor x) (Some (snapshot i))
                                   (Some ''worker lost before submit'') (put_item (recovered_item now i) d1)
                            else d1)
      in exec_audit x row ''execution:recovered'' [(''run_id'', JStr (r_id run)), (''reason'', JStr ''lost before submit'')] d2)"

definition recover_run :: "exec_env \<Rightarrow> execution_run_row \<Rightarrow> time \<Rightarrow> db \<Rightarrow> string \<times> db" where
  "recover_run x run now d =
     (let item = opt_truthy (r_queue_item_id run) (\<lambda>k. queue_get (x_tenant x) k d) in
      if live_lease item now then (''live'', d)
      else case get_attempt x (r_application_id run) d of
        None \<Rightarrow> (''orphaned'', put_run (finish_run run ES_FAILED_PERMANENT (Some EO_PERMANENT_FAILURE) (Some EC_EXECUTOR_CRASH)
                                      (Some ''attempt vanished while running'') now) d)
      | Some attempt \<Rightarrow>
          if r_submit_invoked run then (''uncertain'', recover_clicked x run attempt item now d)
          else (''retryable'', recover_unclicked x run attempt item now d))"

fun recover_runs :: "exec_env \<Rightarrow> execution_run_row list \<Rightarrow> time \<Rightarrow> db \<Rightarrow> string list \<times> db" where
  "recover_runs x [] now d = ([], d)"
| "recover_runs x (r # rs) now d =
     (let (c, d1) = recover_run x r now d; (cs, d2) = recover_runs x rs now d1 in (c # cs, d2))"

definition recover_lost_runs :: "exec_env \<Rightarrow> time \<Rightarrow> db \<Rightarrow> string list \<times> db" where
  "recover_lost_runs x now d =
     recover_runs x (filter (\<lambda>r. r_tenant_id r = x_tenant x \<and> r_status r = ES_RUNNING) (runs_t d)) now d"

section \<open>Verification and the human actions\<close>

definition VERIFIABLE :: "execution_status set" where
  "VERIFIABLE = {ES_SUBMITTED, ES_UNKNOWN, ES_VERIFIED, ES_VERIFICATION_FAILED, ES_HANDOFF}"

definition ask_executor :: "exec_env \<Rightarrow> execution_run_row \<Rightarrow> application_row \<Rightarrow> executor_kind option \<Rightarrow> db \<Rightarrow> verification_result result" where
  "ask_executor x run attempt executor_kind d =
     (let kind = (case r_executor_kind run of None \<Rightarrow> EK_MANUAL | Some k \<Rightarrow> (case executor_kind of Some e \<Rightarrow> e | None \<Rightarrow> k))
      in case x_executors x kind of
        None \<Rightarrow> Inl (ValidationFailed (''No executor registered for '' @ executor_kind_value kind))
      | Some e \<Rightarrow>
         (case e_verify e attempt
              ((result_of (case r_outcome run of None \<Rightarrow> EO_UNKNOWN | Some oc \<Rightarrow> oc) None)
                 \<lparr>er_submit_attempted := r_submit_invoked run, er_application_url := r_application_url run,
                  er_external_application_id := r_external_application_id run,
                  er_confirmation_reference := r_confirmation_reference run\<rparr>) d of
            Inr v \<Rightarrow> Inr v
          | Inl exn \<Rightarrow> Inl (RuntimeError (case exn of ExecutorError m _ _ _ \<Rightarrow> m | OtherException _ t \<Rightarrow> t))))"

definition verify_in :: "exec_env \<Rightarrow> string \<Rightarrow> verification_result option \<Rightarrow> executor_kind option \<Rightarrow> time \<Rightarrow> db \<Rightarrow> (execution_run_row \<times> db) result" where
  "verify_in x run_id verification executor_kind now d =
     bind_result (require_run x run_id d) (\<lambda>run.
     bind_result (require_attempt x (r_application_id run) d) (\<lambda>attempt.
     if r_status run \<notin> VERIFIABLE
     then Inl (ConflictError (''Run is '' @ execution_status_value (r_status run) @ ''; only submitted, unknown or handed-off runs can be verified''))
     else bind_result (case verification of Some v \<Rightarrow> Inr v | None \<Rightarrow> ask_executor x run attempt executor_kind d) (\<lambda>v.
          let item = opt_truthy (r_queue_item_id run) (\<lambda>k. queue_get (x_tenant x) k d)
          in bind_result (apply_verification x run attempt v item now d) (\<lambda>(run', _, _, d'). Inr (run', d')))))"

definition exec_verify :: "exec_env \<Rightarrow> string \<Rightarrow> verification_result option \<Rightarrow> executor_kind option \<Rightarrow> time \<Rightarrow> db \<Rightarrow> execution_run_row result \<times> db" where
  "exec_verify x run_id verification executor_kind now d = commit_or_rollback d (verify_in x run_id verification executor_kind now d)"

definition confirmation :: "bool \<Rightarrow> string option \<Rightarrow> string option \<Rightarrow> verification_result" where
  "confirmation submitted reference note =
     \<lparr>vr_status = (if submitted then VS_VERIFIED else VS_FAILED), vr_method = VM_USER_CONFIRMATION,
      vr_detail = Some (str_or note (if submitted then ''confirmed by the candidate'' else ''the candidate reports it was not submitted'')),
      vr_external_application_id = None, vr_confirmation_reference = reference, vr_application_url = None\<rparr>"

definition exec_confirm :: "exec_env \<Rightarrow> string \<Rightarrow> bool \<Rightarrow> string option \<Rightarrow> string option \<Rightarrow> time \<Rightarrow> db \<Rightarrow> execution_run_row result \<times> db" where
  "exec_confirm x run_id submitted reference note now d =
     commit_or_rollback d
       (bind_result (require_run x run_id d) (\<lambda>run.
        bind_result (require_attempt x (r_application_id run) d) (\<lambda>attempt.
          let d1 = (if submitted \<and> r_status run = ES_HANDOFF
                    then let run1 = finish_run (run\<lparr>r_submit_invoked := True\<rparr>) ES_SUBMITTED (Some EO_SUBMITTED) None None now;
                             d' = put_run run1 d
                         in if a_status attempt \<noteq> AS_SUBMITTED
                            then let (row, d'') = force_attempt x attempt AS_SUBMITTED (Some ''submitted by the candidate'') [(''run_id'', JStr (r_id run))] now d';
                                     (row', d3) = flush_application now (row\<lparr>a_submitted_at := Some now\<rparr>) d''
                                 in move_candidate x row' OS_SUBMITTED ''submitted by the candidate'' now d3
                            else d'
                    else d)
          in verify_in x run_id (Some (confirmation submitted reference note)) None now d1)))"

definition exec_retry :: "exec_env \<Rightarrow> string \<Rightarrow> string \<Rightarrow> string option \<Rightarrow> time \<Rightarrow> db \<Rightarrow> application_row result \<times> db" where
  "exec_retry x application_id actor reason now d =
     commit_or_rollback d
       (bind_result (require_attempt x application_id d) (\<lambda>attempt.
        if a_status attempt \<in> SUBMITTED_STATUSES \<and> a_status attempt \<noteq> AS_SUBMITTING
        then Inl (ConflictError (''Attempt is '' @ application_status_value (a_status attempt) @ ''; verify or confirm the earlier submit instead of retrying''))
        else if list_ex (\<lambda>r. r_status r = ES_UNKNOWN \<and> r_verification_status r \<in> {VS_PENDING, VS_UNKNOWN}) (runs_for x (a_id attempt) d)
        then Inl (ConflictError ''An earlier submit has an unknown outcome; verify or confirm it before retrying'')
        else if a_status attempt \<notin> {AS_BLOCKED, AS_NEEDS_USER_INPUT, AS_NEEDS_REVIEW, AS_READY, AS_FAILED, AS_CANCELLED}
        then Inl (ConflictError (''Cannot retry an attempt that is '' @ application_status_value (a_status attempt)))
        else
          let row0 = (if a_status attempt = AS_FAILED \<or> a_status attempt = AS_CANCELLED
                      then attempt\<lparr>a_attempt_number := (if a_attempt_number attempt = 0 then 1 else a_attempt_number attempt) + 1,
                                   a_released_at := None, a_reserved_at := None, a_cap_day := None, a_cap_week := None\<rparr>
                      else attempt);
              (row1, d1) = flush_application now (row0\<lparr>a_submission_key := None, a_blocked_reason := None\<rparr>) d;
              (row, d2) = (case attempt_transition row1 AS_READY actor (Some (str_or reason ''retried by a person'')) [] True now d1 of
                             Inr (_, r, d') \<Rightarrow> (r, d') | Inl _ \<Rightarrow> (row1, d1))
          in bind_result
               (case item_for x row d2 of
                  Some item \<Rightarrow>
                    if q_state item \<in> PARKED
                    then bind_result (queue_requeue (x_tenant x) actor (Some (str_or reason ''retry'')) True False now item d2) (\<lambda>(_, d'). Inr d')
                    else Inr d2
                | None \<Rightarrow>
                    if truthy (a_candidate_opportunity_id row) then bind_result (enqueue_ready x 0 now d2) (\<lambda>(_, d'). Inr d') else Inr d2) (\<lambda>d3.
             Inr (row, exec_audit x row ''execution:retry'' [(''actor'', JStr actor), (''reason'', j_opt_str reason)] d3))))"

definition exec_cancel :: "exec_env \<Rightarrow> string \<Rightarrow> string \<Rightarrow> string option \<Rightarrow> time \<Rightarrow> db \<Rightarrow> application_row result \<times> db" where
  "exec_cancel x application_id actor reason now d =
     commit_or_rollback d
       (bind_result (require_attempt x application_id d) (\<lambda>attempt.
        if a_status attempt \<in> SUBMITTED_STATUSES
        then Inl (ConflictError (''Attempt is '' @ application_status_value (a_status attempt) @ ''; a submitted or uncertain attempt cannot be cancelled, verify it''))
        else
          let (row0, _, d1) = release_attempt (x_tenant x) attempt AS_CANCELLED (str_or reason (''cancelled by '' @ actor)) ''cancel'' now [] d;
              (row, d2) = flush_application now (row0\<lparr>a_submission_key := None\<rparr>) d1
          in bind_result (case item_for x row d2 of
               Some item \<Rightarrow> if q_state item \<notin> {QS_SUCCEEDED, QS_CANCELLED}
                            then bind_result (queue_cancel (x_tenant x) actor reason now item d2) (\<lambda>(_, d'). Inr d') else Inr d2
             | None \<Rightarrow> Inr d2) (\<lambda>d3.
             bind_result (case opt_truthy (a_opportunity_id row) (\<lambda>oid. queue_find (x_tenant x) oid QA_PREPARE d3) of
               Some prepare \<Rightarrow> if q_state prepare \<in> {QS_PENDING, QS_RETRY_WAIT, QS_BLOCKED, QS_NEEDS_REVIEW}
                               then bind_result (queue_cancel (x_tenant x) actor reason now prepare d3) (\<lambda>(_, d'). Inr d') else Inr d3
             | None \<Rightarrow> Inr d3) (\<lambda>d4.
             Inr (row, exec_audit x row ''execution:cancelled'' [(''actor'', JStr actor), (''reason'', j_opt_str reason)] d4)))))"

section \<open>The worker loop\<close>

fun run_items :: "exec_env \<Rightarrow> queue_row list \<Rightarrow> string \<Rightarrow> executor_kind \<Rightarrow> time \<Rightarrow> db \<Rightarrow> nat \<times> (start_outcome + execution_outcome) result list \<times> db" where
  "run_items x [] worker kind now d = (0, [], d)"
| "run_items x (item # items) worker kind now d =
     (let (presses, res, d1) = exec_execute x item worker kind now d;
          (presses', rs, d2) = run_items x items worker kind now d1
      in (presses + presses', res # rs, d2))"

definition run_queue ::
  "exec_env \<Rightarrow> string \<Rightarrow> nat \<Rightarrow> executor_kind \<Rightarrow> lane option \<Rightarrow> time \<Rightarrow> db \<Rightarrow> (nat \<times> (start_outcome + execution_outcome) result list) result \<times> db" where
  "run_queue x worker limit kind ln now d =
     (if x_executors x kind = None then (Inl (ValidationFailed (''No executor registered for '' @ executor_kind_value kind)), d)
      else let d1 = snd (recover_lost_runs x now d);
               (items, d2) = exec_claim x worker limit ln now d1;
               (presses, results, d3) = run_items x items worker kind now d2
           in (Inr (presses, results), d3))"

end
