(* ===== verification/Exec_Safety.thy ===== *)
theory Exec_Safety
  imports Execution
begin

text \<open>
  What makes a submission safe: the pre-submit gate passes exactly when every condition holds, an
  executor that keeps its contract presses submit at most once per run and never in SAFE mode or
  while paused, and a run starts only for an attempt no earlier run may have submitted.
\<close>

section \<open>Executors that keep the contract\<close>

text \<open>The contract of \<^verbatim>\<open>app/execution/executors/base.py\<close>: call the gate right before pressing submit, stop if it
  returns any failure, press at most once.\<close>

primrec silent :: "script \<Rightarrow> bool" where
  "silent (Return res) = True"
| "silent (Raise e) = True"
| "silent (Gate k) = (\<forall>fs. silent (k fs))"
| "silent (Press s) = False"

primrec honest :: "script \<Rightarrow> bool \<Rightarrow> bool" where
  "honest (Return res) = (\<lambda>armed. True)"
| "honest (Raise e) = (\<lambda>armed. True)"
| "honest (Gate k) = (\<lambda>armed. \<forall>fs. honest (k fs) (fs = []))"
| "honest (Press s) = (\<lambda>armed. armed \<and> silent s)"

definition honest_executors :: "exec_env \<Rightarrow> bool" where
  "honest_executors x \<longleftrightarrow>
     (\<forall>kind e. x_executors x kind = Some e \<longrightarrow> (\<forall>attempt form d. honest (e_execute e attempt form d) False))"

lemma silent_presses: "silent s \<Longrightarrow> fst (run_script gate s d) = 0"
  by (induction s arbitrary: d) (simp_all add: case_prod_unfold Let_def)

lemma honest_presses: "honest s armed \<Longrightarrow> fst (run_script gate s d) \<le> 1"
proof (induction s arbitrary: d armed)
  case (Gate k)
  then show ?case
    using Gate.IH [of "k (fst (gate d))" "fst (gate d) = []" "snd (gate d)"] by (simp add: case_prod_unfold Let_def)
qed (auto simp: case_prod_unfold Let_def silent_presses)

text \<open>An executor whose gate always refuses presses nothing.\<close>

lemma refused_presses:
  assumes "honest s False" and "\<And>d. I d \<Longrightarrow> fst (gate d) \<noteq> [] \<and> I (snd (gate d))" and "I d"
  shows "fst (run_script gate s d) = 0"
  using assms(1,3)
proof (induction s arbitrary: d)
  case (Gate k)
  obtain fs d' where g: "gate d = (fs, d')" by fastforce
  with assms(2) [OF Gate.prems(2)] have "fs \<noteq> []" "I d'" by auto
  then have "fst (run_script gate (k fs) d') = 0"
    using Gate.IH [of "k fs" d'] Gate.prems(1) by (metis (full_types) honest.simps(3) rangeI)
  with g show ?case by simp
qed auto

section \<open>The gate\<close>

lemma check_ok_failures: "pr_ok (fst (check t p z a pr co op st rs ex now d)) \<longleftrightarrow> pr_failures (fst (check t p z a pr co op st rs ex now d)) = []"
  by (auto simp: check_def Let_def split: prod.split option.split)

lemma exec_check_ok: "pr_ok (fst (exec_check x a rs ex now d)) \<longleftrightarrow> pr_failures (fst (exec_check x a rs ex now d)) = []"
  by (simp add: exec_check_def Let_def case_prod_unfold check_ok_failures)

lemma gate_passes_iff:
  "fst (pre_submit_gate x aid now d) = [] \<longleftrightarrow>
     (\<exists>attempt. get_attempt x aid d = Some attempt \<and> is_live_enabled (x_modes x) (Some (x_tenant x)) \<and>
        \<not> is_paused d (job_source attempt d) \<and> pr_ok (fst (exec_check x attempt True True now d)))"
  by (auto simp: pre_submit_gate_def Let_def case_prod_unfold exec_check_ok split: option.splits)

lemma gate_live: "fst (pre_submit_gate x aid now d) = [] \<Longrightarrow> is_live_enabled (x_modes x) (Some (x_tenant x))"
  by (auto simp: gate_passes_iff)

section \<open>Presses of an execution\<close>

lemma finish_presses [simp]: "fst (exec_finish x item worker attempt n run res now d) = n"
  by (simp add: exec_finish_def Let_def case_prod_unfold split: sum.split)

text \<open>Every press happens while the executor's script runs under the gate.\<close>

lemma drive_presses:
  "fst (exec_drive x item worker e attempt run now d) = 0 \<or>
   (\<exists>form d1. fst (exec_drive x item worker e attempt run now d) =
      fst (run_script (pre_submit_gate x (a_id attempt) now) (e_execute e attempt form d1) d1))"
  unfolding exec_drive_def exec_submit_def Let_def case_prod_unfold
  by (cases "e_prepare e attempt d") (auto split: option.split)

lemma execute_presses:
  "fst (exec_execute x item worker kind now d) = 0 \<or>
   (\<exists>e aid attempt form d1. x_executors x kind = Some e \<and>
      fst (exec_execute x item worker kind now d) = fst (run_script (pre_submit_gate x aid now) (e_execute e attempt form d1) d1))"
proof -
  obtain r d1 where st: "exec_start x item worker kind now d = (r, d1)" by fastforce
  show ?thesis
  proof (cases r)
    case (Inr a)
    then obtain oc run where a: "r = Inr (oc, run)" by fastforce
    show ?thesis
    proof (cases run)
      case (Some rn)
      then show ?thesis
        using drive_presses [of x _ worker _ _ rn now d1] a st
        by (simp add: exec_execute_def split: option.splits) blast
    qed (simp add: exec_execute_def a st)
  qed (simp add: exec_execute_def st)
qed

lemma safe_presses:
  assumes "honest s False" and "\<not> is_live_enabled (x_modes x) (Some (x_tenant x))"
  shows "fst (run_script (pre_submit_gate x aid now) s d) = 0"
  using assms gate_live by (intro refused_presses [where I = "\<lambda>_. True"]) auto

lemma execute_bound:
  assumes "honest_executors x"
  shows "fst (exec_execute x item worker kind now d) \<le> (if is_live_enabled (x_modes x) (Some (x_tenant x)) then 1 else 0)"
proof -
  consider "fst (exec_execute x item worker kind now d) = 0"
    | e aid attempt form d1 where "x_executors x kind = Some e"
      "fst (exec_execute x item worker kind now d) = fst (run_script (pre_submit_gate x aid now) (e_execute e attempt form d1) d1)"
    using execute_presses [of x item worker kind now d] by (elim disjE exE conjE)
  then show ?thesis
  proof cases
    case 2
    then have "honest (e_execute e attempt form d1) False" using assms by (simp add: honest_executors_def)
    then show ?thesis using 2(2) honest_presses safe_presses by (auto split: if_splits)
  qed simp
qed

lemma run_items_bound:
  assumes "honest_executors x"
  shows "fst (run_items x items worker kind now d) \<le> (if is_live_enabled (x_modes x) (Some (x_tenant x)) then length items else 0)"
proof (induction items arbitrary: d)
  case (Cons i items)
  let ?d = "snd (snd (exec_execute x i worker kind now d))"
  show ?case
    using Cons [of ?d] execute_bound [OF assms, of i worker kind now d]
    by (simp add: case_prod_unfold Let_def split: if_splits)
qed simp

lemma run_items_results: "length (fst (snd (run_items x items worker kind now d))) = length items"
  by (induction items arbitrary: d) (simp_all add: case_prod_unfold Let_def)

section \<open>Lookups after a write\<close>

lemma find_put:
  assumes "find p rows = Some r" and "p r'" and "key r' = key r"
  shows "\<exists>s. find p (tbl_put key r' rows) = Some s \<and> key s = key r"
  using assms by (induction rows) (auto simp: tbl_put_def split: if_splits)

lemma insort_key_map: "(\<And>y. f (g y) = f y) \<Longrightarrow> insort_key f (g a) (map g ys) = map g (insort_key f a ys)"
  by (induction ys) auto

lemma sort_key_map: "(\<And>y. f (g y) = f y) \<Longrightarrow> sort_key f (map g ys) = map g (sort_key f ys)"
  by (induction ys) (simp_all add: insort_key_map)

lemma filter_put:
  assumes "\<And>r. r \<in> set rows \<Longrightarrow> r_id r = r_id run' \<Longrightarrow> p r = p run' \<and> r_run_number r = r_run_number run'"
  shows "filter p (tbl_put r_id run' rows) =
    map (\<lambda>r. if r_id r = r_id run' \<and> r_run_number r = r_run_number run' then run' else r) (filter p rows)"
  using assms by (induction rows) (simp_all add: tbl_put_def)

lemma runs_for_put:
  assumes "\<And>r. r \<in> set (runs_t d) \<Longrightarrow> r_id r = r_id run' \<Longrightarrow>
    r_tenant_id r = r_tenant_id run' \<and> r_application_id r = r_application_id run' \<and> r_run_number r = r_run_number run'"
  shows "runs_for x aid (put_run run' d) = map (\<lambda>r. if r_id r = r_id run' then run' else r) (runs_for x aid d)"
proof -
  let ?g = "\<lambda>r. if r_id r = r_id run' \<and> r_run_number r = r_run_number run' then run' else r"
  let ?p = "\<lambda>r. r_tenant_id r = x_tenant x \<and> r_application_id r = aid"
  have g: "r \<in> set (runs_t d) \<Longrightarrow> (if r_id r = r_id run' then run' else r) = ?g r" for r using assms by auto
  have "filter ?p (tbl_put r_id run' (runs_t d)) = map ?g (filter ?p (runs_t d))"
    using assms by (intro filter_put) auto
  then have "runs_for x aid (put_run run' d) = map ?g (runs_for x aid d)"
    unfolding runs_for_def runs_t_writes by (simp only:) (rule sort_key_map, simp)
  moreover have "map ?g (runs_for x aid d) = map (\<lambda>r. if r_id r = r_id run' then run' else r) (runs_for x aid d)"
    using g by (auto simp: runs_for_def)
  ultimately show ?thesis by simp
qed

text \<open>The primary keys of the runs.\<close>

definition runs_inv :: "db \<Rightarrow> bool" where
  "runs_inv d \<longleftrightarrow> distinct (map r_id (runs_t d))"

lemma runs_inv_same: "runs_inv d \<Longrightarrow> r \<in> set (runs_t d) \<Longrightarrow> s \<in> set (runs_t d) \<Longrightarrow> r_id r = r_id s \<Longrightarrow> r = s"
  by (auto simp: runs_inv_def distinct_map inj_on_def)

lemma crashed_run_in:
  assumes "crashed_run x attempt d = Some run"
  shows "run \<in> set (runs_t d)" "r_status run = ES_RUNNING" "r_tenant_id run = x_tenant x" "r_application_id run = a_id attempt"
proof -
  obtain rs where "filter (\<lambda>r. r_status r = ES_RUNNING) (runs_for x (a_id attempt) d) = run # rs"
    using assms by (auto simp: crashed_run_def split: list.splits)
  then have "run \<in> set (filter (\<lambda>r. r_status r = ES_RUNNING) (runs_for x (a_id attempt) d))"
    by simp
  then show "run \<in> set (runs_t d)" "r_status run = ES_RUNNING" "r_tenant_id run = x_tenant x" "r_application_id run = a_id attempt"
    by (auto simp: runs_for_def)
qed

lemma filter_map_same: "(\<And>y. y \<in> set ys \<Longrightarrow> p (g y) = p y) \<Longrightarrow> filter p (map g ys) = map g (filter p ys)"
  by (induction ys) auto

text \<open>Recording that submit was invoked leaves the run the running one.\<close>

lemma crashed_run_invoked:
  assumes inv: "runs_inv d" and run: "crashed_run x attempt d = Some run" and same: "a_id row = a_id attempt"
  shows "crashed_run x row (put_run (run\<lparr>r_submit_invoked := b\<rparr>) d) = Some (run\<lparr>r_submit_invoked := b\<rparr>)"
proof -
  let ?run = "run\<lparr>r_submit_invoked := b\<rparr>" and ?L = "runs_for x (a_id attempt) d"
  let ?g = "\<lambda>r. if r_id r = r_id ?run then ?run else r"
  have uniq: "r \<in> set (runs_t d) \<Longrightarrow> r_id r = r_id ?run \<Longrightarrow> r = run" for r
    using runs_inv_same [OF inv _ crashed_run_in(1) [OF run]] by simp
  then have "runs_for x (a_id row) (put_run ?run d) = map ?g ?L"
    unfolding same by (intro runs_for_put) auto
  moreover have "filter (\<lambda>r. r_status r = ES_RUNNING) (map ?g ?L) = map ?g (filter (\<lambda>r. r_status r = ES_RUNNING) ?L)"
    using uniq by (intro filter_map_same) (auto simp: runs_for_def)
  ultimately show ?thesis using run by (auto simp: crashed_run_def split: list.splits)
qed

lemma exec_check_frame:
  assumes "exec_check x attempt reserve executing now d = (rep, row, d')"
  shows "runs_t d' = runs_t d" "queue_t d' = queue_t d" "candidates_t d' = candidates_t d" "preparations_t d' = preparations_t d"
    and "applications_t d' = applications_t d \<and> row = attempt \<or> applications_t d' = tbl_put a_id row (applications_t d)"
    and "a_id row = a_id attempt" "a_tenant_id row = a_tenant_id attempt" "a_opportunity_id row = a_opportunity_id attempt"
      "a_status row = a_status attempt" "a_submission_key row = a_submission_key attempt"
      "a_execution_count row = a_execution_count attempt"
  using check_frame [OF assms [unfolded exec_check_def Let_def case_prod_unfold]] by blast+

text \<open>What the gate leaves alone: the runs, and who the attempt of an opening is.\<close>

lemma gate_cases:
  assumes "pre_submit_gate x aid now d = (fs, d')"
  shows "d' = d \<or> (\<exists>attempt rep row. get_attempt x aid d = Some attempt \<and> exec_check x attempt True True now d = (rep, row, d'))"
proof (cases "get_attempt x aid d")
  case (Some attempt)
  obtain rep row d1 where "exec_check x attempt True True now d = (rep, row, d1)" by (rule prod_cases3)
  with assms Some show ?thesis by (auto simp: pre_submit_gate_def Let_def)
qed (use assms in \<open>simp add: pre_submit_gate_def\<close>)

lemma gate_runs: "pre_submit_gate x aid now d = (fs, d') \<Longrightarrow> runs_t d' = runs_t d"
  using gate_cases exec_check_frame(1) by metis

lemma gate_attempt:
  assumes "pre_submit_gate x aid now d = (fs, d')" and att: "get_attempt x aid d = Some attempt"
    and item: "attempt_for_item x item d = Inr (Some attempt)"
    and "q_tenant_id item2 = x_tenant x" "q_opportunity_id item2 = q_opportunity_id item"
  shows "\<exists>row. attempt_for_item x item2 d' = Inr (Some row) \<and> a_id row = a_id attempt"
proof -
  obtain rep row d1 where c: "exec_check x attempt True True now d = (rep, row, d1)" by (rule prod_cases3)
  let ?p = "\<lambda>a. a_tenant_id a = Some (x_tenant x) \<and> a_opportunity_id a = Some (q_opportunity_id item)"
  have f: "find ?p (applications_t d) = Some attempt" using item by (simp add: attempt_for_item_def split: if_splits)
  then have "?p attempt" by (rule find_Some_in [THEN conjunct2])
  then have p: "?p row" using exec_check_frame(7,8) [OF c] by simp
  have "d' = d \<or> d' = d1" using assms(1) att c by (auto simp: pre_submit_gate_def Let_def)
  then have "applications_t d' = applications_t d \<or> applications_t d' = tbl_put a_id row (applications_t d)"
    using exec_check_frame(5) [OF c] by blast
  then have "\<exists>s. find ?p (applications_t d') = Some s \<and> a_id s = a_id attempt"
  proof
    assume "applications_t d' = applications_t d"
    then show ?thesis using f by simp
  next
    assume "applications_t d' = tbl_put a_id row (applications_t d)"
    then show ?thesis using find_put [of ?p, OF f p, of a_id] exec_check_frame(6) [OF c] by simp
  qed
  then show ?thesis using assms(4,5) by (auto simp: attempt_for_item_def)
qed

section \<open>The gate, exactly\<close>

text \<open>What must hold for an attempt at the moment of the submit.\<close>

definition submission_allowed :: "exec_env \<Rightarrow> application_row \<Rightarrow> time \<Rightarrow> db \<Rightarrow> bool" where
  "submission_allowed x attempt now d \<longleftrightarrow>
     is_live_enabled (x_modes x) (Some (x_tenant x)) \<and> \<not> is_paused d (job_source attempt d) \<and>
     (case exec_context x attempt d of (preparation, co, opportunity) \<Rightarrow>
        may_submit (x_tenant x) (x_policy x) attempt preparation co opportunity (stale_inputs_of x preparation d) True now d) \<and>
     slot_available (x_tenant x) (x_policy x) (x_zone x) attempt now d"

lemma exec_check_exact:
  assumes "ledger_inv d"
  shows "pr_ok (fst (exec_check x attempt reserve executing now d)) \<longleftrightarrow>
    (case exec_context x attempt d of (preparation, co, opportunity) \<Rightarrow>
       may_submit (x_tenant x) (x_policy x) attempt preparation co opportunity (stale_inputs_of x preparation d) executing now d) \<and>
    slot_available (x_tenant x) (x_policy x) (x_zone x) attempt now d"
  by (simp add: exec_check_def Let_def case_prod_unfold check_ok_iff [OF assms])

lemma gate_exact:
  "ledger_inv d \<Longrightarrow> fst (pre_submit_gate x aid now d) = [] \<longleftrightarrow> (\<exists>attempt. get_attempt x aid d = Some attempt \<and> submission_allowed x attempt now d)"
  by (auto simp: gate_passes_iff submission_allowed_def exec_check_exact)

lemma find_key:
  "distinct (map key rows) \<Longrightarrow> r \<in> set rows \<Longrightarrow> q r \<Longrightarrow> find (\<lambda>s. q s \<and> key s = key r) rows = Some r"
  by (induction rows) (auto simp: image_iff)

lemma item_attempt_unique:
  assumes "applications_inv d" and "attempt_for_item x item d = Inr (Some attempt)"
  shows "get_attempt x (a_id attempt) d = Some attempt"
proof -
  have "attempt \<in> set (applications_t d)" "a_tenant_id attempt = Some (x_tenant x)"
    using assms(2) by (auto simp: attempt_for_item_def dest!: find_Some_in split: if_splits)
  then show ?thesis
    using assms(1) find_key [of a_id "applications_t d" attempt "\<lambda>a. a_tenant_id a = Some (x_tenant x)"]
    by (simp add: get_attempt_def applications_inv_def)
qed

lemma running_execution_eq:
  "running_execution x item worker d = Inr (attempt, run) \<longleftrightarrow>
     assert_owner item worker = Inr () \<and> attempt_for_item x item d = Inr (Some attempt) \<and> crashed_run x attempt d = Some run \<and>
     r_queue_item_id run = Some (q_id item)"
  by (cases "assert_owner item worker"; cases "attempt_for_item x item d")
    (auto simp: running_execution_def split: option.splits if_splits)

definition lease_lapsed :: "queue_row \<Rightarrow> time \<Rightarrow> bool" where
  "lease_lapsed item now = (case q_lease_expires_at item of None \<Rightarrow> False | Some t \<Rightarrow> t < now)"

lemma exec_gate_passed:
  "exec_gate x item worker now d = (Inr [], d') \<longleftrightarrow>
     (\<exists>attempt run d1. running_execution x item worker d = Inr (attempt, run) \<and> \<not> r_submit_invoked run \<and> \<not> lease_lapsed item now \<and>
        pre_submit_gate x (a_id attempt) now d = ([], d1) \<and>
        d' = exec_audit x attempt ''execution:gate_passed'' [(''run_id'', JStr (r_id run))] (put_run (run\<lparr>r_submit_invoked := True\<rparr>) d1))"
  unfolding exec_gate_def lease_lapsed_def
  by (cases "running_execution x item worker d")
    (auto simp: Let_def split: if_splits prod.splits)

section \<open>Properties\<close>

text \<open>C1. The gate of an external executor lets a submit through exactly when the worker holds the item, the
  item's running execution has no submit on record, the lease has not lapsed, live submission is on,
  the kill switch is off for the job's source, and the full submission check passes again with the
  attempt in \<open>SUBMITTING\<close>.\<close>

theorem exec_gate_exact:
  assumes "ledger_inv d" and "applications_inv d"
  shows "fst (exec_gate x item worker now d) = Inr [] \<longleftrightarrow>
    (\<exists>attempt run. assert_owner item worker = Inr () \<and> attempt_for_item x item d = Inr (Some attempt) \<and>
       crashed_run x attempt d = Some run \<and> r_queue_item_id run = Some (q_id item) \<and> \<not> r_submit_invoked run \<and>
       \<not> lease_lapsed item now \<and> submission_allowed x attempt now d)" (is "?L \<longleftrightarrow> ?R")
proof
  assume ?L
  then obtain d' where "exec_gate x item worker now d = (Inr [], d')" by (cases "exec_gate x item worker now d") auto
  then obtain attempt run d1 where r: "running_execution x item worker d = Inr (attempt, run)" "\<not> r_submit_invoked run"
    "\<not> lease_lapsed item now" "pre_submit_gate x (a_id attempt) now d = ([], d1)" unfolding exec_gate_passed by blast
  then have "attempt_for_item x item d = Inr (Some attempt)" by (simp add: running_execution_eq)
  then have "submission_allowed x attempt now d"
    using r(4) gate_exact [OF assms(1)] item_attempt_unique [OF assms(2)] by (metis fst_conv option.inject)
  then show ?R using r unfolding running_execution_eq by blast
next
  assume ?R
  then obtain attempt run where r: "running_execution x item worker d = Inr (attempt, run)" "\<not> r_submit_invoked run"
    "\<not> lease_lapsed item now" "submission_allowed x attempt now d" "attempt_for_item x item d = Inr (Some attempt)"
    unfolding running_execution_eq by blast
  then have "fst (pre_submit_gate x (a_id attempt) now d) = []"
    using gate_exact [OF assms(1)] item_attempt_unique [OF assms(2)] by blast
  then obtain d1 where "pre_submit_gate x (a_id attempt) now d = ([], d1)" by (cases "pre_submit_gate x (a_id attempt) now d") auto
  then show ?L using r exec_gate_passed by (metis fst_conv)
qed

text \<open>C2. At most one submit per run: once the gate has let a submit through, every later call for the same
  item is refused, whoever holds it then and whatever its lease, the policy and the kill switch say,
  and changes nothing. The item is matched by its id, tenant and opening, not by its state.\<close>

theorem gate_passes_once:
  assumes "exec_gate x item worker now d = (Inr [], d')" and "runs_inv d" and "applications_inv d"
    and "q_id item2 = q_id item" "q_tenant_id item2 = q_tenant_id item" "q_opportunity_id item2 = q_opportunity_id item"
    and "assert_owner item2 worker2 = Inr ()"
  shows "\<exists>failure. exec_gate x item2 worker2 now2 d' = (Inr [failure], d')"
proof -
  obtain attempt run d1 where r: "running_execution x item worker d = Inr (attempt, run)"
    "pre_submit_gate x (a_id attempt) now d = ([], d1)"
    and d': "d' = exec_audit x attempt ''execution:gate_passed'' [(''run_id'', JStr (r_id run))] (put_run (run\<lparr>r_submit_invoked := True\<rparr>) d1)"
    using assms(1) unfolding exec_gate_passed by blast
  then have at: "attempt_for_item x item d = Inr (Some attempt)" and cr: "crashed_run x attempt d = Some run"
    and q: "r_queue_item_id run = Some (q_id item)" by (simp_all add: running_execution_eq)
  have t: "q_tenant_id item = x_tenant x" using at by (simp add: attempt_for_item_def split: if_splits)
  obtain row where row: "attempt_for_item x item2 d1 = Inr (Some row)" "a_id row = a_id attempt"
    using gate_attempt [OF r(2) item_attempt_unique [OF assms(3) at] at] assms(5,6) t by metis
  have "runs_t d1 = runs_t d" using gate_runs [OF r(2)] .
  then have "runs_inv d1" "crashed_run x attempt d1 = Some run" using assms(2) cr by (simp_all add: runs_inv_def crashed_run_def runs_for_def)
  then have "crashed_run x row d' = Some (run\<lparr>r_submit_invoked := True\<rparr>)"
    using crashed_run_invoked [OF _ _ row(2)] by (simp add: d' exec_audit_def crashed_run_def runs_for_def)
  moreover have "attempt_for_item x item2 d' = Inr (Some row)" using row(1) by (simp add: d' attempt_for_item_def exec_audit_def split: if_splits)
  ultimately have "running_execution x item2 worker2 d' = Inr (row, run\<lparr>r_submit_invoked := True\<rparr>)"
    using assms(4,7) q by (simp add: running_execution_eq)
  then show ?thesis by (simp add: exec_gate_def Let_def)
qed


section \<open>A worked example\<close>

text \<open>An executor that keeps the contract, an environment around it, a ready attempt in the queue, and the
  same attempt while a worker executes it.\<close>

definition example_clicker :: executor where
  "example_clicker = \<lparr>e_kind = EK_PLAYWRIGHT_LOCAL, e_dry_run = False, e_can_handle = (\<lambda>_ _. True),
     e_prepare = (\<lambda>_ _. Inr \<lparr>fs_fields = [], fs_handoff = False\<rparr>),
     e_execute = (\<lambda>_ _ _. Gate (\<lambda>fs. if fs = [] then Press (Return ((result_of EO_SUBMITTED None)\<lparr>er_submit_attempted := True\<rparr>))
                                        else Return (result_of EO_NEEDS_REVIEW (Some (join_with ''; '' fs))))),
     e_verify = (\<lambda>_ _ _. Inr \<lparr>vr_status = VS_VERIFIED, vr_method = VM_CONFIRMATION_PAGE, vr_detail = None, vr_external_application_id = None,
        vr_confirmation_reference = None, vr_application_url = None\<rparr>)\<rparr>"

definition example_env :: "string \<Rightarrow> exec_env" where
  "example_env mode = \<lparr>x_tenant = ''t1'', x_actor = ''system'', x_policy = example_policy, x_zone = fixed_zone 0,
     x_modes = [''t1'' \<mapsto> \<lparr>ms_mode = mode, ms_changed_at = None, ms_changed_by = None\<rparr>], x_max_attempts = 3, x_lease_seconds = 600,
     x_fresh = (\<lambda>d. ''run-'' @ show_int (int (length (runs_t d)) + 1)), x_stale = (\<lambda>_ _. Inr []), x_documents = (\<lambda>_ _. []),
     x_ats_family = (\<lambda>_ _. ''GREENHOUSE''), x_blocking = (\<lambda>_ _ _. (0, 0)), x_emit = (\<lambda>_ _ d. d),
     x_executors = (\<lambda>_. Some example_clicker)\<rparr>"

definition example_exec_db :: db where
  "example_exec_db = example_ready_db\<lparr>queue_t := [new_item ''t1'' example_co QA_SUBMIT LN_AUTO None None 3 ''q1'' 0]\<rparr>"

definition example_submitting :: application_row where
  "example_submitting = example_ready\<lparr>a_status := AS_SUBMITTING, a_submission_key := Some ''k'', a_execution_count := 1,
     a_cap_day := Some ''1970-01-01''\<rparr>"

definition example_held :: queue_row where
  "example_held = start_row 5 (claim_row ''w'' 5 600 (new_item ''t1'' example_co QA_SUBMIT LN_AUTO None None 3 ''q1'' 0))"

definition example_running :: execution_run_row where
  "example_running = (blank_run (example_env LIVE) example_submitting example_held ''w'' ''run-1'')
     \<lparr>r_executor_kind := Some EK_PLAYWRIGHT_LOCAL, r_idempotency_key := ''k''\<rparr>"

definition example_running_db :: db where
  "example_running_db = example_ready_db\<lparr>applications_t := [example_submitting], queue_t := [example_held], runs_t := [example_running]\<rparr>"

lemma example_honest: "honest_executors (example_env mode)"
  by (simp add: honest_executors_def example_env_def example_clicker_def)

lemma example_running_invs: "ledger_inv example_running_db" "applications_inv example_running_db" "runs_inv example_running_db"
  by code_simp+

lemma example_gate_passes: "fst (exec_gate (example_env LIVE) example_held ''w'' 9 example_running_db) = Inr []"
  by code_simp

theorem exec_gate_exact_witness:
  "\<exists>attempt. attempt_for_item (example_env LIVE) example_held example_running_db = Inr (Some attempt) \<and>
     submission_allowed (example_env LIVE) attempt 9 example_running_db"
  using exec_gate_exact [OF example_running_invs(1,2), of "example_env LIVE" example_held "''w''" 9] example_gate_passes by blast

theorem gate_passes_once_witness:
  "\<exists>d' failure. exec_gate (example_env LIVE) example_held ''w'' 9 example_running_db = (Inr [], d') \<and>
     exec_gate (example_env LIVE) (example_held\<lparr>q_claimed_by := Some ''w2''\<rparr>) ''w2'' 10 d' = (Inr [failure], d')"
proof -
  obtain d' where d': "exec_gate (example_env LIVE) example_held ''w'' 9 example_running_db = (Inr [], d')"
    using example_gate_passes by (cases "exec_gate (example_env LIVE) example_held ''w'' 9 example_running_db") simp
  have "assert_owner (example_held\<lparr>q_claimed_by := Some ''w2''\<rparr>) ''w2'' = Inr ()" by code_simp
  then show ?thesis
    using d' gate_passes_once [OF d' example_running_invs(3,2), of "example_held\<lparr>q_claimed_by := Some ''w2''\<rparr>" "''w2''" 10] by simp
qed



text \<open>The callback given to an in-process executor looks at the attempt and not at the run: a worker whose
  lease lapsed while its executor was preparing, and whose run was already written off by the worker
  that took the item over, is let through the gate as well, so that one attempt can be submitted
  twice.\<close>

theorem in_process_gate_ignores_the_run:
  "let x = example_env LIVE; late = seconds 700;
       (items, d1) = exec_claim x ''w2'' 1 None late example_running_db;
       (started, d2) = exec_start x (hd items) ''w2'' EK_PLAYWRIGHT_LOCAL late d1;
       (first, d3) = pre_submit_gate x ''a1'' late d2;
       (second, d4) = pre_submit_gate x ''a1'' late d3
   in map_sum id fst started = Inr SO_started \<and> map r_status (runs_t d2) = [ES_FAILED_RETRYABLE, ES_RUNNING] \<and> first = [] \<and> second = []"
  by code_simp

end
