(* ===== verification/Exec_Start.thy ===== *)
theory Exec_Start
  imports Exec_Safety
begin

text \<open>
  The guarded start of an execution: when \<^verbatim>\<open>start\<close> hands out a run, and what it has written then.
\<close>

section \<open>Forced transitions\<close>

lemma jobs_t_writes [simp]:
  "jobs_t (put_candidate c d) = jobs_t d" "jobs_t (put_application a d) = jobs_t d" "jobs_t (put_item q d) = jobs_t d"
  "jobs_t (put_run r d) = jobs_t d" "jobs_t (put_preparation p d) = jobs_t d" "jobs_t (audit_record t et ei ac ar be af su d) = jobs_t d"
  "jobs_t (queue_record t q ac ar be su d) = jobs_t d"
  by (simp_all add: store_defs audit_record_def queue_record_def)

lemma force_row [simp]:
  "a_status (fst (force_attempt x attempt s reason md now d)) = s"
  "a_id (fst (force_attempt x attempt s reason md now d)) = a_id attempt"
  "a_tenant_id (fst (force_attempt x attempt s reason md now d)) = a_tenant_id attempt"
  "a_job_id (fst (force_attempt x attempt s reason md now d)) = a_job_id attempt"
  "a_opportunity_id (fst (force_attempt x attempt s reason md now d)) = a_opportunity_id attempt"
  "a_submission_key (fst (force_attempt x attempt s reason md now d)) = a_submission_key attempt"
  "a_released_at (fst (force_attempt x attempt s reason md now d)) = a_released_at attempt"
  "a_execution_count (fst (force_attempt x attempt s reason md now d)) = a_execution_count attempt"
  by (simp_all add: force_attempt_def attempt_transition_def attempt_move_def)

lemma force_frame [simp]:
  "queue_t (snd (force_attempt x attempt s reason md now d)) = queue_t d"
  "runs_t (snd (force_attempt x attempt s reason md now d)) = runs_t d"
  "candidates_t (snd (force_attempt x attempt s reason md now d)) = candidates_t d"
  "kill_switches_t (snd (force_attempt x attempt s reason md now d)) = kill_switches_t d"
  "jobs_t (snd (force_attempt x attempt s reason md now d)) = jobs_t d"
  "ledger_t (snd (force_attempt x attempt s reason md now d)) = ledger_t d"
  by (simp_all add: force_attempt_def attempt_transition_def attempt_move_def add_event_def)

lemma force_applications:
  "applications_t (snd (force_attempt x attempt s reason md now d)) =
     (if a_status attempt = s then applications_t d
      else tbl_put a_id (fst (force_attempt x attempt s reason md now d)) (applications_t d))"
  by (simp add: force_attempt_def attempt_transition_def attempt_move_def add_event_def)

lemma flush_eq [simp]:
  "fst (flush_application now attempt d) = attempt\<lparr>a_updated_at := now\<rparr>"
  "snd (flush_application now attempt d) = put_application (attempt\<lparr>a_updated_at := now\<rparr>) d"
  by (simp_all add: flush_application_def Let_def)

section \<open>When a run is handed out\<close>

definition may_restart :: "exec_env \<Rightarrow> application_row \<Rightarrow> db \<Rightarrow> bool" where
  "may_restart x attempt d \<longleftrightarrow>
     a_status attempt = AS_READY \<or>
     a_status attempt = AS_SUBMITTING \<and> (case crashed_run x attempt d of None \<Rightarrow> True | Some run \<Rightarrow> \<not> r_submit_invoked run)"

lemma start_ready_started:
  assumes "start_ready x item worker kind attempt now d0 d = Inr ((oc, Some run), d')"
  shows "oc = SO_started" "\<not> is_paused d (job_source attempt d)"
    and "\<exists>report attempt1 d1 e. exec_check x attempt True False now d = (report, attempt1, d1) \<and> pr_ok report \<and>
       x_executors x kind = Some e \<and> start_mutex x item worker e attempt1 report now d1 = Some (run, d')"
proof -
  obtain report attempt1 d1 where c: "exec_check x attempt True False now d = (report, attempt1, d1)" by (rule prod_cases3)
  show "oc = SO_started" "\<not> is_paused d (job_source attempt d)"
    and "\<exists>report attempt1 d1 e. exec_check x attempt True False now d = (report, attempt1, d1) \<and> pr_ok report \<and>
       x_executors x kind = Some e \<and> start_mutex x item worker e attempt1 report now d1 = Some (run, d')"
    using assms c by (auto simp: start_ready_def Let_def split: if_splits option.splits list.splits prod.splits)
qed

lemma reclaim_cases:
  "(\<exists>d'. reclaim_submitting x item worker attempt now d = Inl ((SO_awaiting_verification, None), d')) \<or>
   (\<exists>p. reclaim_submitting x item worker attempt now d = Inr p \<and> a_status (fst p) = AS_READY \<and> a_id (fst p) = a_id attempt \<and>
      a_job_id (fst p) = a_job_id attempt \<and> (case crashed_run x attempt d of None \<Rightarrow> True | Some run \<Rightarrow> \<not> r_submit_invoked run) \<and>
      kill_switches_t (snd p) = kill_switches_t d \<and> jobs_t (snd p) = jobs_t d)"
  by (auto simp: reclaim_submitting_def Let_def case_prod_unfold simp del: split_paired_Ex split: option.splits)

lemma start_attempt_started:
  assumes "start_attempt x item worker kind attempt now d0 d = Inr ((oc, Some run), d')"
  shows "may_restart x attempt d \<and>
    (\<exists>row d1. (a_status attempt = AS_READY \<longrightarrow> row = attempt \<and> d1 = d) \<and> a_id row = a_id attempt \<and> a_job_id row = a_job_id attempt \<and> kill_switches_t d1 = kill_switches_t d \<and> jobs_t d1 = jobs_t d \<and>
       start_ready x item worker kind row now d0 d1 = Inr ((oc, Some run), d'))"
proof -
  consider (reclaim) "a_status attempt = AS_SUBMITTING" | (ready) "a_status attempt = AS_READY"
      "start_ready x item worker kind attempt now d0 d = Inr ((oc, Some run), d')"
    using assms by (auto simp: start_attempt_def Let_def split: if_splits)
  then show ?thesis
  proof cases
    case reclaim
    then obtain p where p: "reclaim_submitting x item worker attempt now d = Inr p" "a_id (fst p) = a_id attempt"
        "a_job_id (fst p) = a_job_id attempt" "case crashed_run x attempt d of None \<Rightarrow> True | Some run \<Rightarrow> \<not> r_submit_invoked run"
        "kill_switches_t (snd p) = kill_switches_t d" "jobs_t (snd p) = jobs_t d"
      using assms reclaim_cases [of x item worker attempt now d] by (auto simp: start_attempt_def)
    then have "start_ready x item worker kind (fst p) now d0 (snd p) = Inr ((oc, Some run), d')"
      using assms reclaim by (auto simp: start_attempt_def case_prod_unfold split: if_splits)
    then show ?thesis using p reclaim by (intro conjI exI [of _ "fst p"] exI [of _ "snd p"]) (simp_all add: may_restart_def)
  qed (auto simp: may_restart_def)
qed

section \<open>The mutex\<close>

lemma tbl_put_in: "key r' = key r \<Longrightarrow> r \<in> set rows \<Longrightarrow> r' \<in> set (tbl_put key r' rows)"
  by (auto simp: tbl_put_def image_iff)

lemma mutex_effect:
  assumes "start_mutex x item worker e attempt report now d = Some (run, d')"
  shows "r_status run = ES_RUNNING" "\<not> r_submit_invoked run" "r_application_id run = a_id attempt" "r_queue_item_id run = Some (q_id item)"
    "r_worker_id run = Some worker" "r_run_number run = a_execution_count attempt + 1" "runs_t d' = runs_t d @ [run]"
    and "tbl_matches (mutex_guard attempt) (applications_t d) = 1"
    and "\<exists>row \<in> set (applications_t d'). a_id row = a_id attempt \<and> a_status row = AS_SUBMITTING \<and>
      a_submission_key row = Some (r_idempotency_key run)"
proof -
  let ?kind = "executor_kind_value (e_kind e)" and ?n = "a_execution_count attempt + 1"
  let ?f = "submitting_row (run_key x attempt (show_int ?n)) ?n (''executing with '' @ ?kind) now"
  let ?rows = "tbl_update (mutex_guard attempt) ?f (applications_t d)"
  have one: "tbl_matches (mutex_guard attempt) (applications_t d) = 1"
    using assms by (auto simp: start_mutex_def Let_def split: if_splits)
  then obtain r where r: "r \<in> set (applications_t d)" "mutex_guard attempt r"
    by (metis (no_types, lifting) length_0_conv filter_False tbl_matches_def zero_neq_one)
  then have "?f r \<in> set ?rows" by (force simp: tbl_update_def)
  moreover have "a_id (?f r) = a_id attempt" using r(2) by (simp add: submitting_row_def mutex_guard_def)
  ultimately have "\<exists>r' \<in> set ?rows. a_id r' = a_id attempt" by blast
  moreover have "\<exists>row. applications_t d' = tbl_put a_id row ?rows \<and> a_id row = a_id attempt \<and> a_status row = AS_SUBMITTING \<and>
      a_submission_key row = Some (r_idempotency_key run)"
    using assms one
    by (auto simp: start_mutex_def Let_def case_prod_unfold exec_audit_def add_event_def submitting_row_def blank_run_def)
  ultimately show "\<exists>row \<in> set (applications_t d'). a_id row = a_id attempt \<and> a_status row = AS_SUBMITTING \<and>
      a_submission_key row = Some (r_idempotency_key run)"
    by (metis tbl_put_in)
  show "r_status run = ES_RUNNING" "\<not> r_submit_invoked run" "r_application_id run = a_id attempt" "r_queue_item_id run = Some (q_id item)"
    "r_worker_id run = Some worker" "r_run_number run = ?n" "runs_t d' = runs_t d @ [run]"
    using assms one by (auto simp: start_mutex_def Let_def case_prod_unfold exec_audit_def add_event_def blank_run_def)
  show "tbl_matches (mutex_guard attempt) (applications_t d) = 1" by (rule one)
qed

section \<open>Properties\<close>

text \<open>The item a start works on: claimed by the worker and moved on to processing, or already there.\<close>

lemma begin_item_effect:
  "begin_item x item worker now d = Inr (item1, d1) \<Longrightarrow>
     only_queue d d1 \<and> q_id item1 = q_id item \<and> q_claimed_by item = Some worker \<and> q_state item \<in> HELD_QUEUE_STATES"
  by (auto simp: begin_item_def queue_start_def assert_owner_def Let_def HELD_QUEUE_STATES_def start_row_def split: if_splits)

lemma start_item_started:
  assumes "start_item x item worker kind now d = Inr ((oc, Some run), d')"
  shows "\<exists>attempt item1 d1. attempt_for_item x item d = Inr (Some attempt) \<and> only_queue d d1 \<and> q_id item1 = q_id item \<and>
    q_claimed_by item = Some worker \<and> q_state item \<in> HELD_QUEUE_STATES \<and>
    start_attempt x item1 worker kind attempt now d d1 = Inr ((oc, Some run), d')"
proof -
  obtain found item1 d1 where f: "attempt_for_item x item d = Inr found" "begin_item x item worker now d = Inr (item1, d1)"
    using assms by (auto simp: start_item_def)
  moreover from this assms obtain attempt where "found = Some attempt"
      "start_attempt x item1 worker kind attempt now d d1 = Inr ((oc, Some run), d')"
    by (auto simp: start_item_def split: option.splits)
  ultimately show ?thesis using begin_item_effect [OF f(2)] by blast
qed

text \<open>C6. A run is handed out only to the worker that holds the item, only while the kill switch is off for
  the job's source, and only for an attempt that is \<open>READY\<close> or whose lost executor had not reached
  submit: an attempt that is submitted, verified or uncertain, or whose lost run may have pressed
  submit, is never started again. A \<open>READY\<close> attempt has just passed the full submission check. The
  run is the newest row of the table, running, with nothing pressed, and its idempotency key is the
  submission key of the attempt, now \<open>SUBMITTING\<close>.\<close>

theorem start_hands_out_one_run:
  assumes "exec_start x item worker kind now d = (Inr (oc, Some run), d')"
  shows "\<exists>attempt d1. attempt_for_item x item d = Inr (Some attempt) \<and> q_claimed_by item = Some worker \<and> q_state item \<in> HELD_QUEUE_STATES \<and>
    may_restart x attempt d \<and> \<not> is_paused d (job_source attempt d) \<and>
    only_queue d d1 \<and> (a_status attempt = AS_READY \<longrightarrow> pr_ok (fst (exec_check x attempt True False now d1))) \<and>
    last (runs_t d') = run \<and> r_application_id run = a_id attempt \<and> r_queue_item_id run = Some (q_id item) \<and> r_worker_id run = Some worker \<and>
    r_status run = ES_RUNNING \<and> \<not> r_submit_invoked run \<and>
    (\<exists>row \<in> set (applications_t d'). a_id row = a_id attempt \<and> a_status row = AS_SUBMITTING \<and>
       a_submission_key row = Some (r_idempotency_key run))"
proof -
  have "start_item x item worker kind now d = Inr ((oc, Some run), d')"
    using assms by (auto simp: exec_start_def commit_or_rollback_def split: sum.splits start_outcome.splits prod.splits)
  then obtain attempt item1 d1 where i: "attempt_for_item x item d = Inr (Some attempt)" "only_queue d d1" "q_id item1 = q_id item"
      "q_claimed_by item = Some worker" "q_state item \<in> HELD_QUEUE_STATES"
      "start_attempt x item1 worker kind attempt now d d1 = Inr ((oc, Some run), d')"
    using start_item_started by blast
  then obtain row d2 where s: "may_restart x attempt d1" "a_status attempt = AS_READY \<Longrightarrow> row = attempt \<and> d2 = d1" "a_id row = a_id attempt"
      "a_job_id row = a_job_id attempt" "kill_switches_t d2 = kill_switches_t d1" "jobs_t d2 = jobs_t d1"
      "start_ready x item1 worker kind row now d d2 = Inr ((oc, Some run), d')"
    using start_attempt_started [OF i(6)] by blast
  from start_ready_started [OF s(7)] obtain report row1 d3 e where c: "exec_check x row True False now d2 = (report, row1, d3)" "pr_ok report"
      "start_mutex x item1 worker e row1 report now d3 = Some (run, d')" and np: "\<not> is_paused d2 (job_source row d2)" by blast
  note m = mutex_effect [OF c(3)]
  have "a_id row1 = a_id attempt" using exec_check_frame(6) [OF c(1)] s(3) by simp
  moreover have "may_restart x attempt d"
    using s(1) i(2) by (simp add: may_restart_def crashed_run_def runs_for_def only_queue_def)
  moreover have "is_paused d2 (job_source row d2) = is_paused d (job_source attempt d)"
    using s(4-6) i(2) by (simp add: is_paused_def job_source_def get_job_def only_queue_def)
  moreover have "a_status attempt = AS_READY \<longrightarrow> pr_ok (fst (exec_check x attempt True False now d1))"
    using s(2) c(1,2) by (metis fst_conv)
  moreover have "last (runs_t d') = run" using m(7) by simp
  ultimately show ?thesis using i m np by auto
qed

text \<open>A worker starts on the item it has just claimed.\<close>

definition example_claimed :: queue_row where
  "example_claimed = claim_row ''w'' 5 600 (new_item ''t1'' example_co QA_SUBMIT LN_AUTO None None 3 ''q1'' 0)"

definition example_claimed_db :: db where
  "example_claimed_db = example_exec_db\<lparr>queue_t := [example_claimed]\<rparr>"

lemma example_started:
  "case fst (exec_start (example_env LIVE) example_claimed ''w'' EK_PLAYWRIGHT_LOCAL 6 example_claimed_db) of
     Inl _ \<Rightarrow> False | Inr (_, r) \<Rightarrow> r \<noteq> None"
  by code_simp

theorem start_hands_out_one_run_witness:
  "\<exists>oc run d' attempt. exec_start (example_env LIVE) example_claimed ''w'' EK_PLAYWRIGHT_LOCAL 6 example_claimed_db = (Inr (oc, Some run), d') \<and>
     attempt_for_item (example_env LIVE) example_claimed example_claimed_db = Inr (Some attempt) \<and>
     may_restart (example_env LIVE) attempt example_claimed_db \<and> last (runs_t d') = run \<and> r_application_id run = a_id attempt"
proof -
  obtain oc run d' where s: "exec_start (example_env LIVE) example_claimed ''w'' EK_PLAYWRIGHT_LOCAL 6 example_claimed_db = (Inr (oc, Some run), d')"
    using example_started by (cases "exec_start (example_env LIVE) example_claimed ''w'' EK_PLAYWRIGHT_LOCAL 6 example_claimed_db")
      (auto split: sum.splits)
  from start_hands_out_one_run [OF s] s show ?thesis by blast
qed

end
