(* ===== verification/Exec_Report.thy ===== *)
theory Exec_Report
  imports Exec_Start
begin

text \<open>
  What a report does with an execution: \<^verbatim>\<open>_report\<close> never fails on the attempt and the item it was
  started for, and settles the attempt, the run and the item together; what a verification does to an
  attempt.
\<close>

section \<open>Steps that cannot fail\<close>

lemma transition_legal:
  assumes "s \<in> ATTEMPT_TRANSITIONS (a_status row)"
  shows "\<exists>c row' d'. attempt_transition row s actor reason md force now d = Inr (c, row', d') \<and> a_status row' = s \<and>
    a_submission_key row' = a_submission_key row"
  using assms by (auto simp: attempt_transition_def attempt_move_def)

lemma reopen_legal:
  assumes "s \<in> ATTEMPT_TRANSITIONS (a_status attempt)"
  shows "\<exists>row d'. reopen_attempt x run attempt s reason now d = Inr (row, d') \<and> a_status row = s \<and> a_submission_key row = None"
  using assms transition_legal [of s "attempt\<lparr>a_submission_key := None, a_updated_at := now\<rparr>"]
  by (fastforce simp: reopen_attempt_def Let_def case_prod_unfold)

lemma owned [simp]: "q_claimed_by item = Some worker \<Longrightarrow> assert_owner item worker = Inr ()"
  by (simp add: assert_owner_def)

lemma finish_status [simp]:
  "r_status (finish_run run s oc e m now) = s" "r_id (finish_run run s oc e m now) = r_id run"
  "r_submit_invoked (finish_run run s oc e m now) = r_submit_invoked run"
  by (simp_all add: finish_run_def)

lemma release_row_effect:
  "a_status (fst (release_attempt t row s reason rid now e d)) = s"
  "a_submission_key (fst (release_attempt t row s reason rid now e d)) = a_submission_key row"
  by (auto simp: release_attempt_def Let_def case_prod_unfold)

section \<open>Verification\<close>

text \<open>The status a verification leaves the attempt with.\<close>

definition verification_status_of :: "verification_status \<Rightarrow> application_status \<Rightarrow> application_status" where
  "verification_status_of v s =
     (case v of VS_VERIFIED \<Rightarrow> AS_VERIFIED
      | VS_LIKELY \<Rightarrow> if s = AS_UNCERTAIN then AS_SUBMITTED else s
      | VS_FAILED \<Rightarrow> AS_NEEDS_REVIEW
      | _ \<Rightarrow> s)"

lemma mark_verified_total:
  "\<exists>row d'. mark_verified x run attempt v now d = Inr (row, d') \<and> a_status row = AS_VERIFIED \<and> a_submission_key row = a_submission_key attempt"
proof (cases "a_status attempt = AS_VERIFIED")
  case False
  let ?p = "if a_status attempt \<noteq> AS_SUBMITTED
     then case force_attempt x attempt AS_SUBMITTED (Some ''verified'') [] now d of (r, d') \<Rightarrow> flush_application now (set_submitted_at now r) d'
     else (attempt, d)"
  have p: "a_status (fst ?p) = AS_SUBMITTED" "a_submission_key (fst ?p) = a_submission_key attempt"
    by (simp_all add: case_prod_unfold set_submitted_at_def)
  then show ?thesis
    using False transition_legal [of AS_VERIFIED "fst ?p" "x_actor x" _ _ False now "snd ?p"]
    by (fastforce simp: mark_verified_def Let_def case_prod_unfold)
qed (simp add: mark_verified_def)

lemma resolve_total:
  assumes "\<And>i. item = Some i \<Longrightarrow> q_state i \<noteq> QS_CANCELLED"
  shows "\<exists>item' d'. resolve_unless_succeeded x item res reason now d = Inr (item', d')"
  using assms by (auto simp: resolve_unless_succeeded_def queue_resolve_def Let_def split: option.splits)

lemma apply_verification_total:
  assumes "\<And>i. item = Some i \<Longrightarrow> q_state i \<noteq> QS_CANCELLED"
  shows "\<exists>run' row item' d'. apply_verification x run attempt v item now d = Inr (run', row, item', d') \<and>
    a_status row = verification_status_of (vr_status v) (a_status attempt) \<and> a_submission_key row = a_submission_key attempt \<and>
    r_status run' = (case vr_status v of VS_VERIFIED \<Rightarrow> ES_VERIFIED | VS_LIKELY \<Rightarrow> ES_SUBMITTED | VS_FAILED \<Rightarrow> ES_VERIFICATION_FAILED
      | _ \<Rightarrow> r_status run)"
proof -
  let ?p = "if verified_attempt v attempt = attempt then (attempt, d) else flush_application now (verified_attempt v attempt) d"
  obtain row0 d0 where p0: "?p = (row0, d0)" by (rule prod.exhaust)
  have "a_status (fst ?p) = a_status attempt" "a_submission_key (fst ?p) = a_submission_key attempt"
    by (simp_all add: verified_attempt_def)
  then have p: "a_status row0 = a_status attempt" "a_submission_key row0 = a_submission_key attempt" by (simp_all add: p0)
  have run: "r_status (verified_run v run) = r_status run" by (simp add: verified_run_def)
  note av = apply_verification_def Let_def p0 prod.case
  consider "vr_status v = VS_VERIFIED" | "vr_status v = VS_LIKELY" "a_status attempt = AS_UNCERTAIN"
    | "vr_status v = VS_LIKELY" "a_status attempt \<noteq> AS_UNCERTAIN" | "vr_status v = VS_FAILED"
    | "vr_status v \<notin> {VS_VERIFIED, VS_LIKELY, VS_FAILED}" by blast
  then show ?thesis
  proof cases
    case 1
    define run1 where "run1 = finish_run (verified_run v run) ES_VERIFIED None None None now"
    obtain row d1 where r: "mark_verified x run1 row0 v now (put_run run1 d0) = Inr (row, d1)" "a_status row = AS_VERIFIED"
        "a_submission_key row = a_submission_key row0"
      using mark_verified_total by blast
    obtain item' d2 where "resolve_unless_succeeded x item (JObj [(''outcome'', JStr ''VERIFIED''), (''run_id'', JStr (r_id run))])
        (Some ''verified after an uncertain submit'') now d1 = Inr (item', d2)"
      using resolve_total [OF assms] by blast
    then show ?thesis using 1 r p by (simp add: av verification_status_of_def flip: run1_def) (simp add: run1_def)
  next
    case 2
    define run1 where "run1 = finish_run (verified_run v run) ES_SUBMITTED None None None now"
    obtain c row d1 where r: "attempt_transition row0 AS_SUBMITTED (x_actor x) (Some (str_or (vr_detail v) ''likely submitted''))
        [(''run_id'', JStr (r_id run))] False now (put_run run1 d0) = Inr (c, row, d1)" "a_status row = AS_SUBMITTED"
        "a_submission_key row = a_submission_key row0"
      using transition_legal [of AS_SUBMITTED row0] 2 p by (fastforce simp: verified_attempt_def)
    define row2 where "row2 = (set_submitted_at now row)\<lparr>a_updated_at := now\<rparr>"
    have fl: "flush_application now (set_submitted_at now row) d1 = (row2, put_application row2 d1)"
      by (simp add: flush_application_def row2_def Let_def)
    obtain item' d2 where "resolve_unless_succeeded x item (JObj [(''outcome'', JStr ''LIKELY_SUBMITTED''), (''run_id'', JStr (r_id run))])
        None now (move_candidate x row2 OS_SUBMITTED ''likely submitted'' now (put_application row2 d1)) = Inr (item', d2)"
      using resolve_total [OF assms] by blast
    moreover have "a_status row2 = AS_SUBMITTED" "a_submission_key row2 = a_submission_key attempt"
      using r p by (simp_all add: row2_def set_submitted_at_def)
    ultimately show ?thesis
      using 2 r p by (simp add: av fl verification_status_of_def flip: run1_def) (simp add: run1_def)
  next
    case 3
    then show ?thesis using p by (simp add: av verification_status_of_def)
  next
    case 4
    then show ?thesis using p by (simp add: av verification_status_of_def case_prod_unfold split: option.split)
  next
    case 5
    then show ?thesis using p run by (cases "vr_status v") (simp_all add: av verification_status_of_def)
  qed
qed

section \<open>Reports\<close>

text \<open>The table a report follows: the attempt's next status and the item's next state.\<close>

definition report_status :: "queue_row \<Rightarrow> execution_result \<Rightarrow> application_status" where
  "report_status item res =
     (case er_outcome res of
        EO_SUBMITTED \<Rightarrow> (case er_verification res of None \<Rightarrow> AS_SUBMITTED | Some v \<Rightarrow> verification_status_of (vr_status v) AS_SUBMITTED)
      | EO_DRY_RUN \<Rightarrow> AS_READY
      | EO_UNKNOWN \<Rightarrow> AS_UNCERTAIN
      | EO_RETRYABLE_FAILURE \<Rightarrow> if q_attempts item < q_max_attempts item then AS_READY else AS_NEEDS_REVIEW
      | EO_PERMANENT_FAILURE \<Rightarrow> AS_FAILED
      | EO_HANDOFF \<Rightarrow> AS_BLOCKED
      | EO_NEEDS_USER_INPUT \<Rightarrow> AS_NEEDS_USER_INPUT
      | EO_NEEDS_REVIEW \<Rightarrow> if cap_wait res then AS_READY else AS_NEEDS_REVIEW
      | EO_FORM_CHANGED \<Rightarrow> AS_NEEDS_REVIEW)"

definition report_state :: "queue_row \<Rightarrow> execution_result \<Rightarrow> queue_state" where
  "report_state item res =
     (case er_outcome res of
        EO_SUBMITTED \<Rightarrow> QS_SUCCEEDED
      | EO_DRY_RUN \<Rightarrow> QS_NEEDS_REVIEW
      | EO_UNKNOWN \<Rightarrow> QS_NEEDS_REVIEW
      | EO_RETRYABLE_FAILURE \<Rightarrow> if q_attempts item < q_max_attempts item then QS_RETRY_WAIT else QS_FAILED
      | EO_PERMANENT_FAILURE \<Rightarrow> QS_FAILED
      | EO_HANDOFF \<Rightarrow> QS_BLOCKED
      | EO_NEEDS_USER_INPUT \<Rightarrow> QS_BLOCKED
      | EO_NEEDS_REVIEW \<Rightarrow> if cap_wait res then QS_PENDING else QS_NEEDS_REVIEW
      | EO_FORM_CHANGED \<Rightarrow> QS_NEEDS_REVIEW)"

text \<open>The outcomes after which the attempt keeps its submission key: the mutex stays taken.\<close>

definition keeps_key :: "execution_outcome \<Rightarrow> bool" where
  "keeps_key oc \<longleftrightarrow> oc \<in> {EO_SUBMITTED, EO_UNKNOWN, EO_PERMANENT_FAILURE}"

definition settled :: "queue_row \<Rightarrow> application_row \<Rightarrow> execution_result \<Rightarrow> report_rows result \<Rightarrow> bool" where
  "settled item attempt res r \<longleftrightarrow>
     (\<exists>item' run' row d'. r = Inr (item', run', row, d') \<and> a_status row = report_status item res \<and> q_state item' = report_state item res \<and>
        r_status run' \<noteq> ES_RUNNING \<and> a_submission_key row = (if keeps_key (er_outcome res) then a_submission_key attempt else None))"

lemma settledI:
  "r = Inr (item', run', row, d') \<Longrightarrow> a_status row = report_status item res \<Longrightarrow> q_state item' = report_state item res \<Longrightarrow>
   r_status run' \<noteq> ES_RUNNING \<Longrightarrow> a_submission_key row = (if keeps_key (er_outcome res) then a_submission_key attempt else None) \<Longrightarrow>
   settled item attempt res r"
  unfolding settled_def by blast

lemma report_submitted_settled:
  assumes att: "a_status attempt = AS_SUBMITTING" and own: "q_claimed_by item = Some worker" and oc: "er_outcome res = EO_SUBMITTED"
  shows "settled item attempt res (report_submitted x item worker run attempt res now d)"
proof -
  define run1 where "run1 = finish_run run ES_SUBMITTED (Some EO_SUBMITTED) None None now"
  obtain c row d1 where t: "attempt_transition attempt AS_SUBMITTED (x_actor x) (Some (str_or (er_message res) ''submitted''))
      [(''run_id'', JStr (r_id run))] False now (put_run run1 d) = Inr (c, row, d1)" "a_status row = AS_SUBMITTED"
      "a_submission_key row = a_submission_key attempt"
    using transition_legal [of AS_SUBMITTED attempt] att by fastforce
  define row' where "row' = row\<lparr>a_submitted_at := Some now, a_result_url := er_application_url res,
      a_external_application_id := er_external_application_id res, a_confirmation := er_confirmation_reference res, a_updated_at := now\<rparr>"
  have fl: "flush_application now (row\<lparr>a_submitted_at := Some now, a_result_url := er_application_url res,
      a_external_application_id := er_external_application_id res, a_confirmation := er_confirmation_reference res\<rparr>) d1 =
      (row', put_application row' d1)"
    by (simp add: flush_application_def row'_def Let_def)
  have row': "a_status row' = AS_SUBMITTED" "a_submission_key row' = a_submission_key attempt" using t by (simp_all add: row'_def)
  have run1: "r_status run1 = ES_SUBMITTED" by (simp add: run1_def)
  note defs = settled_def report_submitted_def queue_succeed_def succeed_row_def Let_def run1_def [symmetric] fl report_status_def
    report_state_def keeps_key_def
  show ?thesis
  proof (cases "er_verification res")
    case None
    then show ?thesis using t own oc row' run1 by (simp add: defs)
  next
    case (Some v)
    note av = apply_verification_total [of None x run1 row' v now]
    show ?thesis
      using Some t own oc row' run1 av
      by (fastforce simp: defs split: verification_status.splits)
  qed
qed

lemmas report_defs = exec_report_def Let_def report_status_def report_state_def keeps_key_def

lemma report_reopens:
  assumes att: "a_status attempt = AS_SUBMITTING" and own: "q_claimed_by item = Some worker"
    and oc: "er_outcome res \<in> {EO_DRY_RUN, EO_NEEDS_USER_INPUT, EO_NEEDS_REVIEW, EO_FORM_CHANGED}"
  shows "settled item attempt res (exec_report x item worker run attempt res now d)"
proof -
  have re: "s \<in> {AS_READY, AS_NEEDS_USER_INPUT, AS_NEEDS_REVIEW} \<Longrightarrow>
      \<exists>row d'. reopen_attempt x r attempt s reason now e = Inr (row, d') \<and> a_status row = s \<and> a_submission_key row = None" for r s reason e
    using att by (intro reopen_legal) auto
  consider (dry) "er_outcome res = EO_DRY_RUN" | (cap) "er_outcome res = EO_NEEDS_REVIEW" "cap_wait res"
    | (input) "er_outcome res = EO_NEEDS_USER_INPUT" | (review) "er_outcome res = EO_NEEDS_REVIEW" "\<not> cap_wait res"
    | (changed) "er_outcome res = EO_FORM_CHANGED" using oc by auto
  then show ?thesis
  proof cases
    case dry
    then show ?thesis
      using re [of AS_READY]
      by (fastforce simp: settled_def report_defs case_prod_unfold queue_needs_review_def needs_review_row_def)
  next
    case cap
    then show ?thesis
      using re [of AS_READY] own
      by (fastforce simp: settled_def report_defs case_prod_unfold queue_release_def release_row_def)
  next
    case input
    then have "\<not> cap_wait res" by (simp add: cap_wait_def)
    then show ?thesis
      using re [of AS_NEEDS_USER_INPUT] own input
      by (fastforce simp: settled_def report_defs case_prod_unfold queue_block_def block_row_def)
  next
    case review
    then show ?thesis
      using re [of AS_NEEDS_REVIEW]
      by (fastforce simp: settled_def report_defs case_prod_unfold queue_needs_review_def needs_review_row_def)
  next
    case changed
    then have "\<not> cap_wait res" by (simp add: cap_wait_def)
    then show ?thesis
      using re [of AS_NEEDS_REVIEW] changed
      by (fastforce simp: settled_def report_defs case_prod_unfold queue_needs_review_def needs_review_row_def)
  qed
qed

lemma report_fails:
  assumes att: "a_status attempt = AS_SUBMITTING" and own: "q_claimed_by item = Some worker"
    and oc: "er_outcome res \<in> {EO_UNKNOWN, EO_RETRYABLE_FAILURE, EO_PERMANENT_FAILURE, EO_HANDOFF}"
  shows "settled item attempt res (exec_report x item worker run attempt res now d)"
proof -
  have re: "\<exists>row d'. reopen_attempt x r attempt AS_READY reason now e = Inr (row, d') \<and> a_status row = AS_READY \<and> a_submission_key row = None" for r reason e
    using att by (intro reopen_legal) auto
  consider (unknown) "er_outcome res = EO_UNKNOWN" | (retry) "er_outcome res = EO_RETRYABLE_FAILURE"
    | (failed) "er_outcome res = EO_PERMANENT_FAILURE" | (handoff) "er_outcome res = EO_HANDOFF" using oc by auto
  then show ?thesis
  proof cases
    case unknown
    then show ?thesis
      using transition_legal [of AS_UNCERTAIN attempt] att
      by (fastforce simp: settled_def report_defs case_prod_unfold queue_needs_review_def needs_review_row_def)
  next
    case retry
    obtain row d1 where r: "reopen_attempt x (finish_run (reported_run res run) ES_FAILED_RETRYABLE (Some EO_RETRYABLE_FAILURE) None None now)
        attempt AS_READY (str_or (er_message res) ''retryable failure'') now
        (put_run (finish_run (reported_run res run) ES_FAILED_RETRYABLE (Some EO_RETRYABLE_FAILURE) None None now) d) = Inr (row, d1)"
        "a_status row = AS_READY" "a_submission_key row = None" using re by blast
    have tr: "\<exists>c row' d'. attempt_transition row AS_NEEDS_REVIEW actor reason md False now e = Inr (c, row', d') \<and>
        a_status row' = AS_NEEDS_REVIEW \<and> a_submission_key row' = None" for actor reason md e
      using transition_legal [of AS_NEEDS_REVIEW row actor reason md False now e] r(2,3) by simp
    show ?thesis
    proof (cases "q_attempts item < q_max_attempts item")
      case True
      then show ?thesis using retry own r by (simp add: settled_def report_defs queue_fail_def fail_row_def)
    next
      case False
      let ?e = "queue_record (x_tenant x) (fail_row (str_or (er_message res) ''retryable failure'') True now item) ''failed'' worker
        (Some (snapshot item)) (Some (str_or (er_message res) ''retryable failure''))
        (put_item (fail_row (str_or (er_message res) ''retryable failure'') True now item) d1)"
      obtain c row' d2 where "attempt_transition row AS_NEEDS_REVIEW (x_actor x) (Some ''retries exhausted'') [(''run_id'', JStr (r_id run))] False now ?e =
          Inr (c, row', d2)" "a_status row' = AS_NEEDS_REVIEW" "a_submission_key row' = None" using tr by blast
      then show ?thesis using False retry own r by (simp add: settled_def report_defs queue_fail_def fail_row_def)
    qed
  next
    case failed
    then show ?thesis
      using own release_row_effect
      by (simp add: settled_def report_defs case_prod_unfold queue_fail_def fail_row_def)
  next
    case handoff
    then show ?thesis
      using own by (simp add: settled_def report_defs case_prod_unfold exec_handoff_def queue_block_def block_row_def)
  qed
qed

section \<open>Properties\<close>



text \<open>A verification never fails while the item is not cancelled, and decides the attempt's status: a
  positive one makes any attempt \<open>VERIFIED\<close>, whatever it was before (an attempt already interviewing
  or rejected included), a likely one promotes only an uncertain attempt, a negative one asks for a
  person, and an unknown one leaves the status alone.\<close>

theorem verification_decides_status:
  assumes "\<And>i. item = Some i \<Longrightarrow> q_state i \<noteq> QS_CANCELLED"
  shows "\<exists>run' row item' d'. apply_verification x run attempt v item now d = Inr (run', row, item', d') \<and>
    a_status row = verification_status_of (vr_status v) (a_status attempt) \<and> a_submission_key row = a_submission_key attempt"
  using apply_verification_total [of item, OF assms] by blast

theorem verification_decides_status_witness:
  "\<exists>run' row item' d'. apply_verification (example_env LIVE) example_running (example_submitting\<lparr>a_status := AS_INTERVIEWING\<rparr>)
      (confirmation True None None) (Some example_held) 9 example_running_db = Inr (run', row, item', d') \<and> a_status row = AS_VERIFIED"
proof -
  have "q_state example_held \<noteq> QS_CANCELLED" by code_simp
  then show ?thesis
    using verification_decides_status [of "Some example_held" "example_env LIVE" example_running "example_submitting\<lparr>a_status := AS_INTERVIEWING\<rparr>"
      "confirmation True None None" 9 example_running_db]
    by (auto simp: verification_status_of_def confirmation_def)
qed

end
