(* ===== verification/Exec_Recovery.thy ===== *)
theory Exec_Recovery
  imports Exec_Report
begin

text \<open>
  Recovery of the runs a dead worker left behind: \<^verbatim>\<open>recover_lost_runs\<close> settles exactly the runs
  whose item no longer holds a live lease, and an attempt whose lost run may have pressed submit ends
  up uncertain, never ready.
\<close>

section \<open>What the signal inbox leaves alone\<close>

text \<open>The inbox records evidence and may move an attempt to \<open>INTERVIEWING\<close> or \<open>REJECTED\<close>, never by force:
  it touches neither runs nor items, and an uncertain attempt, which has no such transition, stays.\<close>

definition owners :: "db \<Rightarrow> (string \<times> string option) list" where
  "owners d = map (\<lambda>a. (a_id a, a_tenant_id a)) (applications_t d)"

definition inbox_contract :: "exec_env \<Rightarrow> bool" where
  "inbox_contract x \<longleftrightarrow>
     (\<forall>run row d. runs_t (x_emit x run row d) = runs_t d \<and> queue_t (x_emit x run row d) = queue_t d \<and>
        owners (x_emit x run row d) = owners d \<and>
        (\<forall>a \<in> set (applications_t d). a_status a = AS_UNCERTAIN \<longrightarrow>
           (\<exists>b \<in> set (applications_t (x_emit x run row d)). a_id b = a_id a \<and> a_status b = AS_UNCERTAIN)))"

definition uncertain :: "string \<Rightarrow> db \<Rightarrow> bool" where
  "uncertain aid d \<longleftrightarrow> (\<exists>a \<in> set (applications_t d). a_id a = aid \<and> a_status a = AS_UNCERTAIN)"

definition run_item :: "exec_env \<Rightarrow> execution_run_row \<Rightarrow> db \<Rightarrow> queue_row option" where
  "run_item x run d = opt_truthy (r_queue_item_id run) (\<lambda>k. queue_get (x_tenant x) k d)"

lemma owners_ids: "owners d = owners d' \<Longrightarrow> applications_inv d = applications_inv d'"
proof -
  have "map fst (owners d) = map a_id (applications_t d)" for d by (simp add: owners_def comp_def)
  then show "owners d = owners d' \<Longrightarrow> ?thesis" by (metis applications_inv_def)
qed

lemma attempt_exists: "get_attempt x aid d \<noteq> None \<longleftrightarrow> (aid, Some (x_tenant x)) \<in> set (owners d)"
  by (auto simp: get_attempt_def owners_def find_None_iff)

lemma owners_put:
  assumes "applications_inv d" and "a \<in> set (applications_t d)" and "a_id row = a_id a" "a_tenant_id row = a_tenant_id a"
  shows "map (\<lambda>a. (a_id a, a_tenant_id a)) (tbl_put a_id row (applications_t d)) = owners d"
proof -
  have "b \<in> set (applications_t d) \<Longrightarrow> a_id b = a_id row \<Longrightarrow> b = a" for b
    using assms by (auto simp: applications_inv_def distinct_map inj_on_def)
  then show ?thesis using assms(3,4) by (auto simp: owners_def tbl_put_def)
qed

lemma emit_facts:
  assumes "inbox_contract x"
  shows "runs_t (x_emit x run row d) = runs_t d" "queue_t (x_emit x run row d) = queue_t d"
    "owners (x_emit x run row d) = owners d" "uncertain aid d \<Longrightarrow> uncertain aid (x_emit x run row d)"
  using assms unfolding inbox_contract_def uncertain_def by (simp, simp, simp, blast)

section \<open>Items\<close>

lemma find_put_other: "k' \<noteq> q_id i' \<Longrightarrow>
    find (\<lambda>r. q_tenant_id r = t \<and> q_id r = k') (tbl_put q_id i' rows) = find (\<lambda>r. q_tenant_id r = t \<and> q_id r = k') rows"
  by (induction rows) (auto simp: tbl_put_def)

lemma find_put_same: "find (\<lambda>r. q_tenant_id r = q_tenant_id i' \<and> q_id r = q_id i') rows = Some i \<Longrightarrow>
    find (\<lambda>r. q_tenant_id r = q_tenant_id i' \<and> q_id r = q_id i') (tbl_put q_id i' rows) = Some i'"
  by (induction rows) (auto simp: tbl_put_def)

text \<open>Rewriting an item that holds no live lease by one that holds none changes no lease.\<close>

lemma live_lease_put:
  assumes "queue_get t k d = Some i" and "same_identity i i'" and "\<not> live_lease (Some i) now" "\<not> live_lease (Some i') now"
    and "queue_t d' = tbl_put q_id i' (queue_t d)"
  shows "live_lease (queue_get t k' d') now = live_lease (queue_get t k' d) now"
proof -
  have i: "q_id i = k" "q_tenant_id i = t" using assms(1) find_Some_in by (fastforce simp: queue_get_def)+
  then have "queue_get t k' d' = (if k' = k then Some i' else queue_get t k' d)"
    using assms(1,2,5) find_put_same [of i' "queue_t d" i] by (auto simp: queue_get_def same_identity_def find_put_other)
  then show ?thesis using assms(1,3,4) by auto
qed

section \<open>One run\<close>

definition settled_run :: "execution_run_row \<Rightarrow> execution_run_row \<Rightarrow> bool" where
  "settled_run run run' \<longleftrightarrow> r_id run' = r_id run \<and> r_status run' \<noteq> ES_RUNNING"

lemma finish_settled: "s \<noteq> ES_RUNNING \<Longrightarrow> settled_run run (finish_run run s oc e m now)"
  by (simp add: settled_run_def)

lemma settled_run_verification [simp]: "settled_run run (r\<lparr>r_verification_status := v\<rparr>) = settled_run run r"
  by (simp add: settled_run_def)

lemma uncertain_put:
  assumes "applications_inv d" and "uncertain aid d" and "a \<in> set (applications_t d)" and "a_id row = a_id a"
    and "a_status a = AS_UNCERTAIN \<longrightarrow> a_status row = AS_UNCERTAIN"
  shows "uncertain aid (put_application row d)"
proof -
  obtain b where b: "b \<in> set (applications_t d)" "a_id b = aid" "a_status b = AS_UNCERTAIN" using assms(2) by (auto simp: uncertain_def)
  show ?thesis
  proof (cases "a_id b = a_id row")
    case True
    then have "b = a" using assms(1,3,4) b(1) by (auto simp: applications_inv_def distinct_map inj_on_def)
    then show ?thesis using b assms(4,5) tbl_put_in [of a_id row b] by (auto simp: uncertain_def)
  next
    case False
    then show ?thesis using b tbl_put_other [of b _ a_id row] by (auto simp: uncertain_def)
  qed
qed

lemma exec_audit_tables [simp]:
  "runs_t (exec_audit x row ac af d) = runs_t d" "queue_t (exec_audit x row ac af d) = queue_t d"
  "applications_t (exec_audit x row ac af d) = applications_t d" "uncertain k (exec_audit x row ac af d) = uncertain k d"
  by (simp_all add: exec_audit_def uncertain_def)

lemma recover_clicked_effect:
  fixes run :: execution_run_row
  assumes "inbox_contract x" and "applications_inv d" and att: "get_attempt x aid d = Some attempt"
    and item: "\<And>i. item = Some i \<Longrightarrow> \<exists>k. queue_get (x_tenant x) k d = Some i" and nl: "\<not> live_lease item now"
  defines "d' \<equiv> recover_clicked x run attempt item now d"
  shows "\<exists>run'. settled_run run run' \<and> r_status run' = ES_UNKNOWN \<and> r_verification_status run' = VS_PENDING \<and> runs_t d' = tbl_put r_id run' (runs_t d)"
    and "owners d' = owners d" "uncertain aid d'" "uncertain k d \<Longrightarrow> uncertain k d'"
    and "live_lease (queue_get (x_tenant x) k d') now = live_lease (queue_get (x_tenant x) k d) now"
proof -
  define run' where "run' = (finish_run run ES_UNKNOWN (Some EO_UNKNOWN) (Some EC_EXECUTOR_CRASH)
    (Some ''worker lost after submit was invoked (recovered at startup)'') now)\<lparr>r_verification_status := VS_PENDING\<rparr>"
  define p where "p = force_attempt x attempt AS_UNCERTAIN (Some ''worker lost after submit was invoked'') [] now (put_run run' d)"
  define d2 where "d2 = (case item of None \<Rightarrow> snd p
    | Some i \<Rightarrow> if q_state i \<notin> {QS_SUCCEEDED, QS_CANCELLED, QS_NEEDS_REVIEW}
        then snd (queue_needs_review (x_tenant x) (x_actor x) ''awaiting verification: worker was lost after pressing submit'' now i (snd p))
        else snd p)"
  have d': "d' = x_emit x run' (fst p) (exec_audit x (fst p) ''execution:unknown''
      [(''run_id'', JStr (r_id run)), (''reason'', JStr ''recovered: lost after submit'')] d2)"
    unfolding d'_def recover_clicked_def Let_def case_prod_unfold d2_def p_def run'_def by (rule refl)
  have d2: "runs_t d2 = tbl_put r_id run' (runs_t d)" "applications_t d2 = applications_t (snd p)"
    by (auto simp: d2_def p_def queue_needs_review_def Let_def split: option.splits)
  have a: "attempt \<in> set (applications_t d)" "a_id attempt = aid" using att find_Some_in by (fastforce simp: get_attempt_def)+
  have ap: "applications_t (snd p) = (if a_status attempt = AS_UNCERTAIN then applications_t d else tbl_put a_id (fst p) (applications_t d))"
    and p: "a_id (fst p) = aid" "a_status (fst p) = AS_UNCERTAIN"
    using a by (simp_all add: p_def force_applications)
  show "\<exists>run'. settled_run run run' \<and> r_status run' = ES_UNKNOWN \<and> r_verification_status run' = VS_PENDING \<and> runs_t d' = tbl_put r_id run' (runs_t d)"
    using d2 by (intro exI [of _ run']) (simp add: d' emit_facts [OF assms(1)] run'_def finish_settled)
  have "a_tenant_id (fst p) = a_tenant_id attempt" by (simp add: p_def)
  then have "owners d2 = owners d" using owners_put [OF assms(2) a(1), of "fst p"] p a by (simp add: owners_def d2 ap)
  then show "owners d' = owners d" unfolding d' emit_facts(3) [OF assms(1)] by (simp add: owners_def)
  have unc: "uncertain k d2" if "uncertain k d \<or> k = aid" for k
    using that a p uncertain_put [OF assms(2) _ a(1), of k "fst p"] tbl_put_in [of a_id "fst p" attempt "applications_t d"]
    by (auto simp: uncertain_def d2 ap)
  then show "uncertain aid d'" "uncertain k d \<Longrightarrow> uncertain k d'"
    unfolding d' by (simp_all add: emit_facts(4) [OF assms(1)])
  have q: "queue_t (snd p) = queue_t d" by (simp add: p_def)
  show "live_lease (queue_get (x_tenant x) k d') now = live_lease (queue_get (x_tenant x) k d) now"
  proof (cases "queue_t d2 = queue_t d")
    case True
    then show ?thesis by (simp add: d' queue_get_def emit_facts [OF assms(1)])
  next
    case False
    then obtain i where i: "item = Some i" and q2: "queue_t d2 = tbl_put q_id
        (needs_review_row ''awaiting verification: worker was lost after pressing submit'' now i) (queue_t d)"
      using q by (auto simp: d2_def queue_needs_review_def Let_def split: option.splits if_splits)
    obtain k0 where k0: "queue_get (x_tenant x) k0 d = Some i" using item i by blast
    have "live_lease (queue_get (x_tenant x) k d2) now = live_lease (queue_get (x_tenant x) k d) now"
      by (rule live_lease_put [OF k0 _ _ _ q2]) (use nl i in \<open>simp_all add: live_lease_def needs_review_row_def HELD_QUEUE_STATES_def same_identity_def\<close>)
    then show ?thesis by (simp add: d' queue_get_def emit_facts [OF assms(1)])
  qed
qed

lemma recover_unclicked_effect:
  fixes run :: execution_run_row
  assumes "applications_inv d" and att: "get_attempt x aid d = Some attempt"
    and item: "\<And>i. item = Some i \<Longrightarrow> \<exists>k. queue_get (x_tenant x) k d = Some i" and nl: "\<not> live_lease item now"
  defines "d' \<equiv> recover_unclicked x run attempt item now d"
  shows "\<exists>run'. settled_run run run' \<and> runs_t d' = tbl_put r_id run' (runs_t d)"
    and "owners d' = owners d" "uncertain k d \<Longrightarrow> uncertain k d'"
    and "live_lease (queue_get (x_tenant x) k d') now = live_lease (queue_get (x_tenant x) k d) now"
proof -
  define run' where "run' = finish_run run ES_FAILED_RETRYABLE (Some EO_RETRYABLE_FAILURE) (Some EC_EXECUTOR_CRASH)
    (Some ''worker lost before submit (recovered at startup); safe to retry'') now"
  define p where "p = (if a_status attempt = AS_SUBMITTING
    then case flush_application now (attempt\<lparr>a_submission_key := None\<rparr>) (put_run run' d) of
      (r, e) \<Rightarrow> force_attempt x r AS_READY (Some ''reclaimed after a lost worker'') [] now e
    else (attempt, put_run run' d))"
  define d2 where "d2 = (case item of None \<Rightarrow> snd p
    | Some i \<Rightarrow> if q_state i \<in> HELD_QUEUE_STATES
        then queue_record (x_tenant x) (recovered_item now i) ''lease_expired'' (x_actor x) (Some (snapshot i))
               (Some ''worker lost before submit'') (put_item (recovered_item now i) (snd p))
        else snd p)"
  have d': "d' = exec_audit x (fst p) ''execution:recovered'' [(''run_id'', JStr (r_id run)), (''reason'', JStr ''lost before submit'')] d2"
    unfolding d'_def recover_unclicked_def Let_def case_prod_unfold d2_def p_def run'_def by (rule refl)
  have d2: "runs_t d2 = tbl_put r_id run' (runs_t d)" "applications_t d2 = applications_t (snd p)"
    by (auto simp: d2_def p_def case_prod_unfold split: option.splits)
  have a: "attempt \<in> set (applications_t d)" "a_id attempt = aid" using att find_Some_in by (fastforce simp: get_attempt_def)+
  have ap: "applications_t (snd p) = applications_t d \<or>
      a_status attempt = AS_SUBMITTING \<and>
      applications_t (snd p) = tbl_put a_id (fst p) (tbl_put a_id (attempt\<lparr>a_submission_key := None, a_updated_at := now\<rparr>) (applications_t d))"
    and idp: "a_id (fst p) = a_id attempt"
    by (auto simp: p_def case_prod_unfold force_applications)
  show "\<exists>run'. settled_run run run' \<and> runs_t d' = tbl_put r_id run' (runs_t d)"
    using d2 by (intro exI [of _ run']) (simp add: d' run'_def finish_settled)
  show "owners d' = owners d"
  proof (cases "applications_t (snd p) = applications_t d")
    case False
    let ?r = "attempt\<lparr>a_submission_key := None, a_updated_at := now\<rparr>"
    have "a_tenant_id (fst p) = a_tenant_id attempt" by (simp add: p_def case_prod_unfold)
    moreover have o1: "owners (put_application ?r d) = owners d" using owners_put [OF assms(1) a(1), of ?r] by (simp add: owners_def)
    moreover have "?r \<in> set (applications_t (put_application ?r d))" using a(1) tbl_put_in [of a_id ?r attempt] by simp
    ultimately show ?thesis
      using False ap idp owners_put [of "put_application ?r d" ?r "fst p"] owners_ids [OF o1] assms(1) by (simp add: owners_def d' d2)
  qed (simp add: owners_def d' d2)
  show "uncertain k d \<Longrightarrow> uncertain k d'"
  proof -
    assume u: "uncertain k d"
    show ?thesis
    proof (cases "applications_t (snd p) = applications_t d")
      case True
      then show ?thesis using u by (simp add: uncertain_def d' d2)
    next
      case False
      then have sub: "a_status attempt = AS_SUBMITTING" using ap by blast
      then obtain b where b: "b \<in> set (applications_t d)" "a_id b = k" "a_status b = AS_UNCERTAIN" using u by (auto simp: uncertain_def)
      then have "a_id b \<noteq> a_id attempt" using a(1) sub assms(1) by (auto simp: applications_inv_def distinct_map inj_on_def)
      then have "b \<in> set (applications_t (snd p))" using ap idp b(1) by (auto intro!: tbl_put_other)
      then show ?thesis using b by (auto simp: uncertain_def d' d2)
    qed
  qed
  have q: "queue_t (snd p) = queue_t d" by (simp add: p_def case_prod_unfold)
  show "live_lease (queue_get (x_tenant x) k d') now = live_lease (queue_get (x_tenant x) k d) now"
  proof (cases "queue_t d2 = queue_t d")
    case True
    then show ?thesis by (simp add: d' queue_get_def)
  next
    case False
    then obtain i where i: "item = Some i" and q2: "queue_t d2 = tbl_put q_id (recovered_item now i) (queue_t d)"
      using q by (auto simp: d2_def split: option.splits if_splits)
    obtain k0 where k0: "queue_get (x_tenant x) k0 d = Some i" using item i by blast
    have "live_lease (queue_get (x_tenant x) k d2) now = live_lease (queue_get (x_tenant x) k d) now"
      by (rule live_lease_put [OF k0 _ _ _ q2]) (use nl i in \<open>simp_all add: live_lease_def recovered_item_def HELD_QUEUE_STATES_def same_identity_def\<close>)
    then show ?thesis by (simp add: d' queue_get_def)
  qed
qed

section \<open>The loop\<close>

text \<open>The state of the recovery: \<open>lost\<close> runs still to be settled; what each step keeps.\<close>

definition is_lost :: "exec_env \<Rightarrow> time \<Rightarrow> db \<Rightarrow> execution_run_row \<Rightarrow> bool" where
  "is_lost x now d run \<longleftrightarrow> \<not> live_lease (run_item x run d) now"

lemma recover_run_effect:
  assumes "inbox_contract x" and "applications_inv d" and r: "recover_run x run now d = (c, d')"
  shows "applications_inv d'" "uncertain k d \<Longrightarrow> uncertain k d'" "is_lost x now d' r' = is_lost x now d r'"
    and "\<not> is_lost x now d run \<Longrightarrow> d' = d"
    and "is_lost x now d run \<Longrightarrow> \<exists>run'. settled_run run run' \<and> runs_t d' = tbl_put r_id run' (runs_t d) \<and>
      (r_submit_invoked run \<and> get_attempt x (r_application_id run) d \<noteq> None \<longrightarrow> r_status run' = ES_UNKNOWN \<and> uncertain (r_application_id run) d')"
    and "owners d' = owners d"
proof -
  define item where "item = run_item x run d"
  have item: "\<exists>k. queue_get (x_tenant x) k d = Some i" if "item = Some i" for i
    using that by (auto simp: item_def run_item_def opt_truthy_def split: if_splits)
  have lease: "is_lost x now d' r' = is_lost x now d r'"
    if "\<And>k. live_lease (queue_get (x_tenant x) k d') now = live_lease (queue_get (x_tenant x) k d) now" for r'
    using that by (simp add: is_lost_def run_item_def opt_truthy_def)
  have own: "owners d' = owners d \<and> (\<forall>k. uncertain k d \<longrightarrow> uncertain k d') \<and> (\<forall>r'. is_lost x now d' r' = is_lost x now d r') \<and>
    (\<not> is_lost x now d run \<longrightarrow> d' = d) \<and>
    (is_lost x now d run \<longrightarrow> (\<exists>run'. settled_run run run' \<and> runs_t d' = tbl_put r_id run' (runs_t d) \<and>
      (r_submit_invoked run \<and> get_attempt x (r_application_id run) d \<noteq> None \<longrightarrow> r_status run' = ES_UNKNOWN \<and> uncertain (r_application_id run) d')))"
  proof (cases "live_lease item now")
    case True
    then show ?thesis using r assms(2) by (simp add: recover_run_def Let_def item_def is_lost_def run_item_def)
  next
    case False
    then have lost: "is_lost x now d run" by (simp add: is_lost_def item_def)
    show ?thesis
    proof (cases "get_attempt x (r_application_id run) d")
      case None
      define run' where "run' = finish_run run ES_FAILED_PERMANENT (Some EO_PERMANENT_FAILURE) (Some EC_EXECUTOR_CRASH)
          (Some ''attempt vanished while running'') now"
      have d': "d' = put_run run' d" using r False None by (simp add: recover_run_def Let_def item_def run_item_def run'_def)
      have "settled_run run run'" by (simp add: run'_def settled_run_def)
      moreover have "is_lost x now d' r' = is_lost x now d r'" for r' by (simp add: d' is_lost_def run_item_def opt_truthy_def queue_get_def)
      ultimately show ?thesis using lost None assms(2) by (auto simp: d' owners_def uncertain_def)
    next
      case (Some attempt)
      show ?thesis
      proof (cases "r_submit_invoked run")
        case True
        then have d': "d' = recover_clicked x run attempt item now d"
          using r False Some by (simp add: recover_run_def Let_def item_def run_item_def)
        note e = recover_clicked_effect [OF assms(1,2) Some item False, where run = run, folded d']
        show ?thesis using e lease lost by blast
      next
        case unclicked: False
        then have d': "d' = recover_unclicked x run attempt item now d"
          using r False Some by (simp add: recover_run_def Let_def item_def run_item_def)
        note e = recover_unclicked_effect [OF assms(2) Some item False, where run = run, folded d']
        show ?thesis using e lease lost unclicked by blast
      qed
    qed
  qed
  then show "applications_inv d'" using owners_ids [of d' d] assms(2) by blast
  from own show "uncertain k d \<Longrightarrow> uncertain k d'" "is_lost x now d' r' = is_lost x now d r'"
    and "\<not> is_lost x now d run \<Longrightarrow> d' = d"
    and "is_lost x now d run \<Longrightarrow> \<exists>run'. settled_run run run' \<and> runs_t d' = tbl_put r_id run' (runs_t d) \<and>
      (r_submit_invoked run \<and> get_attempt x (r_application_id run) d \<noteq> None \<longrightarrow> r_status run' = ES_UNKNOWN \<and> uncertain (r_application_id run) d')"
    and "owners d' = owners d"
    by blast+
qed

lemma recover_runs_Cons:
  "recover_runs x (run # rs) now d = (cs, d') \<longleftrightarrow>
     (\<exists>c d1 cs1. recover_run x run now d = (c, d1) \<and> recover_runs x rs now d1 = (cs1, d') \<and> cs = c # cs1)"
  by (auto split: prod.split)

lemma recover_runs_keeps:
  assumes "inbox_contract x"
  shows "recover_runs x rs now d = (cs, d') \<Longrightarrow> applications_inv d \<Longrightarrow>
    applications_inv d' \<and> owners d' = owners d \<and> (\<forall>k. uncertain k d \<longrightarrow> uncertain k d') \<and> (\<forall>r. is_lost x now d' r = is_lost x now d r)"
proof (induction rs arbitrary: d cs)
  case (Cons run rs)
  obtain c d1 cs1 where r: "recover_run x run now d = (c, d1)" "recover_runs x rs now d1 = (cs1, d')"
    using Cons.prems(1) unfolding recover_runs_Cons by blast
  note e = recover_run_effect [OF assms Cons.prems(2) r(1)]
  show ?case using Cons.IH [OF r(2) e(1)] e(2,3,6) by metis
qed simp

text \<open>A run that is running afterwards was running before, untouched; a lost run is not.\<close>

lemma recover_run_running:
  assumes "inbox_contract x" and "applications_inv d" and "recover_run x run now d = (c, d1)" and "r \<in> set (runs_t d1)" "r_status r = ES_RUNNING"
  shows "r \<in> set (runs_t d)" "is_lost x now d run \<Longrightarrow> r_id r \<noteq> r_id run"
proof -
  note e = recover_run_effect [OF assms(1-3)]
  show "is_lost x now d run \<Longrightarrow> r_id r \<noteq> r_id run"
    using e(5) assms(4,5) by (auto simp: settled_run_def tbl_put_def split: if_splits)
  show "r \<in> set (runs_t d)"
  proof (cases "is_lost x now d run")
    case True
    then show ?thesis using e(5) assms(4,5) by (auto simp: settled_run_def tbl_put_def split: if_splits)
  qed (use e(4) assms(4) in simp)
qed

lemma recover_runs_running:
  assumes "inbox_contract x"
  shows "recover_runs x rs now d = (cs, d') \<Longrightarrow> applications_inv d \<Longrightarrow> r \<in> set (runs_t d') \<Longrightarrow> r_status r = ES_RUNNING \<Longrightarrow>
    r \<in> set (runs_t d) \<and> (\<forall>run \<in> set rs. is_lost x now d run \<longrightarrow> r_id r \<noteq> r_id run)"
proof (induction rs arbitrary: d cs)
  case (Cons run rs)
  obtain c d1 cs1 where r: "recover_run x run now d = (c, d1)" "recover_runs x rs now d1 = (cs1, d')"
    using Cons.prems(1) unfolding recover_runs_Cons by blast
  note e = recover_run_effect [OF assms Cons.prems(2) r(1)]
  note ih = Cons.IH [OF r(2) e(1) Cons.prems(3,4)]
  have d1: "r \<in> set (runs_t d1)" using ih by blast
  note run = recover_run_running [OF assms Cons.prems(2) r(1) d1 Cons.prems(4)]
  show ?case using ih run e(3) by auto
qed simp

lemma recover_runs_live:
  assumes "inbox_contract x"
  shows "recover_runs x rs now d = (cs, d') \<Longrightarrow> applications_inv d \<Longrightarrow> r \<in> set (runs_t d) \<Longrightarrow>
    \<forall>run \<in> set rs. r_id run = r_id r \<longrightarrow> \<not> is_lost x now d run \<Longrightarrow> r \<in> set (runs_t d')"
proof (induction rs arbitrary: d cs)
  case (Cons run rs)
  obtain c d1 cs1 where r: "recover_run x run now d = (c, d1)" "recover_runs x rs now d1 = (cs1, d')"
    using Cons.prems(1) unfolding recover_runs_Cons by blast
  note e = recover_run_effect [OF assms Cons.prems(2) r(1)]
  have "r \<in> set (runs_t d1)"
  proof (cases "is_lost x now d run")
    case True
    then have "r_id run \<noteq> r_id r" using Cons.prems(4) by auto
    then show ?thesis using e(5) [OF True] Cons.prems(3) by (auto simp: settled_run_def intro!: tbl_put_other)
  qed (use e(4) Cons.prems(3) in simp)
  then show ?case using Cons.IH [OF r(2) e(1)] Cons.prems(4) e(3) by simp
qed simp

lemma recover_runs_uncertain:
  assumes "inbox_contract x"
  shows "recover_runs x rs now d = (cs, d') \<Longrightarrow> applications_inv d \<Longrightarrow> run \<in> set rs \<Longrightarrow> is_lost x now d run \<Longrightarrow> r_submit_invoked run \<Longrightarrow>
    get_attempt x (r_application_id run) d \<noteq> None \<Longrightarrow> uncertain (r_application_id run) d'"
proof (induction rs arbitrary: d cs)
  case (Cons run0 rs)
  obtain c d1 cs1 where r: "recover_run x run0 now d = (c, d1)" "recover_runs x rs now d1 = (cs1, d')"
    using Cons.prems(1) unfolding recover_runs_Cons by blast
  note e = recover_run_effect [OF assms Cons.prems(2) r(1)]
  show ?case
  proof (cases "run = run0")
    case True
    then have "uncertain (r_application_id run) d1" using e(5) Cons.prems(4-6) by blast
    then show ?thesis using recover_runs_keeps [OF assms r(2) e(1)] by blast
  next
    case False
    have "get_attempt x (r_application_id run) d1 \<noteq> None" using Cons.prems(6) unfolding attempt_exists e(6) .
    then show ?thesis using Cons.IH [OF r(2) e(1)] False Cons.prems(3-5) e(3) by auto
  qed
qed simp

section \<open>Properties\<close>

text \<open>C7. Recovery settles exactly the lost runs: afterwards the tenant's running runs are those whose item
  still holds a live lease, unchanged, and every attempt whose lost run may have pressed submit is
  uncertain, so that no later start can submit it again. The signal inbox is assumed to leave runs,
  items and uncertain attempts alone.\<close>

theorem recovery_settles_lost_runs:
  assumes "inbox_contract x" and "applications_inv d" and "runs_inv d"
  shows "{r \<in> set (runs_t (snd (recover_lost_runs x now d))). r_tenant_id r = x_tenant x \<and> r_status r = ES_RUNNING} =
      {r \<in> set (runs_t d). r_tenant_id r = x_tenant x \<and> r_status r = ES_RUNNING \<and> live_lease (run_item x r d) now} \<and>
    (\<forall>run \<in> set (runs_t d). r_tenant_id run = x_tenant x \<and> r_status run = ES_RUNNING \<and> r_submit_invoked run \<and>
      \<not> live_lease (run_item x run d) now \<and> get_attempt x (r_application_id run) d \<noteq> None \<longrightarrow>
      (\<exists>a \<in> set (applications_t (snd (recover_lost_runs x now d))). a_id a = r_application_id run \<and> a_status a = AS_UNCERTAIN))"
    (is "?L = ?R \<and> ?U")
proof
  define rs where "rs = filter (\<lambda>r. r_tenant_id r = x_tenant x \<and> r_status r = ES_RUNNING) (runs_t d)"
  obtain cs d' where r: "recover_runs x rs now d = (cs, d')" by fastforce
  have d': "snd (recover_lost_runs x now d) = d'" using r by (simp add: recover_lost_runs_def rs_def)
  note running = recover_runs_running [OF assms(1) r assms(2)] and live = recover_runs_live [OF assms(1) r assms(2)]
  show "?L = ?R"
  proof (intro set_eqI iffI)
    fix r assume "r \<in> ?L"
    then show "r \<in> ?R" using running [of r] unfolding d' by (auto simp: rs_def is_lost_def)
  next
    fix r assume "r \<in> ?R"
    then show "r \<in> ?L" using live [of r] runs_inv_same [OF assms(3), of _ r] unfolding d' by (auto simp: rs_def is_lost_def)
  qed
  show ?U
    using recover_runs_uncertain [OF assms(1) r assms(2)] unfolding d' uncertain_def by (simp add: rs_def is_lost_def)
qed

text \<open>A worker pressed submit and died; its lease lapsed.\<close>

definition example_dead_db :: db where
  "example_dead_db = example_running_db\<lparr>runs_t := [example_running\<lparr>r_submit_invoked := True\<rparr>]\<rparr>"

theorem recovery_settles_lost_runs_witness:
  "{r \<in> set (runs_t (snd (recover_lost_runs (example_env LIVE) (seconds 700) example_dead_db))). r_tenant_id r = ''t1'' \<and> r_status r = ES_RUNNING} = {} \<and>
   (\<exists>a \<in> set (applications_t (snd (recover_lost_runs (example_env LIVE) (seconds 700) example_dead_db))). a_id a = ''a1'' \<and> a_status a = AS_UNCERTAIN)"
proof -
  define x run D where "x = example_env LIVE" and "run = example_running\<lparr>r_submit_invoked := True\<rparr>"
    and "D = snd (recover_lost_runs x (seconds 700) example_dead_db)"
  have c: "inbox_contract x" by (auto simp: inbox_contract_def example_env_def x_def)
  have i: "applications_inv example_dead_db" "runs_inv example_dead_db" by code_simp+
  have rows: "runs_t example_dead_db = [run]" "r_application_id run = ''a1''" "r_submit_invoked run" "x_tenant x = ''t1''"
    "r_tenant_id run = ''t1''" "r_status run = ES_RUNNING" "get_attempt x ''a1'' example_dead_db \<noteq> None"
    "\<not> live_lease (run_item x run example_dead_db) (seconds 700)"
    unfolding x_def run_def by code_simp+
  note t = recovery_settles_lost_runs [OF c i, of "seconds 700", folded D_def, unfolded rows(1)]
  have "{r \<in> set (runs_t D). r_tenant_id r = x_tenant x \<and> r_status r = ES_RUNNING} = {}"
    using t [THEN conjunct1] rows(8) by auto
  moreover have "\<exists>a \<in> set (applications_t D). a_id a = r_application_id run \<and> a_status a = AS_UNCERTAIN"
    using t [THEN conjunct2] rows by simp
  ultimately show ?thesis using rows(2,4) by (auto simp flip: x_def D_def)
qed

text \<open>The same attempt on its last try, lost before submit.\<close>

definition example_worn_db :: db where
  "example_worn_db = example_running_db\<lparr>queue_t := [example_held\<lparr>q_attempts := 3\<rparr>]\<rparr>"

text \<open>Recovery forgets the retry limit: an item lost on its last attempt is put back to waiting whatever
  its count, and the next claim hands it out a fourth time of three. A claim without the recovery in
  front, which every queue run starts with, parks such an item for a person.\<close>

theorem recovery_ignores_max_attempts:
  "let x = example_env LIVE; late = seconds 700; d1 = snd (recover_lost_runs x late example_worn_db);
       (items, d2) = exec_claim x ''w2'' 1 None late d1; (none, d3) = exec_claim x ''w2'' 1 None late example_worn_db
   in map q_attempts items = [4] \<and> map q_max_attempts items = [3] \<and> none = [] \<and> map q_state (queue_t d3) = [QS_NEEDS_REVIEW]"
  by code_simp

end
