(* ===== verification/Outcomes.thy ===== *)
theory Outcomes
  imports Models "HOL-Library.Multiset" "HOL-Library.List_Lexorder" "HOL-Library.Char_ord"
begin

text \<open>
  The outcome model of \<^verbatim>\<open>app/signals/outcomes.py\<close>: what a classified signal says happened, how strong
  the evidence is, and how the current status of an application is derived from its event history.
  The enumerations are those of \<^verbatim>\<open>app/signals/models.py\<close>.
\<close>

section \<open>Enumerations\<close>

datatype signal_category =
    SC_APPLICATION_CONFIRMATION
  | SC_APPLICATION_RECEIVED
  | SC_REJECTION
  | SC_INTERVIEW_INVITATION
  | SC_RECRUITER_CONTACT
  | SC_ASSESSMENT
  | SC_INFORMATION_REQUEST
  | SC_WITHDRAWAL
  | SC_DUPLICATE_OR_CLOSED
  | SC_STATUS_UPDATE
  | SC_EXECUTION_RESULT
  | SC_OTHER
  | SC_UNKNOWN

datatype confidence =
    CF_HIGH
  | CF_MEDIUM
  | CF_LOW
  | CF_NONE

datatype classification_source =
    CS_RULES
  | CS_AI
  | CS_EXECUTION
  | CS_HUMAN
  | CS_DECLARED

datatype outcome_kind =
    OK_SUBMITTED
  | OK_APPLICATION_RECEIVED
  | OK_UNDER_REVIEW
  | OK_ASSESSMENT_REQUESTED
  | OK_RECRUITER_CONTACT
  | OK_INTERVIEW_REQUESTED
  | OK_INTERVIEW_SCHEDULED
  | OK_REJECTED
  | OK_WITHDRAWN
  | OK_CLOSED_WITHOUT_APPLICATION
  | OK_NEEDS_REVIEW
  | OK_UNKNOWN

primrec outcome_kind_value :: "outcome_kind \<Rightarrow> string" where
  "outcome_kind_value OK_SUBMITTED = ''SUBMITTED''"
| "outcome_kind_value OK_APPLICATION_RECEIVED = ''APPLICATION_RECEIVED''"
| "outcome_kind_value OK_UNDER_REVIEW = ''UNDER_REVIEW''"
| "outcome_kind_value OK_ASSESSMENT_REQUESTED = ''ASSESSMENT_REQUESTED''"
| "outcome_kind_value OK_RECRUITER_CONTACT = ''RECRUITER_CONTACT''"
| "outcome_kind_value OK_INTERVIEW_REQUESTED = ''INTERVIEW_REQUESTED''"
| "outcome_kind_value OK_INTERVIEW_SCHEDULED = ''INTERVIEW_SCHEDULED''"
| "outcome_kind_value OK_REJECTED = ''REJECTED''"
| "outcome_kind_value OK_WITHDRAWN = ''WITHDRAWN''"
| "outcome_kind_value OK_CLOSED_WITHOUT_APPLICATION = ''CLOSED_WITHOUT_APPLICATION''"
| "outcome_kind_value OK_NEEDS_REVIEW = ''NEEDS_REVIEW''"
| "outcome_kind_value OK_UNKNOWN = ''UNKNOWN''"

datatype evidence_strength =
    EV_STRONG
  | EV_MODERATE
  | EV_WEAK

section \<open>What a signal says\<close>

primrec OUTCOME_FOR_CATEGORY :: "signal_category \<Rightarrow> outcome_kind option" where
  "OUTCOME_FOR_CATEGORY SC_APPLICATION_CONFIRMATION = Some OK_APPLICATION_RECEIVED"
| "OUTCOME_FOR_CATEGORY SC_APPLICATION_RECEIVED = Some OK_APPLICATION_RECEIVED"
| "OUTCOME_FOR_CATEGORY SC_REJECTION = Some OK_REJECTED"
| "OUTCOME_FOR_CATEGORY SC_INTERVIEW_INVITATION = Some OK_INTERVIEW_REQUESTED"
| "OUTCOME_FOR_CATEGORY SC_RECRUITER_CONTACT = Some OK_RECRUITER_CONTACT"
| "OUTCOME_FOR_CATEGORY SC_ASSESSMENT = Some OK_ASSESSMENT_REQUESTED"
| "OUTCOME_FOR_CATEGORY SC_INFORMATION_REQUEST = Some OK_UNDER_REVIEW"
| "OUTCOME_FOR_CATEGORY SC_WITHDRAWAL = Some OK_WITHDRAWN"
| "OUTCOME_FOR_CATEGORY SC_DUPLICATE_OR_CLOSED = Some OK_CLOSED_WITHOUT_APPLICATION"
| "OUTCOME_FOR_CATEGORY SC_STATUS_UPDATE = Some OK_UNDER_REVIEW"
| "OUTCOME_FOR_CATEGORY SC_EXECUTION_RESULT = Some OK_SUBMITTED"
| "OUTCOME_FOR_CATEGORY SC_OTHER = None"
| "OUTCOME_FOR_CATEGORY SC_UNKNOWN = None"

primrec STAGE :: "outcome_kind \<Rightarrow> int option" where
  "STAGE OK_SUBMITTED = Some 1"
| "STAGE OK_APPLICATION_RECEIVED = Some 2"
| "STAGE OK_UNDER_REVIEW = Some 3"
| "STAGE OK_RECRUITER_CONTACT = Some 4"
| "STAGE OK_ASSESSMENT_REQUESTED = Some 4"
| "STAGE OK_INTERVIEW_REQUESTED = Some 5"
| "STAGE OK_INTERVIEW_SCHEDULED = Some 6"
| "STAGE OK_REJECTED = None"
| "STAGE OK_WITHDRAWN = None"
| "STAGE OK_CLOSED_WITHOUT_APPLICATION = None"
| "STAGE OK_NEEDS_REVIEW = None"
| "STAGE OK_UNKNOWN = None"

definition TERMINAL :: "outcome_kind set" where
  "TERMINAL = {OK_REJECTED, OK_WITHDRAWN, OK_CLOSED_WITHOUT_APPLICATION}"

definition evidence_for :: "confidence \<Rightarrow> classification_source \<Rightarrow> evidence_strength" where
  "evidence_for confidence source =
     (if source = CS_AI then EV_WEAK
      else if source \<in> {CS_HUMAN, CS_DECLARED} then EV_STRONG
      else if confidence = CF_HIGH then EV_STRONG
      else if confidence = CF_MEDIUM then EV_MODERATE
      else EV_WEAK)"

definition outcome_for_verification :: "verification_status \<Rightarrow> outcome_kind \<times> evidence_strength \<times> confidence" where
  "outcome_for_verification status =
     (if status = VS_VERIFIED then (OK_SUBMITTED, EV_STRONG, CF_HIGH)
      else if status = VS_LIKELY then (OK_SUBMITTED, EV_MODERATE, CF_MEDIUM)
      else if status = VS_FAILED then (OK_NEEDS_REVIEW, EV_STRONG, CF_HIGH)
      else (OK_UNKNOWN, EV_WEAK, CF_LOW))"

section \<open>Derivation\<close>

record outcome_event =
  oe_id :: string
  oe_outcome :: outcome_kind
  oe_evidence :: evidence_strength
  oe_event_at :: time
  oe_sequence :: int
  oe_retracted :: bool
  oe_superseded_by :: "string option"

record derived_outcome =
  dv_application_id :: string
  dv_current :: outcome_kind
  dv_provisional :: "outcome_kind option"
  dv_needs_review :: bool
  dv_conflicts :: "string list"
  dv_basis_event_id :: "string option"
  dv_event_count :: int
  dv_last_event_at :: "time option"

definition event_key :: "outcome_event \<Rightarrow> time \<times> int" where
  "event_key e = (oe_event_at e, oe_sequence e)"

text \<open>The stage of an event whose outcome has one, and Python's \<^verbatim>\<open>max\<close>: the first of the greatest.\<close>

definition stage_of :: "outcome_kind \<Rightarrow> int" where
  "stage_of k = (case STAGE k of None \<Rightarrow> 0 | Some n \<Rightarrow> n)"

definition stage_key :: "outcome_event \<Rightarrow> int \<times> time \<times> int" where
  "stage_key e = (stage_of (oe_outcome e), oe_event_at e, oe_sequence e)"

fun max_by :: "('a \<Rightarrow> 'k :: linorder) \<Rightarrow> 'a \<Rightarrow> 'a list \<Rightarrow> 'a" where
  "max_by f best [] = best"
| "max_by f best (e # es) = max_by f (if f best < f e then e else best) es"

definition active_events :: "outcome_event list \<Rightarrow> outcome_event list" where
  "active_events events = sort_key event_key (filter (\<lambda>e. \<not> oe_retracted e \<and> oe_superseded_by e = None) events)"

definition strong_terminal :: "outcome_event \<Rightarrow> bool" where
  "strong_terminal e \<longleftrightarrow> oe_outcome e \<in> TERMINAL \<and> oe_evidence e = EV_STRONG"

definition weak_terminal :: "outcome_event \<Rightarrow> bool" where
  "weak_terminal e \<longleftrightarrow> oe_outcome e \<in> TERMINAL \<and> oe_evidence e \<noteq> EV_STRONG"

definition is_progress :: "outcome_event \<Rightarrow> bool" where
  "is_progress e \<longleftrightarrow> STAGE (oe_outcome e) \<noteq> None \<and> oe_evidence e \<in> {EV_STRONG, EV_MODERATE}"

definition weak_progress :: "outcome_event \<Rightarrow> bool" where
  "weak_progress e \<longleftrightarrow> STAGE (oe_outcome e) \<noteq> None \<and> oe_evidence e = EV_WEAK"

definition terminal_conflicts :: "outcome_event list \<Rightarrow> outcome_event list \<Rightarrow> string list" where
  "terminal_conflicts terminals progress =
     (let last_one = last terminals; kinds = remdups (map oe_outcome terminals);
          later = filter (\<lambda>p. event_key last_one < event_key p) progress
      in (if 1 < length kinds
          then [''multiple terminal outcomes: '' @ join_with '', '' (sort (map outcome_kind_value kinds))] else []) @
         (if later \<noteq> []
          then [outcome_kind_value (oe_outcome (last later)) @ '' evidence after '' @ outcome_kind_value (oe_outcome last_one)] else []))"

definition provisional_of :: "outcome_kind option \<Rightarrow> outcome_event list \<Rightarrow> outcome_event list \<Rightarrow> outcome_kind option" where
  "provisional_of current weak_terminals weak_progresses =
     (if weak_terminals \<noteq> [] \<and> (case current of None \<Rightarrow> True | Some c \<Rightarrow> c \<notin> TERMINAL)
      then Some (oe_outcome (last weak_terminals))
      else case weak_progresses of
        [] \<Rightarrow> None
      | e # es \<Rightarrow>
          let best = oe_outcome (max_by stage_key e es)
          in if (case current of None \<Rightarrow> True | Some c \<Rightarrow> STAGE c \<noteq> None \<and> stage_of c < stage_of best) then Some best else None)"

definition derive :: "string \<Rightarrow> outcome_event list \<Rightarrow> derived_outcome" where
  "derive application_id events =
     (let active = active_events events in
      if active = []
      then \<lparr>dv_application_id = application_id, dv_current = OK_UNKNOWN, dv_provisional = None, dv_needs_review = False,
            dv_conflicts = [], dv_basis_event_id = None, dv_event_count = 0, dv_last_event_at = None\<rparr>
      else
        let terminals = filter strong_terminal active;
            progress = filter is_progress active;
            review_flag = list_ex (\<lambda>e. oe_outcome e = OK_NEEDS_REVIEW) active;
            basis = (if terminals \<noteq> [] then Some (last terminals)
                     else case progress of [] \<Rightarrow> None | p # ps \<Rightarrow> Some (max_by stage_key p ps));
            conflicts = (if terminals \<noteq> [] then terminal_conflicts terminals progress else []);
            current = map_option oe_outcome basis;
            provisional = provisional_of current (filter weak_terminal active) (filter weak_progress active)
        in \<lparr>dv_application_id = application_id,
            dv_current = (if conflicts \<noteq> [] then OK_NEEDS_REVIEW
                          else case current of
                            Some c \<Rightarrow> c
                          | None \<Rightarrow> if review_flag then OK_NEEDS_REVIEW else OK_UNKNOWN),
            dv_provisional = provisional,
            dv_needs_review = (conflicts \<noteq> [] \<or> review_flag \<or> provisional \<noteq> None \<and> provisional \<noteq> current),
            dv_conflicts = conflicts, dv_basis_event_id = map_option oe_id basis,
            dv_event_count = int (length active), dv_last_event_at = Some (oe_event_at (last active))\<rparr>)"

section \<open>Order\<close>

lemma active_in: "e \<in> set (active_events events) \<longleftrightarrow> e \<in> set events \<and> \<not> oe_retracted e \<and> oe_superseded_by e = None"
  by (auto simp: active_events_def)

lemma sort_key_perm:
  assumes "mset xs = mset ys" and "inj_on f (set xs)"
  shows "sort_key f xs = sort_key f ys"
proof (rule properties_for_sort_key)
  show "mset (sort_key f ys) = mset xs" using assms(1) by simp
next
  fix k assume "k \<in> set (sort_key f ys)"
  have s: "set ys = set xs" using assms(1) by (metis mset_eq_setD)
  show "filter (\<lambda>x. f k = f x) (sort_key f ys) = filter (\<lambda>x. f k = f x) xs"
  proof -
    have k: "k \<in> set xs" using \<open>k \<in> set (sort_key f ys)\<close> s by simp
    have "zs = replicate (count (mset zs) k) k" if "\<forall>z \<in> set zs. z = k" for zs :: "'a list"
      using that by (induction zs) auto
    moreover have "\<forall>z \<in> set (filter (\<lambda>x. f k = f x) zs). z = k" if "set zs = set xs" for zs
      using assms(2) k that by (auto simp: inj_on_def)
    ultimately show ?thesis
      using assms(1) s by (metis (no_types, lifting) mset_filter mset_sort set_sort)
  qed
qed simp

lemma active_perm:
  assumes "mset events = mset events'" and "inj_on event_key (set (active_events events))"
  shows "active_events events = active_events events'"
  unfolding active_events_def using assms
  by (intro sort_key_perm) (auto simp: active_in active_events_def)

lemma active_filter: "filter p (active_events events) = active_events (filter p events)"
  by (auto simp: active_events_def filter_sort conj_commute intro!: arg_cong [of _ _ "sort_key event_key"] filter_cong)

lemma sorted_last:
  assumes "sorted (map f xs)" and "e \<in> set xs"
  shows "f e \<le> f (last xs)"
  using assms by (induction xs) auto

lemma active_sorted: "sorted (map event_key (filter p (active_events events)))"
  by (simp add: active_events_def filter_sort)

lemma max_by_in: "max_by f b es \<in> insert b (set es)"
  by (induction f b es rule: max_by.induct) auto

lemma max_by_ge: "e \<in> insert b (set es) \<Longrightarrow> f e \<le> f (max_by f b es)"
proof (induction f b es arbitrary: e rule: max_by.induct)
  case (2 f best e' es)
  have "f best \<le> f (if f best < f e' then e' else best)" "f e' \<le> f (if f best < f e' then e' else best)" by auto
  then show ?case using 2 by (auto intro: order_trans)
qed simp

section \<open>What decides the status\<close>

definition has_terminal :: "outcome_event list \<Rightarrow> bool" where
  "has_terminal events \<longleftrightarrow> (\<exists>e \<in> set (active_events events). strong_terminal e)"

lemma strong_kinds: "strong_terminal e \<Longrightarrow> oe_outcome e \<in> TERMINAL"
  by (simp add: strong_terminal_def)

lemma terminal_not_stage: "k \<in> TERMINAL \<Longrightarrow> STAGE k = None \<and> k \<noteq> OK_NEEDS_REVIEW \<and> k \<noteq> OK_UNKNOWN"
  by (auto simp: TERMINAL_def)

lemma progress_stage: "is_progress e \<Longrightarrow> oe_outcome e \<notin> TERMINAL \<and> STAGE (oe_outcome e) \<noteq> None"
  by (auto simp: is_progress_def TERMINAL_def)

lemma remdups_one: "xs \<noteq> [] \<Longrightarrow> \<not> 1 < length (remdups xs) \<longleftrightarrow> (\<forall>x \<in> set xs. x = last xs)"
proof -
  assume "xs \<noteq> []"
  then have l: "last xs \<in> set xs" by simp
  have "length (remdups xs) = card (set xs)" by (rule length_remdups_card_conv)
  moreover have "card (set xs) \<le> Suc 0 \<longleftrightarrow> (\<forall>x \<in> set xs. x = last xs)"
    using l card_le_Suc0_iff_eq [of "set xs"] by (metis List.finite_set)
  ultimately show ?thesis by (simp add: not_less)
qed

lemma terminal_conflicts_Nil:
  assumes "terminals \<noteq> []"
  shows "terminal_conflicts terminals progress = [] \<longleftrightarrow>
    (\<forall>e \<in> set terminals. oe_outcome e = oe_outcome (last terminals)) \<and> (\<forall>p \<in> set progress. event_key p \<le> event_key (last terminals))"
proof -
  have "terminal_conflicts terminals progress = [] \<longleftrightarrow>
      \<not> 1 < length (remdups (map oe_outcome terminals)) \<and> filter (\<lambda>p. event_key (last terminals) < event_key p) progress = []"
    by (simp add: terminal_conflicts_def Let_def)
  moreover have "\<not> 1 < length (remdups (map oe_outcome terminals)) \<longleftrightarrow> (\<forall>e \<in> set terminals. oe_outcome e = oe_outcome (last terminals))"
    using remdups_one [of "map oe_outcome terminals"] assms by (simp add: last_map)
  ultimately show ?thesis by (simp add: filter_empty_conv not_less)
qed

lemma derive_terminal:
  assumes "has_terminal events"
  defines "ts \<equiv> filter strong_terminal (active_events events)"
  shows "dv_current (derive aid events) =
    (if terminal_conflicts ts (filter is_progress (active_events events)) \<noteq> [] then OK_NEEDS_REVIEW else oe_outcome (last ts))"
    and "ts \<noteq> []" "last ts \<in> set (active_events events)" "strong_terminal (last ts)"
proof -
  show ne: "ts \<noteq> []" using assms by (auto simp: has_terminal_def filter_empty_conv)
  then have "last ts \<in> set ts" by simp
  then show "last ts \<in> set (active_events events)" "strong_terminal (last ts)" by (auto simp: ts_def)
  have "active_events events \<noteq> []" using assms(1) by (auto simp: has_terminal_def)
  then show "dv_current (derive aid events) =
    (if terminal_conflicts ts (filter is_progress (active_events events)) \<noteq> [] then OK_NEEDS_REVIEW else oe_outcome (last ts))"
    using ne by (simp add: derive_def Let_def ts_def)
qed

lemma progress_max:
  assumes "filter is_progress es = p # ps"
  shows "max_by stage_key p ps \<in> {e \<in> set es. is_progress e}"
    and "q \<in> {e \<in> set es. is_progress e} \<Longrightarrow> stage_key q \<le> stage_key (max_by stage_key p ps)"
proof -
  have set: "insert p (set ps) = {e \<in> set es. is_progress e}" using assms by (metis list.simps(15) set_filter)
  show "max_by stage_key p ps \<in> {e \<in> set es. is_progress e}" using max_by_in [of stage_key p ps] unfolding set .
  show "q \<in> {e \<in> set es. is_progress e} \<Longrightarrow> stage_key q \<le> stage_key (max_by stage_key p ps)"
    using max_by_ge [of q p ps stage_key] unfolding set .
qed

lemma derive_progress:
  assumes "\<not> has_terminal events"
  shows "dv_current (derive aid events) = (case filter is_progress (active_events events) of
    p # ps \<Rightarrow> oe_outcome (max_by stage_key p ps)
  | [] \<Rightarrow> if \<exists>e \<in> set (active_events events). oe_outcome e = OK_NEEDS_REVIEW then OK_NEEDS_REVIEW else OK_UNKNOWN)"
proof -
  have "filter strong_terminal (active_events events) = []" using assms by (auto simp: has_terminal_def filter_empty_conv)
  then show ?thesis by (cases "active_events events = []") (auto simp: derive_def Let_def list_ex_iff split: list.splits)
qed

section \<open>Properties\<close>

text \<open>C20. The status says the application ended with \<open>k\<close> exactly when strong evidence for \<open>k\<close> exists, no
  strong evidence for another ending does, and no strong or moderate sign of progress comes after the
  last of it. Weak and moderate endings never end an application.\<close>

theorem ended_exactly:
  assumes "k \<in> TERMINAL"
  shows "dv_current (derive aid events) = k \<longleftrightarrow>
    (\<exists>e \<in> set (active_events events). strong_terminal e \<and> oe_outcome e = k \<and>
       (\<forall>p \<in> set (active_events events). is_progress p \<longrightarrow> event_key p \<le> event_key e)) \<and>
    (\<forall>e \<in> set (active_events events). strong_terminal e \<longrightarrow> oe_outcome e = k)"
proof (cases "has_terminal events")
  case True
  define ts where "ts = filter strong_terminal (active_events events)"
  note t = derive_terminal [OF True, folded ts_def]
  have le: "e \<in> set ts \<Longrightarrow> event_key e \<le> event_key (last ts)" for e
    unfolding ts_def by (intro sorted_last active_sorted)
  have "dv_current (derive aid events) = k \<longleftrightarrow>
      (\<forall>e \<in> set ts. oe_outcome e = oe_outcome (last ts)) \<and> oe_outcome (last ts) = k \<and>
      (\<forall>p \<in> set (active_events events). is_progress p \<longrightarrow> event_key p \<le> event_key (last ts))"
    (is "_ \<longleftrightarrow> ?same \<and> _ \<and> ?late")
  proof -
    have "terminal_conflicts ts (filter is_progress (active_events events)) = [] \<longleftrightarrow> ?same \<and> ?late"
      unfolding terminal_conflicts_Nil [OF t(2)] by (simp only: set_filter mem_Collect_eq Ball_def) blast
    moreover have "OK_NEEDS_REVIEW \<noteq> k" using assms by (auto simp: TERMINAL_def)
    ultimately show ?thesis unfolding t(1) by metis
  qed
  also have "\<dots> \<longleftrightarrow> (\<exists>e \<in> set ts. oe_outcome e = k \<and> (\<forall>p \<in> set (active_events events). is_progress p \<longrightarrow> event_key p \<le> event_key e)) \<and>
      (\<forall>e \<in> set ts. oe_outcome e = k)" (is "?L \<longleftrightarrow> ?R")
  proof
    show "?L \<Longrightarrow> ?R" using last_in_set [OF t(2)] by blast
    assume R: ?R
    then obtain e where "e \<in> set ts" "\<forall>p \<in> set (active_events events). is_progress p \<longrightarrow> event_key p \<le> event_key e" by blast
    then have "\<forall>p \<in> set (active_events events). is_progress p \<longrightarrow> event_key p \<le> event_key (last ts)"
      using le by (meson order_trans)
    then show ?L using R last_in_set [OF t(2)] by simp
  qed
  finally show ?thesis by (auto simp: ts_def)
next
  case False
  have "dv_current (derive aid events) \<notin> TERMINAL"
  proof (cases "filter is_progress (active_events events)")
    case Nil
    then show ?thesis by (simp add: derive_progress [OF False] TERMINAL_def)
  next
    case (Cons p ps)
    then show ?thesis using progress_max(1) [OF Cons] progress_stage by (simp add: derive_progress [OF False])
  qed
  then have "dv_current (derive aid events) \<noteq> k" using assms by blast
  then show ?thesis using False by (auto simp: has_terminal_def)
qed


text \<open>Weak evidence never decides: dropping every weak event that does not ask for review leaves the
  status, the conflicts and the basis as they are. A classification by the AI is always weak
  evidence, so it can be shown as provisional but cannot set a status.\<close>

theorem weak_events_never_decide:
  assumes "decided = filter (\<lambda>e. oe_evidence e \<noteq> EV_WEAK \<or> oe_outcome e = OK_NEEDS_REVIEW) events"
  shows "dv_current (derive aid events) = dv_current (derive aid decided) \<and>
    dv_conflicts (derive aid events) = dv_conflicts (derive aid decided) \<and>
    dv_basis_event_id (derive aid events) = dv_basis_event_id (derive aid decided) \<and> evidence_for confidence CS_AI = EV_WEAK"
proof -
  let ?p = "\<lambda>e. oe_evidence e \<noteq> EV_WEAK \<or> oe_outcome e = OK_NEEDS_REVIEW"
  define A where "A = active_events events"
  have A: "active_events decided = filter ?p A" by (simp add: assms A_def active_filter)
  have f: "filter strong_terminal (filter ?p A) = filter strong_terminal A" "filter is_progress (filter ?p A) = filter is_progress A"
    by (auto simp: filter_filter strong_terminal_def is_progress_def intro!: filter_cong)
  have r: "list_ex (\<lambda>e. oe_outcome e = OK_NEEDS_REVIEW) (filter ?p A) = list_ex (\<lambda>e. oe_outcome e = OK_NEEDS_REVIEW) A"
    by (auto simp: list_ex_iff)
  have n: "filter strong_terminal A = [] \<and> filter is_progress A = [] \<and> \<not> list_ex (\<lambda>e. oe_outcome e = OK_NEEDS_REVIEW) A" if "filter ?p A = []"
    using f [unfolded that] r [unfolded that] by simp
  show ?thesis
    using n f r by (cases "filter ?p A = []"; cases "A = []") (auto simp: derive_def Let_def A evidence_for_def simp flip: A_def)
qed

text \<open>C40. The status depends on the history, not on the order the rows are read in: two lists with the same
  events derive the same outcome, as long as no two live events share both time and sequence number.\<close>

theorem derive_order_independent:
  assumes "mset events = mset events'" and "inj_on event_key (set (active_events events))"
  shows "derive aid events = derive aid events'"
  using active_perm [OF assms] by (simp add: derive_def)

text \<open>An interview invitation, a late confirmation, a rejection the AI read out of a mail, and a strong
  rejection that may follow.\<close>

definition example_event :: "string \<Rightarrow> outcome_kind \<Rightarrow> evidence_strength \<Rightarrow> int \<Rightarrow> outcome_event" where
  "example_event eid k ev n = \<lparr>oe_id = eid, oe_outcome = k, oe_evidence = ev, oe_event_at = n, oe_sequence = n, oe_retracted = False,
     oe_superseded_by = None\<rparr>"

definition example_history :: "outcome_event list" where
  "example_history = [example_event ''e1'' OK_INTERVIEW_REQUESTED EV_STRONG 1, example_event ''e2'' OK_APPLICATION_RECEIVED EV_STRONG 2,
     example_event ''e3'' OK_REJECTED EV_WEAK 3]"

definition example_rejected :: "outcome_event list" where
  "example_rejected = example_history @ [example_event ''e4'' OK_REJECTED EV_STRONG 4]"

theorem ended_exactly_witness:
  "dv_current (derive ''a1'' example_rejected) = OK_REJECTED \<and>
   (\<exists>e \<in> set (active_events example_rejected). strong_terminal e \<and> oe_outcome e = OK_REJECTED)"
proof -
  have "OK_REJECTED \<in> TERMINAL" "dv_current (derive ''a1'' example_rejected) = OK_REJECTED" by code_simp+
  then show ?thesis using ended_exactly [of OK_REJECTED "''a1''" example_rejected] by blast
qed


theorem weak_events_never_decide_witness:
  "dv_current (derive ''a1'' (take 2 example_history)) = dv_current (derive ''a1'' example_history)"
proof -
  have "take 2 example_history = filter (\<lambda>e. oe_evidence e \<noteq> EV_WEAK \<or> oe_outcome e = OK_NEEDS_REVIEW) example_history" by code_simp
  from weak_events_never_decide [OF this, of "''a1''"] show ?thesis by simp
qed

theorem derive_order_independent_witness: "derive ''a1'' (rev example_rejected) = derive ''a1'' example_rejected"
proof -
  have "inj_on event_key (set (active_events (rev example_rejected)))" by code_simp
  then show ?thesis using derive_order_independent [of "rev example_rejected" example_rejected "''a1''"] by simp
qed

end
