(* ===== verification/Sched_Base.thy ===== *)
theory Sched_Base
  imports Decisions Work_Queue Opportunity_Repo Execution "HOL-Library.AList"
begin

text \<open>
  The data of \<^verbatim>\<open>SchedulerService\<close> (\<^verbatim>\<open>app/scheduler/service.py\<close>): what a pass loads (\<^verbatim>\<open>_load\<close>, \<^verbatim>\<open>_reindex\<close>)
  and the reconciliation of attempts with the queue, the preparations and the policy
  (\<^verbatim>\<open>_reconcile\<close>). The session's identity map makes the rows of a context live references: here
  the context keeps primary keys, and \<open>ctx_view\<close> reads the rows of the moment.
\<close>

section \<open>Parameters\<close>

text \<open>The geography and role assessments, the answer bank and the preparation worker are the
  environment's; \<open>sv_prepare\<close> commits on its own and may raise.\<close>

record sched_env =
  sv_tenant :: string
  sv_actor :: string
  sv_policy :: application_policy
  sv_zone :: zone
  sv_geo_active :: bool
  sv_assess_job :: "job_row \<Rightarrow> geo_assessment"
  sv_wants_roles :: bool
  sv_relevance_for :: "job_row \<Rightarrow> role_assessment"
  sv_answers_at :: "db \<Rightarrow> time option"
  sv_fresh :: "db \<Rightarrow> string"
  sv_prepare :: "string \<Rightarrow> nat \<Rightarrow> time \<Rightarrow> db \<Rightarrow> json result \<times> db"
  sv_exec :: exec_env

section \<open>Counters\<close>

type_synonym counter = "string \<Rightarrow> int"

definition no_counts :: counter where
  "no_counts = (\<lambda>_. 0)"

definition bump :: "string \<Rightarrow> int \<Rightarrow> counter \<Rightarrow> counter" where
  "bump k n c = c(k := c k + n)"

lemma bump_apply [simp]: "bump k n c k' = (if k' = k then c k + n else c k')"
  by (simp add: bump_def)

text \<open>A loop whose body may raise.\<close>

fun fold_result :: "('a \<Rightarrow> 's \<Rightarrow> 's result) \<Rightarrow> 'a list \<Rightarrow> 's \<Rightarrow> 's result" where
  "fold_result f [] s = Inr s"
| "fold_result f (x # xs) s = bind_result (f x s) (fold_result f xs)"

lemma fold_result_inv:
  assumes "\<And>x s s'. x \<in> set xs \<Longrightarrow> I s \<Longrightarrow> f x s = Inr s' \<Longrightarrow> I s'"
  shows "fold_result f xs s = Inr s' \<Longrightarrow> I s \<Longrightarrow> I s'"
  using assms
proof (induction xs arbitrary: s)
  case (Cons x xs)
  from Cons.prems(1) obtain s1 where s1: "f x s = Inr s1" "fold_result f xs s1 = Inr s'" by auto
  moreover have "I s1" by (rule Cons.prems(3) [OF _ Cons.prems(2) s1(1)]) simp
  ultimately show ?case using Cons.IH [of s1] Cons.prems(3) by auto
qed simp

lemma fold_result_total:
  assumes "\<And>x s. x \<in> set xs \<Longrightarrow> I s \<Longrightarrow> \<exists>s'. f x s = Inr s' \<and> I s'"
  shows "I s \<Longrightarrow> \<exists>s'. fold_result f xs s = Inr s' \<and> I s'"
  using assms
proof (induction xs arbitrary: s)
  case (Cons x xs)
  then obtain s1 where "f x s = Inr s1" "I s1" by (meson list.set_intros(1))
  then show ?case using Cons.IH [of s1] Cons.prems(2) by (simp add: bind_result_def)
qed simp

text \<open>A dict built from pairs in order: the last value of a key stays.\<close>

definition dict_of :: "('k \<times> 'v) list \<Rightarrow> 'k \<rightharpoonup> 'v" where
  "dict_of xs = map_of (rev xs)"

section \<open>What a pass loads\<close>

record sched_ctx =
  sx_policy :: application_policy
  sx_now :: time
  sx_cooldown :: cooldown_index
  sx_duplicates :: duplicate_index
  sx_attempts :: "(string \<times> string) list"
  sx_items :: "string \<rightharpoonup> string"
  sx_preparations :: "string \<rightharpoonup> string"
  sx_legacy :: "string \<rightharpoonup> string"
  sx_geography :: "string \<rightharpoonup> geo_assessment"
  sx_relevance :: "string \<rightharpoonup> role_assessment"

definition ctx_view :: "sched_ctx \<Rightarrow> db \<Rightarrow> decision_context" where
  "ctx_view ctx d =
     \<lparr>ctx_policy = sx_policy ctx, ctx_now = sx_now ctx, ctx_cooldown = sx_cooldown ctx, ctx_duplicates = sx_duplicates ctx,
      ctx_attempts = (\<lambda>oid. Option.bind (map_of (sx_attempts ctx) oid) (get_application d)),
      ctx_queue_items = (\<lambda>oid. Option.bind (sx_items ctx oid) (get_item d)),
      ctx_preparations = (\<lambda>cid. Option.bind (sx_preparations ctx cid) (get_preparation d)),
      ctx_geography = sx_geography ctx, ctx_relevance = sx_relevance ctx\<rparr>"

definition tenant_candidates :: "string \<Rightarrow> db \<Rightarrow> candidate_opportunity_row list" where
  "tenant_candidates tenant d = filter (\<lambda>c. co_tenant_id c = tenant) (candidates_t d)"

text \<open>\<^verbatim>\<open>by_opportunity\<close>; (tenant, opportunity) is unique, so no key occurs twice.\<close>

definition by_opportunity :: "string \<Rightarrow> db \<Rightarrow> (string \<times> application_row) list" where
  "by_opportunity tenant d =
     List.map_filter (\<lambda>a. if a_tenant_id a = Some tenant then map_option (\<lambda>oid. (oid, a)) (a_opportunity_id a) else None)
       (applications_t d)"

definition legacy_by_job :: "string list \<Rightarrow> db \<Rightarrow> (string \<rightharpoonup> string)" where
  "legacy_by_job job_ids d =
     dict_of (map (\<lambda>a. (a_job_id a, a_id a)) (filter (\<lambda>a. a_tenant_id a = None \<and> a_job_id a \<in> set job_ids) (applications_t d)))"

definition prepare_items :: "string \<Rightarrow> db \<Rightarrow> (string \<rightharpoonup> string)" where
  "prepare_items tenant d =
     dict_of (map (\<lambda>q. (q_opportunity_id q, q_id q)) (filter (\<lambda>q. q_tenant_id q = tenant \<and> q_action q = QA_PREPARE) (queue_t d)))"

definition latest_preparations :: "string \<Rightarrow> db \<Rightarrow> (string \<rightharpoonup> string)" where
  "latest_preparations tenant d =
     map_of (map (\<lambda>p. (p_candidate_opportunity_id p, p_id p))
       (sort_key (\<lambda>p. (p_candidate_opportunity_id p, - p_version p)) (filter (\<lambda>p. p_tenant_id p = tenant) (preparations_t d))))"

definition opportunities_of :: "string \<Rightarrow> db \<Rightarrow> (string \<rightharpoonup> opportunity_row)" where
  "opportunities_of tenant d oid =
     (if oid \<in> set (map co_opportunity_id (tenant_candidates tenant d)) then get_opportunity d oid else None)"

definition job_signals ::
  "sched_env \<Rightarrow> db \<Rightarrow> (string \<rightharpoonup> geo_assessment) \<times> (string \<rightharpoonup> role_assessment)" where
  "job_signals sv d =
     (let job = (\<lambda>oid. Option.bind (Option.bind (opportunities_of (sv_tenant sv) d oid) o_canonical_job_id)
                          (\<lambda>j. if j = [] then None else get_job d j))
      in (\<lambda>oid. if sv_geo_active sv then map_option (sv_assess_job sv) (job oid) else None,
          \<lambda>oid. if sv_wants_roles sv then map_option (sv_relevance_for sv) (job oid) else None))"

definition candidate_pairs :: "string \<Rightarrow> db \<Rightarrow> (candidate_opportunity_row \<times> opportunity_row) list" where
  "candidate_pairs tenant d =
     List.map_filter (\<lambda>c. map_option (Pair c) (get_opportunity d (co_opportunity_id c))) (tenant_candidates tenant d)"

definition sched_load :: "sched_env \<Rightarrow> time \<Rightarrow> db \<Rightarrow> (string \<times> string) list \<times> sched_ctx" where
  "sched_load sv now d =
     (let policy = sv_policy sv; candidates = tenant_candidates (sv_tenant sv) d;
          attempts = by_opportunity (sv_tenant sv) d;
          (cooldown, duplicates) = build_indexes attempts (opportunities_of (sv_tenant sv) d) candidates (cooldown_days policy);
          (geography, relevance) = job_signals sv d;
          pairs = candidate_pairs (sv_tenant sv) d;
          legacy = legacy_by_job (filter (\<lambda>j. j \<noteq> []) (List.map_filter (\<lambda>(c, o'). o_canonical_job_id o') pairs)) d
      in (map (\<lambda>(c, o'). (co_id c, o_id o')) (sort_key (\<lambda>(c, o'). ordering_key c o' (relevance (o_id o'))) pairs),
          \<lparr>sx_policy = policy, sx_now = now, sx_cooldown = cooldown, sx_duplicates = duplicates,
           sx_attempts = map (\<lambda>(oid, a). (oid, a_id a)) attempts, sx_items = prepare_items (sv_tenant sv) d,
           sx_preparations = latest_preparations (sv_tenant sv) d, sx_legacy = legacy,
           sx_geography = geography, sx_relevance = relevance\<rparr>))"

text \<open>\<^verbatim>\<open>_reindex\<close>.\<close>

definition attempt_rows :: "sched_ctx \<Rightarrow> db \<Rightarrow> (string \<times> application_row) list" where
  "attempt_rows ctx d = List.map_filter (\<lambda>(oid, aid). map_option (Pair oid) (get_application d aid)) (sx_attempts ctx)"

definition reindex :: "(string \<times> string) list \<Rightarrow> db \<Rightarrow> sched_ctx \<Rightarrow> sched_ctx" where
  "reindex ordered d ctx =
     (let opportunities = (\<lambda>oid. if oid \<in> snd ` set ordered then get_opportunity d oid else None);
          (cooldown, duplicates) = build_indexes (attempt_rows ctx d) opportunities
            (List.map_filter (\<lambda>(cid, _). get_candidate d cid) ordered) (cooldown_days (sx_policy ctx))
      in ctx\<lparr>sx_cooldown := cooldown, sx_duplicates := duplicates\<rparr>)"

section \<open>Reconcile\<close>

definition answers_arrived :: "queue_row \<Rightarrow> preparation_row option \<Rightarrow> time option \<Rightarrow> bool" where
  "answers_arrived item prep answers_at =
     (case answers_at of
        None \<Rightarrow> False
      | Some t \<Rightarrow>
          let error = str_or (q_last_error item) [];
              waiting = starts_with ''needs_user_input'' error \<or>
                (\<not> starts_with ''policy: '' error \<and> map_option p_status prep = Some PS_NEEDS_USER_INPUT)
          in waiting \<and> q_updated_at item < t)"

definition stop_reason ::
  "application_policy \<Rightarrow> candidate_opportunity_row \<Rightarrow> opportunity_row \<Rightarrow> queue_row option \<Rightarrow> (string \<times> application_status) option" where
  "stop_reason policy co opp item =
     (if o_status opp = OPP_CLOSED \<or> co_state co = OS_CLOSED then Some (''opportunity closed'', AS_CLOSED)
      else if co_state co = OS_SKIPPED then Some (''skipped by candidate'', AS_CLOSED)
      else if company_key (Some (o_company opp)) \<in> set (map (\<lambda>c. company_key (Some c)) (blocked_companies policy))
      then Some (''company blocked by policy'', AS_CLOSED)
      else if map_option q_state item = Some QS_FAILED then Some (''preparation failed permanently'', AS_FAILED)
      else if map_option q_state item = Some QS_CANCELLED then Some (''queue item cancelled'', AS_CLOSED)
      else if co_policy_admitted co = Some False \<and> map_option q_state item = Some QS_BLOCKED \<and>
              starts_with ''policy: '' (str_or (Option.bind item q_last_error) [])
      then Some (''not admitted by the application policy'', AS_CLOSED)
      else None)"

type_synonym recon_state = "period_cache \<times> counter \<times> db"

definition reconcile_stop ::
  "sched_env \<Rightarrow> string \<Rightarrow> time \<Rightarrow> candidate_opportunity_row \<Rightarrow> queue_row option \<Rightarrow> application_row \<Rightarrow> string \<Rightarrow> application_status \<Rightarrow>
   recon_state \<Rightarrow> recon_state result" where
  "reconcile_stop sv run_id now co item row reason status st =
     (let (ensured, counts, d) = st; (_, e1, d1) = release_attempt (sv_tenant sv) row status reason run_id now ensured d
      in bind_result
           (case item of
              Some i \<Rightarrow> if q_state i \<in> {QS_PENDING, QS_RETRY_WAIT, QS_BLOCKED, QS_NEEDS_REVIEW}
                        then bind_result (queue_cancel (sv_tenant sv) (sv_actor sv) (Some (''scheduler: '' @ reason)) now i d1) (\<lambda>(_, d'). Inr d')
                        else Inr d1
            | None \<Rightarrow> Inr d1) (\<lambda>d2.
         bind_result
           (if status = AS_CLOSED \<and> reason = ''opportunity closed'' \<and> co_state co \<noteq> OS_CLOSED
            then (case co_transition (sv_tenant sv) co OS_CLOSED (sv_actor sv) (Some reason) False now d2 of
                    Inr (_, d') \<Rightarrow> Inr d'
                  | Inl (ConflictError _) \<Rightarrow> Inr d2
                  | Inl e \<Rightarrow> Inl e)
            else Inr d2) (\<lambda>d3.
         Inr (e1, bump ''released'' 1 counts, d3))))"

definition settle_ready :: "string \<Rightarrow> time \<Rightarrow> application_row \<Rightarrow> preparation_row \<Rightarrow> counter \<times> db \<Rightarrow> counter \<times> db" where
  "settle_ready run_id now row prep st =
     (let (counts, d) = st;
          (changed, row', d') = (if a_status row \<in> {AS_QUALIFIED, AS_PREPARING} then mark_ready row (p_id prep) run_id now d
                                 else (False, row, d));
          c1 = (if changed then bump ''marked_ready'' 1 counts else counts)
      in (if a_status row' = AS_READY then bump ''ready_for_execution'' 1 c1 else c1, d'))"

definition reconcile_parked ::
  "sched_env \<Rightarrow> string \<Rightarrow> time option \<Rightarrow> time \<Rightarrow> queue_row \<Rightarrow> preparation_row option \<Rightarrow> application_row \<Rightarrow>
   counter \<times> db \<Rightarrow> (counter \<times> db) result" where
  "reconcile_parked sv run_id answers_at now i prep row st =
     (let (counts, d) = st in
      if q_state i = QS_BLOCKED \<and> answers_arrived i prep answers_at
      then bind_result (queue_requeue (sv_tenant sv) (sv_actor sv) (Some ''answer bank updated since this item was blocked'') True False now i d)
             (\<lambda>(_, d1). let (_, _, d2) = mark_preparing row (map_option p_id prep) run_id ''answer_bank_updated'' now d1
                        in Inr (bump ''reprepare_requeued'' 1 counts, d2))
      else if q_state i \<in> {QS_BLOCKED, QS_NEEDS_REVIEW}
      then let (_, _, d1) = mark_preparing row (map_option p_id prep) run_id (py_lower (queue_state_value (q_state i))) now d
           in Inr (bump (if q_state i = QS_BLOCKED then ''needs_user_input'' else ''needs_review'') 1 counts, d1)
      else Inr (counts, d))"

definition reconcile_live ::
  "sched_env \<Rightarrow> string \<Rightarrow> time option \<Rightarrow> time \<Rightarrow> queue_row option \<Rightarrow> preparation_row option \<Rightarrow> application_row \<Rightarrow>
   counter \<times> db \<Rightarrow> (counter \<times> db) result" where
  "reconcile_live sv run_id answers_at now item prep row st =
     (let (counts, d) = st in
      if a_status row \<in> {AS_BLOCKED, AS_NEEDS_USER_INPUT, AS_NEEDS_REVIEW, AS_SUBMITTING}
      then Inr (bump (if a_status row = AS_NEEDS_USER_INPUT then ''needs_user_input'' else ''needs_review'') 1 counts, d)
      else if a_status row \<in> SUBMITTED_STATUSES then Inr (counts, d)
      else case item of
        None \<Rightarrow> Inr (counts, d)
      | Some i \<Rightarrow>
          (case prep of
             Some p \<Rightarrow>
               if q_state i = QS_SUCCEEDED \<and> p_status p = PS_READY then Inr (settle_ready run_id now row p (counts, d))
               else if q_state i \<in> {QS_BLOCKED, QS_NEEDS_REVIEW} \<and> p_status p = PS_READY
               then bind_result (queue_resolve (sv_tenant sv) (sv_actor sv)
                       (JObj [(''outcome'', JStr ''READY_FOR_EXECUTION''), (''preparation_id'', JStr (p_id p)),
                              (''preparation_version'', JInt (p_version p))])
                       (Some (''preparation READY after the candidate'' @ [CHR 0x27] @ ''s answers'')) now i d)
                      (\<lambda>(_, d1). Inr (settle_ready run_id now row p (counts, d1)))
               else reconcile_parked sv run_id answers_at now i (Some p) row (counts, d)
           | None \<Rightarrow> reconcile_parked sv run_id answers_at now i None row (counts, d)))"

text \<open>The loop body of \<^verbatim>\<open>_reconcile\<close> for one entry of \<open>ctx.attempts\<close>; an attempt whose opening is not
  in the pass, or that holds no slot, is left alone.\<close>

definition reconcile_one ::
  "sched_env \<Rightarrow> sched_ctx \<Rightarrow> (string \<times> string) list \<Rightarrow> string \<Rightarrow> time option \<Rightarrow> time \<Rightarrow> string \<times> string \<Rightarrow> recon_state \<Rightarrow>
   recon_state result" where
  "reconcile_one sv ctx ordered run_id answers_at now entry st =
     (let (oid, aid) = entry; (ensured, counts, d) = st in
      case get_application d aid of
        None \<Rightarrow> Inl (RuntimeError ''ObjectDeletedError'')
      | Some row \<Rightarrow>
          if \<not> holds_slot row then Inr st
          else case (Option.bind (dict_of (map (\<lambda>(c, o'). (o', c)) ordered) oid) (get_candidate d), get_opportunity d oid) of
            (Some co, Some opp) \<Rightarrow>
              (let item = Option.bind (sx_items ctx oid) (get_item d);
                   prep = Option.bind (sx_preparations ctx (co_id co)) (get_preparation d)
               in case stop_reason (sx_policy ctx) co opp item of
                    Some (reason, status) \<Rightarrow> reconcile_stop sv run_id now co item row reason status st
                  | None \<Rightarrow>
                      bind_result (reconcile_live sv run_id answers_at now item prep row (counts, d))
                        (\<lambda>(counts', d'). Inr (ensured, counts', d')))
          | _ \<Rightarrow> Inr st)"

definition reconcile ::
  "sched_env \<Rightarrow> sched_ctx \<Rightarrow> (string \<times> string) list \<Rightarrow> string \<Rightarrow> time \<Rightarrow> period_cache \<Rightarrow> db \<Rightarrow> recon_state result" where
  "reconcile sv ctx ordered run_id now ensured d =
     fold_result (reconcile_one sv ctx ordered run_id (sv_answers_at sv d) now) (sx_attempts ctx) (ensured, no_counts, d)"

section \<open>A concrete pass\<close>

text \<open>Two open roles at Acme, both fit; new ids are built from all the old ones, and the preparation worker
  finds nothing to do.\<close>

definition example_pass_env :: sched_env where
  "example_pass_env =
     \<lparr>sv_tenant = ''t1'', sv_actor = ''scheduler'', sv_policy = example_policy, sv_zone = fixed_zone 0, sv_geo_active = False,
      sv_assess_job = (\<lambda>_. \<lparr>ga_tier = GT_NO_TARGET, ga_in_policy = True, ga_detail = []\<rparr>), sv_wants_roles = False,
      sv_relevance_for = (\<lambda>_. \<lparr>ra_relevance = RELEVANT, ra_family = [], ra_detail = [], ra_in_policy = True\<rparr>), sv_answers_at = (\<lambda>_. None),
      sv_fresh = (\<lambda>d. ''x'' @ concat (map a_id (applications_t d)) @ concat (map q_id (queue_t d))),
      sv_prepare = (\<lambda>_ _ _ d. (Inr JNull, d)),
      sv_exec = \<lparr>x_tenant = ''t1'', x_actor = ''system'', x_policy = example_policy, x_zone = fixed_zone 0, x_modes = Map.empty,
        x_max_attempts = 3, x_lease_seconds = 600, x_fresh = (\<lambda>d. ''x'' @ concat (map q_id (queue_t d))), x_stale = (\<lambda>_ _. Inr []),
        x_documents = (\<lambda>_ _. []), x_ats_family = (\<lambda>_ _. ''GREENHOUSE''), x_blocking = (\<lambda>_ _ _. (0, 0)), x_emit = (\<lambda>_ _ d. d),
        x_executors = Map.empty\<rparr>\<rparr>"

definition example_fit :: candidate_opportunity_row where
  "example_fit = example_co\<lparr>co_state := OS_ELIGIBLE, co_application_id := None, co_policy_admitted := None\<rparr>"

definition example_pass_db :: db where
  "example_pass_db = empty_db
     \<lparr>opportunities_t := [example_opp, example_opp\<lparr>o_id := ''opp-2'', o_title := ''Architect'', o_company := ''ACME inc'', o_canonical_job_id := Some ''job-2''\<rparr>],
      candidates_t := [example_fit, example_fit\<lparr>co_id := ''co-2'', co_opportunity_id := ''opp-2''\<rparr>]\<rparr>"

end
