(* ===== verification/Sched_Reconcile.thy ===== *)
theory Sched_Reconcile
  imports Sched_Base
begin

text \<open>
  What \<^verbatim>\<open>_reconcile\<close> does: it never raises, and it takes the slot away from exactly the attempts that
  have a reason to stop. \<open>only_changes\<close> bounds what one entry touches (its attempt, its PREPARE item,
  its candidate opportunity), so the entries of a pass are independent of each other.
\<close>

section \<open>What an operation touches\<close>

definition only_changes :: "string set \<Rightarrow> string set \<Rightarrow> string set \<Rightarrow> db \<Rightarrow> db \<Rightarrow> bool" where
  "only_changes apps its cos d d' \<longleftrightarrow>
     (\<forall>k. k \<notin> apps \<longrightarrow> get_application d' k = get_application d k) \<and>
     (\<forall>k. k \<notin> its \<longrightarrow> get_item d' k = get_item d k) \<and>
     (\<forall>k. k \<notin> cos \<longrightarrow> get_candidate d' k = get_candidate d k) \<and>
     get_opportunity d' = get_opportunity d \<and> get_preparation d' = get_preparation d"

lemma only_changes_refl [simp]: "only_changes apps its cos d d"
  by (simp add: only_changes_def)

lemma only_changes_trans:
  "only_changes A I C d d1 \<Longrightarrow> only_changes A' I' C' d1 d2 \<Longrightarrow> only_changes (A \<union> A') (I \<union> I') (C \<union> C') d d2"
  by (simp add: only_changes_def)

lemma only_changes_mono:
  "only_changes A I C d d' \<Longrightarrow> A \<subseteq> A' \<Longrightarrow> I \<subseteq> I' \<Longrightarrow> C \<subseteq> C' \<Longrightarrow> only_changes A' I' C' d d'"
  by (auto simp: only_changes_def)

lemma reads_writes:
  "get_application (put_candidate c d) = get_application d" "get_application (put_item q d) = get_application d"
  "get_item (put_candidate c d) = get_item d" "get_item (put_application a d) = get_item d"
  "get_candidate (put_item q d) = get_candidate d" "get_candidate (put_application a d) = get_candidate d"
  "get_opportunity (put_candidate c d) = get_opportunity d" "get_opportunity (put_item q d) = get_opportunity d"
  "get_opportunity (put_application a d) = get_opportunity d"
  "get_preparation (put_candidate c d) = get_preparation d" "get_preparation (put_item q d) = get_preparation d"
  "get_preparation (put_application a d) = get_preparation d"
  by (simp_all add: store_defs fun_eq_iff)

lemma reads_event:
  "get_application (add_event a ev f u m d) = get_application d" "get_item (add_event a ev f u m d) = get_item d"
  "get_candidate (add_event a ev f u m d) = get_candidate d" "get_opportunity (add_event a ev f u m d) = get_opportunity d"
  "get_preparation (add_event a ev f u m d) = get_preparation d"
  by (simp_all add: store_defs add_event_def fun_eq_iff)

lemma reads_audit:
  "get_application (audit_record t et ei ac ar be af su d) = get_application d" "get_item (audit_record t et ei ac ar be af su d) = get_item d"
  "get_candidate (audit_record t et ei ac ar be af su d) = get_candidate d"
  "get_opportunity (audit_record t et ei ac ar be af su d) = get_opportunity d"
  "get_preparation (audit_record t et ei ac ar be af su d) = get_preparation d"
  by (simp_all add: store_defs audit_record_def fun_eq_iff)

lemma reads_release:
  "get_application (snd (cap_release t dk wk e d)) = get_application d" "get_item (snd (cap_release t dk wk e d)) = get_item d"
  "get_candidate (snd (cap_release t dk wk e d)) = get_candidate d" "get_opportunity (snd (cap_release t dk wk e d)) = get_opportunity d"
  "get_preparation (snd (cap_release t dk wk e d)) = get_preparation d"
  by (auto simp: store_defs fun_eq_iff cap_release_def cap_release_one_def cap_ensure_def Let_def case_prod_unfold split: option.splits)

lemmas reads = reads_writes reads_event reads_audit reads_release queue_record_def co_record_def

text \<open>The writes of the attempt repository on the row they were given.\<close>

lemma attempt_release_touches:
  assumes "release_attempt t row s reason run_id now e d = (row', e', d')" and "get_application d (a_id row) = Some row"
    and "holds_slot row"
  shows "only_changes {a_id row} {} {} d d' \<and> get_application d' (a_id row) = Some row' \<and> \<not> holds_slot row'"
  using assms
  by (auto simp: release_attempt_def flush_application_def Let_def case_prod_unfold only_changes_def reads applications.get_put holds_slot_def)

lemma mark_effect:
  assumes "get_application d (a_id row) = Some row"
  shows "only_changes {a_id row} {} {} d (snd (snd (mark_ready row p run_id now d)))"
    and "get_application (snd (snd (mark_ready row p run_id now d))) (a_id row) = Some (fst (snd (mark_ready row p run_id now d)))"
    and "holds_slot (fst (snd (mark_ready row p run_id now d))) = holds_slot row"
    and "only_changes {a_id row} {} {} d (snd (snd (mark_preparing row q run_id n now d)))"
    and "get_application (snd (snd (mark_preparing row q run_id n now d))) (a_id row) = Some (fst (snd (mark_preparing row q run_id n now d)))"
    and "holds_slot (fst (snd (mark_preparing row q run_id n now d))) = holds_slot row"
  using assms by (auto simp: mark_ready_def mark_preparing_def flush_application_def Let_def only_changes_def reads applications.get_put holds_slot_def)

lemma item_effect:
  "queue_cancel t actor r now i d = Inr (i', d') \<Longrightarrow> only_changes {} {q_id i} {} d d'"
  "queue_resolve t actor j r now i d = Inr (i', d') \<Longrightarrow> only_changes {} {q_id i} {} d d'"
  "queue_requeue t actor r b b' now i d = Inr (i', d') \<Longrightarrow> only_changes {} {q_id i} {} d d'"
  by (auto simp: queue_cancel_def queue_resolve_def queue_requeue_def cancel_row_def resolve_row_def requeue_row_def only_changes_def reads
      items.get_put Let_def split: if_splits)

lemma co_transition_touches:
  "co_transition t co s actor r f now d = Inr (co', d') \<Longrightarrow> only_changes {} {} {co_id co} d d'"
  by (auto simp: co_transition_def co_move_def only_changes_def reads candidates.get_put split: if_splits)

section \<open>One entry\<close>

text \<open>Whether the pass has a reason to stop the attempt of an opening, in the database of the moment.\<close>

definition stopped_at :: "sched_ctx \<Rightarrow> (string \<times> string) list \<Rightarrow> db \<Rightarrow> string \<Rightarrow> bool" where
  "stopped_at ctx ordered d oid =
     (case (Option.bind (dict_of (map (\<lambda>(c, o'). (o', c)) ordered) oid) (get_candidate d), get_opportunity d oid) of
        (Some co, Some opp) \<Rightarrow> stop_reason (sx_policy ctx) co opp (Option.bind (sx_items ctx oid) (get_item d)) \<noteq> None
      | _ \<Rightarrow> False)"

lemma parked_effect:
  assumes "get_application d (a_id row) = Some row"
  obtains c' d' row' where "reconcile_parked sv run_id t now i prep row (c, d) = Inr (c', d')"
    and "only_changes {a_id row} {q_id i} {} d d'" and "get_application d' (a_id row) = Some row'" and "holds_slot row' = holds_slot row"
proof (cases "q_state i = QS_BLOCKED \<and> answers_arrived i prep t")
  case True
  then obtain i' d1 where r: "queue_requeue (sv_tenant sv) (sv_actor sv) (Some ''answer bank updated since this item was blocked'') True False now i d = Inr (i', d1)"
    by (auto simp: queue_requeue_def Let_def)
  have o1: "only_changes {} {q_id i} {} d d1" using item_effect(3) [OF r] .
  then have "get_application d1 (a_id row) = Some row" using assms by (simp add: only_changes_def)
  note m = mark_effect(4-6) [OF this, of "map_option p_id prep" run_id "''answer_bank_updated''" now]
  show ?thesis
    by (rule that [OF _ only_changes_mono [OF only_changes_trans [OF o1 m(1)]] m(2,3)]) (use True r in \<open>auto simp: reconcile_parked_def case_prod_unfold\<close>)
next
  case False
  note m = mark_effect(4-6) [OF assms, of "map_option p_id prep" run_id "py_lower (queue_state_value (q_state i))" now]
  show ?thesis
  proof (cases "q_state i \<in> {QS_BLOCKED, QS_NEEDS_REVIEW}")
    case True
    show ?thesis
      by (rule that [of "bump (if q_state i = QS_BLOCKED then ''needs_user_input'' else ''needs_review'') 1 c", OF _ only_changes_mono [OF m(1)] m(2,3)])
        (use True False in \<open>auto simp: reconcile_parked_def case_prod_unfold\<close>)
  next
    case other: False
    show ?thesis
      by (rule that [OF _ _ assms refl]) (use other False in \<open>auto simp: reconcile_parked_def\<close>)
  qed
qed

lemma settle_effect:
  assumes "get_application d (a_id row) = Some row"
  obtains c' d' row' where "settle_ready run_id now row p (c, d) = (c', d')"
    and "only_changes {a_id row} {} {} d d'" and "get_application d' (a_id row) = Some row'" and "holds_slot row' = holds_slot row"
proof (cases "a_status row \<in> {AS_QUALIFIED, AS_PREPARING}")
  case True
  note m = mark_effect(1-3) [OF assms, of "p_id p" run_id now]
  show ?thesis
    by (rule that [OF _ m]) (use True in \<open>auto simp: settle_ready_def case_prod_unfold Let_def\<close>)
next
  case False
  show ?thesis by (rule that [OF _ only_changes_refl assms refl]) (use False in \<open>auto simp: settle_ready_def\<close>)
qed

lemma live_effect:
  assumes "get_application d (a_id row) = Some row"
  obtains c' d' row' where "reconcile_live sv run_id t now item prep row (c, d) = Inr (c', d')"
    and "only_changes {a_id row} (set_option (map_option q_id item)) {} d d'" and "get_application d' (a_id row) = Some row'"
    and "holds_slot row' = holds_slot row"
proof (cases "a_status row \<in> {AS_BLOCKED, AS_NEEDS_USER_INPUT, AS_NEEDS_REVIEW, AS_SUBMITTING} \<or> a_status row \<in> SUBMITTED_STATUSES \<or> item = None")
  case True
  then have "\<exists>c'. reconcile_live sv run_id t now item prep row (c, d) = Inr (c', d)" by (auto simp: reconcile_live_def)
  then show ?thesis using that [OF _ only_changes_refl assms refl] by blast
next
  case False
  then obtain i where i: "item = Some i" by auto
  have live: "a_status row \<notin> {AS_BLOCKED, AS_NEEDS_USER_INPUT, AS_NEEDS_REVIEW, AS_SUBMITTING}" "a_status row \<notin> SUBMITTED_STATUSES"
    using False by simp_all
  show ?thesis
  proof (cases "map_option p_status prep = Some PS_READY \<and> q_state i \<in> {QS_SUCCEEDED, QS_BLOCKED, QS_NEEDS_REVIEW}")
    case True
    then obtain p where p: "prep = Some p" "p_status p = PS_READY" by auto
    show ?thesis
    proof (cases "q_state i = QS_SUCCEEDED")
      case ready: True
      obtain c' d' row' where s: "settle_ready run_id now row p (c, d) = (c', d')" "only_changes {a_id row} {} {} d d'"
        "get_application d' (a_id row) = Some row'" "holds_slot row' = holds_slot row" using settle_effect [OF assms] .
      show ?thesis by (rule that [OF _ only_changes_mono [OF s(2)] s(3,4)]) (use s(1) p i ready live in \<open>auto simp: reconcile_live_def\<close>)
    next
      case parked: False
      let ?j = "JObj [(''outcome'', JStr ''READY_FOR_EXECUTION''), (''preparation_id'', JStr (p_id p)), (''preparation_version'', JInt (p_version p))]"
      let ?r = "Some (''preparation READY after the candidate'' @ [CHR 0x27] @ ''s answers'')"
      from parked True obtain i' d1 where r: "queue_resolve (sv_tenant sv) (sv_actor sv) ?j ?r now i d = Inr (i', d1)"
        by (auto simp: queue_resolve_def Let_def)
      have o1: "only_changes {} {q_id i} {} d d1" using item_effect(2) [OF r] .
      then have "get_application d1 (a_id row) = Some row" using assms by (simp add: only_changes_def)
      from settle_effect [OF this] obtain c' d' row' where s: "settle_ready run_id now row p (c, d1) = (c', d')" "only_changes {a_id row} {} {} d1 d'"
        "get_application d' (a_id row) = Some row'" "holds_slot row' = holds_slot row" .
      show ?thesis
        by (rule that [OF _ only_changes_mono [OF only_changes_trans [OF o1 s(2)]] s(3,4)]) (use s(1) r p i parked True live in \<open>auto simp: reconcile_live_def\<close>)
    qed
  next
    case parked: False
    obtain c' d' row' where s: "reconcile_parked sv run_id t now i prep row (c, d) = Inr (c', d')"
      "only_changes {a_id row} {q_id i} {} d d'" "get_application d' (a_id row) = Some row'" "holds_slot row' = holds_slot row"
      using parked_effect [OF assms] .
    show ?thesis
      by (rule that [OF _ only_changes_mono [OF s(2)] s(3,4)]) (use s(1) i parked live in \<open>auto simp: reconcile_live_def split: option.splits\<close>)
  qed
qed

lemma stop_effect:
  assumes row: "get_application d (a_id row) = Some row" "holds_slot row"
  obtains e' d' row' where "reconcile_stop sv run_id now co item row reason status (e, c, d) = Inr (e', bump ''released'' 1 c, d')"
    and "only_changes {a_id row} (set_option (map_option q_id item)) {co_id co} d d'" and "get_application d' (a_id row) = Some row'"
    and "\<not> holds_slot row'"
proof -
  obtain row' e1 d1 where r: "release_attempt (sv_tenant sv) row status reason run_id now e d = (row', e1, d1)" by (rule prod_cases3)
  note e = attempt_release_touches [OF r row]
  obtain d2 where c: "(case item of
              Some i \<Rightarrow> if q_state i \<in> {QS_PENDING, QS_RETRY_WAIT, QS_BLOCKED, QS_NEEDS_REVIEW}
                        then bind_result (queue_cancel (sv_tenant sv) (sv_actor sv) (Some (''scheduler: '' @ reason)) now i d1) (\<lambda>(_, d'). Inr d')
                        else Inr d1
            | None \<Rightarrow> Inr d1) = Inr d2" "only_changes {} (set_option (map_option q_id item)) {} d1 d2"
  proof (cases "\<exists>i. item = Some i \<and> q_state i \<in> {QS_PENDING, QS_RETRY_WAIT, QS_BLOCKED, QS_NEEDS_REVIEW}")
    case True
    then obtain i where i: "item = Some i" "q_state i \<in> {QS_PENDING, QS_RETRY_WAIT, QS_BLOCKED, QS_NEEDS_REVIEW}" by blast
    obtain i' d2 where q: "queue_cancel (sv_tenant sv) (sv_actor sv) (Some (''scheduler: '' @ reason)) now i d1 = Inr (i', d2)"
      using i by (auto simp: queue_cancel_def Let_def)
    show ?thesis by (rule that) (use i q item_effect(1) [OF q] in auto)
  next
    case False
    show ?thesis by (rule that [of d1]) (use False in \<open>auto split: option.splits\<close>)
  qed
  obtain d3 where t: "(if status = AS_CLOSED \<and> reason = ''opportunity closed'' \<and> co_state co \<noteq> OS_CLOSED
            then (case co_transition (sv_tenant sv) co OS_CLOSED (sv_actor sv) (Some reason) False now d2 of
                    Inr (_, d') \<Rightarrow> Inr d'
                  | Inl (ConflictError _) \<Rightarrow> Inr d2
                  | Inl e \<Rightarrow> Inl e)
            else Inr d2) = (Inr d3 :: db result)" "only_changes {} {} {co_id co} d2 d3"
  proof (cases "co_transition (sv_tenant sv) co OS_CLOSED (sv_actor sv) (Some reason) False now d2")
    case (Inl err)
    then obtain m where "err = ConflictError m" by (auto simp: co_transition_def co_move_def bind_result_Inl_iff split: if_splits)
    with Inl show ?thesis by (intro that [of d2]) (auto cong: if_cong)
  next
    case (Inr x)
    let ?b = "status = AS_CLOSED \<and> reason = ''opportunity closed'' \<and> co_state co \<noteq> OS_CLOSED"
    have eq: "(if ?b then (case co_transition (sv_tenant sv) co OS_CLOSED (sv_actor sv) (Some reason) False now d2 of
                    Inr (_, d') \<Rightarrow> Inr d' | Inl (ConflictError _) \<Rightarrow> Inr d2 | Inl e \<Rightarrow> Inl e) else Inr d2) =
        (Inr (if ?b then snd x else d2) :: db result)"
      unfolding Inr by (cases x) simp
    have "only_changes {} {} {co_id co} d2 (if ?b then snd x else d2)"
      using co_transition_touches [of "sv_tenant sv" co OS_CLOSED "sv_actor sv" "Some reason" False now d2 "fst x" "snd x"] Inr by simp
    with eq show ?thesis by (rule that)
  qed
  show ?thesis
    by (rule that [of e1 d3 row'])
      (use r c(1) t(1) e only_changes_trans [OF only_changes_trans [OF conjunct1 [OF e] c(2)] t(2)] c(2) t(2) in
        \<open>auto simp: reconcile_stop_def only_changes_def\<close>)
qed

lemma one_effect:
  assumes row: "get_application d aid = Some row"
  obtains e' c' d' row' where "reconcile_one sv ctx ordered run_id t now (oid, aid) (e, c, d) = Inr (e', c', d')"
    and "only_changes {aid} (set_option (sx_items ctx oid)) (set_option (dict_of (map (\<lambda>(c, o'). (o', c)) ordered) oid)) d d'"
    and "get_application d' aid = Some row'" and "holds_slot row' \<longleftrightarrow> holds_slot row \<and> \<not> stopped_at ctx ordered d oid"
proof -
  let ?D = "dict_of (map (\<lambda>(c, o'). (o', c)) ordered) oid"
  have aid: "a_id row = aid" using row by (rule applications.get_key)
  show ?thesis
  proof (cases "holds_slot row \<and> Option.bind ?D (get_candidate d) \<noteq> None \<and> get_opportunity d oid \<noteq> None")
    case False
    show ?thesis
      by (rule that [OF _ only_changes_refl row]) (use row False in \<open>auto simp: reconcile_one_def stopped_at_def split: option.splits\<close>)
  next
    case True
    then obtain co opp where held: "holds_slot row" and co: "Option.bind ?D (get_candidate d) = Some co" and opp: "get_opportunity d oid = Some opp"
      by auto
    obtain cid where cid: "?D = Some cid" "get_candidate d cid = Some co" using co by (auto simp: bind_eq_Some_conv)
    have cok: "co_id co = cid" using cid(2) by (rule candidates.get_key)
    define item where "item = Option.bind (sx_items ctx oid) (get_item d)"
    have items: "set_option (map_option q_id item) \<subseteq> set_option (sx_items ctx oid)"
      using items.get_key by (fastforce simp: item_def bind_eq_Some_conv)
    let ?prep = "Option.bind (sx_preparations ctx (co_id co)) (get_preparation d)"
    have at: "reconcile_one sv ctx ordered run_id t now (oid, aid) (e, c, d) =
        (case stop_reason (sx_policy ctx) co opp item of
           Some (reason, status) \<Rightarrow> reconcile_stop sv run_id now co item row reason status (e, c, d)
         | None \<Rightarrow> bind_result (reconcile_live sv run_id t now item ?prep row (c, d)) (\<lambda>(counts', d'). Inr (e, counts', d')))"
      and st: "stopped_at ctx ordered d oid \<longleftrightarrow> stop_reason (sx_policy ctx) co opp item \<noteq> None"
      unfolding item_def using row held co opp by (simp_all add: reconcile_one_def stopped_at_def Let_def)
    show ?thesis
    proof (cases "stop_reason (sx_policy ctx) co opp item")
      case None
      obtain c' d' row' where l: "reconcile_live sv run_id t now item ?prep row (c, d) = Inr (c', d')"
        "only_changes {a_id row} (set_option (map_option q_id item)) {} d d'" "get_application d' (a_id row) = Some row'"
        "holds_slot row' = holds_slot row" using live_effect [of d row] row aid by metis
      show ?thesis
        by (rule that [OF _ only_changes_mono [OF l(2)] l(3) [unfolded aid]]) (use l at st None aid items held in auto)
    next
      case (Some rs)
      obtain reason status where rs: "rs = (reason, status)" by (rule prod.exhaust)
      obtain e' d' row' where s: "reconcile_stop sv run_id now co item row reason status (e, c, d) = Inr (e', bump ''released'' 1 c, d')"
        "only_changes {a_id row} (set_option (map_option q_id item)) {co_id co} d d'" "get_application d' (a_id row) = Some row'"
        "\<not> holds_slot row'" using stop_effect [of d row] row aid held by metis
      show ?thesis
        by (rule that [OF _ only_changes_mono [OF s(2)] s(3) [unfolded aid]]) (use s at st Some rs aid items held cok cid in auto)
    qed
  qed
qed

section \<open>The loop\<close>

text \<open>The keys of a context do not overlap: no two openings share an attempt, a PREPARE item or a
  candidate opportunity.\<close>

definition one_to_one :: "('k \<rightharpoonup> 'v) \<Rightarrow> bool" where
  "one_to_one m \<longleftrightarrow> (\<forall>k k' v. m k = Some v \<longrightarrow> m k' = Some v \<longrightarrow> k = k')"

definition ctx_keys :: "sched_ctx \<Rightarrow> (string \<times> string) list \<Rightarrow> bool" where
  "ctx_keys ctx ordered \<longleftrightarrow> distinct (map fst (sx_attempts ctx)) \<and> distinct (map snd (sx_attempts ctx)) \<and>
     one_to_one (sx_items ctx) \<and> one_to_one (dict_of (map (\<lambda>(c, o'). (o', c)) ordered))"

lemma one_to_one_sets: "one_to_one m \<Longrightarrow> k \<noteq> k' \<Longrightarrow> v \<in> set_option (m k) \<Longrightarrow> v \<notin> set_option (m k')"
  by (auto simp: one_to_one_def)

lemma stopped_at_cong:
  assumes "only_changes A (set_option (sx_items ctx oid)) (set_option (dict_of (map (\<lambda>(c, o'). (o', c)) ordered) oid)) d d'"
    and "one_to_one (sx_items ctx)" and "one_to_one (dict_of (map (\<lambda>(c, o'). (o', c)) ordered))" and "oid' \<noteq> oid"
  shows "stopped_at ctx ordered d' oid' = stopped_at ctx ordered d oid'"
proof -
  have "Option.bind (sx_items ctx oid') (get_item d') = Option.bind (sx_items ctx oid') (get_item d)"
    using assms(1) one_to_one_sets [OF assms(2,4)] by (cases "sx_items ctx oid'") (auto simp: only_changes_def)
  moreover have "Option.bind (dict_of (map (\<lambda>(c, o'). (o', c)) ordered) oid') (get_candidate d') =
      Option.bind (dict_of (map (\<lambda>(c, o'). (o', c)) ordered) oid') (get_candidate d)"
    using assms(1) one_to_one_sets [OF assms(3,4)]
    by (cases "dict_of (map (\<lambda>(c, o'). (o', c)) ordered) oid'") (auto simp: only_changes_def)
  moreover have "get_opportunity d' = get_opportunity d" using assms(1) by (simp add: only_changes_def)
  ultimately show ?thesis unfolding stopped_at_def by (simp only:)
qed

lemma reconcile_loop:
  assumes "distinct (map fst xs)" and "distinct (map snd xs)" and "one_to_one (sx_items ctx)"
    and "one_to_one (dict_of (map (\<lambda>(c, o'). (o', c)) ordered))"
    and "\<And>oid aid. (oid, aid) \<in> set xs \<Longrightarrow> get_application d aid \<noteq> None"
  shows "\<exists>e' c' d'. fold_result (reconcile_one sv ctx ordered run_id t now) xs (e, c, d) = Inr (e', c', d') \<and>
    (\<forall>k. k \<notin> snd ` set xs \<longrightarrow> get_application d' k = get_application d k) \<and>
    (\<forall>(oid, aid) \<in> set xs. \<exists>row row'. get_application d aid = Some row \<and> get_application d' aid = Some row' \<and>
       (holds_slot row' \<longleftrightarrow> holds_slot row \<and> \<not> stopped_at ctx ordered d oid))"
  using assms
proof (induction xs arbitrary: e c d)
  case (Cons x xs)
  obtain oid aid where x: "x = (oid, aid)" by (rule prod.exhaust)
  obtain row where row: "get_application d aid = Some row" using Cons.prems(5) [of oid aid] x by auto
  from one_effect [OF this] obtain e1 c1 d1 row1 where
    one: "reconcile_one sv ctx ordered run_id t now (oid, aid) (e, c, d) = Inr (e1, c1, d1)"
    and ch: "only_changes {aid} (set_option (sx_items ctx oid)) (set_option (dict_of (map (\<lambda>(c, o'). (o', c)) ordered) oid)) d d1"
    and r1: "get_application d1 aid = Some row1" "holds_slot row1 \<longleftrightarrow> holds_slot row \<and> \<not> stopped_at ctx ordered d oid" .
  have new: "oid \<notin> fst ` set xs" "aid \<notin> snd ` set xs" using Cons.prems(1,2) x by auto
  have same: "get_application d1 k = get_application d k" if "k \<noteq> aid" for k using ch that by (simp add: only_changes_def)
  have "get_application d1 k \<noteq> None" if "(o', k) \<in> set xs" for o' k
    using Cons.prems(5) [of o' k] that same [of k] r1 by (cases "k = aid") auto
  then obtain e' c' d' where r: "fold_result (reconcile_one sv ctx ordered run_id t now) xs (e1, c1, d1) = Inr (e', c', d')"
    and out: "\<forall>k. k \<notin> snd ` set xs \<longrightarrow> get_application d' k = get_application d1 k"
    and each: "\<forall>(oid, aid) \<in> set xs. \<exists>row row'. get_application d1 aid = Some row \<and> get_application d' aid = Some row' \<and>
       (holds_slot row' \<longleftrightarrow> holds_slot row \<and> \<not> stopped_at ctx ordered d1 oid)"
    using Cons.IH [of d1 e1 c1] Cons.prems(1-4) by force
  have st: "stopped_at ctx ordered d1 o' = stopped_at ctx ordered d o'" if "(o', k) \<in> set xs" for o' k
    by (rule stopped_at_cong [OF ch Cons.prems(3,4)]) (use new that in force)
  have app: "get_application d1 k = get_application d k" if "(o', k) \<in> set xs" for o' k
    by (rule same) (use new that in force)
  have "\<forall>(oid, aid) \<in> set xs. \<exists>row row'. get_application d aid = Some row \<and> get_application d' aid = Some row' \<and>
       (holds_slot row' \<longleftrightarrow> holds_slot row \<and> \<not> stopped_at ctx ordered d oid)"
    using each st app by fastforce
  moreover have "\<forall>k. k \<notin> snd ` set (x # xs) \<longrightarrow> get_application d' k = get_application d k" using out same x by auto
  ultimately show ?case using one r row r1 out new x by auto
qed simp

section \<open>The context of a loaded pass\<close>

text \<open>The unique constraints a pass relies on: primary keys, and one attempt per (tenant, opportunity).\<close>

definition pipeline_keys :: "string \<Rightarrow> db \<Rightarrow> bool" where
  "pipeline_keys tenant d \<longleftrightarrow> distinct (map a_id (applications_t d)) \<and> distinct (map q_id (queue_t d)) \<and>
     distinct (map co_id (candidates_t d)) \<and> distinct (map fst (by_opportunity tenant d))"

lemma dict_of_in: "dict_of xs k = Some v \<Longrightarrow> (k, v) \<in> set xs"
  unfolding dict_of_def by (drule map_of_SomeD) simp

lemma by_opportunity_in:
  "(oid, a) \<in> set (by_opportunity tenant d) \<longleftrightarrow> a \<in> set (applications_t d) \<and> a_tenant_id a = Some tenant \<and> a_opportunity_id a = Some oid"
  by (auto simp: by_opportunity_def in_map_filter split: if_splits)

lemma by_opportunity_ids: "distinct (map a_id (applications_t d)) \<Longrightarrow> distinct (map (a_id \<circ> snd) (by_opportunity tenant d))"
proof -
  have sub: "map (a_id \<circ> snd) (List.map_filter f as) = map a_id (filter (\<lambda>a. f a \<noteq> None) as)"
    if "\<And>a x y. f a = Some (x, y) \<Longrightarrow> y = a" for f :: "application_row \<Rightarrow> (string \<times> application_row) option" and as
    by (induction as) (auto dest: that split: option.split)
  show "distinct (map a_id (applications_t d)) \<Longrightarrow> ?thesis"
    unfolding by_opportunity_def by (subst sub) (auto simp: distinct_map inj_on_def split: if_splits)
qed

lemma loaded_keys:
  assumes "pipeline_keys (sv_tenant sv) d" and "sched_load sv now d = (ordered, ctx)"
  shows "ctx_keys ctx ordered" and "sx_attempts ctx = map (\<lambda>(oid, a). (oid, a_id a)) (by_opportunity (sv_tenant sv) d)"
proof -
  show att: "sx_attempts ctx = map (\<lambda>(oid, a). (oid, a_id a)) (by_opportunity (sv_tenant sv) d)"
    using assms(2) by (auto simp: sched_load_def Let_def case_prod_unfold)
  have it: "sx_items ctx = prepare_items (sv_tenant sv) d" using assms(2) by (auto simp: sched_load_def Let_def case_prod_unfold)
  have ord: "ordered = map (\<lambda>(c, o'). (co_id c, o_id o')) (sort_key (\<lambda>(c, o'). ordering_key c o' (sx_relevance ctx (o_id o'))) (candidate_pairs (sv_tenant sv) d))"
    using assms(2) by (auto simp: sched_load_def Let_def case_prod_unfold)
  have "q_opportunity_id x = q_opportunity_id y" if "x \<in> set (queue_t d)" "y \<in> set (queue_t d)" "q_id x = q_id y" for x y
    using key_inj [OF _ that] assms(1) by (simp add: pipeline_keys_def)
  moreover have "\<exists>q. q \<in> set (queue_t d) \<and> q_id q = v \<and> q_opportunity_id q = k" if "sx_items ctx k = Some v" for k v
    using that unfolding it prepare_items_def by (auto dest!: dict_of_in)
  ultimately have "one_to_one (sx_items ctx)" unfolding one_to_one_def by metis
  moreover have "one_to_one (dict_of (map (\<lambda>(c, o'). (o', c)) ordered))"
    unfolding one_to_one_def
  proof (intro allI impI)
    fix k k' v
    let ?M = "dict_of (map (\<lambda>(c, o'). (o', c)) ordered)"
    have "\<exists>c. c \<in> set (candidates_t d) \<and> co_id c = v \<and> co_opportunity_id c = k" if "?M k = Some v" for k
      using dict_of_in [OF that] opportunities.get_key
      by (fastforce simp: ord candidate_pairs_def tenant_candidates_def in_map_filter)
    moreover assume "?M k = Some v" "?M k' = Some v"
    ultimately obtain c c' where "c \<in> set (candidates_t d)" "co_id c = v" "co_opportunity_id c = k"
      "c' \<in> set (candidates_t d)" "co_id c' = v" "co_opportunity_id c' = k'" by blast
    then show "k = k'" using key_inj [of co_id "candidates_t d" c c'] assms(1) by (simp add: pipeline_keys_def)
  qed
  moreover have "distinct (map fst (sx_attempts ctx))" "distinct (map snd (sx_attempts ctx))"
    using assms(1) by_opportunity_ids [of d "sv_tenant sv"] unfolding att pipeline_keys_def by (simp_all add: comp_def case_prod_unfold)
  ultimately show "ctx_keys ctx ordered" by (simp add: ctx_keys_def)
qed

text \<open>An attempt whose opening closed.\<close>

definition example_stopped_db :: db where
  "example_stopped_db = example_pass_db\<lparr>opportunities_t := [example_opp\<lparr>o_status := OPP_CLOSED\<rparr>], applications_t := [example_attempt]\<rparr>"

section \<open>Properties\<close>

text \<open>C19. Reconciliation never raises, whatever states the rows are in, and it frees exactly the slots it
  should: after the loop an attempt of the tenant holds a slot exactly when it held one and its opening
  gives no reason to stop (opening or candidate closed, skipped, company blocked, preparation failed or
  cancelled, or refused by the policy); attempts of other tenants and openings are not touched.\<close>

theorem reconcile_frees_exactly:
  assumes "pipeline_keys (sv_tenant sv) d" and "sched_load sv now d = (ordered, ctx)"
  shows "\<exists>e' c' d'. reconcile sv ctx ordered run_id now e d = Inr (e', c', d') \<and>
    (\<forall>a \<in> set (applications_t d). \<exists>a'. get_application d' (a_id a) = Some a' \<and>
       (holds_slot a' \<longleftrightarrow> holds_slot a \<and>
          \<not> (a_tenant_id a = Some (sv_tenant sv) \<and> (\<exists>oid. a_opportunity_id a = Some oid \<and> stopped_at ctx ordered d oid))))"
proof -
  note keys = loaded_keys [OF assms]
  have get: "get_application d (a_id a) = Some a" if "a \<in> set (applications_t d)" for a
    using tbl_get_distinct [OF _ that, of a_id] assms(1) by (simp add: pipeline_keys_def get_application_def)
  have in_att: "(oid, aid) \<in> set (sx_attempts ctx) \<longleftrightarrow> (\<exists>a. (oid, a) \<in> set (by_opportunity (sv_tenant sv) d) \<and> a_id a = aid)" for oid aid
    by (force simp: keys(2))
  obtain e' c' d' where r: "reconcile sv ctx ordered run_id now e d = Inr (e', c', d')"
    and out: "\<forall>k. k \<notin> snd ` set (sx_attempts ctx) \<longrightarrow> get_application d' k = get_application d k"
    and each: "\<forall>(oid, aid) \<in> set (sx_attempts ctx). \<exists>row row'. get_application d aid = Some row \<and> get_application d' aid = Some row' \<and>
       (holds_slot row' \<longleftrightarrow> holds_slot row \<and> \<not> stopped_at ctx ordered d oid)"
    using reconcile_loop [of "sx_attempts ctx" ctx ordered d sv run_id "sv_answers_at sv d" now e no_counts] keys(1) get
    unfolding ctx_keys_def reconcile_def by (force simp: in_att by_opportunity_in)
  have "\<exists>a'. get_application d' (a_id a) = Some a' \<and> (holds_slot a' \<longleftrightarrow> holds_slot a \<and>
        \<not> (a_tenant_id a = Some (sv_tenant sv) \<and> (\<exists>oid. a_opportunity_id a = Some oid \<and> stopped_at ctx ordered d oid)))"
    if a: "a \<in> set (applications_t d)" for a
  proof -
    show "\<exists>a'. get_application d' (a_id a) = Some a' \<and> (holds_slot a' \<longleftrightarrow> holds_slot a \<and>
        \<not> (a_tenant_id a = Some (sv_tenant sv) \<and> (\<exists>oid. a_opportunity_id a = Some oid \<and> stopped_at ctx ordered d oid)))"
    proof (cases "\<exists>oid. a_tenant_id a = Some (sv_tenant sv) \<and> a_opportunity_id a = Some oid")
      case True
      then obtain oid where oid: "a_tenant_id a = Some (sv_tenant sv)" "a_opportunity_id a = Some oid" by blast
      then have "(oid, a_id a) \<in> set (sx_attempts ctx)" using a by (auto simp: in_att by_opportunity_in)
      with each get [OF a] oid show ?thesis by fastforce
    next
      case False
      have "a_id a \<notin> snd ` set (sx_attempts ctx)"
      proof
        assume "a_id a \<in> snd ` set (sx_attempts ctx)"
        then obtain oid b where "b \<in> set (applications_t d)" "a_tenant_id b = Some (sv_tenant sv)" "a_opportunity_id b = Some oid" "a_id b = a_id a"
          by (auto simp: in_att by_opportunity_in)
        then show False using False key_inj [of a_id "applications_t d" b a] a assms(1) by (auto simp: pipeline_keys_def)
      qed
      with out get [OF a] False show ?thesis by auto
    qed
  qed
  with r show ?thesis by blast
qed

theorem reconcile_frees_exactly_witness:
  "\<exists>e' c' d'. reconcile example_pass_env (snd (sched_load example_pass_env 500 example_stopped_db))
       (fst (sched_load example_pass_env 500 example_stopped_db)) ''run-1'' 500 [] example_stopped_db = Inr (e', c', d') \<and>
     (\<exists>a'. get_application d' ''app-1'' = Some a' \<and> \<not> holds_slot a')"
proof -
  let ?l = "sched_load example_pass_env 500 example_stopped_db"
  have l: "?l = (fst ?l, snd ?l)" by simp
  have keys: "pipeline_keys (sv_tenant example_pass_env) example_stopped_db"
    by (simp split: option.split add: pipeline_keys_def example_stopped_db_def example_pass_db_def empty_db_def example_fit_def example_co_def
        by_opportunity_def List.map_filter_simps)
  have "stopped_at (snd ?l) (fst ?l) example_stopped_db ''opp-1''" by code_simp
  moreover have "example_attempt \<in> set (applications_t example_stopped_db)" by (simp add: example_stopped_db_def)
  moreover have "a_id example_attempt = ''app-1''" "a_tenant_id example_attempt = Some (sv_tenant example_pass_env)" "a_opportunity_id example_attempt = Some ''opp-1''"
    by code_simp+
  ultimately show ?thesis using reconcile_frees_exactly [OF keys l, of "''run-1''" "[]"] by (metis (no_types, lifting))
qed

end
