(* ===== verification/Scheduler.thy ===== *)
theory Scheduler
  imports Sched_Base
begin

text \<open>
  A pass of \<^verbatim>\<open>SchedulerService\<close> (\<^verbatim>\<open>app/scheduler/service.py\<close>): admission of one opportunity inside its
  savepoint (\<^verbatim>\<open>_admit\<close>), the stamp every considered row gets, the admission loop with its window,
  caps and commits, and \<^verbatim>\<open>run\<close> with its lease and its run record. Nothing is written by \<^verbatim>\<open>preview\<close>.
\<close>

section \<open>Constants\<close>

definition RUN_LEASE_SECONDS :: int where "RUN_LEASE_SECONDS = 600"
definition SAMPLE_LIMIT :: nat where "SAMPLE_LIMIT = 25"

definition PROGRESS_REASONS :: "admission_reason set" where
  "PROGRESS_REASONS = {AR_ADMITTED, AR_ALREADY_IN_PROGRESS, AR_ALREADY_SUBMITTED, AR_NEEDS_REVIEW, AR_NEEDS_USER_INPUT, AR_WINDOW_DEFERRED}"

definition STATIC_CODES :: "admission_reason set" where
  "STATIC_CODES = {AR_NOT_EVALUATED, AR_NOT_SCORED, AR_INELIGIBLE, AR_BELOW_MINIMUM_ELIGIBILITY, AR_BAND_DISABLED,
     AR_BELOW_FIT_THRESHOLD, AR_COMPANY_BLOCKED}"

definition QUEUED_FROM :: "opportunity_state set" where
  "QUEUED_FROM = {OS_ELIGIBLE, OS_UNCERTAIN, OS_SHORTLISTED, OS_PREPARED, OS_IN_REVIEW}"

section \<open>Admission\<close>

definition verdict_ruleset :: "verdict \<Rightarrow> string option" where
  "verdict_ruleset v = map_option rep_ruleset_version (v_gates v)"

definition verdict_gates :: "verdict \<Rightarrow> json option" where
  "verdict_gates v = map_option report_to_dict (v_gates v)"

text \<open>The PREPARE item of an admission: enqueued, found done (its package reused or prepared again), or
  kept as it is.\<close>

definition admit_item ::
  "sched_env \<Rightarrow> string \<Rightarrow> time \<Rightarrow> candidate_opportunity_row \<Rightarrow> lane \<Rightarrow> application_row \<Rightarrow> queue_row option \<Rightarrow> preparation_row option \<Rightarrow>
   db \<Rightarrow> (queue_row \<times> bool \<times> bool \<times> db) result" where
  "admit_item sv run_id now co ln attempt item prep d =
     (case item of
        None \<Rightarrow>
          bind_result (queue_enqueue (sv_tenant sv) co QA_PREPARE (sv_actor sv) ln (co_priority_score co) None DEFAULT_MAX_ATTEMPTS
              (sv_fresh sv d) now d)
            (\<lambda>(i, created, d'). Inr (i, created, False, d'))
      | Some i \<Rightarrow>
          if q_state i \<noteq> QS_SUCCEEDED then Inr (i, False, False, d)
          else if map_option p_status prep = Some PS_READY
          then let (_, _, d') = mark_ready attempt (p_id (the prep)) run_id now d in Inr (i, False, False, d')
          else bind_result (queue_requeue (sv_tenant sv) (sv_actor sv)
                   (Some (''scheduler run '' @ run_id @ '': preparation no longer READY'')) True True now i d)
                 (\<lambda>(i', d'). Inr (i', False, True, d')))"

definition admit_candidate ::
  "sched_env \<Rightarrow> application_policy \<Rightarrow> string \<Rightarrow> time \<Rightarrow> candidate_opportunity_row \<Rightarrow> verdict \<Rightarrow> application_row \<Rightarrow> queue_row \<Rightarrow>
   lane \<Rightarrow> tailoring_level \<Rightarrow> db \<Rightarrow> db result" where
  "admit_candidate sv policy run_id now co verdict attempt item ln level d =
     (let tenant = sv_tenant sv; co1 = co\<lparr>co_application_id := Some (a_id attempt)\<rparr>; d1 = put_candidate co1 d;
          (co2, d2) = (if co_policy_admitted co1 \<noteq> Some True \<or> co_policy_reason co1 \<noteq> Some (v_reason verdict) \<or>
                          co_admission_policy_version co1 \<noteq> Some (policy_version policy)
                       then record_admission tenant co1 True (v_reason verdict) (sv_actor sv) (Some (policy_version policy))
                              (verdict_ruleset verdict) (verdict_gates verdict) d1
                       else (co1, d1))
      in bind_result (if co_state co2 \<in> QUEUED_FROM
                      then co_transition tenant co2 OS_QUEUED (sv_actor sv) (Some (''scheduler run '' @ run_id)) False now d2
                      else Inr (co2, d2)) (\<lambda>(co3, d3).
         Inr (audit_record tenant ''candidate_opportunity'' (co_id co) ''scheduled'' (sv_actor sv) None
           (Some (JObj [(''run_id'', JStr run_id), (''queue_item_id'', JStr (q_id item)), (''application_id'', JStr (a_id attempt)),
                        (''lane'', JStr (lane_value ln)), (''tailoring_level'', JStr (tailoring_level_value level)),
                        (''policy_version'', JInt (policy_version policy)), (''gate_ruleset_version'', j_opt_str (verdict_ruleset verdict))]))
           (Some (v_reason verdict)) d3)))"

datatype admit_outcome =
    Refused admission_reason
  | Admitted (ao_attempt: application_row) (ao_item: queue_row) (ao_enqueued: bool) (ao_requeued: bool)

definition existing_attempt :: "sched_ctx \<Rightarrow> opportunity_row \<Rightarrow> db \<Rightarrow> application_row option" where
  "existing_attempt ctx opp d =
     opt_or (Option.bind (map_of (sx_attempts ctx) (o_id opp)) (get_application d))
            (Option.bind (sx_legacy ctx (str_or (o_canonical_job_id opp) [])) (get_application d))"

text \<open>The savepoint of \<^verbatim>\<open>_admit\<close>: an exception restores the tables, not the cache of the ledger object.\<close>

definition admit_db ::
  "sched_env \<Rightarrow> sched_ctx \<Rightarrow> period_keys \<Rightarrow> string \<Rightarrow> time \<Rightarrow> candidate_opportunity_row \<Rightarrow> opportunity_row \<Rightarrow> verdict \<Rightarrow>
   period_cache \<Rightarrow> db \<Rightarrow> admit_outcome result \<times> period_cache \<times> db" where
  "admit_db sv ctx keys run_id now co opp verdict ensured d =
     (case (v_lane verdict, v_level verdict) of
        (Some ln, Some level) \<Rightarrow>
          (let policy = sx_policy ctx;
               (r, e1, d1) = attempt_reserve (sv_tenant sv) co opp (pd_key (pk_day keys)) (pd_key (pk_week keys)) (daily_cap policy)
                 (weekly_cap policy) ln level (existing_attempt ctx opp d) run_id (sv_fresh sv d) now ensured d
           in case r of
                Inl err \<Rightarrow> (Inl err, e1, d)
              | Inr (Inr reason) \<Rightarrow> (Inr (Refused reason), e1, d1)
              | Inr (Inl attempt) \<Rightarrow>
                  (case bind_result (admit_item sv run_id now co ln attempt (Option.bind (sx_items ctx (o_id opp)) (get_item d1))
                               (Option.bind (sx_preparations ctx (co_id co)) (get_preparation d1)) d1)
                          (\<lambda>(item, enqueued, requeued, d2).
                             bind_result (admit_candidate sv policy run_id now co verdict attempt item ln level d2)
                               (\<lambda>d3. Inr (Admitted attempt item enqueued requeued, d3))) of
                     Inl err \<Rightarrow> (Inl err, e1, d)
                   | Inr (out, d3) \<Rightarrow> (Inr out, e1, d3)))
      | _ \<Rightarrow> (Inl (RuntimeError ''AttributeError''), ensured, d))"

text \<open>What an admission adds to the context of the pass.\<close>

definition admit_ctx :: "opportunity_row \<Rightarrow> application_row \<Rightarrow> queue_row \<Rightarrow> sched_ctx \<Rightarrow> sched_ctx" where
  "admit_ctx opp attempt item ctx =
     ctx\<lparr>sx_attempts := AList.update (o_id opp) (a_id attempt) (sx_attempts ctx),
         sx_items := (sx_items ctx)(o_id opp \<mapsto> q_id item),
         sx_cooldown := cooldown_add (o_company opp) (a_reserved_at attempt) (cooldown_days (sx_policy ctx)) ''in_progress'' (sx_cooldown ctx),
         sx_duplicates := (duplicate_key (o_company opp) (o_title opp), o_id opp) # sx_duplicates ctx\<rparr>"

section \<open>Stamp, tally, samples\<close>

definition stamp_reason :: "admission_reason \<Rightarrow> verdict \<Rightarrow> string" where
  "stamp_reason code verdict = take 256 (if code = v_code verdict then v_reason verdict else admission_reason_value code)"

definition stamp_row :: "admission_reason \<Rightarrow> verdict \<Rightarrow> string \<Rightarrow> time \<Rightarrow> candidate_opportunity_row \<Rightarrow> candidate_opportunity_row" where
  "stamp_row code verdict run_id now co =
     (let reason = stamp_reason code verdict;
          co1 = (if co_scheduler_code co \<noteq> Some code \<or> co_scheduler_reason co \<noteq> Some reason
                 then co\<lparr>co_scheduler_code := Some code, co_scheduler_reason := Some reason, co_scheduler_decided_at := Some now\<rparr>
                 else co)
      in co1\<lparr>co_scheduler_run_id := Some run_id\<rparr>)"

definition stamp ::
  "sched_env \<Rightarrow> application_policy \<Rightarrow> admission_reason \<Rightarrow> verdict \<Rightarrow> string \<Rightarrow> time \<Rightarrow> candidate_opportunity_row \<Rightarrow> db \<Rightarrow> db" where
  "stamp sv policy code verdict run_id now co d =
     (let co1 = stamp_row code verdict run_id now co; d1 = put_candidate co1 d
      in if code \<in> STATIC_CODES \<and> (co_policy_admitted co1 \<noteq> Some False \<or> co_policy_reason co1 \<noteq> Some (take 256 (v_reason verdict)) \<or>
             co_admission_policy_version co1 \<noteq> Some (policy_version policy))
         then snd (record_admission (sv_tenant sv) co1 False (v_reason verdict) (sv_actor sv) (Some (policy_version policy))
                     (verdict_ruleset verdict) (verdict_gates verdict) d1)
         else d1)"

definition tally :: "admission_reason \<Rightarrow> counter \<times> counter \<Rightarrow> counter \<times> counter" where
  "tally code cs =
     (let (counts, by_reason) = cs in
      if code = AR_ADMITTED then cs
      else ((case code of
               AR_WINDOW_DEFERRED \<Rightarrow> bump ''deferred'' 1 counts
             | AR_ALREADY_IN_PROGRESS \<Rightarrow> bump ''already_queued'' 1 counts
             | AR_ALREADY_SUBMITTED \<Rightarrow> bump ''already_completed'' 1 counts
             | AR_NEEDS_REVIEW \<Rightarrow> bump ''needs_review'' 1 counts
             | AR_NEEDS_USER_INPUT \<Rightarrow> bump ''needs_user_input'' 1 counts
             | _ \<Rightarrow> bump ''blocked'' 1 counts),
            if code \<notin> PROGRESS_REASONS \<or> code \<in> {AR_NEEDS_REVIEW, AR_NEEDS_USER_INPUT}
            then bump (admission_reason_value code) 1 by_reason else by_reason))"

type_synonym samples = "(string \<times> json list) list"

definition sample_of ::
  "admission_reason \<Rightarrow> candidate_opportunity_row \<Rightarrow> opportunity_row \<Rightarrow> verdict \<Rightarrow> (string \<times> json) list \<Rightarrow> json" where
  "sample_of code co opp verdict extra = JObj
     ([(''candidate_opportunity_id'', JStr (co_id co)), (''opportunity_id'', JStr (o_id opp)), (''company'', JStr (o_company opp)),
       (''title'', JStr (o_title opp)),
       (''reason'', JStr (if code = v_code verdict then v_reason verdict else admission_reason_value code)),
       (''priority'', j_opt_int (co_priority_score co)), (''fit'', j_opt_int (co_fit_score co)),
       (''band'', j_opt_enum fit_band_value (co_fit_band co))] @
      filter (\<lambda>(k, _). k \<in> {''queue_item_id'', ''application_id''}) extra)"

definition add_sample :: "admission_reason \<Rightarrow> json \<Rightarrow> samples \<Rightarrow> samples" where
  "add_sample code entry samples =
     (let bucket = (case map_of samples (admission_reason_value code) of Some b \<Rightarrow> b | None \<Rightarrow> [])
      in AList.update (admission_reason_value code) (if SAMPLE_LIMIT \<le> length bucket then bucket else bucket @ [entry]) samples)"

section \<open>The admission loop\<close>

text \<open>The local variables of \<^verbatim>\<open>run\<close>, the database and what was last committed. \<open>pa_failed\<close> is the exception
  that ended the loop: \<^verbatim>\<open>ConflictError\<close> and the other application errors of an admission do not.\<close>

record pass_state =
  pa_db :: db
  pa_committed :: db
  pa_ensured :: period_cache
  pa_ctx :: sched_ctx
  pa_counts :: counter
  pa_by_reason :: counter
  pa_samples :: samples
  pa_errors :: "string list"
  pa_cap_hit :: "admission_reason option"
  pa_pending :: int
  pa_failed :: "careeros_error option"
  pa_ordered :: "(string \<times> string) list"
  pa_recon :: counter
  pa_report :: "json option"

definition apply_counts :: "counter \<Rightarrow> (string \<times> int) list \<Rightarrow> scheduler_run_row \<Rightarrow> scheduler_run_row" where
  "apply_counts c by_reason run =
     run\<lparr>sr_considered := c ''considered'', sr_admissible := c ''admissible'', sr_admitted := c ''admitted'',
         sr_enqueued := c ''enqueued'', sr_requeued := c ''requeued'', sr_already_queued := c ''already_queued'',
         sr_already_completed := c ''already_completed'', sr_ready_for_execution := c ''ready_for_execution'',
         sr_needs_review := c ''needs_review'', sr_needs_user_input := c ''needs_user_input'', sr_released := c ''released'',
         sr_reprepare_requeued := c ''reprepare_requeued'', sr_execution_enqueued := c ''execution_enqueued'',
         sr_deferred := c ''deferred'', sr_blocked := c ''blocked'', sr_blocked_by_reason := by_reason\<rparr>"

text \<open>The counter \<^verbatim>\<open>by_reason\<close> as the dict of its keys: the reason codes that were counted.\<close>

definition reason_dict :: "counter \<Rightarrow> (string \<times> int) list" where
  "reason_dict c =
     List.map_filter (\<lambda>code. let k = admission_reason_value code in if c k = 0 then None else Some (k, c k))
       [AR_NOT_EVALUATED, AR_NOT_SCORED, AR_INELIGIBLE, AR_BELOW_MINIMUM_ELIGIBILITY, AR_BAND_DISABLED, AR_BELOW_FIT_THRESHOLD,
        AR_COMPANY_BLOCKED, AR_OUTSIDE_TARGET_GEOGRAPHY, AR_IRRELEVANT_ROLE, AR_COOLDOWN_ACTIVE, AR_DUPLICATE_APPLICATION,
        AR_DUPLICATE_OPPORTUNITY, AR_USER_BLOCKED, AR_OPPORTUNITY_CLOSED, AR_NEEDS_USER_INPUT, AR_NEEDS_REVIEW,
        AR_DAILY_CAP_REACHED, AR_WEEKLY_CAP_REACHED]"

definition get_sched_run :: "db \<Rightarrow> string \<Rightarrow> scheduler_run_row option" where
  "get_sched_run d k = tbl_get sr_id k (scheduler_runs_t d)"

definition put_sched_run :: "scheduler_run_row \<Rightarrow> db \<Rightarrow> db" where
  "put_sched_run r d = d\<lparr>scheduler_runs_t := tbl_put sr_id r (scheduler_runs_t d)\<rparr>"

text \<open>\<^verbatim>\<open>_heartbeat\<close> commits; the counts go to the run row.\<close>

definition pass_heartbeat :: "string \<Rightarrow> time \<Rightarrow> pass_state \<Rightarrow> pass_state" where
  "pass_heartbeat run_id now st =
     (let d = (case get_sched_run (pa_db st) run_id of
                 None \<Rightarrow> pa_db st
               | Some run \<Rightarrow> put_sched_run (apply_counts (pa_counts st) (reason_dict (pa_by_reason st)) (run\<lparr>sr_heartbeat_at := now\<rparr>)) (pa_db st))
      in st\<lparr>pa_db := d, pa_committed := d\<rparr>)"

text \<open>The end of an iteration: tally, sample, stamp, and the commit every \<open>commit_every\<close> admissions.\<close>

definition pass_close ::
  "sched_env \<Rightarrow> string \<Rightarrow> int \<Rightarrow> time \<Rightarrow> string \<Rightarrow> opportunity_row \<Rightarrow> verdict \<Rightarrow> admission_reason \<Rightarrow> (string \<times> json) list \<Rightarrow>
   pass_state \<Rightarrow> pass_state" where
  "pass_close sv run_id commit_every now cid opp verdict code extra st =
     (case get_candidate (pa_db st) cid of
        None \<Rightarrow> st\<lparr>pa_failed := Some (RuntimeError ''ObjectDeletedError'')\<rparr>
      | Some co \<Rightarrow>
          let (counts, by_reason) = tally code (pa_counts st, pa_by_reason st);
              st1 = st\<lparr>pa_counts := counts, pa_by_reason := by_reason,
                       pa_samples := add_sample code (sample_of code co opp verdict extra) (pa_samples st),
                       pa_db := stamp sv (sx_policy (pa_ctx st)) code verdict run_id now co (pa_db st)\<rparr>
          in if commit_every \<le> pa_pending st1 then (pass_heartbeat run_id now st1)\<lparr>pa_pending := 0\<rparr> else st1)"

text \<open>The branch that calls \<^verbatim>\<open>_admit\<close>: the resulting code and extra values, or \<open>None\<close> where the iteration
  ends (\<^verbatim>\<open>continue\<close>, or an exception that leaves the loop).\<close>

definition pass_admit ::
  "sched_env \<Rightarrow> period_keys \<Rightarrow> string \<Rightarrow> time \<Rightarrow> candidate_opportunity_row \<Rightarrow> opportunity_row \<Rightarrow> verdict \<Rightarrow> pass_state \<Rightarrow>
   (admission_reason \<times> (string \<times> json) list) option \<times> pass_state" where
  "pass_admit sv keys run_id now co opp verdict st =
     (let (r, e1, d1) = admit_db sv (pa_ctx st) keys run_id now co opp verdict (pa_ensured st) (pa_db st);
          st1 = st\<lparr>pa_ensured := e1, pa_db := d1\<rparr>;
          went = (\<lambda>en rq s. s\<lparr>pa_counts := bump ''requeued'' (if rq then 1 else 0) (bump ''enqueued'' (if en then 1 else 0)
                               (bump ''admitted'' 1 (pa_counts s))), pa_pending := pa_pending s + 1\<rparr>)
      in case r of
        Inr (Refused code) \<Rightarrow>
          (Some (code, []), if code \<in> {AR_DAILY_CAP_REACHED, AR_WEEKLY_CAP_REACHED} then st1\<lparr>pa_cap_hit := Some code\<rparr>
                            else went False False st1)
      | Inr (Admitted attempt item enqueued requeued) \<Rightarrow>
          (Some (AR_ADMITTED, [(''enqueued'', JBool enqueued), (''requeued'', JBool requeued), (''queue_item_id'', JStr (q_id item)),
                               (''application_id'', JStr (a_id attempt))]),
           went enqueued requeued (st1\<lparr>pa_ctx := admit_ctx opp attempt item (pa_ctx st)\<rparr>))
      | Inl (ConflictError m) \<Rightarrow> (Some (AR_ALREADY_IN_PROGRESS, [(''note'', JStr m)]), went False False st1)
      | Inl err \<Rightarrow>
          (None, case error_code err of
                   Some (code, m) \<Rightarrow> st1\<lparr>pa_errors := pa_errors st1 @ [co_id co @ '': '' @ code @ '': '' @ m]\<rparr>
                 | None \<Rightarrow> st1\<lparr>pa_failed := Some err\<rparr>))"

definition pass_step ::
  "sched_env \<Rightarrow> period_keys \<Rightarrow> string \<Rightarrow> int \<Rightarrow> int \<Rightarrow> time \<Rightarrow> string \<times> string \<Rightarrow> pass_state \<Rightarrow> pass_state" where
  "pass_step sv keys run_id window commit_every now pair st =
     (let (cid, oid) = pair; st0 = st\<lparr>pa_counts := bump ''considered'' 1 (pa_counts st)\<rparr> in
      case (get_candidate (pa_db st) cid, get_opportunity (pa_db st) oid) of
        (Some co, Some opp) \<Rightarrow>
          (case decide (ctx_view (pa_ctx st) (pa_db st)) co opp of
             None \<Rightarrow> st0\<lparr>pa_failed := Some (RuntimeError ''decide'')\<rparr>
           | Some verdict \<Rightarrow>
               if v_code verdict \<noteq> AR_ADMITTED then pass_close sv run_id commit_every now cid opp verdict (v_code verdict) [] st0
               else let st1 = st0\<lparr>pa_counts := bump ''admissible'' 1 (pa_counts st0)\<rparr> in
                 if window \<le> pa_counts st1 ''admitted'' then pass_close sv run_id commit_every now cid opp verdict AR_WINDOW_DEFERRED [] st1
                 else (case pa_cap_hit st1 of
                   Some code \<Rightarrow> pass_close sv run_id commit_every now cid opp verdict code [] st1
                 | None \<Rightarrow>
                     (case pass_admit sv keys run_id now co opp verdict st1 of
                        (None, st2) \<Rightarrow> st2
                      | (Some (code, extra), st2) \<Rightarrow> pass_close sv run_id commit_every now cid opp verdict code extra st2)))
      | _ \<Rightarrow> st0\<lparr>pa_failed := Some (RuntimeError ''ObjectDeletedError'')\<rparr>)"

fun pass_loop ::
  "sched_env \<Rightarrow> period_keys \<Rightarrow> string \<Rightarrow> int \<Rightarrow> int \<Rightarrow> time \<Rightarrow> (string \<times> string) list \<Rightarrow> pass_state \<Rightarrow> pass_state" where
  "pass_loop sv keys run_id window commit_every now [] st = st"
| "pass_loop sv keys run_id window commit_every now (pair # pairs) st =
     (let st' = pass_step sv keys run_id window commit_every now pair st
      in if pa_failed st' \<noteq> None then st' else pass_loop sv keys run_id window commit_every now pairs st')"

section \<open>The run\<close>

definition running_run :: "string \<Rightarrow> db \<Rightarrow> scheduler_run_row option" where
  "running_run tenant d =
     (case sort_key (\<lambda>r. - sr_started_at r) (filter (\<lambda>r. sr_tenant_id r = tenant \<and> sr_status r = ''RUNNING'') (scheduler_runs_t d)) of
        [] \<Rightarrow> None | r # _ \<Rightarrow> Some r)"

definition run_stale :: "time \<Rightarrow> scheduler_run_row \<Rightarrow> bool" where
  "run_stale now r \<longleftrightarrow> seconds RUN_LEASE_SECONDS < now - sr_heartbeat_at r"

definition superseded_run :: "time \<Rightarrow> scheduler_run_row \<Rightarrow> scheduler_run_row" where
  "superseded_run now r =
     r\<lparr>sr_status := ''FAILED'', sr_completed_at := Some now,
       sr_errors := sr_errors r @ [if run_stale now r then ''superseded: heartbeat stale'' else ''superseded: forced'']\<rparr>"

definition acquire :: "string \<Rightarrow> bool \<Rightarrow> time \<Rightarrow> db \<Rightarrow> unit result \<times> db" where
  "acquire tenant force now d =
     (case running_run tenant d of
        None \<Rightarrow> (Inr (), d)
      | Some r \<Rightarrow>
          if run_stale now r \<or> force then (Inr (), put_sched_run (superseded_run now r) d)
          else (Inl (ConflictError ''A scheduler run is already in progress for this tenant''), d))"

definition new_run :: "sched_env \<Rightarrow> string \<Rightarrow> int \<Rightarrow> string option \<Rightarrow> string \<Rightarrow> time \<Rightarrow> scheduler_run_row" where
  "new_run sv trigger window resumed_from run_id now =
     \<lparr>sr_id = run_id, sr_tenant_id = sv_tenant sv, sr_status = ''RUNNING'', sr_trigger = take 32 trigger, sr_actor = sv_actor sv,
      sr_dry_run = False, sr_policy_version = policy_version (sv_policy sv), sr_window_size = window,
      sr_resumed_from_run_id = resumed_from, sr_started_at = now, sr_heartbeat_at = now, sr_completed_at = None,
      sr_considered = 0, sr_admissible = 0, sr_admitted = 0, sr_enqueued = 0, sr_requeued = 0, sr_already_queued = 0,
      sr_already_completed = 0, sr_ready_for_execution = 0, sr_needs_review = 0, sr_needs_user_input = 0, sr_released = 0,
      sr_reprepare_requeued = 0, sr_execution_enqueued = 0, sr_deferred = 0, sr_blocked = 0, sr_blocked_by_reason = [],
      sr_samples = [], sr_preparation = None, sr_errors = []\<rparr>"

definition start_pass :: "sched_env \<Rightarrow> time \<Rightarrow> db \<Rightarrow> pass_state" where
  "start_pass sv now d =
     (let (ordered, ctx) = sched_load sv now d
      in \<lparr>pa_db = d, pa_committed = d, pa_ensured = [], pa_ctx = ctx, pa_counts = no_counts, pa_by_reason = no_counts,
          pa_samples = [], pa_errors = [], pa_cap_hit = None, pa_pending = 0, pa_failed = None, pa_ordered = ordered,
          pa_recon = no_counts, pa_report = None\<rparr>)"

text \<open>The phases of the \<^verbatim>\<open>try\<close> block. A phase that raises sets \<open>pa_failed\<close>.\<close>

definition reconcile_phase :: "sched_env \<Rightarrow> string \<Rightarrow> time \<Rightarrow> pass_state \<Rightarrow> pass_state" where
  "reconcile_phase sv run_id now st =
     (case reconcile sv (pa_ctx st) (pa_ordered st) run_id now (pa_ensured st) (pa_db st) of
        Inl e \<Rightarrow> st\<lparr>pa_failed := Some e\<rparr>
      | Inr (e1, recon, d1) \<Rightarrow>
          st\<lparr>pa_ensured := e1, pa_db := d1, pa_recon := recon,
             pa_counts := bump ''reprepare_requeued'' (recon ''reprepare_requeued'') (bump ''released'' (recon ''released'') (pa_counts st))\<rparr>)"

definition admit_phase :: "sched_env \<Rightarrow> string \<Rightarrow> int \<Rightarrow> int \<Rightarrow> time \<Rightarrow> pass_state \<Rightarrow> pass_state" where
  "admit_phase sv run_id window commit_every now st =
     (let ctx = (if pa_recon st ''released'' \<noteq> 0 then reindex (pa_ordered st) (pa_db st) (pa_ctx st) else pa_ctx st);
          st1 = pass_loop sv (period_keys_of (sv_zone sv) (sx_now ctx)) run_id window commit_every now (pa_ordered st)
                  (st\<lparr>pa_committed := pa_db st, pa_ctx := ctx\<rparr>)
      in if pa_failed st1 = None then pass_heartbeat run_id now st1 else st1)"

definition prepare_phase :: "sched_env \<Rightarrow> string \<Rightarrow> bool \<Rightarrow> nat \<Rightarrow> string option \<Rightarrow> time \<Rightarrow> pass_state \<Rightarrow> pass_state" where
  "prepare_phase sv run_id prepare limit worker now st =
     (if \<not> prepare then st\<lparr>pa_counts := (pa_counts st)(''ready_for_execution'' := pa_recon st ''ready_for_execution'')\<rparr>
      else let (r, d1) = sv_prepare sv (str_or worker (''scheduler:'' @ take 8 run_id)) limit now (pa_db st);
               st1 = st\<lparr>pa_db := d1, pa_committed := d1\<rparr>
           in case r of
                Inl e \<Rightarrow> st1\<lparr>pa_failed := Some e\<rparr>
              | Inr report \<Rightarrow>
                  (let (ordered, ctx) = sched_load sv now d1;
                       st2 = reconcile_phase sv run_id now (st1\<lparr>pa_report := Some report, pa_ordered := ordered, pa_ctx := ctx\<rparr>);
                       c = pa_counts st2
                   in if pa_failed st2 \<noteq> None then st2
                      else st2\<lparr>pa_counts :=
                             c(''ready_for_execution'' := pa_recon st2 ''ready_for_execution'',
                               ''needs_user_input'' := max (c ''needs_user_input'') (pa_recon st2 ''needs_user_input''),
                               ''needs_review'' := max (c ''needs_review'') (pa_recon st2 ''needs_review''))\<rparr>))"

definition enqueue_phase :: "sched_env \<Rightarrow> time \<Rightarrow> pass_state \<Rightarrow> pass_state" where
  "enqueue_phase sv now st =
     (case enqueue_ready ((sv_exec sv)\<lparr>x_tenant := sv_tenant sv, x_actor := sv_actor sv\<rparr>) 0 now (pa_db st) of
        Inl e \<Rightarrow> st\<lparr>pa_failed := Some e\<rparr>
      | Inr (outcomes, d1) \<Rightarrow>
          st\<lparr>pa_db := d1, pa_committed := d1,
             pa_counts := bump ''execution_enqueued'' (int (count_list outcomes ''enqueued'')) (pa_counts st)\<rparr>)"

definition unless_failed :: "(pass_state \<Rightarrow> pass_state) \<Rightarrow> pass_state \<Rightarrow> pass_state" where
  "unless_failed f st = (if pa_failed st = None then f st else st)"

definition run_phases ::
  "sched_env \<Rightarrow> string \<Rightarrow> int \<Rightarrow> bool \<Rightarrow> nat \<Rightarrow> string option \<Rightarrow> int \<Rightarrow> time \<Rightarrow> db \<Rightarrow> pass_state" where
  "run_phases sv run_id window prepare limit worker commit_every now d =
     unless_failed (enqueue_phase sv now)
       (unless_failed (prepare_phase sv run_id prepare limit worker now)
         (unless_failed (admit_phase sv run_id window commit_every now)
           (reconcile_phase sv run_id now (start_pass sv now d))))"

text \<open>The \<^verbatim>\<open>except\<close> branch rolls back to the last commit; the run record is written in any case.\<close>

definition settle_run :: "string \<Rightarrow> time \<Rightarrow> pass_state \<Rightarrow> scheduler_run_row result \<times> db" where
  "settle_run run_id now st =
     (let (d, status, errors) =
            (case pa_failed st of
               None \<Rightarrow> (pa_db st, ''COMPLETED'', pa_errors st)
             | Some e \<Rightarrow> (pa_committed st, ''FAILED'', pa_errors st @ [error_text e]))
      in case get_sched_run d run_id of
           None \<Rightarrow> (Inl (RuntimeError ''AttributeError''), d)
         | Some run \<Rightarrow>
             let run' = (apply_counts (pa_counts st) (reason_dict (pa_by_reason st))
                          (run\<lparr>sr_status := status, sr_completed_at := Some now, sr_heartbeat_at := now\<rparr>))
                        \<lparr>sr_samples := pa_samples st, sr_preparation := pa_report st, sr_errors := take 100 errors\<rparr>
             in (Inr run', put_sched_run run' d))"

definition sched_run ::
  "sched_env \<Rightarrow> string \<Rightarrow> int \<Rightarrow> bool \<Rightarrow> nat \<Rightarrow> string option \<Rightarrow> bool \<Rightarrow> int \<Rightarrow> string option \<Rightarrow> string \<Rightarrow> time \<Rightarrow> db \<Rightarrow>
   scheduler_run_row result \<times> db" where
  "sched_run sv trigger window prepare limit worker force commit_every resumed_from run_id now d =
     (if window < 1 then (Inl (ValidationFailed ''window must be at least 1''), d)
      else case acquire (sv_tenant sv) force now d of
        (Inl e, d1) \<Rightarrow> (Inl e, d1)
      | (Inr _, d1) \<Rightarrow>
          settle_run run_id now
            (run_phases sv run_id window prepare limit worker commit_every now
              (d1\<lparr>scheduler_runs_t := scheduler_runs_t d1 @ [new_run sv trigger window resumed_from run_id now]\<rparr>)))"

section \<open>The preview\<close>

record preview_state =
  pv_admissible :: int
  pv_would_admit :: int
  pv_deferred :: int
  pv_day_left :: int
  pv_week_left :: int
  pv_codes :: "(string \<times> admission_reason) list"

definition preview_step :: "decision_context \<Rightarrow> int \<Rightarrow> candidate_opportunity_row \<times> opportunity_row \<Rightarrow> preview_state \<Rightarrow> preview_state" where
  "preview_step ctx window pair p =
     (case decide ctx (fst pair) (snd pair) of
        None \<Rightarrow> p
      | Some verdict \<Rightarrow>
          let (code, p1) =
            (if v_code verdict \<noteq> AR_ADMITTED then (v_code verdict, p)
             else let p0 = p\<lparr>pv_admissible := pv_admissible p + 1\<rparr> in
               if window \<le> pv_would_admit p0 then (AR_WINDOW_DEFERRED, p0\<lparr>pv_deferred := pv_deferred p0 + 1\<rparr>)
               else if pv_day_left p0 \<le> 0 then (AR_DAILY_CAP_REACHED, p0)
               else if pv_week_left p0 \<le> 0 then (AR_WEEKLY_CAP_REACHED, p0)
               else (AR_ADMITTED, p0\<lparr>pv_would_admit := pv_would_admit p0 + 1, pv_day_left := pv_day_left p0 - 1,
                                     pv_week_left := pv_week_left p0 - 1\<rparr>))
          in p1\<lparr>pv_codes := pv_codes p1 @ [(co_id (fst pair), code)]\<rparr>)"

definition preview :: "sched_env \<Rightarrow> int \<Rightarrow> time \<Rightarrow> db \<Rightarrow> preview_state" where
  "preview sv window now d =
     (let (ordered, ctx) = sched_load sv now d; keys = period_keys_of (sv_zone sv) now; policy = sv_policy sv;
          left = (\<lambda>cap kind key. max 0 (cap - cap_usage (sv_tenant sv) kind key d));
          pairs = List.map_filter (\<lambda>(cid, oid). case (get_candidate d cid, get_opportunity d oid) of
                                     (Some co, Some opp) \<Rightarrow> Some (co, opp) | _ \<Rightarrow> None) ordered
      in fold (preview_step (ctx_view ctx d) window) pairs
           \<lparr>pv_admissible = 0, pv_would_admit = 0, pv_deferred = 0,
            pv_day_left = left (daily_cap policy) DAY (pd_key (pk_day keys)),
            pv_week_left = left (weekly_cap policy) WEEK (pd_key (pk_week keys)), pv_codes = []\<rparr>)"

definition ready_for_execution :: "string \<Rightarrow> db \<Rightarrow> application_row list" where
  "ready_for_execution tenant d =
     filter (\<lambda>a. a_tenant_id a = Some tenant \<and> a_status a = AS_READY \<and> a_released_at a = None \<and> a_preparation_id a \<noteq> None)
       (applications_t d)"

section \<open>History and capacity\<close>

definition sched_get_run :: "string \<Rightarrow> string \<Rightarrow> db \<Rightarrow> scheduler_run_row option" where
  "sched_get_run tenant run_id d = find (\<lambda>r. sr_tenant_id r = tenant \<and> sr_id r = run_id) (scheduler_runs_t d)"

definition newest_first :: "scheduler_run_row list \<Rightarrow> scheduler_run_row list" where
  "newest_first runs = rev (sort_key (\<lambda>r. (sr_started_at r, sr_id r)) runs)"

definition run_history :: "string \<Rightarrow> nat \<Rightarrow> nat \<Rightarrow> db \<Rightarrow> scheduler_run_row list \<times> nat" where
  "run_history tenant limit offset d =
     (let runs = filter (\<lambda>r. sr_tenant_id r = tenant) (scheduler_runs_t d) in (take limit (drop offset (newest_first runs)), length runs))"

definition last_run :: "string \<Rightarrow> db \<Rightarrow> scheduler_run_row option" where
  "last_run tenant d =
     (case newest_first (filter (\<lambda>r. sr_tenant_id r = tenant \<and> sr_status r \<noteq> ''RUNNING'') (scheduler_runs_t d)) of
        [] \<Rightarrow> None | r # _ \<Rightarrow> Some r)"

record period_usage =
  pu_kind :: string
  pu_key :: string
  pu_cap :: int
  pu_used :: int
  pu_remaining :: int
  pu_starts_at :: time
  pu_ends_at :: time

definition usage_of :: "string \<Rightarrow> period \<Rightarrow> int \<Rightarrow> int \<Rightarrow> period_usage" where
  "usage_of kind p cap used =
     \<lparr>pu_kind = kind, pu_key = pd_key p, pu_cap = cap, pu_used = used, pu_remaining = max 0 (cap - used),
      pu_starts_at = pd_starts_at p, pu_ends_at = pd_ends_at p\<rparr>"

text \<open>The limits part of \<^verbatim>\<open>capacity\<close>: the two periods, and whether a cap is paused.\<close>

definition capacity :: "sched_env \<Rightarrow> time \<Rightarrow> db \<Rightarrow> period_usage \<times> period_usage \<times> bool" where
  "capacity sv now d =
     (let policy = sv_policy sv; keys = period_keys_of (sv_zone sv) now;
          day_used = cap_usage (sv_tenant sv) DAY (pd_key (pk_day keys)) d; week_used = cap_usage (sv_tenant sv) WEEK (pd_key (pk_week keys)) d
      in (usage_of DAY (pk_day keys) (daily_cap policy) day_used, usage_of WEEK (pk_week keys) (weekly_cap policy) week_used,
          daily_cap policy \<le> 0 \<or> weekly_cap policy \<le> 0))"

end
