(* ===== verification/Sched_Slots.thy ===== *)
theory Sched_Slots
  imports Sched_Reconcile Scheduler
begin

text \<open>
  Slots during a pass. A rolled back admission leaves the ledger object with a cache that names rows
  the database does not have (\<open>attempt_conflict_poisons_ledger\<close>), so the contract \<open>cache_ok\<close> of the
  ledger does not hold along a pass. These are the facts about reservations and releases that hold
  for any cache: a missing row only makes the ledger refuse.
\<close>

section \<open>The ledger with any cache\<close>

lemma increment_any:
  assumes "ledger_inv d"
  shows "fst (cap_increment t kind key (Some c) d) \<longleftrightarrow> cap_get t kind key d \<noteq> None \<and> cap_count t d (kind, key) < c"
    and "cap_count t' (snd (cap_increment t kind key (Some c) d)) k =
      cap_count t' d k + (if t' = t \<and> k = (kind, key) \<and> fst (cap_increment t kind key (Some c) d) then 1 else 0)"
    and "ledger_inv (snd (cap_increment t kind key (Some c) d))"
proof -
  show inv: "ledger_inv (snd (cap_increment t kind key (Some c) d))"
    using assms by (simp add: cap_increment_def ledger_inv_update Let_def)
  show fst: "fst (cap_increment t kind key (Some c) d) \<longleftrightarrow> cap_get t kind key d \<noteq> None \<and> cap_count t d (kind, key) < c"
    using matches_period [OF assms, of t kind key "\<lambda>r. l_reserved r - l_released r < c"] increment_spec(1) [OF assms]
    by (cases "cap_get t kind key d") (auto simp: cap_increment_def cap_count_def)
  show "cap_count t' (snd (cap_increment t kind key (Some c) d)) k =
      cap_count t' d k + (if t' = t \<and> k = (kind, key) \<and> fst (cap_increment t kind key (Some c) d) then 1 else 0)"
  proof (cases "cap_get t kind key d = None")
    case True
    then have "cap_count t' (snd (cap_increment t kind key (Some c) d)) k = cap_count t' d k"
      by (cases "cap_get t' (fst k) (snd k) d") (auto simp: cap_count_def increment_get period_of_get)
    then show ?thesis using True fst by simp
  next
    case False
    then show ?thesis using increment_spec(2) [OF assms, where t' = t' and k = k] fst by simp
  qed
qed

lemma reserve_any:
  assumes inv: "ledger_inv d" and res: "cap_reserve t day week dc wc e d = (reason, e', d')"
  shows "ledger_inv d'"
    and "cap_count t' d' k = cap_count t' d k + (if t' = t \<and> reason = None \<and> k \<in> {(DAY, day), (WEEK, week)} then 1 else 0)"
    and "reason = None \<Longrightarrow> cap_count t d (DAY, day) < dc \<and> cap_count t d (WEEK, week) < wc"
proof -
  define e1 d1 where "e1 = fst (cap_ensure t DAY day e d)" and "d1 = snd (cap_ensure t DAY day e d)"
  define e2 d2 where "e2 = fst (cap_ensure t WEEK week e1 d1)" and "d2 = snd (cap_ensure t WEEK week e1 d1)"
  define b3 d3 where "b3 = fst (cap_increment t DAY day (Some dc) d2)" and "d3 = snd (cap_increment t DAY day (Some dc) d2)"
  define b4 d4 where "b4 = fst (cap_increment t WEEK week (Some wc) d3)" and "d4 = snd (cap_increment t WEEK week (Some wc) d3)"
  have i2: "ledger_inv d2" using inv by (simp add: d2_def d1_def ledger_inv_ensure)
  have n2: "cap_count x d2 k = cap_count x d k" for x k by (simp add: d2_def d1_def)
  note s3 = increment_any [OF i2, where t = t and kind = DAY and key = day and c = dc, folded b3_def d3_def]
  note s4 = increment_any [OF s3(3), where t = t and kind = WEEK and key = week and c = wc, folded b4_def d4_def]
  have s5: "cap_count x (cap_decrement t DAY day d4) k = cap_count x d4 k - (if x = t \<and> k = (DAY, day) then 1 else 0)"
    "ledger_inv (cap_decrement t DAY day d4) = ledger_inv d4" if b3 for x k
    using decrement_spec [of t DAY day d4] s3(1) that by (auto simp: d4_def d3_def)
  have full: "cap_reserve t day week dc wc e d =
      (if dc \<le> 0 then (Some AR_DAILY_CAP_REACHED, e, d) else if wc \<le> 0 then (Some AR_WEEKLY_CAP_REACHED, e, d)
       else if \<not> b3 then (Some AR_DAILY_CAP_REACHED, e2, d3)
       else if \<not> b4 then (Some AR_WEEKLY_CAP_REACHED, e2, cap_decrement t DAY day d4)
       else (None, e2, d4))"
    by (simp add: cap_reserve_def Let_def case_prod_unfold flip: e1_def d1_def e2_def d2_def d3_def d4_def b3_def b4_def)
  show "ledger_inv d'" using res inv s3(3) s4(3) s5(2) unfolding full by (auto split: if_splits)
  show "cap_count t' d' k = cap_count t' d k + (if t' = t \<and> reason = None \<and> k \<in> {(DAY, day), (WEEK, week)} then 1 else 0)"
    using res s3(2) [of t' k] s4(2) [of t' k] s5(1) [of t' k] n2 unfolding full by (auto split: if_splits)
  show "reason = None \<Longrightarrow> cap_count t d (DAY, day) < dc \<and> cap_count t d (WEEK, week) < wc"
    using res s3(1) s3(2) [of t "(WEEK, week)"] s4(1) n2 unfolding full by (auto split: if_splits)
qed

lemma release_one_any:
  assumes "ledger_inv d"
  shows "cap_count t' d k - (if t' = t \<and> truthy key \<and> k = (kind, the key) then 1 else 0) \<le> cap_count t' (snd (cap_release_one t kind key e d)) k"
    and "ledger_inv (snd (cap_release_one t kind key e d))"
proof -
  have "cap_count t' d k - (if t' = t \<and> truthy key \<and> k = (kind, the key) then 1 else 0) \<le> cap_count t' (snd (cap_release_one t kind key e d)) k \<and>
    ledger_inv (snd (cap_release_one t kind key e d))"
  proof (cases "truthy key")
    case True
    then obtain x where x: "key = Some x" "x \<noteq> []" by (auto simp: truthy_def split: option.splits)
    define d1 where "d1 = snd (cap_ensure t kind x e d)"
    define d2 where "d2 = d1\<lparr>ledger_t := tbl_update (is_period t kind x) give_slot (ledger_t d1)\<rparr>"
    have g: "cap_get a b c d2 = map_option (\<lambda>r. if is_period t kind x r then give_slot r else r) (cap_get a b c d1)" for a b c
      by (simp add: d2_def cap_get_update)
    have "cap_count t' d1 k - (if t' = t \<and> k = (kind, x) then 1 else 0) \<le> cap_count t' d2 k"
      by (cases k; cases "cap_get t' (fst k) (snd k) d1") (auto simp: cap_count_def g period_of_get give_slot_def)
    moreover have "ledger_inv d2" using assms by (simp add: d2_def d1_def ledger_inv_update ledger_inv_ensure)
    moreover have "snd (cap_release_one t kind key e d) = d2"
      using x by (simp add: cap_release_one_def Let_def case_prod_unfold d2_def d1_def)
    ultimately show ?thesis using True x by (simp add: d1_def)
  next
    case False
    then have "cap_release_one t kind key e d = (e, d)" by (auto simp: cap_release_one_def truthy_def split: option.splits)
    with False assms show ?thesis by simp
  qed
  then show "cap_count t' d k - (if t' = t \<and> truthy key \<and> k = (kind, the key) then 1 else 0) \<le> cap_count t' (snd (cap_release_one t kind key e d)) k"
    and "ledger_inv (snd (cap_release_one t kind key e d))" by blast+
qed

lemma release_any:
  assumes "ledger_inv d"
  shows "cap_count t' d k - (if t' = t \<and> truthy day \<and> k = (DAY, the day) then 1 else 0)
      - (if t' = t \<and> truthy week \<and> k = (WEEK, the week) then 1 else 0) \<le> cap_count t' (snd (cap_release t day week e d)) k"
    and "ledger_inv (snd (cap_release t day week e d))"
proof -
  have eq: "cap_release t day week e d =
      cap_release_one t WEEK week (fst (cap_release_one t DAY day e d)) (snd (cap_release_one t DAY day e d))"
    by (simp add: cap_release_def Let_def case_prod_unfold)
  note a = release_one_any [OF assms, where kind = DAY and key = day and t = t and e = e]
  note b = release_one_any [OF a(2), where kind = WEEK and key = week and t = t and e = "fst (cap_release_one t DAY day e d)"]
  show "cap_count t' d k - (if t' = t \<and> truthy day \<and> k = (DAY, the day) then 1 else 0)
      - (if t' = t \<and> truthy week \<and> k = (WEEK, the week) then 1 else 0) \<le> cap_count t' (snd (cap_release t day week e d)) k"
    unfolding eq using a(1) [of t' k] b(1) [of t' k] by linarith
  show "ledger_inv (snd (cap_release t day week e d))" unfolding eq by (rule b(2))
qed

section \<open>Attempts with any cache\<close>

lemma reserve_slots:
  assumes res: "attempt_reserve t co opp day week dc wc ln level existing run_id new_id now e d = (Inr (Inl row), e', d')"
    and inv: "attempts_inv t d" and ex: "\<And>r. existing = Some r \<Longrightarrow> r \<in> set (applications_t d)"
    and fresh: "new_id \<notin> a_id ` set (applications_t d)"
  shows "attempts_inv t d'"
    and "slots_held t d' k \<le> slots_held t d k + (if k \<in> {(DAY, day), (WEEK, week)} then 1 else 0)"
    and "int (slots_held t d' (DAY, day)) \<le> dc" and "int (slots_held t d' (WEEK, week)) \<le> wc"
proof -
  have cov: "slots_covered t d" "applications_inv d" "ledger_inv d" using inv by (simp_all add: attempts_inv_def)
  obtain d1 job where c: "cap_reserve t day week dc wc e d = (None, e', d1)"
    and row: "row = reserved_row t co opp day week ln level existing job new_id now"
    and apps: "applications_t d' = (case existing of None \<Rightarrow> applications_t d @ [row] | Some _ \<Rightarrow> tbl_put a_id row (applications_t d))"
    and led: "ledger_t d' = ledger_t d1" using attempt_reserve_granted [OF res] .
  note spec = reserve_any [OF cov(3) c]
  have cnt: "cap_count t d' k = cap_count t d k + (if k \<in> {(DAY, day), (WEEK, week)} then 1 else 0)" for k
    using spec(2) [of t k] led by (simp add: cap_count_def cap_get_def)
  show held: "slots_held t d' k \<le> slots_held t d k + (if k \<in> {(DAY, day), (WEEK, week)} then 1 else 0)" for k
  proof (cases existing)
    case None
    then show ?thesis using apps by (simp add: slots_held_def tbl_matches_def row reserved_row_fields(1))
  next
    case (Some r)
    have "slots_held t d' k = slots_held t (put_application row d) k" using apps Some by (simp add: slots_held_def)
    then show ?thesis
      using slots_held_put [OF cov(2) ex [OF Some], of row t k] Some
      by (auto simp: row reserved_row_fields(1,2) split: if_splits)
  qed
  have le: "int (slots_held t d' k) \<le> cap_count t d' k" for k
  proof -
    have "int (slots_held t d k) \<le> cap_count t d k" using cov(1) unfolding slots_covered_def by blast
    then show ?thesis using held [of k] cnt [of k] by (auto split: if_splits)
  qed
  have "applications_inv d'"
    using cov(2) fresh apps by (cases existing) (auto simp: applications_inv_def row reserved_row_fields(3))
  moreover have "ledger_inv d'" using spec(1) led ledger_inv_cong by blast
  ultimately show "attempts_inv t d'" using le unfolding attempts_inv_def slots_covered_def by blast
  show "int (slots_held t d' (DAY, day)) \<le> dc" "int (slots_held t d' (WEEK, week)) \<le> wc"
    using le [of "(DAY, day)"] le [of "(WEEK, week)"] cnt [of "(DAY, day)"] cnt [of "(WEEK, week)"] spec(3) by auto
qed

lemma refuse_slots:
  assumes res: "attempt_reserve t co opp day week dc wc ln level existing run_id new_id now e d = (Inr (Inr reason), e', d')"
    and inv: "attempts_inv t d"
  shows "attempts_inv t d'" and "applications_t d' = applications_t d" and "reason \<in> {AR_DAILY_CAP_REACHED, AR_WEEKLY_CAP_REACHED}"
proof -
  obtain r e1 d1 where c: "cap_reserve t day week dc wc e d = (r, e1, d1)" by (rule prod_cases3)
  have r: "r = Some reason" "d' = d1" using res by (auto simp: attempt_reserve_def c Let_def split: option.splits if_splits)
  show apps: "applications_t d' = applications_t d" using applications_ledger(1) [of t day week dc wc e d] c r by simp
  have "ledger_inv d" using inv by (simp add: attempts_inv_def)
  note spec = reserve_any [OF this c]
  show "attempts_inv t d'" using inv spec(1) spec(2) r apps
    by (simp add: attempts_inv_def slots_covered_def slots_held_def applications_inv_def)
  show "reason \<in> {AR_DAILY_CAP_REACHED, AR_WEEKLY_CAP_REACHED}"
    using c r by (auto simp: cap_reserve_def Let_def case_prod_unfold split: if_splits)
qed

text \<open>Operations that leave attempts and the ledger alone, or keep the slot columns of an attempt.\<close>

definition same_slots :: "db \<Rightarrow> db \<Rightarrow> bool" where
  "same_slots d d' \<longleftrightarrow> applications_t d' = applications_t d \<and> ledger_t d' = ledger_t d"

lemma same_slots_refl [simp]: "same_slots d d"
  by (simp add: same_slots_def)

lemma same_slots_trans: "same_slots d d1 \<Longrightarrow> same_slots d1 d2 \<Longrightarrow> same_slots d d2"
  by (simp add: same_slots_def)

lemma same_slots_inv: "same_slots d d' \<Longrightarrow> attempts_inv t d' = attempts_inv t d \<and> slots_held t d' k = slots_held t d k"
  by (auto simp: same_slots_def attempts_inv_def slots_covered_def slots_held_def cap_count_def cap_get_def applications_inv_def ledger_inv_def)

lemma same_slots_ops:
  "queue_enqueue t co a actor ln p av m i now d = Inr (q, b, d') \<Longrightarrow> same_slots d d'"
  "queue_requeue t actor r b1 b2 now i0 d = Inr (q, d') \<Longrightarrow> same_slots d d'"
  "queue_cancel t actor r now i0 d = Inr (q, d') \<Longrightarrow> same_slots d d'"
  "queue_resolve t actor j r now i0 d = Inr (q, d') \<Longrightarrow> same_slots d d'"
  "co_transition t co s actor r b1 now d = Inr (co', d') \<Longrightarrow> same_slots d d'"
  by (auto simp: same_slots_def queue_enqueue_def queue_requeue_def queue_cancel_def queue_resolve_def co_transition_def co_record_def Let_def
      split: if_splits option.splits)

lemma same_slots_writes:
  "same_slots d (put_candidate c d)" "same_slots d (snd (record_admission t co b r actor v rs g d))"
  "same_slots d (audit_record t et ei ac ar be af su d)" "same_slots d (put_sched_run run d)"
  by (auto simp: same_slots_def record_admission_def co_record_def put_sched_run_def Let_def)

lemma mark_slots:
  assumes "attempts_inv t d" and "get_application d (a_id row) = Some row"
  shows "attempts_inv t (snd (snd (mark_ready row p run_id now d)))" (is ?A)
    and "slots_held t (snd (snd (mark_ready row p run_id now d))) k = slots_held t d k" (is ?B)
    and "attempts_inv t (snd (snd (mark_preparing row q run_id n now d)))" (is ?C)
    and "slots_held t (snd (snd (mark_preparing row q run_id n now d))) k = slots_held t d k" (is ?D)
proof -
  have row: "row \<in> set (applications_t d)" using assms(2) by (simp add: get_application_def) (blast dest: tbl_get_Some)
  have inv: "applications_inv d" using assms(1) by (simp add: attempts_inv_def)
  obtain b1 r1 d1 where m1: "mark_ready row p run_id now d = (b1, r1, d1)" by (rule prod_cases3)
  obtain b2 r2 d2 where m2: "mark_preparing row q run_id n now d = (b2, r2, d2)" by (rule prod_cases3)
  show ?A ?C using attempt_step_inv [OF attempt_step.ready [OF row m1] assms(1)] attempt_step_inv [OF attempt_step.preparing [OF row m2] assms(1)] m1 m2 by simp_all
  have put: "slots_held t (put_application r' d) k = slots_held t d k" if "a_id r' = a_id row" "in_period t k r' = in_period t k row" for r'
    using slots_held_put [OF inv row that(1), of t k] that(2) by simp
  have "applications_t d1 = applications_t d \<or> applications_t d1 = applications_t (put_application r1 d) \<and> a_id r1 = a_id row \<and> in_period t k r1 = in_period t k row"
    using m1 by (auto simp: mark_ready_def flush_application_def Let_def in_period_def holds_slot_def split: if_splits)
  then show ?B using put [of r1] m1 by (auto simp: slots_held_def)
  have "applications_t d2 = applications_t d \<or> applications_t d2 = applications_t (put_application r2 d) \<and> a_id r2 = a_id row \<and> in_period t k r2 = in_period t k row"
    using m2 by (auto simp: mark_preparing_def flush_application_def Let_def in_period_def holds_slot_def split: if_splits)
  then show ?D using put [of r2] m2 by (auto simp: slots_held_def)
qed

section \<open>Reconciliation frees slots only\<close>

definition tenants :: "db \<Rightarrow> string \<Rightarrow> string option option" where
  "tenants d k = map_option a_tenant_id (get_application d k)"

definition frees :: "string \<Rightarrow> db \<Rightarrow> db \<Rightarrow> bool" where
  "frees t d d' \<longleftrightarrow> attempts_inv t d' \<and> tenants d' = tenants d \<and> (\<forall>k. slots_held t d' k \<le> slots_held t d k)"

lemma frees_trans: "frees t d d1 \<Longrightarrow> frees t d1 d2 \<Longrightarrow> frees t d d2"
  unfolding frees_def by (metis order_trans)

lemma frees_same: "same_slots d d' \<Longrightarrow> attempts_inv t d \<Longrightarrow> frees t d d'"
  using same_slots_inv [of d d' t] by (auto simp: frees_def tenants_def fun_eq_iff get_application_def same_slots_def)

lemma frees_mark:
  assumes "attempts_inv t d" and "get_application d (a_id row) = Some row"
  shows "frees t d (snd (snd (mark_ready row p run_id now d)))" "frees t d (snd (snd (mark_preparing row q run_id n now d)))"
  using mark_slots [OF assms] assms(2)
  by (auto simp: frees_def tenants_def fun_eq_iff mark_ready_def mark_preparing_def flush_application_def Let_def reads_event applications.get_put)

lemma frees_release:
  assumes "attempts_inv t d" and get: "get_application d (a_id row) = Some row" and tenant: "a_tenant_id row = Some t"
    and held: "holds_slot row" and res: "release_attempt t row status reason run_id now e d = (row', e', d')"
  shows "frees t d d'"
proof -
  have inv: "slots_covered t d" "applications_inv d" "ledger_inv d" using assms(1) by (simp_all add: attempts_inv_def)
  have row: "row \<in> set (applications_t d)" using get by (simp add: get_application_def) (blast dest: tbl_get_Some)
  define new where "new = row\<lparr>a_released_at := Some now, a_status := status, a_status_reason := Some (take 256 reason), a_updated_at := now\<rparr>"
  define d1 where "d1 = snd (cap_release t (a_cap_day row) (a_cap_week row) e d)"
  note spec = release_any [OF inv(3), where day = "a_cap_day row" and week = "a_cap_week row" and t = t and e = e, folded d1_def]
  have d': "applications_t d' = applications_t (put_application new d)" "ledger_t d' = ledger_t d1"
    using res held
    by (auto simp: release_attempt_def flush_application_def new_def Let_def case_prod_unfold d1_def)
  have np: "\<not> in_period t k new" for k by (simp add: new_def in_period_def holds_slot_def)
  have held': "slots_held t d' k + (if in_period t k row then 1 else 0) = slots_held t d k" for k
    using slots_held_put [OF inv(2) row, of new t k] np d'(1) by (simp add: slots_held_def new_def)
  have "slots_covered t d'" unfolding slots_covered_def
  proof
    fix k
    have "int (slots_held t d k) \<le> cap_count t d k" using inv(1) unfolding slots_covered_def by blast
    moreover have "cap_count t d' k = cap_count t d1 k" using d'(2) by (simp add: cap_count_def cap_get_def)
    moreover have "cap_count t d k - (if in_period t k row then 1 else 0) \<le> cap_count t d1 k"
      using spec(1) [of t k] tenant held
      by (cases k) (auto simp: in_period_def truthy_def split: option.splits if_splits)
    ultimately show "int (slots_held t d' k) \<le> cap_count t d' k" using held' [of k] by (auto split: if_splits)
  qed
  moreover have "applications_inv d'" using inv(2) d'(1) by (simp add: applications_inv_def)
  moreover have "ledger_inv d'" using spec(2) d'(2) ledger_inv_cong by blast
  moreover have "slots_held t d' k \<le> slots_held t d k" for k using held' [of k] by simp
  moreover have "get_application d' = get_application (put_application new d)" using d'(1) by (simp add: get_application_def fun_eq_iff)
  then have "tenants d' = tenants d" using get by (auto simp: tenants_def fun_eq_iff applications.get_put new_def)
  ultimately show ?thesis by (simp add: frees_def attempts_inv_def)
qed

lemma settle_frees:
  assumes "attempts_inv t d" and "get_application d (a_id row) = Some row" and "settle_ready run_id now row p (c, d) = (c', d')"
  shows "frees t d d'"
  using frees_mark(1) [OF assms(1,2), of "p_id p" run_id now] frees_same [OF same_slots_refl assms(1)] assms(3)
  by (auto simp: settle_ready_def Let_def case_prod_unfold split: if_splits)

lemma item_op_keeps:
  assumes "same_slots d d1" and "get_application d k = r"
  shows "get_application d1 k = r"
  using assms by (simp add: same_slots_def get_application_def)

lemma parked_frees:
  assumes "attempts_inv t d" and "get_application d (a_id row) = Some row"
    and "reconcile_parked sv run_id tm now i prep row (c, d) = Inr (c', d')"
  shows "frees t d d'"
proof (cases "q_state i = QS_BLOCKED \<and> answers_arrived i prep tm")
  case True
  then obtain i' d1 where r: "queue_requeue (sv_tenant sv) (sv_actor sv) (Some ''answer bank updated since this item was blocked'') True False now i d = Inr (i', d1)"
    and d': "d' = snd (snd (mark_preparing row (map_option p_id prep) run_id ''answer_bank_updated'' now d1))"
    using assms(3) by (auto simp: reconcile_parked_def case_prod_unfold)
  note s = same_slots_ops(2) [OF r]
  have "attempts_inv t d1" using same_slots_inv [OF s, of t] assms(1) by simp
  from frees_trans [OF frees_same [OF s assms(1)] frees_mark(2) [OF this item_op_keeps [OF s assms(2)]]] show ?thesis by (simp add: d')
next
  case False
  then show ?thesis using assms(3) frees_mark(2) [OF assms(1,2)] frees_same [OF same_slots_refl assms(1)]
    by (auto simp: reconcile_parked_def case_prod_unfold Let_def split: if_splits)
qed

lemma live_frees:
  assumes "attempts_inv t d" and "get_application d (a_id row) = Some row"
    and "reconcile_live sv run_id tm now item prep row (c, d) = Inr (c', d')"
  shows "frees t d d'"
proof (cases "\<exists>i p. item = Some i \<and> prep = Some p \<and> p_status p = PS_READY \<and> q_state i \<in> {QS_BLOCKED, QS_NEEDS_REVIEW} \<and>
    a_status row \<notin> {AS_BLOCKED, AS_NEEDS_USER_INPUT, AS_NEEDS_REVIEW, AS_SUBMITTING} \<and> a_status row \<notin> SUBMITTED_STATUSES")
  case True
  then obtain i p i' d1 j r where q: "queue_resolve (sv_tenant sv) (sv_actor sv) j r now i d = Inr (i', d1)"
    and st: "settle_ready run_id now row p (c, d1) = (c', d')"
    using assms(3) by (auto simp: reconcile_live_def)
  note s = same_slots_ops(4) [OF q]
  have inv: "attempts_inv t d1" using same_slots_inv [OF s, of t] assms(1) by simp
  from frees_trans [OF frees_same [OF s assms(1)] settle_frees [OF inv item_op_keeps [OF s assms(2)] st]] show ?thesis .
next
  case False
  then show ?thesis
    using assms(3) settle_frees [OF assms(1,2)] parked_frees [OF assms(1,2)] frees_same [OF same_slots_refl assms(1)]
    by (auto simp: reconcile_live_def split: if_splits option.splits)
qed

lemma stop_frees:
  assumes "attempts_inv (sv_tenant sv) d" and "get_application d (a_id row) = Some row" and "a_tenant_id row = Some (sv_tenant sv)"
    and "holds_slot row" and res: "reconcile_stop sv run_id now co item row reason status (e, c, d) = Inr (e', c', d')"
  shows "frees (sv_tenant sv) d d'"
proof -
  obtain row' e1 d1 where r: "release_attempt (sv_tenant sv) row status reason run_id now e d = (row', e1, d1)" by (rule prod_cases3)
  note f = frees_release [OF assms(1-4) r]
  define A where "A = (case item of
              Some i \<Rightarrow> if q_state i \<in> {QS_PENDING, QS_RETRY_WAIT, QS_BLOCKED, QS_NEEDS_REVIEW}
                        then bind_result (queue_cancel (sv_tenant sv) (sv_actor sv) (Some (''scheduler: '' @ reason)) now i d1) (\<lambda>(_, d'). Inr d')
                        else Inr d1
            | None \<Rightarrow> Inr d1)"
  define B where "B = (\<lambda>d2. if status = AS_CLOSED \<and> reason = ''opportunity closed'' \<and> co_state co \<noteq> OS_CLOSED
            then (case co_transition (sv_tenant sv) co OS_CLOSED (sv_actor sv) (Some reason) False now d2 of
                    Inr (_, d') \<Rightarrow> Inr d' | Inl (ConflictError _) \<Rightarrow> Inr d2 | Inl e \<Rightarrow> Inl e)
            else Inr d2)"
  have "bind_result A (\<lambda>d2. bind_result (B d2) (\<lambda>d3. Inr (e1, bump ''released'' 1 c, d3))) = Inr (e', c', d')"
    using res unfolding reconcile_stop_def A_def B_def by (simp only: r Let_def prod.case)
  then obtain d2 where A: "A = Inr d2" and B: "B d2 = Inr d'" by auto
  have s2: "same_slots d1 d2" using A by (auto simp: A_def split: option.splits if_splits dest: same_slots_ops(3))
  have "same_slots d2 d'"
    using B unfolding B_def by (auto split: if_splits sum.splits careeros_error.splits dest: same_slots_ops(5))
  then have "same_slots d1 d'" by (rule same_slots_trans [OF s2])
  from frees_trans [OF f frees_same [OF this]] f show ?thesis by (simp add: frees_def)
qed

lemma one_frees:
  assumes "attempts_inv (sv_tenant sv) d" and "tenants d aid = Some (Some (sv_tenant sv))"
    and res: "reconcile_one sv ctx ordered run_id tm now (oid, aid) (e, c, d) = Inr (e', c', d')"
  shows "frees (sv_tenant sv) d d'"
proof -
  obtain row where row: "get_application d aid = Some row" "a_tenant_id row = Some (sv_tenant sv)"
    using assms(2) by (auto simp: tenants_def)
  have aid: "a_id row = aid" using row(1) by (rule applications.get_key)
  show ?thesis
    using res row aid live_frees [OF assms(1), of row] stop_frees [OF assms(1), of row] frees_same [OF same_slots_refl assms(1)]
    by (auto simp: reconcile_one_def Let_def split: if_splits option.splits prod.splits)
qed

lemma reconcile_frees:
  assumes inv: "attempts_inv (sv_tenant sv) d" and load: "sched_load sv now0 d = (ordered, ctx)"
    and res: "reconcile sv ctx ordered run_id now e d = Inr (e', c', d')"
  shows "frees (sv_tenant sv) d d'"
proof -
  have att: "sx_attempts ctx = map (\<lambda>(oid, a). (oid, a_id a)) (by_opportunity (sv_tenant sv) d)"
    using load by (auto simp: sched_load_def Let_def case_prod_unfold)
  have distinct: "distinct (map a_id (applications_t d))" using inv by (simp add: attempts_inv_def applications_inv_def)
  have ten: "tenants d aid = Some (Some (sv_tenant sv))" if "(oid, aid) \<in> set (sx_attempts ctx)" for oid aid
  proof -
    from that obtain a where a: "a \<in> set (applications_t d)" "a_tenant_id a = Some (sv_tenant sv)" "a_id a = aid"
      by (auto simp: att by_opportunity_in)
    then show ?thesis using tbl_get_distinct [OF distinct a(1)] by (simp add: tenants_def get_application_def)
  qed
  let ?I = "\<lambda>st. frees (sv_tenant sv) d (snd (snd st))"
  have "?I (e', c', d')"
  proof (rule fold_result_inv [where I = ?I, OF _ res [unfolded reconcile_def]])
    fix x s s'
    assume x: "x \<in> set (sx_attempts ctx)" "?I s" "reconcile_one sv ctx ordered run_id (sv_answers_at sv d) now x s = Inr s'"
    obtain oid aid where xs: "x = (oid, aid)" by (rule prod.exhaust)
    obtain e1 c1 d1 where s: "s = (e1, c1, d1)" by (rule prod_cases3)
    obtain e2 c2 d2 where s': "s' = (e2, c2, d2)" by (rule prod_cases3)
    have "frees (sv_tenant sv) d1 d2"
      by (rule one_frees [of sv d1 aid ctx ordered run_id _ now oid e1 c1 e2 c2])
        (use x xs s s' ten in \<open>auto simp: frees_def\<close>)
    then show "?I s'" using x(2) s s' frees_trans by simp
  qed (simp add: frees_same inv)
  then show ?thesis by simp
qed

end
