(* ===== verification/Sched_Pass.thy ===== *)
theory Sched_Pass
  imports Sched_Slots
begin

text \<open>
  The admission loop and the whole run: what a pass may take (caps, window), whom it may admit (one
  opening per company), what happens to its record, and where a race on an attempt goes.
\<close>

section \<open>Loop invariants\<close>

lemma pass_loop_inv:
  assumes "\<And>pair pairs s. J (pair # pairs) s \<Longrightarrow> pa_failed s = None \<Longrightarrow> J pairs (pass_step sv keys run_id window commit_every now pair s)"
  shows "J pairs st \<Longrightarrow> pa_failed st = None \<Longrightarrow> \<exists>left. J left (pass_loop sv keys run_id window commit_every now pairs st)"
proof (induction pairs arbitrary: st)
  case (Cons pair pairs)
  let ?s = "pass_step sv keys run_id window commit_every now pair st"
  have "J pairs ?s" using assms Cons.prems .
  then show ?case using Cons.IH [of ?s] by (cases "pa_failed ?s = None") (auto simp: Let_def)
qed auto

lemma pass_loop_keeps:
  assumes "\<And>pair s. J s \<Longrightarrow> J (pass_step sv keys run_id window commit_every now pair s)"
  shows "J st \<Longrightarrow> J (pass_loop sv keys run_id window commit_every now pairs st)"
  using assms by (induction pairs arbitrary: st) (simp_all add: Let_def)

text \<open>What the end of an iteration leaves alone.\<close>

lemma heartbeat_facts:
  "same_slots (pa_db st) (pa_db (pass_heartbeat run_id now st)) \<and> pa_committed (pass_heartbeat run_id now st) = pa_db (pass_heartbeat run_id now st) \<and>
   pa_counts (pass_heartbeat run_id now st) = pa_counts st \<and> pa_ctx (pass_heartbeat run_id now st) = pa_ctx st \<and>
   pa_failed (pass_heartbeat run_id now st) = pa_failed st \<and>
   candidates_t (pa_db (pass_heartbeat run_id now st)) = candidates_t (pa_db st)"
  by (auto simp: pass_heartbeat_def same_slots_def put_sched_run_def Let_def split: option.splits)

lemma stamp_same_slots: "same_slots d (stamp sv policy code verdict run_id now co d)"
  unfolding stamp_def Let_def using same_slots_trans [OF same_slots_writes(1) same_slots_writes(2)] same_slots_writes(1) by auto

lemma tally_admitted [simp]: "fst (tally code (c, b)) ''admitted'' = c ''admitted''"
  by (auto simp: tally_def split: admission_reason.splits)

lemma close_facts:
  assumes st'_def: "st' = pass_close sv run_id commit_every now cid opp verdict code extra st"
  shows "same_slots (pa_db st) (pa_db st')" "pa_committed st' = pa_committed st \<or> pa_committed st' = pa_db st'"
    "pa_counts st' ''admitted'' = pa_counts st ''admitted''" "pa_ctx st' = pa_ctx st"
proof -
  have "same_slots (pa_db st) (pa_db st') \<and> (pa_committed st' = pa_committed st \<or> pa_committed st' = pa_db st') \<and>
      pa_counts st' ''admitted'' = pa_counts st ''admitted'' \<and> pa_ctx st' = pa_ctx st"
  proof (cases "get_candidate (pa_db st) cid")
    case (Some co)
    define st1 where "st1 = st\<lparr>pa_counts := fst (tally code (pa_counts st, pa_by_reason st)), pa_by_reason := snd (tally code (pa_counts st, pa_by_reason st)),
                       pa_samples := add_sample code (sample_of code co opp verdict extra) (pa_samples st),
                       pa_db := stamp sv (sx_policy (pa_ctx st)) code verdict run_id now co (pa_db st)\<rparr>"
    have "st' = (if commit_every \<le> pa_pending st1 then (pass_heartbeat run_id now st1)\<lparr>pa_pending := 0\<rparr> else st1)"
      using Some by (simp add: st'_def pass_close_def Let_def case_prod_unfold st1_def)
    moreover have "same_slots (pa_db st) (pa_db st1)" "pa_committed st1 = pa_committed st" "pa_counts st1 ''admitted'' = pa_counts st ''admitted''"
      "pa_ctx st1 = pa_ctx st" by (simp_all add: st1_def stamp_same_slots)
    ultimately show ?thesis using heartbeat_facts [of st1 run_id now] same_slots_trans [of "pa_db st" "pa_db st1"] by auto
  qed (simp add: st'_def pass_close_def)
  then show "same_slots (pa_db st) (pa_db st')" "pa_committed st' = pa_committed st \<or> pa_committed st' = pa_db st'"
    "pa_counts st' ''admitted'' = pa_counts st ''admitted''" "pa_ctx st' = pa_ctx st" by simp_all
qed

section \<open>Slots taken by an admission\<close>

text \<open>New ids are new.\<close>

definition fresh_ids :: "sched_env \<Rightarrow> bool" where
  "fresh_ids sv \<longleftrightarrow> (\<forall>d. sv_fresh sv d \<notin> a_id ` set (applications_t d) \<and> sv_fresh sv d \<notin> q_id ` set (queue_t d))"

lemma get_application_in: "get_application d k = Some a \<Longrightarrow> a \<in> set (applications_t d)"
  by (simp add: get_application_def) (blast dest: tbl_get_Some)

lemma existing_in: "existing_attempt ctx opp d = Some r \<Longrightarrow> r \<in> set (applications_t d)"
  by (auto simp: existing_attempt_def opt_or_def bind_eq_Some_conv intro: get_application_in split: option.splits)

lemma reserved_get:
  assumes "attempt_reserve t co opp day week dc wc ln level existing run_id new_id now e d = (Inr (Inl row), e', d')"
    and "applications_inv d'" and "\<And>r. existing = Some r \<Longrightarrow> r \<in> set (applications_t d)"
  shows "get_application d' (a_id row) = Some row"
proof -
  obtain d1 job where row: "row = reserved_row t co opp day week ln level existing job new_id now"
    and apps: "applications_t d' = (case existing of None \<Rightarrow> applications_t d @ [row] | Some _ \<Rightarrow> tbl_put a_id row (applications_t d))"
    using attempt_reserve_granted [OF assms(1)] by metis
  have "row \<in> set (applications_t d')"
  proof (cases existing)
    case (Some r)
    then have "r \<in> set (applications_t d)" "a_id r = a_id row" using assms(3) row reserved_row_fields(2) [OF Some] by auto
    then show ?thesis using apps Some by (force simp: tbl_put_def)
  qed (simp add: apps)
  then show ?thesis using tbl_get_distinct assms(2) by (fastforce simp: get_application_def applications_inv_def)
qed

lemma admit_item_frees:
  assumes "attempts_inv t d" and "get_application d (a_id attempt) = Some attempt"
    and "admit_item sv run_id now co ln attempt item prep d = Inr (i, en, rq, d')"
  shows "frees t d d'"
  using assms(3) frees_mark(1) [OF assms(1,2)] frees_same [OF _ assms(1)] same_slots_ops(1,2)
  by (auto simp: admit_item_def case_prod_unfold Let_def split: option.splits if_splits)

lemma admit_candidate_same:
  assumes "admit_candidate sv policy run_id now co verdict attempt item ln level d = Inr d'"
  shows "same_slots d d'"
proof -
  let ?co1 = "co\<lparr>co_application_id := Some (a_id attempt)\<rparr>"
  obtain co2 d2 where r: "(if co_policy_admitted ?co1 \<noteq> Some True \<or> co_policy_reason ?co1 \<noteq> Some (v_reason verdict) \<or>
                          co_admission_policy_version ?co1 \<noteq> Some (policy_version policy)
                       then record_admission (sv_tenant sv) ?co1 True (v_reason verdict) (sv_actor sv) (Some (policy_version policy))
                              (verdict_ruleset verdict) (verdict_gates verdict) (put_candidate ?co1 d)
                       else (?co1, put_candidate ?co1 d)) = (co2, d2)" by (rule prod.exhaust)
  have "same_slots d d2"
    using r same_slots_trans [OF same_slots_writes(1) same_slots_writes(2)] same_slots_writes(1)
    by (metis (no_types, lifting) snd_conv)
  moreover have "same_slots d2 d'"
    using assms unfolding admit_candidate_def Let_def r
    by (auto simp: same_slots_writes split: if_splits dest: same_slots_ops(5) intro: same_slots_trans)
  ultimately show ?thesis by (rule same_slots_trans)
qed

lemma admit_slots:
  assumes res: "admit_db sv ctx keys run_id now co opp verdict e d = (r, e', d')" and inv: "attempts_inv (sv_tenant sv) d" and fresh: "fresh_ids sv"
  shows "attempts_inv (sv_tenant sv) d'"
    and "slots_held (sv_tenant sv) d' k \<le> slots_held (sv_tenant sv) d k + 1"
    and "\<nexists>a i en rq. r = Inr (Admitted a i en rq) \<Longrightarrow> slots_held (sv_tenant sv) d' k = slots_held (sv_tenant sv) d k"
    and "int (slots_held (sv_tenant sv) d' (DAY, pd_key (pk_day keys))) \<le>
      max (int (slots_held (sv_tenant sv) d (DAY, pd_key (pk_day keys)))) (daily_cap (sx_policy ctx))"
    and "int (slots_held (sv_tenant sv) d' (WEEK, pd_key (pk_week keys))) \<le>
      max (int (slots_held (sv_tenant sv) d (WEEK, pd_key (pk_week keys)))) (weekly_cap (sx_policy ctx))"
proof -
  let ?t = "sv_tenant sv" and ?D = "(DAY, pd_key (pk_day keys))" and ?W = "(WEEK, pd_key (pk_week keys))"
  have "attempts_inv ?t d' \<and> (\<forall>k. slots_held ?t d' k = slots_held ?t d k) \<or>
    (\<exists>a i en rq. r = Inr (Admitted a i en rq)) \<and> attempts_inv ?t d' \<and> (\<forall>k. slots_held ?t d' k \<le> slots_held ?t d k + 1) \<and>
      int (slots_held ?t d' ?D) \<le> daily_cap (sx_policy ctx) \<and> int (slots_held ?t d' ?W) \<le> weekly_cap (sx_policy ctx)"
  proof (cases "v_lane verdict = None \<or> v_level verdict = None")
    case True
    then have "d' = d" using res by (auto simp: admit_db_def split: option.splits)
    then show ?thesis using inv by simp
  next
    case False
    then obtain ln level where v: "v_lane verdict = Some ln" "v_level verdict = Some level" by auto
    let ?ex = "existing_attempt ctx opp d"
    obtain q e1 d1 where q: "attempt_reserve ?t co opp (pd_key (pk_day keys)) (pd_key (pk_week keys)) (daily_cap (sx_policy ctx))
        (weekly_cap (sx_policy ctx)) ln level ?ex run_id (sv_fresh sv d) now e d = (q, e1, d1)" by (rule prod_cases3)
    have ex: "\<And>r. ?ex = Some r \<Longrightarrow> r \<in> set (applications_t d)" by (rule existing_in)
    have new: "sv_fresh sv d \<notin> a_id ` set (applications_t d)" using fresh by (simp add: fresh_ids_def)
    consider (err) x where "q = Inl x" | (refused) x where "q = Inr (Inr x)" | (row) x where "q = Inr (Inl x)" by (metis sum.exhaust)
    then show ?thesis
    proof cases
      case err
      then show ?thesis using res q v inv by (simp add: admit_db_def Let_def)
    next
      case refused
      then have "d' = d1" using res q v by (simp add: admit_db_def Let_def)
      then show ?thesis using refuse_slots(1,2) [OF q [unfolded refused] inv] by (simp add: slots_held_def)
    next
      case row
      note slots = reserve_slots [OF q [unfolded row] inv ex new]
      have get: "get_application d1 (a_id x) = Some x"
        by (rule reserved_get [OF q [unfolded row] _ ex]) (use slots(1) in \<open>simp_all add: attempts_inv_def\<close>)
      show ?thesis
      proof (cases "\<exists>err. r = Inl err")
        case True
        then have "d' = d" using res q row v by (auto simp: admit_db_def Let_def split: sum.splits prod.splits)
        then show ?thesis using inv by simp
      next
        case False
        then obtain i en rq d2 where it: "admit_item sv run_id now co ln x (Option.bind (sx_items ctx (o_id opp)) (get_item d1))
               (Option.bind (sx_preparations ctx (co_id co)) (get_preparation d1)) d1 = Inr (i, en, rq, d2)"
          and cand: "admit_candidate sv (sx_policy ctx) run_id now co verdict x i ln level d2 = Inr d'"
          and r: "r = Inr (Admitted x i en rq)"
          using res q row v by (auto simp: admit_db_def Let_def split: sum.splits prod.splits)
        have "frees ?t d1 d2" by (rule admit_item_frees [OF slots(1) get it])
        then have f: "frees ?t d1 d'"
          using frees_trans frees_same [OF admit_candidate_same [OF cand]] by (auto simp: frees_def)
        then have le: "slots_held ?t d' k \<le> slots_held ?t d1 k" for k unfolding frees_def by blast
        have "slots_held ?t d' k \<le> slots_held ?t d k + 1" for k using le [of k] slots(2) [of k] by (auto split: if_splits)
        moreover have "int (slots_held ?t d' ?D) \<le> daily_cap (sx_policy ctx)" "int (slots_held ?t d' ?W) \<le> weekly_cap (sx_policy ctx)"
          using le [of ?D] le [of ?W] slots(3,4) by linarith+
        ultimately show ?thesis using r f by (auto simp: frees_def)
      qed
    qed
  qed
  then show "attempts_inv ?t d'" and "slots_held ?t d' k \<le> slots_held ?t d k + 1"
    and "\<nexists>a i en rq. r = Inr (Admitted a i en rq) \<Longrightarrow> slots_held ?t d' k = slots_held ?t d k"
    and "int (slots_held ?t d' ?D) \<le> max (int (slots_held ?t d ?D)) (daily_cap (sx_policy ctx))"
    and "int (slots_held ?t d' ?W) \<le> max (int (slots_held ?t d ?W)) (weekly_cap (sx_policy ctx))" by (cases k; auto)+
qed

section \<open>Caps and window\<close>

text \<open>\<open>within\<close>: compared with \<open>d0\<close>, no more than \<open>n\<close> slots of any period were taken, and the caps of the two
  periods of the pass were respected.\<close>

definition within :: "string \<Rightarrow> application_policy \<Rightarrow> period_keys \<Rightarrow> db \<Rightarrow> int \<Rightarrow> db \<Rightarrow> bool" where
  "within t policy keys d0 n d \<longleftrightarrow>
     attempts_inv t d \<and> (\<forall>k. int (slots_held t d k) \<le> int (slots_held t d0 k) + n) \<and>
     int (slots_held t d (DAY, pd_key (pk_day keys))) \<le> max (int (slots_held t d0 (DAY, pd_key (pk_day keys)))) (daily_cap policy) \<and>
     int (slots_held t d (WEEK, pd_key (pk_week keys))) \<le> max (int (slots_held t d0 (WEEK, pd_key (pk_week keys)))) (weekly_cap policy)"

lemma within_frees: "within t policy keys d0 n d \<Longrightarrow> frees t d d' \<Longrightarrow> within t policy keys d0 n d'"
  unfolding within_def frees_def by (meson of_nat_le_iff order_trans)

lemma within_same: "within t policy keys d0 n d \<Longrightarrow> same_slots d d' \<Longrightarrow> within t policy keys d0 n d'"
  using within_frees frees_same by (metis within_def)

lemma within_mono: "within t policy keys d0 n d \<Longrightarrow> n \<le> m \<Longrightarrow> within t policy keys d0 m d"
  unfolding within_def by (meson add_left_mono order_trans)

lemma within_admit:
  assumes res: "admit_db sv ctx keys run_id now co opp verdict e d = (r, e', d')" and "fresh_ids sv"
    and w: "within (sv_tenant sv) (sx_policy ctx) keys d0 n d"
  shows "within (sv_tenant sv) (sx_policy ctx) keys d0 (n + (if \<exists>a i en rq. r = Inr (Admitted a i en rq) then 1 else 0)) d'"
proof -
  have inv: "attempts_inv (sv_tenant sv) d" using w by (simp add: within_def)
  note s = admit_slots [OF res inv assms(2)]
  have "int (slots_held (sv_tenant sv) d' k) \<le> int (slots_held (sv_tenant sv) d0 k) + (n + (if \<exists>a i en rq. r = Inr (Admitted a i en rq) then 1 else 0))" for k
  proof -
    have "int (slots_held (sv_tenant sv) d k) \<le> int (slots_held (sv_tenant sv) d0 k) + n" using w unfolding within_def by blast
    then show ?thesis using s(2,3) [of k] by (cases "\<exists>a i en rq. r = Inr (Admitted a i en rq)") auto
  qed
  then show ?thesis using w s(1,4,5) unfolding within_def by (meson max.boundedI max.cobounded2 order_trans)
qed

definition pass_inv :: "sched_env \<Rightarrow> application_policy \<Rightarrow> period_keys \<Rightarrow> int \<Rightarrow> db \<Rightarrow> pass_state \<Rightarrow> bool" where
  "pass_inv sv policy keys window d0 st \<longleftrightarrow>
     within (sv_tenant sv) policy keys d0 (pa_counts st ''admitted'') (pa_db st) \<and>
     within (sv_tenant sv) policy keys d0 (pa_counts st ''admitted'') (pa_committed st) \<and>
     sx_policy (pa_ctx st) = policy \<and> pa_counts st ''admitted'' \<le> window"

lemma pass_inv_close:
  assumes "pass_inv sv policy keys window d0 st"
  shows "pass_inv sv policy keys window d0 (pass_close sv run_id commit_every now cid opp verdict code extra st)"
proof -
  define st' where "st' = pass_close sv run_id commit_every now cid opp verdict code extra st"
  note f = close_facts [OF st'_def]
  show ?thesis using assms f within_same [OF _ f(1)] unfolding st'_def [symmetric] pass_inv_def by metis
qed

lemma admit_ctx_policy [simp]: "sx_policy (admit_ctx opp attempt item ctx) = sx_policy ctx"
  by (simp add: admit_ctx_def)

lemma pass_inv_admit:
  assumes inv: "pass_inv sv policy keys window d0 st" and "fresh_ids sv" and "pa_counts st ''admitted'' < window"
    and res: "pass_admit sv keys run_id now co opp verdict st = (r, st')"
  shows "pass_inv sv policy keys window d0 st'"
proof -
  obtain q e1 d1 where q: "admit_db sv (pa_ctx st) keys run_id now co opp verdict (pa_ensured st) (pa_db st) = (q, e1, d1)" by (rule prod_cases3)
  let ?n = "pa_counts st ''admitted''"
  have pol: "sx_policy (pa_ctx st) = policy" using inv by (simp add: pass_inv_def)
  have w: "within (sv_tenant sv) policy keys d0 (?n + (if \<exists>a i en rq. q = Inr (Admitted a i en rq) then 1 else 0)) d1"
    using within_admit [OF q assms(2), of d0 ?n] inv by (simp add: pass_inv_def pol)
  have c: "within (sv_tenant sv) policy keys d0 (?n + 1) (pa_committed st)" "within (sv_tenant sv) policy keys d0 ?n (pa_committed st)"
    using inv within_mono [of _ _ _ _ ?n _ "?n + 1"] by (simp_all add: pass_inv_def)
  have w1: "within (sv_tenant sv) policy keys d0 (?n + 1) d1" by (rule within_mono [OF w]) simp
  have w0: "within (sv_tenant sv) policy keys d0 ?n d1" if "\<nexists>a i en rq. q = Inr (Admitted a i en rq)" using w that by simp
  have st': "st' = snd (pass_admit sv keys run_id now co opp verdict st)" using res by simp
  show ?thesis
  proof (cases q)
    case (Inr out)
    then show ?thesis using w1 w0 c pol assms(3) unfolding st' pass_inv_def
      by (cases out) (simp_all add: pass_admit_def q Let_def)
  next
    case (Inl err)
    then show ?thesis using w1 w0 c pol assms(3) unfolding st' pass_inv_def
      by (cases err) (simp_all add: pass_admit_def q Let_def error_code_def)
  qed
qed

lemma pass_inv_counts:
  "pass_inv sv policy keys window d0 st \<Longrightarrow> c ''admitted'' = pa_counts st ''admitted'' \<Longrightarrow>
     pass_inv sv policy keys window d0 (st\<lparr>pa_counts := c\<rparr>)"
  "pass_inv sv policy keys window d0 (st\<lparr>pa_failed := f\<rparr>) = pass_inv sv policy keys window d0 st"
  by (simp_all add: pass_inv_def)

lemma pass_inv_step:
  assumes inv: "pass_inv sv policy keys window d0 st" and fresh: "fresh_ids sv"
  shows "pass_inv sv policy keys window d0 (pass_step sv keys run_id window commit_every now pair st)"
proof -
  obtain cid oid where pair: "pair = (cid, oid)" by (rule prod.exhaust)
  define st0 where "st0 = st\<lparr>pa_counts := bump ''considered'' 1 (pa_counts st)\<rparr>"
  define st1 where "st1 = st0\<lparr>pa_counts := bump ''admissible'' 1 (pa_counts st0)\<rparr>"
  have i0: "pass_inv sv policy keys window d0 st0" unfolding st0_def by (rule pass_inv_counts(1) [OF inv]) simp
  have i1: "pass_inv sv policy keys window d0 st1" unfolding st1_def by (rule pass_inv_counts(1) [OF i0]) simp
  show ?thesis
  proof (cases "pass_admit sv keys run_id now (the (get_candidate (pa_db st) cid)) (the (get_opportunity (pa_db st) oid))
      (the (decide (ctx_view (pa_ctx st) (pa_db st)) (the (get_candidate (pa_db st) cid)) (the (get_opportunity (pa_db st) oid)))) st1")
    case (Pair r st2)
    have "pa_counts st1 ''admitted'' < window \<Longrightarrow> pass_inv sv policy keys window d0 st2" by (rule pass_inv_admit [OF i1 fresh _ Pair])
    then show ?thesis using i0 i1 Pair pass_inv_close
      by (auto simp: pass_step_def pair pass_inv_counts(2) Let_def simp flip: st0_def st1_def split: option.split)
  qed
qed

section \<open>The whole run\<close>

text \<open>What a run asks of the preparation worker: it leaves attempts and the ledger alone.\<close>

definition prepare_contract :: "sched_env \<Rightarrow> bool" where
  "prepare_contract sv \<longleftrightarrow> (\<forall>worker limit now d. same_slots d (snd (sv_prepare sv worker limit now d)))"

lemma enqueue_all_same: "enqueue_all x as now d = Inr (cs, d') \<Longrightarrow> same_slots d d'"
proof (induction as arbitrary: d cs)
  case (Cons a as)
  from Cons.prems obtain c d1 cs' where one: "enqueue_attempt x a now d = Inr (c, d1)" and rest: "enqueue_all x as now d1 = Inr (cs', d')"
    by auto
  have "same_slots d d1" using one by (auto simp: enqueue_attempt_def split: option.splits dest: same_slots_ops(1))
  then show ?case using Cons.IH [OF rest] same_slots_trans by blast
qed simp

lemma acquire_same: "acquire t force now d = (r, d') \<Longrightarrow> same_slots d d'"
  by (auto simp: acquire_def same_slots_writes split: option.splits if_splits)

lemma loaded_policy: "sched_load sv now d = (ordered, ctx) \<Longrightarrow> sx_policy ctx = sv_policy sv \<and> sx_now ctx = now"
  by (auto simp: sched_load_def Let_def case_prod_unfold)

lemma reindex_keeps [simp]: "sx_policy (reindex ordered d ctx) = sx_policy ctx" "sx_now (reindex ordered d ctx) = sx_now ctx"
  by (simp_all add: reindex_def Let_def case_prod_unfold)

text \<open>The states a run goes through: both the working and the committed tables are \<open>within\<close> the bounds.\<close>

definition run_inv :: "sched_env \<Rightarrow> time \<Rightarrow> int \<Rightarrow> db \<Rightarrow> pass_state \<Rightarrow> bool" where
  "run_inv sv now n d0 st \<longleftrightarrow>
     within (sv_tenant sv) (sv_policy sv) (period_keys_of (sv_zone sv) now) d0 n (pa_db st) \<and>
     within (sv_tenant sv) (sv_policy sv) (period_keys_of (sv_zone sv) now) d0 n (pa_committed st) \<and>
     sx_policy (pa_ctx st) = sv_policy sv \<and> sx_now (pa_ctx st) = now"

lemma within_refl: "attempts_inv t d \<Longrightarrow> 0 \<le> n \<Longrightarrow> within t policy keys d n d"
  by (simp add: within_def)

lemma run_inv_start: "attempts_inv (sv_tenant sv) d \<Longrightarrow> run_inv sv now 0 d (start_pass sv now d)"
  using loaded_policy [of sv now d] by (auto simp: run_inv_def start_pass_def within_refl split: prod.splits)

lemma run_inv_reconcile:
  assumes "run_inv sv now n d0 st" and load: "sched_load sv now (pa_db st) = (pa_ordered st, pa_ctx st)"
  shows "run_inv sv now n d0 (reconcile_phase sv run_id now st)"
proof (cases "reconcile sv (pa_ctx st) (pa_ordered st) run_id now (pa_ensured st) (pa_db st)")
  case (Inr x)
  obtain e1 c1 d1 where x: "x = (e1, c1, d1)" by (rule prod_cases3)
  have "attempts_inv (sv_tenant sv) (pa_db st)" using assms(1) by (simp add: run_inv_def within_def)
  from reconcile_frees [OF this load Inr [unfolded x]] show ?thesis
    using assms(1) within_frees by (auto simp: run_inv_def reconcile_phase_def Inr x)
qed (use assms(1) in \<open>simp add: run_inv_def reconcile_phase_def\<close>)

lemma run_inv_admit:
  assumes inv: "run_inv sv now 0 d0 st" and fresh: "fresh_ids sv" and window: "0 \<le> window"
    and c0: "pa_counts st ''admitted'' = 0"
  shows "run_inv sv now window d0 (admit_phase sv run_id window commit_every now st)"
proof -
  let ?keys = "period_keys_of (sv_zone sv) now"
  define ctx where "ctx = (if pa_recon st ''released'' \<noteq> 0 then reindex (pa_ordered st) (pa_db st) (pa_ctx st) else pa_ctx st)"
  have ctx: "sx_policy ctx = sv_policy sv" "sx_now ctx = now" using inv by (auto simp: ctx_def run_inv_def)
  define s0 where "s0 = st\<lparr>pa_committed := pa_db st, pa_ctx := ctx\<rparr>"
  define st1 where "st1 = pass_loop sv ?keys run_id window commit_every now (pa_ordered st) s0"
  let ?J = "\<lambda>s. pass_inv sv (sv_policy sv) ?keys window d0 s \<and> sx_now (pa_ctx s) = now"
  have "?J s0" using inv window ctx c0 by (simp add: s0_def pass_inv_def run_inv_def)
  moreover have "sx_now (pa_ctx (pass_step sv ?keys run_id window commit_every now pair s)) = sx_now (pa_ctx s)" for pair s
    by (cases pair) (auto simp: pass_step_def Let_def close_facts(4) [OF refl] pass_admit_def case_prod_unfold admit_ctx_def error_code_def
        split: option.splits sum.splits admit_outcome.splits careeros_error.splits prod.splits)
  ultimately have "?J st1" unfolding st1_def by (intro pass_loop_keeps [where J = ?J]) (simp_all add: pass_inv_step [OF _ fresh])
  then have p: "pass_inv sv (sv_policy sv) ?keys window d0 st1" "sx_now (pa_ctx st1) = now" by auto
  have "run_inv sv now window d0 st1"
    using p within_mono [of _ _ _ _ "pa_counts st1 ''admitted''" _ window] by (auto simp: run_inv_def pass_inv_def)
  moreover have "admit_phase sv run_id window commit_every now st = (if pa_failed st1 = None then pass_heartbeat run_id now st1 else st1)"
    by (simp add: admit_phase_def Let_def st1_def s0_def ctx flip: ctx_def)
  ultimately show ?thesis using heartbeat_facts [of st1 run_id now] within_same [of _ _ _ _ _ "pa_db st1"] by (auto simp: run_inv_def)
qed

lemma run_inv_prepare:
  assumes inv: "run_inv sv now n d0 st" and contract: "prepare_contract sv"
  shows "run_inv sv now n d0 (prepare_phase sv run_id prepare limit worker now st)"
proof (cases prepare)
  case True
  obtain r d1 where prep: "sv_prepare sv (str_or worker (''scheduler:'' @ take 8 run_id)) limit now (pa_db st) = (r, d1)" by (rule prod.exhaust)
  have "same_slots (pa_db st) d1" using contract prep unfolding prepare_contract_def by (metis snd_conv)
  then have w: "within (sv_tenant sv) (sv_policy sv) (period_keys_of (sv_zone sv) now) d0 n d1"
    using inv within_same by (auto simp: run_inv_def)
  show ?thesis
  proof (cases r)
    case (Inl e)
    then show ?thesis using True prep w inv by (simp add: prepare_phase_def run_inv_def)
  next
    case (Inr report)
    obtain ordered ctx where load: "sched_load sv now d1 = (ordered, ctx)" by (rule prod.exhaust)
    define st2 where "st2 = st\<lparr>pa_db := d1, pa_committed := d1, pa_report := Some report, pa_ordered := ordered, pa_ctx := ctx\<rparr>"
    have "run_inv sv now n d0 st2" using w loaded_policy [OF load] by (simp add: st2_def run_inv_def)
    then have "run_inv sv now n d0 (reconcile_phase sv run_id now st2)" by (rule run_inv_reconcile) (simp add: st2_def load)
    then show ?thesis using True prep Inr load by (simp add: prepare_phase_def run_inv_def Let_def flip: st2_def)
  qed
qed (use inv in \<open>simp add: prepare_phase_def run_inv_def\<close>)

lemma run_inv_enqueue:
  assumes "run_inv sv now n d0 st"
  shows "run_inv sv now n d0 (enqueue_phase sv now st)"
  using assms by (auto simp: enqueue_phase_def run_inv_def enqueue_ready_def split: sum.split dest: enqueue_all_same intro: within_same)

lemma run_inv_phases:
  assumes inv: "attempts_inv (sv_tenant sv) d" and fresh: "fresh_ids sv" and contract: "prepare_contract sv" and "0 \<le> window"
  shows "run_inv sv now window d (run_phases sv run_id window prepare limit worker commit_every now d)"
proof -
  have more: "run_inv sv now 0 d st \<Longrightarrow> run_inv sv now window d st" for st
    using assms(4) within_mono by (auto simp: run_inv_def)
  define s0 where "s0 = reconcile_phase sv run_id now (start_pass sv now d)"
  have s0: "run_inv sv now 0 d s0" unfolding s0_def
    by (rule run_inv_reconcile [OF run_inv_start [OF inv]]) (simp add: start_pass_def split: prod.split)
  have "pa_counts s0 ''admitted'' = 0"
    by (auto simp: s0_def reconcile_phase_def start_pass_def no_counts_def split: sum.split prod.split)
  from run_inv_admit [OF s0 fresh assms(4) this] more [OF s0]
  have s1: "run_inv sv now window d (unless_failed (admit_phase sv run_id window commit_every now) s0)" by (simp add: unless_failed_def)
  have chain: "run_inv sv now window d (unless_failed f s)" if "run_inv sv now window d s" "\<And>s. run_inv sv now window d s \<Longrightarrow> run_inv sv now window d (f s)" for f s
    using that by (simp add: unless_failed_def)
  show ?thesis unfolding run_phases_def s0_def [symmetric] by (rule chain [OF chain [OF s1 run_inv_prepare [OF _ contract]] run_inv_enqueue])
qed

section \<open>Properties of the run\<close>

text \<open>C17. A scheduler run never gets past the candidate's limits, whatever it finds and however it ends
  (races, refusals, exceptions and the roll-back of the last commit included): every slot in use stays paid
  for, no period gets more than \<open>window\<close> further slots, and the day and the week of the run hold at most as
  many as before or their cap, whichever is larger.\<close>

theorem run_within_limits:
  assumes "attempts_inv (sv_tenant sv) d" and "fresh_ids sv" and "prepare_contract sv"
    and run: "sched_run sv trigger window prepare limit worker force commit_every resumed_from run_id now d = (r, d')"
  shows "attempts_inv (sv_tenant sv) d' \<and>
    (\<forall>k. int (slots_held (sv_tenant sv) d' k) \<le> int (slots_held (sv_tenant sv) d k) + max 0 window) \<and>
    int (slots_held (sv_tenant sv) d' (DAY, pd_key (pk_day (period_keys_of (sv_zone sv) now)))) \<le>
      max (int (slots_held (sv_tenant sv) d (DAY, pd_key (pk_day (period_keys_of (sv_zone sv) now))))) (daily_cap (sv_policy sv)) \<and>
    int (slots_held (sv_tenant sv) d' (WEEK, pd_key (pk_week (period_keys_of (sv_zone sv) now)))) \<le>
      max (int (slots_held (sv_tenant sv) d (WEEK, pd_key (pk_week (period_keys_of (sv_zone sv) now))))) (weekly_cap (sv_policy sv))"
proof -
  let ?keys = "period_keys_of (sv_zone sv) now"
  have "within (sv_tenant sv) (sv_policy sv) ?keys d (max 0 window) d'"
  proof (cases "window < 1")
    case True
    then show ?thesis using run assms(1) by (simp add: sched_run_def within_refl)
  next
    case False
    obtain q d1 where acq: "acquire (sv_tenant sv) force now d = (q, d1)" by (rule prod.exhaust)
    have w1: "within (sv_tenant sv) (sv_policy sv) ?keys d 0 d1" by (rule within_same [OF within_refl [OF assms(1)] acquire_same [OF acq]]) simp
    show ?thesis
    proof (cases q)
      case (Inl e)
      then show ?thesis using run False acq within_mono [OF w1, of "max 0 window"] by (simp add: sched_run_def)
    next
      case (Inr u)
      define d2 where "d2 = d1\<lparr>scheduler_runs_t := scheduler_runs_t d1 @ [new_run sv trigger window resumed_from run_id now]\<rparr>"
      have same: "same_slots d d2" using acquire_same [OF acq] by (simp add: d2_def same_slots_def)
      then have inv2: "attempts_inv (sv_tenant sv) d2" using same_slots_inv assms(1) by blast
      let ?st = "run_phases sv run_id window prepare limit worker commit_every now d2"
      have "run_inv sv now window d2 ?st" by (rule run_inv_phases [OF inv2 assms(2,3)]) (use False in simp)
      moreover have "within t p k d2 n x = within t p k d n x" if "t = sv_tenant sv" for t p k n x
        using same_slots_inv [OF same] that by (simp add: within_def)
      ultimately have st: "within (sv_tenant sv) (sv_policy sv) ?keys d window (pa_db ?st)" "within (sv_tenant sv) (sv_policy sv) ?keys d window (pa_committed ?st)"
        by (simp_all add: run_inv_def)
      have "settle_run run_id now ?st = (r, d')" using run False acq Inr by (simp add: sched_run_def d2_def)
      then have "d' = pa_db ?st \<or> d' = pa_committed ?st \<or> (\<exists>x. d' = put_sched_run x (pa_db ?st) \<or> d' = put_sched_run x (pa_committed ?st))"
        by (auto simp: settle_run_def Let_def split: option.splits)
      then have "within (sv_tenant sv) (sv_policy sv) ?keys d window d'" using st within_same [OF _ same_slots_writes(4)] by metis
      then show ?thesis using within_mono False by (simp add: max_def)
    qed
  qed
  then show ?thesis by (simp add: within_def)
qed

lemma longest: "x \<in> set xs \<Longrightarrow> Suc ((\<Sum>y\<leftarrow>xs. length (f y)) + n) = length (f x) \<Longrightarrow> False"
  "x \<in> set xs \<Longrightarrow> Suc (n + (\<Sum>y\<leftarrow>xs. length (f y))) = length (f x) \<Longrightarrow> False"
  using member_le_sum_list [of "length (f x)" "map (\<lambda>y. length (f y)) xs"] by auto

theorem run_within_limits_witness:
  "\<forall>k. int (slots_held ''t1'' (snd (sched_run example_pass_env ''auto'' 5 False 3 None False 2 None ''run-1'' 500 example_pass_db)) k) \<le>
     int (slots_held ''t1'' example_pass_db k) + 5"
proof -
  let ?r = "sched_run example_pass_env ''auto'' 5 False 3 None False 2 None ''run-1'' 500 example_pass_db"
  have r: "?r = (fst ?r, snd ?r)" by simp
  have "attempts_inv (sv_tenant example_pass_env) example_pass_db"
    using attempts_inv_empty(1) [of "''t1''"]
    by (simp add: attempts_inv_def slots_covered_def slots_held_def applications_inv_def ledger_inv_def cap_count_def cap_get_def
        example_pass_db_def example_pass_env_def)
  moreover have "fresh_ids example_pass_env"
    unfolding fresh_ids_def example_pass_env_def sched_env.select_convs
    by (auto dest!: arg_cong [where f = length] simp: length_concat comp_def dest: longest)
  moreover have "prepare_contract example_pass_env" by (simp add: prepare_contract_def example_pass_env_def)
  ultimately have "\<forall>k. int (slots_held (sv_tenant example_pass_env) (snd ?r) k) \<le> int (slots_held (sv_tenant example_pass_env) example_pass_db k) + max 0 5"
    using run_within_limits [OF _ _ _ r] by blast
  moreover have "sv_tenant example_pass_env = ''t1''" by (simp add: example_pass_env_def)
  ultimately show ?thesis by simp
qed

end
