(* ===== verification/Sched_Company.thy ===== *)
theory Sched_Company
  imports Sched_Pass
begin

text \<open>
  One opening per company: the cool-down index is extended as the pass admits, so a run never admits
  two openings of one company, whatever order they come in.
\<close>

section \<open>What an iteration does to the candidates\<close>

lemma tbl_put_put: "key r = key r' \<Longrightarrow> tbl_put key r' (tbl_put key r xs) = tbl_put key r' xs"
  by (simp add: tbl_put_def)

definition same_people :: "db \<Rightarrow> db \<Rightarrow> bool" where
  "same_people d d' \<longleftrightarrow> candidates_t d' = candidates_t d \<and> opportunities_t d' = opportunities_t d"

text \<open>At most the row of one candidate opportunity was written, and it still belongs to its opening.\<close>

definition one_row :: "candidate_opportunity_row \<Rightarrow> candidate_opportunity_row \<Rightarrow> db \<Rightarrow> db \<Rightarrow> bool" where
  "one_row co co' d d' \<longleftrightarrow> co_id co' = co_id co \<and> co_opportunity_id co' = co_opportunity_id co \<and>
     candidates_t d' = tbl_put co_id co' (candidates_t d) \<and> opportunities_t d' = opportunities_t d"

lemma one_row_trans: "one_row co co1 d d1 \<Longrightarrow> one_row co1 co2 d1 d2 \<Longrightarrow> one_row co co2 d d2"
  by (simp add: one_row_def tbl_put_put)

lemma same_people_row: "same_people d d1 \<Longrightarrow> one_row co co' d1 d2 \<Longrightarrow> one_row co co' d d2"
  by (simp add: one_row_def same_people_def)

lemma row_same_people: "one_row co co' d d1 \<Longrightarrow> same_people d1 d2 \<Longrightarrow> one_row co co' d d2"
  by (simp add: one_row_def same_people_def)

lemma same_people_trans: "same_people d d1 \<Longrightarrow> same_people d1 d2 \<Longrightarrow> same_people d d2"
  by (simp add: same_people_def)

lemma people_ledger:
  "candidates_t (snd (snd (cap_reserve t dk wk dc wc e d))) = candidates_t d"
  "opportunities_t (snd (snd (cap_reserve t dk wk dc wc e d))) = opportunities_t d"
  by (simp_all only: only_ledger_reads [OF reserve_only_ledger])

lemma people_event: "candidates_t (add_event a ev f u m d) = candidates_t d" "opportunities_t (add_event a ev f u m d) = opportunities_t d"
  by (simp_all add: add_event_def)

lemma people_reserve:
  "attempt_reserve t co opp day week dc wc ln level ex run_id new_id now e d = (Inr r, e', d') \<Longrightarrow> same_people d d'"
  using people_ledger [of t day week dc wc e d]
  by (cases "cap_reserve t day week dc wc e d")
    (auto simp: attempt_reserve_def same_people_def people_event Let_def split: option.splits if_splits)

lemma people_mark: "same_people d (snd (snd (mark_ready row p run_id now d)))"
  by (auto simp: mark_ready_def flush_application_def same_people_def people_event Let_def)

lemma people_item: "admit_item sv run_id now co ln attempt item prep d = Inr (i, en, rq, d') \<Longrightarrow> same_people d d'"
  using people_mark
  by (auto simp: admit_item_def queue_enqueue_def queue_requeue_def same_people_def Let_def case_prod_unfold split: option.splits if_splits)

lemma one_row_writes:
  "one_row co (co\<lparr>co_application_id := x\<rparr>) d (put_candidate (co\<lparr>co_application_id := x\<rparr>) d)"
  "one_row co (fst (record_admission t co b r actor v rs g d)) d (snd (record_admission t co b r actor v rs g d))"
  "one_row co (stamp_row code verdict run_id now co) d (put_candidate (stamp_row code verdict run_id now co) d)"
  by (auto simp: one_row_def record_admission_def co_record_def stamp_row_def Let_def)

lemma tbl_put_self: "distinct (map key xs) \<Longrightarrow> x \<in> set xs \<Longrightarrow> tbl_put key x xs = xs"
  unfolding tbl_put_def by (rule map_idI) (metis key_inj)

lemma transition_row:
  assumes "co_transition t co s actor r f now d = Inr (co', d')" and "distinct (map co_id (candidates_t d))" and "co \<in> set (candidates_t d)"
  shows "one_row co co' d d'"
  using assms tbl_put_self [of co_id "candidates_t d" co]
  by (auto simp: co_transition_def co_move_def one_row_def co_record_def split: if_splits)

lemma one_row_in: "one_row co co' d d' \<Longrightarrow> co \<in> set (candidates_t d) \<Longrightarrow> co' \<in> set (candidates_t d')"
  by (force simp: one_row_def tbl_put_def)

lemma one_row_distinct: "one_row co co' d d' \<Longrightarrow> distinct (map co_id (candidates_t d)) \<Longrightarrow> distinct (map co_id (candidates_t d'))"
  by (simp add: one_row_def)

lemma admit_candidate_row:
  assumes res: "admit_candidate sv policy run_id now co verdict attempt item ln level d = Inr d'"
    and dist: "distinct (map co_id (candidates_t d))" and row: "co \<in> set (candidates_t d)"
  shows "\<exists>co'. one_row co co' d d'"
proof -
  let ?co1 = "co\<lparr>co_application_id := Some (a_id attempt)\<rparr>" and ?d1 = "put_candidate (co\<lparr>co_application_id := Some (a_id attempt)\<rparr>) d"
  note r1 = one_row_writes(1) [of co "Some (a_id attempt)" d]
  obtain co2 d2 where r: "(if co_policy_admitted ?co1 \<noteq> Some True \<or> co_policy_reason ?co1 \<noteq> Some (v_reason verdict) \<or>
                          co_admission_policy_version ?co1 \<noteq> Some (policy_version policy)
                       then record_admission (sv_tenant sv) ?co1 True (v_reason verdict) (sv_actor sv) (Some (policy_version policy))
                              (verdict_ruleset verdict) (verdict_gates verdict) ?d1
                       else (?co1, ?d1)) = (co2, d2)" by (rule prod.exhaust)
  have "one_row co co2 d d2"
    using r r1 one_row_trans [OF r1 one_row_writes(2)] by (metis (no_types, lifting) fst_conv snd_conv)
  then have r2: "one_row co co2 d d2" "distinct (map co_id (candidates_t d2))" "co2 \<in> set (candidates_t d2)"
    using dist row one_row_distinct one_row_in by blast+
  obtain y where t: "(if co_state co2 \<in> QUEUED_FROM
      then co_transition (sv_tenant sv) co2 OS_QUEUED (sv_actor sv) (Some (''scheduler run '' @ run_id)) False now d2 else Inr (co2, d2)) = Inr y"
    and d': "same_people (snd y) d'"
    using res unfolding admit_candidate_def Let_def r prod.case bind_result_Inr_iff by (force simp: same_people_def case_prod_unfold)
  have m: "one_row co2 (fst y) d2 (snd y)"
  proof (cases "co_state co2 \<in> QUEUED_FROM")
    case True
    then show ?thesis using t transition_row [OF _ r2(2,3)] by (metis prod.collapse)
  next
    case False
    then show ?thesis using t tbl_put_self [OF r2(2,3)] by (auto simp: one_row_def)
  qed
  show ?thesis using row_same_people [OF one_row_trans [OF r2(1) m] d'] by blast
qed

lemma reserve_refusal:
  assumes "attempt_reserve t co opp day week dc wc ln level ex run_id new_id now e d = (Inr (Inr code), e', d')"
  shows "code \<in> {AR_DAILY_CAP_REACHED, AR_WEEKLY_CAP_REACHED}"
proof -
  obtain r e1 d1 where c: "cap_reserve t day week dc wc e d = (r, e1, d1)" by (rule prod_cases3)
  have "r = Some code" using assms by (auto simp: attempt_reserve_def c Let_def split: option.splits if_splits)
  then show ?thesis using c by (auto simp: cap_reserve_def Let_def case_prod_unfold split: if_splits)
qed

lemma reserved_at: "a_reserved_at (reserved_row t co opp day week ln level ex job new_id now) = Some now"
  by (simp add: reserved_row_def Let_def)

lemma admit_rows:
  assumes res: "admit_db sv ctx keys run_id now co opp verdict e d = (r, e', d')"
    and dist: "distinct (map co_id (candidates_t d))" and row: "co \<in> set (candidates_t d)"
  shows "same_people d d' \<and> (\<exists>err. r = Inl err \<or> r = Inr (Refused AR_DAILY_CAP_REACHED) \<or> r = Inr (Refused AR_WEEKLY_CAP_REACHED)) \<or>
    (\<exists>a i en rq co'. r = Inr (Admitted a i en rq) \<and> a_reserved_at a = Some now \<and> one_row co co' d d')"
proof (cases "v_lane verdict = None \<or> v_level verdict = None")
  case True
  then show ?thesis using res by (auto simp: admit_db_def same_people_def split: option.splits)
next
  case False
  then obtain ln level where v: "v_lane verdict = Some ln" "v_level verdict = Some level" by auto
  obtain q e1 d1 where q': "attempt_reserve (sv_tenant sv) co opp (pd_key (pk_day keys)) (pd_key (pk_week keys)) (daily_cap (sx_policy ctx))
      (weekly_cap (sx_policy ctx)) ln level (existing_attempt ctx opp d) run_id (sv_fresh sv d) now e d = (q, e1, d1)"
    by (rule prod_cases3)
  consider (err) x where "q = Inl x" | (refused) x where "q = Inr (Inr x)" | (row) x where "q = Inr (Inl x)" by (metis sum.exhaust)
  then show ?thesis
  proof cases
    case err
    then show ?thesis using res q' v by (auto simp: admit_db_def same_people_def Let_def)
  next
    case refused
    then show ?thesis using res q' v people_reserve [OF q' [unfolded refused]] reserve_refusal [OF q' [unfolded refused]]
      by (auto simp: admit_db_def Let_def)
  next
    case row': row
    note p1 = people_reserve [OF q' [unfolded row']]
    have at: "a_reserved_at x = Some now"
      using attempt_reserve_granted [OF q' [unfolded row']] reserved_at by metis
    show ?thesis
    proof (cases "\<exists>err. r = Inl err")
      case True
      then have "d' = d" using res q' row' v by (auto simp: admit_db_def Let_def split: sum.splits prod.splits)
      then show ?thesis using True by (auto simp: same_people_def)
    next
      case False
      then obtain i en rq d2 where it: "admit_item sv run_id now co ln x (Option.bind (sx_items ctx (o_id opp)) (get_item d1))
             (Option.bind (sx_preparations ctx (co_id co)) (get_preparation d1)) d1 = Inr (i, en, rq, d2)"
        and cand: "admit_candidate sv (sx_policy ctx) run_id now co verdict x i ln level d2 = Inr d'"
        and r: "r = Inr (Admitted x i en rq)"
        using res q' row' v by (auto simp: admit_db_def Let_def split: sum.splits prod.splits)
      have p2: "same_people d d2" by (rule same_people_trans [OF p1 people_item [OF it]])
      obtain co' where "one_row co co' d2 d'"
        using admit_candidate_row [OF cand] dist row p2 by (auto simp: same_people_def)
      from same_people_row [OF p2 this] show ?thesis using r at by blast
    qed
  qed
qed

section \<open>The loop\<close>

definition admitted_by :: "string \<Rightarrow> candidate_opportunity_row \<Rightarrow> bool" where
  "admitted_by run_id c \<longleftrightarrow> co_scheduler_run_id c = Some run_id \<and> co_scheduler_code c = Some AR_ADMITTED"

definition company_of :: "db \<Rightarrow> candidate_opportunity_row \<Rightarrow> string option" where
  "company_of d c = map_option (\<lambda>o'. company_key (Some (o_company o'))) (get_opportunity d (co_opportunity_id c))"

definition one_per_company :: "string \<Rightarrow> db \<Rightarrow> bool" where
  "one_per_company run_id d \<longleftrightarrow>
     (\<forall>c \<in> set (candidates_t d). \<forall>c' \<in> set (candidates_t d).
        admitted_by run_id c \<longrightarrow> admitted_by run_id c' \<longrightarrow> company_of d c = company_of d c' \<longrightarrow> co_id c = co_id c')"

definition company_inv :: "string \<Rightarrow> time \<Rightarrow> (string \<times> string) list \<Rightarrow> pass_state \<Rightarrow> bool" where
  "company_inv run_id now left s \<longleftrightarrow>
     sx_now (pa_ctx s) = now \<and> 0 < cooldown_days (sx_policy (pa_ctx s)) \<and>
     distinct (map co_id (candidates_t (pa_db s))) \<and> distinct (map co_id (candidates_t (pa_committed s))) \<and> distinct (map fst left) \<and>
     (\<forall>(cid, oid) \<in> set left. \<forall>c. get_candidate (pa_db s) cid = Some c \<longrightarrow> co_opportunity_id c = oid) \<and>
     (\<forall>c \<in> set (candidates_t (pa_db s)). admitted_by run_id c \<longrightarrow>
        co_id c \<notin> fst ` set left \<and> (\<exists>k. company_of (pa_db s) c = Some k \<and> covered (sx_cooldown (pa_ctx s)) k now)) \<and>
     one_per_company run_id (pa_db s) \<and> one_per_company run_id (pa_committed s) \<and>
     (\<forall>code. pa_cap_hit s = Some code \<longrightarrow> code \<noteq> AR_ADMITTED)"

lemma one_row_set:
  assumes "one_row co co' d d'" and "distinct (map co_id (candidates_t d))" and "co \<in> set (candidates_t d)"
  shows "c \<in> set (candidates_t d') \<longleftrightarrow> c = co' \<or> (c \<in> set (candidates_t d) \<and> co_id c \<noteq> co_id co)"
  using assms by (force simp: one_row_def tbl_put_def)

lemma one_row_company: "one_row co co' d d' \<Longrightarrow> company_of d' c = company_of d c"
  by (simp add: one_row_def company_of_def get_opportunity_def)

lemma company_inv_same:
  assumes "company_inv run_id now (pair # left) s" and "same_people (pa_db s) (pa_db s')" and "pa_ctx s' = pa_ctx s"
    and "pa_committed s' = pa_committed s" and "\<forall>code. pa_cap_hit s' = Some code \<longrightarrow> code \<noteq> AR_ADMITTED"
  shows "company_inv run_id now left s'"
proof -
  have same: "candidates_t (pa_db s') = candidates_t (pa_db s)" "opportunities_t (pa_db s') = opportunities_t (pa_db s)"
    using assms(2) by (simp_all add: same_people_def)
  then have eqs: "company_of (pa_db s') = company_of (pa_db s)" "get_candidate (pa_db s') = get_candidate (pa_db s)"
    "one_per_company run_id (pa_db s') = one_per_company run_id (pa_db s)"
    by (simp_all add: company_of_def get_candidate_def get_opportunity_def one_per_company_def fun_eq_iff)
  show ?thesis using assms(1) unfolding company_inv_def eqs same assms(3,4)
    by (elim conjE, intro conjI assms(5)) (simp_all)
qed

lemma company_inv_row:
  assumes inv: "company_inv run_id now ((co_id co, oid) # left) s" and row: "one_row co co' (pa_db s) (pa_db s')" and co: "co \<in> set (candidates_t (pa_db s))"
    and opp: "get_opportunity (pa_db s) oid = Some opp"
    and ctx: "sx_now (pa_ctx s') = now" "sx_policy (pa_ctx s') = sx_policy (pa_ctx s)"
      "\<And>k. covered (sx_cooldown (pa_ctx s)) k now \<Longrightarrow> covered (sx_cooldown (pa_ctx s')) k now"
    and adm: "admitted_by run_id co' \<Longrightarrow> \<not> covered (sx_cooldown (pa_ctx s)) (company_key (Some (o_company opp))) now \<and>
        covered (sx_cooldown (pa_ctx s')) (company_key (Some (o_company opp))) now"
    and com: "pa_committed s' = pa_committed s \<or> pa_committed s' = pa_db s'"
    and hit: "\<forall>code. pa_cap_hit s' = Some code \<longrightarrow> code \<noteq> AR_ADMITTED"
  shows "company_inv run_id now left s'"
proof -
  note i = inv [unfolded company_inv_def]
  have dist: "distinct (map co_id (candidates_t (pa_db s)))" using i by blast
  note sets = one_row_set [OF row dist co] and comp = one_row_company [OF row]
  have id: "co_id co' = co_id co" "co_opportunity_id co' = co_opportunity_id co" using row by (simp_all add: one_row_def)
  have get: "get_candidate (pa_db s) (co_id co) = Some co" using tbl_get_distinct [OF dist co] by (simp add: get_candidate_def)
  then have "co_opportunity_id co = oid" using i by auto
  then have key: "company_of (pa_db s) co' = Some (company_key (Some (o_company opp)))" using opp id by (simp add: company_of_def)
  have others: "co_id c \<notin> fst ` set left \<and> (\<exists>k. company_of (pa_db s) c = Some k \<and> covered (sx_cooldown (pa_ctx s)) k now)"
    if "c \<in> set (candidates_t (pa_db s))" "admitted_by run_id c" for c using i that by auto
  have "one_per_company run_id (pa_db s')"
  proof -
    have old: "co_id c = co_id c'" if "c \<in> set (candidates_t (pa_db s))" "c' \<in> set (candidates_t (pa_db s))" "admitted_by run_id c"
      "admitted_by run_id c'" "company_of (pa_db s) c = company_of (pa_db s) c'" for c c'
      using i that unfolding one_per_company_def by blast
    have new: "company_of (pa_db s) c \<noteq> company_of (pa_db s) co'" if "c \<in> set (candidates_t (pa_db s))" "admitted_by run_id c" "admitted_by run_id co'" for c
      using others [OF that(1,2)] adm [OF that(3)] key by auto
    show ?thesis unfolding one_per_company_def comp
    proof (intro ballI impI)
      fix c c' assume c: "c \<in> set (candidates_t (pa_db s'))" "c' \<in> set (candidates_t (pa_db s'))" "admitted_by run_id c"
        "admitted_by run_id c'" "company_of (pa_db s) c = company_of (pa_db s) c'"
      show "co_id c = co_id c'"
        using c old [of c c'] new [of c] new [of c'] by (cases "c = co'"; cases "c' = co'") (simp_all add: sets)
    qed
  qed
  moreover have "co_id c \<notin> fst ` set left \<and> (\<exists>k. company_of (pa_db s') c = Some k \<and> covered (sx_cooldown (pa_ctx s')) k now)"
    if "c \<in> set (candidates_t (pa_db s'))" "admitted_by run_id c" for c
  proof (cases "c = co'")
    case True
    then show ?thesis using adm that key id i by (auto simp: comp)
  next
    case False
    then show ?thesis using others [of c] that ctx(3) by (auto simp: sets comp)
  qed
  moreover have "co_opportunity_id c = o'" if "(cid, o') \<in> set left" "get_candidate (pa_db s') cid = Some c" for cid o' c
  proof -
    have "distinct (map fst ((co_id co, oid) # left))" using i by blast
    then have "cid \<noteq> co_id co" using that(1) by (auto simp: rev_image_eqI)
    then have "get_candidate (pa_db s') cid = get_candidate (pa_db s) cid"
      using row id by (simp add: one_row_def get_candidate_def tbl_get_put)
    then show ?thesis using i that by auto
  qed
  ultimately show ?thesis using i ctx com hit one_row_distinct [OF row dist] unfolding company_inv_def by auto
qed

lemma close_rows:
  assumes st': "st' = pass_close sv run_id commit_every now cid opp verdict code extra st" and co: "get_candidate (pa_db st) cid = Some co"
  shows "\<exists>co'. one_row co co' (pa_db st) (pa_db st') \<and> co_scheduler_code co' = Some code \<and> co_scheduler_run_id co' = Some run_id"
    and "pa_cap_hit st' = pa_cap_hit st"
proof -
  let ?s = "stamp sv (sx_policy (pa_ctx st)) code verdict run_id now co (pa_db st)" and ?c = "stamp_row code verdict run_id now co"
  have "same_people (pa_db (pass_heartbeat run_id now x)) (pa_db x) \<and> pa_cap_hit (pass_heartbeat run_id now x) = pa_cap_hit x" for x
    by (auto simp: pass_heartbeat_def same_people_def put_sched_run_def Let_def split: option.splits)
  then have hb: "candidates_t (pa_db (pass_heartbeat run_id now x)) = candidates_t (pa_db x)" "opportunities_t (pa_db (pass_heartbeat run_id now x)) = opportunities_t (pa_db x)"
    "pa_cap_hit (pass_heartbeat run_id now x) = pa_cap_hit x" for x by (simp_all add: same_people_def)
  have "same_people ?s (pa_db st')" "pa_cap_hit st' = pa_cap_hit st"
    using co by (simp_all add: st' pass_close_def Let_def case_prod_unfold same_people_def hb)
  moreover have r: "one_row co ?c (pa_db st) (put_candidate ?c (pa_db st))" by (rule one_row_writes(3))
  moreover have c: "co_scheduler_code ?c = Some code" "co_scheduler_run_id ?c = Some run_id" by (simp_all add: stamp_row_def Let_def)
  moreover have "\<exists>co'. one_row co co' (pa_db st) ?s \<and> co_scheduler_code co' = Some code \<and> co_scheduler_run_id co' = Some run_id"
  proof -
    let ?a = "record_admission (sv_tenant sv) ?c False (v_reason verdict) (sv_actor sv) (Some (policy_version (sx_policy (pa_ctx st))))
                     (verdict_ruleset verdict) (verdict_gates verdict) (put_candidate ?c (pa_db st))"
    have "co_scheduler_code (fst ?a) = Some code" "co_scheduler_run_id (fst ?a) = Some run_id" using c by (simp_all add: record_admission_def Let_def)
    then show ?thesis using one_row_trans [OF r one_row_writes(2)] r c unfolding stamp_def Let_def by (smt (verit, best))
  qed
  ultimately show "\<exists>co'. one_row co co' (pa_db st) (pa_db st') \<and> co_scheduler_code co' = Some code \<and> co_scheduler_run_id co' = Some run_id"
    and "pa_cap_hit st' = pa_cap_hit st" using row_same_people by blast+
qed

lemma stay_row: "distinct (map co_id (candidates_t d)) \<Longrightarrow> co \<in> set (candidates_t d) \<Longrightarrow> same_people d d' \<Longrightarrow> one_row co co d d'"
  by (simp add: one_row_def same_people_def tbl_put_self)

lemma company_close:
  assumes inv: "company_inv run_id now ((cid, oid) # left) s" and co: "get_candidate (pa_db s) cid = Some co"
    and opp: "get_opportunity (pa_db s) oid = Some opp" and mid: "one_row co co1 (pa_db s) (pa_db st)"
    and st: "pa_committed st = pa_committed s" "sx_now (pa_ctx st) = now" "sx_policy (pa_ctx st) = sx_policy (pa_ctx s)"
      "\<And>k. covered (sx_cooldown (pa_ctx s)) k now \<Longrightarrow> covered (sx_cooldown (pa_ctx st)) k now"
    and hit: "\<forall>code. pa_cap_hit st = Some code \<longrightarrow> code \<noteq> AR_ADMITTED"
    and adm: "code = AR_ADMITTED \<Longrightarrow> \<not> covered (sx_cooldown (pa_ctx s)) (company_key (Some (o_company opp))) now \<and>
        covered (sx_cooldown (pa_ctx st)) (company_key (Some (o_company opp))) now"
  shows "company_inv run_id now left (pass_close sv run_id commit_every now cid opp verdict code extra st)"
proof -
  define s' where "s' = pass_close sv run_id commit_every now cid opp verdict code extra st"
  have cid: "cid = co_id co" "co \<in> set (candidates_t (pa_db s))" using co unfolding get_candidate_def by (blast dest: tbl_get_Some)+
  have dist: "distinct (map co_id (candidates_t (pa_db s)))" using inv by (simp add: company_inv_def)
  have "get_candidate (pa_db st) cid = Some co1"
    using tbl_get_distinct [OF one_row_distinct [OF mid dist] one_row_in [OF mid cid(2)]] mid by (simp add: get_candidate_def cid one_row_def)
  from close_rows [OF s'_def this] obtain co' where row: "one_row co1 co' (pa_db st) (pa_db s')"
    and code: "co_scheduler_code co' = Some code" and hit': "pa_cap_hit s' = pa_cap_hit st" by blast
  have s': "pa_ctx s' = pa_ctx st" "pa_committed s' = pa_committed s \<or> pa_committed s' = pa_db s'"
    using close_facts(2,4) [OF s'_def] st(1) by simp_all
  show ?thesis unfolding s'_def [symmetric]
    by (rule company_inv_row [OF inv [unfolded cid(1)] one_row_trans [OF mid row] cid(2) opp])
      (use st adm code s' hit hit' in \<open>simp_all add: admitted_by_def\<close>)
qed

lemma pass_admit_rows:
  assumes res: "pass_admit sv keys run_id now co opp verdict st = (r, st')"
    and dist: "distinct (map co_id (candidates_t (pa_db st)))" and row: "co \<in> set (candidates_t (pa_db st))"
  shows "pa_committed st' = pa_committed st"
    and "(\<forall>code. pa_cap_hit st = Some code \<longrightarrow> code \<noteq> AR_ADMITTED) \<Longrightarrow> \<forall>code. pa_cap_hit st' = Some code \<longrightarrow> code \<noteq> AR_ADMITTED"
    and "r = None \<Longrightarrow> same_people (pa_db st) (pa_db st') \<and> pa_ctx st' = pa_ctx st"
    and "r = Some (code, extra) \<Longrightarrow> \<exists>co'. one_row co co' (pa_db st) (pa_db st')"
    and "r = Some (code, extra) \<Longrightarrow> code \<noteq> AR_ADMITTED \<and> pa_ctx st' = pa_ctx st \<or>
      (\<exists>a i. code = AR_ADMITTED \<and> a_reserved_at a = Some now \<and> pa_ctx st' = admit_ctx opp a i (pa_ctx st))"
proof -
  obtain q e1 d1 where q: "admit_db sv (pa_ctx st) keys run_id now co opp verdict (pa_ensured st) (pa_db st) = (q, e1, d1)" by (rule prod_cases3)
  note rows = admit_rows [OF q dist row]
  consider (refused) code' where "q = Inr (Refused code')" | (admitted) attempt item en rq where "q = Inr (Admitted attempt item en rq)"
    | (conflict) m where "q = Inl (ConflictError m)" | (failed) err where "q = Inl err" "\<forall>m. err \<noteq> ConflictError m"
    by (metis admit_outcome.exhaust sum.exhaust)
  moreover have stay: "same_people (pa_db st) d1 \<Longrightarrow> \<exists>co'. one_row co co' (pa_db st) d1" using stay_row [OF dist row] by blast
  ultimately have all: "pa_committed st' = pa_committed st \<and>
    ((\<forall>code. pa_cap_hit st = Some code \<longrightarrow> code \<noteq> AR_ADMITTED) \<longrightarrow> (\<forall>code. pa_cap_hit st' = Some code \<longrightarrow> code \<noteq> AR_ADMITTED)) \<and>
    (r = None \<longrightarrow> same_people (pa_db st) (pa_db st') \<and> pa_ctx st' = pa_ctx st) \<and>
    (r = Some (code, extra) \<longrightarrow> (\<exists>co'. one_row co co' (pa_db st) (pa_db st')) \<and>
      (code \<noteq> AR_ADMITTED \<and> pa_ctx st' = pa_ctx st \<or>
       (\<exists>a i. code = AR_ADMITTED \<and> a_reserved_at a = Some now \<and> pa_ctx st' = admit_ctx opp a i (pa_ctx st))))"
  proof cases
    case refused
    then show ?thesis using res rows stay by (auto simp: pass_admit_def q Let_def split: if_splits)
  next
    case admitted
    then show ?thesis using res rows by (auto simp: pass_admit_def q Let_def) blast+
  next
    case conflict
    then show ?thesis using res rows stay by (auto simp: pass_admit_def q Let_def)
  next
    case failed
    have "r = None \<and> pa_db st' = d1 \<and> pa_committed st' = pa_committed st \<and> pa_cap_hit st' = pa_cap_hit st \<and> pa_ctx st' = pa_ctx st"
      using res failed by (cases err; cases "error_code err") (auto simp: pass_admit_def q Let_def)
    then show ?thesis using rows failed by auto
  qed
  show "pa_committed st' = pa_committed st" using all by blast
  show "\<forall>code. pa_cap_hit st' = Some code \<longrightarrow> code \<noteq> AR_ADMITTED" if "\<forall>code. pa_cap_hit st = Some code \<longrightarrow> code \<noteq> AR_ADMITTED"
    using all that by blast
  show "same_people (pa_db st) (pa_db st') \<and> pa_ctx st' = pa_ctx st" if "r = None" using all that by blast
  show "\<exists>co'. one_row co co' (pa_db st) (pa_db st')" if "r = Some (code, extra)" using all that by blast
  show "code \<noteq> AR_ADMITTED \<and> pa_ctx st' = pa_ctx st \<or>
      (\<exists>a i. code = AR_ADMITTED \<and> a_reserved_at a = Some now \<and> pa_ctx st' = admit_ctx opp a i (pa_ctx st))" if "r = Some (code, extra)"
    using all that by blast
qed

lemma decide_admitted_cool:
  assumes "decide ctx co opp = Some v" and "v_code v = AR_ADMITTED"
  shows "\<not> covered (ctx_cooldown ctx) (company_key (Some (o_company opp))) (ctx_now ctx)"
proof -
  obtain row where row: "decide_open ctx co opp row = Some v"
    using assms attempt_verdict_code [of ctx co opp] unfolding decide_def by (auto split: if_splits option.splits)
  have "active_until (ctx_cooldown ctx) (o_company opp) (ctx_now ctx) = None"
    using decide_open_value [of ctx co opp row] assms(2) unfolding row by (elim exE conjE) simp
  then show ?thesis by (simp flip: active_until_covered)
qed

lemma company_step:
  assumes inv: "company_inv run_id now (pair # left) s"
  shows "company_inv run_id now left (pass_step sv keys run_id window commit_every now pair s)"
proof -
  obtain cid oid where pair: "pair = (cid, oid)" by (rule prod.exhaust)
  note i = inv [unfolded pair]
  have facts: "distinct (map co_id (candidates_t (pa_db s)))" "sx_now (pa_ctx s) = now" "0 < cooldown_days (sx_policy (pa_ctx s))"
    "\<forall>code. pa_cap_hit s = Some code \<longrightarrow> code \<noteq> AR_ADMITTED" using i by (simp_all add: company_inv_def)
  show ?thesis
  proof (cases "\<exists>co opp verdict. get_candidate (pa_db s) cid = Some co \<and> get_opportunity (pa_db s) oid = Some opp \<and>
      decide (ctx_view (pa_ctx s) (pa_db s)) co opp = Some verdict")
    case False
    have "company_inv run_id now left (s\<lparr>pa_counts := c, pa_failed := f\<rparr>)" for c f
      by (rule company_inv_same [OF i]) (use facts in \<open>simp_all add: same_people_def\<close>)
    then show ?thesis using False by (auto simp: pass_step_def pair Let_def split: option.split)
  next
    case True
    then obtain co opp verdict where co: "get_candidate (pa_db s) cid = Some co" and opp: "get_opportunity (pa_db s) oid = Some opp"
      and v: "decide (ctx_view (pa_ctx s) (pa_db s)) co opp = Some verdict" by blast
    have row: "co \<in> set (candidates_t (pa_db s))" using co unfolding get_candidate_def by (blast dest: tbl_get_Some)
    have cool: "v_code verdict = AR_ADMITTED \<Longrightarrow> \<not> covered (sx_cooldown (pa_ctx s)) (company_key (Some (o_company opp))) now"
      using decide_admitted_cool [OF v] facts(2) by (simp add: ctx_view_def)
    have plain: "company_inv run_id now left (pass_close sv run_id commit_every now cid opp verdict code extra (s\<lparr>pa_counts := c\<rparr>))"
      if "code \<noteq> AR_ADMITTED" for code extra c
      by (rule company_close [OF i co opp, of co]) (use that facts stay_row [OF facts(1) row] in \<open>simp_all add: same_people_def\<close>)
    show ?thesis
    proof (cases "v_code verdict = AR_ADMITTED \<and> \<not> window \<le> pa_counts s ''admitted'' \<and> pa_cap_hit s = None")
      case False
      then show ?thesis using plain facts(4) by (auto simp: pass_step_def pair Let_def co opp v)
    next
      case adm: True
      define s1 where "s1 = s\<lparr>pa_counts := bump ''admissible'' 1 (bump ''considered'' 1 (pa_counts s))\<rparr>"
      have same: "pa_db s1 = pa_db s" "pa_ctx s1 = pa_ctx s" "pa_committed s1 = pa_committed s" "pa_cap_hit s1 = pa_cap_hit s" by (simp_all add: s1_def)
      obtain r s2 where a: "pass_admit sv keys run_id now co opp verdict s1 = (r, s2)" by (rule prod.exhaust)
      note rows = pass_admit_rows [OF a, unfolded same, OF facts(1) row]
      have hit: "\<forall>code. pa_cap_hit s2 = Some code \<longrightarrow> code \<noteq> AR_ADMITTED" using rows(2) facts(4) by blast
      have step: "pass_step sv keys run_id window commit_every now pair s =
          (case r of None \<Rightarrow> s2 | Some (code, extra) \<Rightarrow> pass_close sv run_id commit_every now cid opp verdict code extra s2)"
        using adm a by (simp add: pass_step_def pair Let_def co opp v s1_def)
      show ?thesis
      proof (cases r)
        case None
        then show ?thesis unfolding step using company_inv_same [OF i _ _ rows(1) hit] rows(3) by simp
      next
        case (Some p)
        obtain code extra where p: "p = (code, extra)" by (rule prod.exhaust)
        note rp = Some [unfolded p]
        obtain co1 where mid: "one_row co co1 (pa_db s) (pa_db s2)" using rows(4) [OF rp] by blast
        have ctx: "sx_now (pa_ctx s2) = now" "sx_policy (pa_ctx s2) = sx_policy (pa_ctx s)"
          "\<And>k. covered (sx_cooldown (pa_ctx s)) k now \<Longrightarrow> covered (sx_cooldown (pa_ctx s2)) k now"
          using rows(5) [OF rp] facts(2) by (auto simp: admit_ctx_def covered_add)
        have new: "covered (sx_cooldown (pa_ctx s2)) (company_key (Some (o_company opp))) now" if "code = AR_ADMITTED"
          using rows(5) [OF rp] that facts(3) by (auto simp: admit_ctx_def covered_add days_def)
        show ?thesis unfolding step rp option.case prod.case
          by (rule company_close [OF i co opp mid rows(1) ctx hit]) (use cool adm new in blast)+
      qed
    qed
  qed
qed

end
