(* ===== verification/Sched_Run.thy ===== *)
theory Sched_Run
  imports Sched_Company
begin

text \<open>
  The whole run seen from the candidates: only the admission loop writes the scheduler's stamps, so what
  it guarantees of the admitted openings holds of the database the run leaves behind.
\<close>

section \<open>Stamps\<close>

definition stamp_of :: "candidate_opportunity_row \<Rightarrow> string \<times> string \<times> string option \<times> admission_reason option" where
  "stamp_of c = (co_id c, co_opportunity_id c, co_scheduler_run_id c, co_scheduler_code c)"

definition keeps_stamps :: "db \<Rightarrow> db \<Rightarrow> bool" where
  "keeps_stamps d d' \<longleftrightarrow> map stamp_of (candidates_t d') = map stamp_of (candidates_t d) \<and> opportunities_t d' = opportunities_t d"

lemma keeps_stamps_people: "same_people d d' \<Longrightarrow> keeps_stamps d d'"
  by (simp add: keeps_stamps_def same_people_def)

lemma keeps_stamps_trans: "keeps_stamps d d1 \<Longrightarrow> keeps_stamps d1 d2 \<Longrightarrow> keeps_stamps d d2"
  by (simp add: keeps_stamps_def)

lemma stamp_ids: "map co_id xs = map fst (map stamp_of xs)"
  by (simp add: stamp_of_def comp_def)

lemma keeps_ids: "keeps_stamps d d' \<Longrightarrow> map co_id (candidates_t d') = map co_id (candidates_t d)"
  unfolding stamp_ids keeps_stamps_def by simp

lemma keeps_stamps_row:
  assumes "one_row co co' d d'" and "stamp_of co' = stamp_of co" and "distinct (map co_id (candidates_t d))" and "co \<in> set (candidates_t d)"
  shows "keeps_stamps d d'"
proof -
  have "stamp_of (if co_id r = co_id co' then co' else r) = stamp_of r" if "r \<in> set (candidates_t d)" for r
    using assms key_inj [OF assms(3) that assms(4)] by (auto simp: one_row_def)
  then show ?thesis using assms(1) by (simp add: keeps_stamps_def one_row_def tbl_put_def)
qed

text \<open>What holds of every state of a run: candidate ids are unique, and the run admitted one opening per
  company. \<open>unmarked\<close>: the run has admitted nobody.\<close>

definition one_each :: "string \<Rightarrow> db \<Rightarrow> bool" where
  "one_each run_id d \<longleftrightarrow> distinct (map co_id (candidates_t d)) \<and> one_per_company run_id d"

definition unmarked :: "string \<Rightarrow> db \<Rightarrow> bool" where
  "unmarked run_id d \<longleftrightarrow> (\<forall>c \<in> set (candidates_t d). co_scheduler_run_id c \<noteq> Some run_id)"

lemma unmarked_stamps: "unmarked run_id d = (\<forall>x \<in> set (map stamp_of (candidates_t d)). fst (snd (snd x)) \<noteq> Some run_id)"
  by (auto simp: unmarked_def stamp_of_def)

lemma unmarked_keeps: "keeps_stamps d d' \<Longrightarrow> unmarked run_id d \<Longrightarrow> unmarked run_id d'"
  unfolding unmarked_stamps keeps_stamps_def by simp

lemma one_per_stamps:
  "one_per_company run_id d = (\<forall>x \<in> set (map stamp_of (candidates_t d)). \<forall>y \<in> set (map stamp_of (candidates_t d)).
     snd (snd x) = (Some run_id, Some AR_ADMITTED) \<longrightarrow> snd (snd y) = (Some run_id, Some AR_ADMITTED) \<longrightarrow>
     map_option (\<lambda>o'. company_key (Some (o_company o'))) (tbl_get o_id (fst (snd x)) (opportunities_t d)) =
       map_option (\<lambda>o'. company_key (Some (o_company o'))) (tbl_get o_id (fst (snd y)) (opportunities_t d)) \<longrightarrow> fst x = fst y)"
  by (auto simp: one_per_company_def stamp_of_def admitted_by_def company_of_def get_opportunity_def)

lemma one_each_keeps: "keeps_stamps d d' \<Longrightarrow> one_each run_id d \<Longrightarrow> one_each run_id d'"
proof -
  assume k: "keeps_stamps d d'"
  then have eqs: "map stamp_of (candidates_t d') = map stamp_of (candidates_t d)" "opportunities_t d' = opportunities_t d"
    by (simp_all add: keeps_stamps_def)
  show "one_each run_id d \<Longrightarrow> one_each run_id d'" unfolding one_each_def one_per_stamps eqs keeps_ids [OF k] .
qed

lemma one_each_unmarked: "distinct (map co_id (candidates_t d)) \<Longrightarrow> unmarked run_id d \<Longrightarrow> one_each run_id d"
  by (simp add: one_each_def one_per_company_def unmarked_def admitted_by_def)

section \<open>Reconciliation keeps them\<close>

lemma people_queue:
  "queue_requeue t actor r b1 b2 now i0 d = Inr (q, d') \<Longrightarrow> same_people d d'"
  "queue_cancel t actor r now i0 d = Inr (q, d') \<Longrightarrow> same_people d d'"
  "queue_resolve t actor j r now i0 d = Inr (q, d') \<Longrightarrow> same_people d d'"
  "queue_enqueue t co a actor ln p av m i now d = Inr (q, b, d') \<Longrightarrow> same_people d d'"
  by (auto simp: same_people_def queue_requeue_def queue_cancel_def queue_resolve_def queue_enqueue_def Let_def split: if_splits option.splits)

lemma people_preparing: "same_people d (snd (snd (mark_preparing row q run_id n now d)))"
  by (auto simp: mark_preparing_def flush_application_def same_people_def people_event Let_def)

lemma people_release: "same_people d (snd (snd (release_attempt t row s reason run_id now e d)))"
  by (auto simp: release_attempt_def flush_application_def same_people_def people_event Let_def case_prod_unfold
      cap_release_def cap_release_one_def cap_ensure_def split: option.split)

lemma people_settle: "same_people d (snd (settle_ready run_id now row p (c, d)))"
  using people_mark [of d row "p_id p" run_id now]
  by (auto simp: settle_ready_def Let_def case_prod_unfold same_people_def)

lemma people_parked:
  assumes "reconcile_parked sv run_id t now i prep row (c, d) = Inr (c', d')"
  shows "same_people d d'"
proof (cases "q_state i = QS_BLOCKED \<and> answers_arrived i prep t")
  case True
  then obtain i' d1 where r: "queue_requeue (sv_tenant sv) (sv_actor sv) (Some ''answer bank updated since this item was blocked'') True False now i d = Inr (i', d1)"
    and d': "d' = snd (snd (mark_preparing row (map_option p_id prep) run_id ''answer_bank_updated'' now d1))"
    using assms by (auto simp: reconcile_parked_def case_prod_unfold)
  from same_people_trans [OF people_queue(1) [OF r] people_preparing] show ?thesis by (simp add: d')
next
  case False
  then show ?thesis using assms people_preparing [of d row]
    by (auto simp: reconcile_parked_def case_prod_unfold Let_def same_people_def split: if_splits)
qed

lemma people_live:
  assumes "reconcile_live sv run_id t now item prep row (c, d) = Inr (c', d')"
  shows "same_people d d'"
proof (cases "\<exists>i p. item = Some i \<and> prep = Some p \<and> p_status p = PS_READY \<and> q_state i \<in> {QS_BLOCKED, QS_NEEDS_REVIEW} \<and>
    a_status row \<notin> {AS_BLOCKED, AS_NEEDS_USER_INPUT, AS_NEEDS_REVIEW, AS_SUBMITTING} \<and> a_status row \<notin> SUBMITTED_STATUSES")
  case True
  then obtain i p i' d1 j r where q: "queue_resolve (sv_tenant sv) (sv_actor sv) j r now i d = Inr (i', d1)"
    and st: "settle_ready run_id now row p (c, d1) = (c', d')"
    using assms by (auto simp: reconcile_live_def)
  have "same_people d1 d'" using people_settle [of d1 run_id now row p c] st by simp
  from same_people_trans [OF people_queue(3) [OF q] this] show ?thesis .
next
  case False
  then show ?thesis using assms people_parked people_settle [of d run_id now row]
    by (auto simp: reconcile_live_def same_people_def split: if_splits option.splits dest!: people_parked) (metis same_people_def snd_conv)+
qed

lemma transition_keeps:
  assumes "co_transition t co s actor r f now d = Inr (co', d')" and "distinct (map co_id (candidates_t d))" and "co \<in> set (candidates_t d)"
  shows "keeps_stamps d d'"
  by (rule keeps_stamps_row [OF transition_row [OF assms] _ assms(2,3)])
    (use assms(1) in \<open>auto simp: co_transition_def co_move_def stamp_of_def Let_def split: if_splits\<close>)

lemma stop_keeps:
  assumes res: "reconcile_stop sv run_id now co item row reason status (e, c, d) = Inr (e', c', d')"
    and dist: "distinct (map co_id (candidates_t d))" and co: "co \<in> set (candidates_t d)"
  shows "keeps_stamps d d'"
proof -
  obtain row' e1 d1 where r: "release_attempt (sv_tenant sv) row status reason run_id now e d = (row', e1, d1)" by (rule prod_cases3)
  have p1: "same_people d d1" using people_release [of d "sv_tenant sv" row status reason run_id now e] r by simp
  define A where "A = (case item of
              Some i \<Rightarrow> if q_state i \<in> {QS_PENDING, QS_RETRY_WAIT, QS_BLOCKED, QS_NEEDS_REVIEW}
                        then bind_result (queue_cancel (sv_tenant sv) (sv_actor sv) (Some (''scheduler: '' @ reason)) now i d1) (\<lambda>(_, d'). Inr d')
                        else Inr d1
            | None \<Rightarrow> Inr d1)"
  define B where "B = (\<lambda>d2. if status = AS_CLOSED \<and> reason = ''opportunity closed'' \<and> co_state co \<noteq> OS_CLOSED
            then (case co_transition (sv_tenant sv) co OS_CLOSED (sv_actor sv) (Some reason) False now d2 of
                    Inr (_, d') \<Rightarrow> Inr d' | Inl (ConflictError _) \<Rightarrow> Inr d2 | Inl e \<Rightarrow> Inl e)
            else Inr d2)"
  have "bind_result A (\<lambda>d2. bind_result (B d2) (\<lambda>d3. Inr (e1, bump ''released'' 1 c, d3))) = Inr (e', c', d')"
    using res unfolding reconcile_stop_def A_def B_def by (simp only: r Let_def prod.case)
  then obtain d2 where A: "A = Inr d2" and B: "B d2 = Inr d'" by auto
  have "same_people d1 d2" using A by (auto simp: A_def same_people_def split: option.splits if_splits dest!: people_queue(2))
  then have p2: "same_people d d2" by (rule same_people_trans [OF p1])
  have "keeps_stamps d2 d'"
    using B p2 dist co unfolding B_def
    by (auto simp: same_people_def intro: keeps_stamps_people transition_keeps split: if_splits sum.splits careeros_error.splits)
  from keeps_stamps_trans [OF keeps_stamps_people [OF p2] this] show ?thesis .
qed

lemma one_keeps:
  assumes res: "reconcile_one sv ctx ordered run_id t now entry (e, c, d) = Inr (e', c', d')"
    and dist: "distinct (map co_id (candidates_t d))"
  shows "keeps_stamps d d'"
proof -
  have self: "keeps_stamps d d" by (simp add: keeps_stamps_def)
  have mem: "get_candidate d k = Some co \<Longrightarrow> co \<in> set (candidates_t d)" for k co unfolding get_candidate_def by (blast dest: tbl_get_Some)
  note stop = stop_keeps [OF _ dist mem]
  show ?thesis using res self keeps_stamps_people [OF people_live]
    by (auto simp: reconcile_one_def Let_def bind_eq_Some_conv split: if_splits option.splits prod.splits intro: stop)
qed

lemma reconcile_keeps:
  assumes res: "reconcile sv ctx ordered run_id now e d = Inr (e', c', d')" and dist: "distinct (map co_id (candidates_t d))"
  shows "keeps_stamps d d'"
proof -
  let ?I = "\<lambda>st. keeps_stamps d (snd (snd st))"
  have "?I (e', c', d')"
  proof (rule fold_result_inv [where I = ?I, OF _ res [unfolded reconcile_def]])
    fix x s s'
    assume x: "?I s" "reconcile_one sv ctx ordered run_id (sv_answers_at sv d) now x s = Inr s'"
    obtain e1 c1 d1 where s: "s = (e1, c1, d1)" by (rule prod_cases3)
    obtain e2 c2 d2 where s': "s' = (e2, c2, d2)" by (rule prod_cases3)
    have k: "keeps_stamps d d1" using x s by simp
    have "keeps_stamps d1 d2" by (rule one_keeps [OF x(2) [unfolded s s']]) (simp add: keeps_ids [OF k] dist)
    then show "?I s'" using keeps_stamps_trans [OF k] s' by simp
  qed (simp add: keeps_stamps_def)
  then show ?thesis by simp
qed

section \<open>The phases\<close>

text \<open>The preparation worker leaves the scheduler's stamps and the openings alone.\<close>

definition prepare_stamps :: "sched_env \<Rightarrow> bool" where
  "prepare_stamps sv \<longleftrightarrow> (\<forall>worker limit now d. distinct (map co_id (candidates_t d)) \<longrightarrow> keeps_stamps d (snd (sv_prepare sv worker limit now d)))"

definition both :: "(db \<Rightarrow> bool) \<Rightarrow> pass_state \<Rightarrow> bool" where
  "both P st \<longleftrightarrow> P (pa_db st) \<and> P (pa_committed st)"

lemma both_reconcile:
  assumes "both (one_each run_id) st"
  shows "both (one_each run_id) (reconcile_phase sv run_id now st)"
proof (cases "reconcile sv (pa_ctx st) (pa_ordered st) run_id now (pa_ensured st) (pa_db st)")
  case (Inr x)
  obtain e1 c1 d1 where x: "x = (e1, c1, d1)" by (rule prod_cases3)
  have "keeps_stamps (pa_db st) d1" by (rule reconcile_keeps [OF Inr [unfolded x]]) (use assms in \<open>simp add: both_def one_each_def\<close>)
  then show ?thesis using assms one_each_keeps by (simp add: both_def reconcile_phase_def Inr x)
qed (use assms in \<open>simp add: both_def reconcile_phase_def\<close>)

lemma loaded_pairs:
  assumes load: "sched_load sv now d = (ordered, ctx)" and dist: "distinct (map co_id (candidates_t d))"
  shows "distinct (map fst ordered)" and "\<And>cid oid c. (cid, oid) \<in> set ordered \<Longrightarrow> get_candidate d cid = Some c \<Longrightarrow> co_opportunity_id c = oid"
proof -
  let ?ps = "candidate_pairs (sv_tenant sv) d"
  obtain f where ord: "ordered = map (\<lambda>(c, o'). (co_id c, o_id o')) (sort_key (\<lambda>(c, o'). f c o' :: int \<times> int \<times> int \<times> int \<times> (int \<times> time) \<times> time \<times> string) ?ps)"
    using load by (auto simp: sched_load_def Let_def case_prod_unfold)
  have in_ps: "(c, o') \<in> set ?ps \<longleftrightarrow> c \<in> set (candidates_t d) \<and> co_tenant_id c = sv_tenant sv \<and> get_opportunity d (co_opportunity_id c) = Some o'" for c o'
    by (auto simp: candidate_pairs_def tenant_candidates_def in_map_filter)
  have "distinct (map (co_id \<circ> fst) ?ps)"
  proof -
    have "distinct (map co_id cs) \<Longrightarrow> distinct (map (co_id \<circ> fst) (List.map_filter (\<lambda>c. map_option (Pair c) (get_opportunity d (co_opportunity_id c))) cs))" for cs
    proof (induction cs)
      case (Cons c cs)
      then show ?case by (auto simp: in_map_filter split: option.split)
    qed simp
    moreover have "distinct (map co_id (tenant_candidates (sv_tenant sv) d))" using dist by (simp add: tenant_candidates_def distinct_map_filter)
    ultimately show ?thesis by (simp add: candidate_pairs_def)
  qed
  then have "distinct (map (co_id \<circ> fst) (sort_key (\<lambda>(c, o'). f c o') ?ps))"
    by (metis distinct_map distinct_sort set_sort)
  moreover have "map fst ordered = map (co_id \<circ> fst) (sort_key (\<lambda>(c, o'). f c o') ?ps)" by (auto simp: ord)
  ultimately show "distinct (map fst ordered)" by simp
  fix cid oid c assume a: "(cid, oid) \<in> set ordered" "get_candidate d cid = Some c"
  then obtain c' o' where p: "(c', o') \<in> set ?ps" "cid = co_id c'" "oid = o_id o'" by (auto simp: ord)
  have "get_candidate d cid = Some c'" using tbl_get_distinct [OF dist] p by (simp add: in_ps get_candidate_def)
  then show "co_opportunity_id c = oid" using a(2) p in_ps opportunities.get_key by fastforce
qed

lemma both_admit:
  assumes b: "distinct (map co_id (candidates_t (pa_db st)))" "unmarked run_id (pa_db st)"
    and ctx: "sx_policy (pa_ctx st) = sv_policy sv" "sx_now (pa_ctx st) = now" "0 < cooldown_days (sv_policy sv)"
    and hit: "pa_cap_hit st = None"
    and ordered: "distinct (map fst (pa_ordered st))" "\<And>cid oid c. (cid, oid) \<in> set (pa_ordered st) \<Longrightarrow> get_candidate (pa_db st) cid = Some c \<Longrightarrow> co_opportunity_id c = oid"
    and nf: "pa_failed st = None"
  shows "both (one_each run_id) (admit_phase sv run_id window commit_every now st)"
proof -
  let ?keys = "period_keys_of (sv_zone sv) now"
  define ctx where "ctx = (if pa_recon st ''released'' \<noteq> 0 then reindex (pa_ordered st) (pa_db st) (pa_ctx st) else pa_ctx st)"
  have now: "sx_now ctx = now" "sx_policy ctx = sv_policy sv" using ctx by (simp_all add: ctx_def)
  define s0 where "s0 = st\<lparr>pa_committed := pa_db st, pa_ctx := ctx\<rparr>"
  define st1 where "st1 = pass_loop sv ?keys run_id window commit_every now (pa_ordered st) s0"
  have no: "\<not> admitted_by run_id c" if "c \<in> set (candidates_t (pa_db st))" for c using b(2) that by (simp add: unmarked_def admitted_by_def)
  have "company_inv run_id now (pa_ordered st) s0"
    unfolding company_inv_def one_per_company_def using b(1) ordered no now ctx(3) hit by (auto simp: s0_def)
  moreover have "pa_failed s0 = None" using nf by (simp add: s0_def)
  ultimately obtain left where "company_inv run_id now left st1"
    unfolding st1_def using pass_loop_inv [where J = "company_inv run_id now", OF company_step] by meson
  then have one: "both (one_each run_id) st1" by (simp add: both_def one_each_def company_inv_def)
  have "admit_phase sv run_id window commit_every now st = (if pa_failed st1 = None then pass_heartbeat run_id now st1 else st1)"
    by (simp add: admit_phase_def Let_def st1_def s0_def now flip: ctx_def)
  moreover have "keeps_stamps (pa_db st1) (pa_db (pass_heartbeat run_id now st1))" "pa_committed (pass_heartbeat run_id now st1) = pa_db (pass_heartbeat run_id now st1)"
    by (auto simp: pass_heartbeat_def keeps_stamps_def put_sched_run_def Let_def split: option.split)
  ultimately show ?thesis using one one_each_keeps unfolding both_def by auto
qed

lemma both_prepare:
  assumes b: "both (one_each run_id) st" and contract: "prepare_stamps sv"
  shows "both (one_each run_id) (prepare_phase sv run_id prepare limit worker now st)"
proof (cases prepare)
  case True
  obtain r d1 where prep: "sv_prepare sv (str_or worker (''scheduler:'' @ take 8 run_id)) limit now (pa_db st) = (r, d1)" by (rule prod.exhaust)
  have "distinct (map co_id (candidates_t (pa_db st)))" using b by (simp add: both_def one_each_def)
  then have "keeps_stamps (pa_db st) d1" using contract prep unfolding prepare_stamps_def by (metis snd_conv)
  then have one: "one_each run_id d1" using b one_each_keeps by (auto simp: both_def)
  show ?thesis
  proof (cases r)
    case (Inl e)
    then show ?thesis using True prep one by (simp add: prepare_phase_def both_def)
  next
    case (Inr report)
    obtain ordered ctx where load: "sched_load sv now d1 = (ordered, ctx)" by (rule prod.exhaust)
    define st2 where "st2 = st\<lparr>pa_db := d1, pa_committed := d1, pa_report := Some report, pa_ordered := ordered, pa_ctx := ctx\<rparr>"
    have "both (one_each run_id) st2" using one by (simp add: st2_def both_def)
    then have "both (one_each run_id) (reconcile_phase sv run_id now st2)" by (rule both_reconcile)
    then show ?thesis using True prep Inr load by (simp add: prepare_phase_def both_def Let_def flip: st2_def)
  qed
qed (use b in \<open>simp add: prepare_phase_def both_def\<close>)

lemma enqueue_all_people: "enqueue_all x as now d = Inr (cs, d') \<Longrightarrow> same_people d d'"
proof (induction as arbitrary: d cs)
  case (Cons a as)
  from Cons.prems obtain c d1 cs' where one: "enqueue_attempt x a now d = Inr (c, d1)" and rest: "enqueue_all x as now d1 = Inr (cs', d')"
    by auto
  have "same_people d d1" using one by (auto simp: enqueue_attempt_def same_people_def split: option.splits dest!: people_queue(4))
  then show ?case using Cons.IH [OF rest] same_people_trans by blast
qed (simp add: same_people_def)

lemma both_enqueue: "both (one_each run_id) st \<Longrightarrow> both (one_each run_id) (enqueue_phase sv now st)"
  by (auto simp: enqueue_phase_def both_def enqueue_ready_def split: sum.split
      dest: enqueue_all_people intro: one_each_keeps [OF keeps_stamps_people])

lemma both_phases:
  assumes dist: "distinct (map co_id (candidates_t d))" and un: "unmarked run_id d" and cool: "0 < cooldown_days (sv_policy sv)"
    and contract: "prepare_stamps sv"
  shows "both (one_each run_id) (run_phases sv run_id window prepare limit worker commit_every now d)"
proof -
  define s0 where "s0 = reconcile_phase sv run_id now (start_pass sv now d)"
  obtain ordered ctx where load: "sched_load sv now d = (ordered, ctx)" by (rule prod.exhaust)
  have start: "pa_db (start_pass sv now d) = d" "pa_committed (start_pass sv now d) = d" "pa_ordered (start_pass sv now d) = ordered"
    "pa_ctx (start_pass sv now d) = ctx" "pa_cap_hit (start_pass sv now d) = None" "pa_failed (start_pass sv now d) = None"
    by (simp_all add: start_pass_def load)
  have keeps: "keeps_stamps d (pa_db s0)"
    using reconcile_keeps [of sv ctx ordered run_id now _ d] dist
    by (auto simp: s0_def reconcile_phase_def start keeps_stamps_def split: sum.split)
  have same: "pa_ctx s0 = ctx" "pa_ordered s0 = ordered" "pa_cap_hit s0 = None"
    by (auto simp: s0_def reconcile_phase_def start split: sum.split)
  have d0: "distinct (map co_id (candidates_t (pa_db s0)))" "unmarked run_id (pa_db s0)"
    using keeps_ids [OF keeps] dist unmarked_keeps [OF keeps un] by simp_all
  have pairs: "co_opportunity_id c = oid" if "(cid, oid) \<in> set ordered" "get_candidate (pa_db s0) cid = Some c" for cid oid c
  proof -
    have c: "c \<in> set (candidates_t (pa_db s0))" "co_id c = cid" using that(2) unfolding get_candidate_def by (blast dest: tbl_get_Some)+
    then have "stamp_of c \<in> set (map stamp_of (candidates_t d))" using keeps unfolding keeps_stamps_def by (metis image_eqI image_set)
    then obtain c' where c': "c' \<in> set (candidates_t d)" "co_id c' = cid" "co_opportunity_id c' = co_opportunity_id c"
      using c(2) by (auto simp: stamp_of_def)
    then have "get_candidate d cid = Some c'" using tbl_get_distinct [OF dist c'(1)] by (simp add: get_candidate_def)
    then show ?thesis using loaded_pairs(2) [OF load dist that(1)] c'(3) by simp
  qed
  have "both (one_each run_id) s0" unfolding s0_def
    by (rule both_reconcile) (simp add: both_def start one_each_unmarked [OF dist un])
  moreover have "both (one_each run_id) (admit_phase sv run_id window commit_every now s0)" if "pa_failed s0 = None"
    using both_admit [OF d0 _ _ cool _ _ _ that] loaded_policy [OF load] loaded_pairs(1) [OF load dist] pairs by (simp add: same)
  ultimately have s1: "both (one_each run_id) (unless_failed (admit_phase sv run_id window commit_every now) s0)" by (simp add: unless_failed_def)
  have chain: "both (one_each run_id) (unless_failed f s)" if "both (one_each run_id) s" "\<And>s. both (one_each run_id) s \<Longrightarrow> both (one_each run_id) (f s)" for f s
    using that by (simp add: unless_failed_def)
  show ?thesis unfolding run_phases_def s0_def [symmetric] by (rule chain [OF chain [OF s1 both_prepare [OF _ contract]] both_enqueue])
qed

section \<open>Properties\<close>

text \<open>C18. A scheduler run applies to at most one opening per company while the policy has a cool-down:
  however the run ends, the candidate opportunities it stamped \<open>ADMITTED\<close> belong to openings of different
  normalised companies, although all of them may have passed the cool-down index loaded at its start.\<close>

theorem run_one_per_company:
  assumes "distinct (map co_id (candidates_t d))" and "\<forall>c \<in> set (candidates_t d). co_scheduler_run_id c \<noteq> Some run_id"
    and "0 < cooldown_days (sv_policy sv)" and "prepare_stamps sv"
    and run: "sched_run sv trigger window prepare limit worker force commit_every resumed_from run_id now d = (r, d')"
  shows "inj_on (company_of d') {c \<in> set (candidates_t d'). co_scheduler_run_id c = Some run_id \<and> co_scheduler_code c = Some AR_ADMITTED}"
proof -
  have un: "unmarked run_id d" using assms(2) by (simp add: unmarked_def)
  have one: "one_each run_id d'"
  proof (cases "window < 1 \<or> (\<exists>e. fst (acquire (sv_tenant sv) force now d) = Inl e)")
    case True
    have "keeps_stamps d d'" using True run
      by (auto simp: sched_run_def acquire_def keeps_stamps_def split: option.splits if_splits)
    then show ?thesis using one_each_keeps one_each_unmarked [OF assms(1) un] by blast
  next
    case False
    obtain u d1 where acq: "acquire (sv_tenant sv) force now d = (Inr u, d1)" using False by (cases "acquire (sv_tenant sv) force now d"; cases "fst (acquire (sv_tenant sv) force now d)") auto
    define d2 where "d2 = d1\<lparr>scheduler_runs_t := scheduler_runs_t d1 @ [new_run sv trigger window resumed_from run_id now]\<rparr>"
    have "keeps_stamps d d2" using acq
      by (auto simp: acquire_def keeps_stamps_def d2_def put_sched_run_def split: option.splits if_splits)
    then have k: "distinct (map co_id (candidates_t d2))" "unmarked run_id d2" using keeps_ids assms(1) unmarked_keeps un by auto
    let ?st = "run_phases sv run_id window prepare limit worker commit_every now d2"
    have b: "both (one_each run_id) ?st" by (rule both_phases [OF k assms(3,4)])
    have "settle_run run_id now ?st = (r, d')" using run False acq by (simp add: sched_run_def d2_def)
    then have "d' = pa_db ?st \<or> d' = pa_committed ?st \<or> (\<exists>x. d' = put_sched_run x (pa_db ?st) \<or> d' = put_sched_run x (pa_committed ?st))"
      by (auto simp: settle_run_def Let_def split: option.splits)
    moreover have "keeps_stamps x (put_sched_run y x)" for x y by (simp add: keeps_stamps_def put_sched_run_def)
    ultimately show ?thesis using b one_each_keeps unfolding both_def by metis
  qed
  show ?thesis
  proof (rule inj_onI, elim CollectE conjE)
    fix c1 c2 assume c: "c1 \<in> set (candidates_t d')" "c2 \<in> set (candidates_t d')" "company_of d' c1 = company_of d' c2"
      and a: "co_scheduler_run_id c1 = Some run_id" "co_scheduler_code c1 = Some AR_ADMITTED" "co_scheduler_run_id c2 = Some run_id"
        "co_scheduler_code c2 = Some AR_ADMITTED"
    have "co_id c1 = co_id c2" using one c a unfolding one_each_def one_per_company_def admitted_by_def by blast
    then show "c1 = c2" using one key_inj [of co_id "candidates_t d'", OF _ c(1,2)] by (simp add: one_each_def)
  qed
qed

theorem run_one_per_company_witness:
  "inj_on (company_of (snd (sched_run example_pass_env ''auto'' 5 False 3 None False 2 None ''run-1'' 500 example_pass_db)))
     {c \<in> set (candidates_t (snd (sched_run example_pass_env ''auto'' 5 False 3 None False 2 None ''run-1'' 500 example_pass_db))).
        co_scheduler_run_id c = Some ''run-1'' \<and> co_scheduler_code c = Some AR_ADMITTED}"
proof -
  let ?r = "sched_run example_pass_env ''auto'' 5 False 3 None False 2 None ''run-1'' 500 example_pass_db"
  have "?r = (fst ?r, snd ?r)" by simp
  from run_one_per_company [OF _ _ _ _ this] show ?thesis
    by (simp add: example_pass_db_def example_fit_def example_co_def example_policy_def policy_from_row_def example_pass_env_def prepare_stamps_def keeps_stamps_def)
qed

end
