(* ===== verification/Sched_Record.thy ===== *)
theory Sched_Record
  imports Scheduler
begin

text \<open>
  The record a run keeps of itself and the mark it leaves on every opening it considered: a run closes its
  record however it ends, runs of a tenant exclude each other, and a stamp touches the scheduler's own
  columns, the policy columns only for a static refusal.
\<close>

section \<open>Operations that leave the run records alone\<close>

definition run_sig :: "scheduler_run_row \<Rightarrow> string \<times> string \<times> string" where
  "run_sig r = (sr_id r, sr_tenant_id r, sr_status r)"

definition keeps_runs :: "db \<Rightarrow> db \<Rightarrow> bool" where
  "keeps_runs d d' \<longleftrightarrow> map run_sig (scheduler_runs_t d') = map run_sig (scheduler_runs_t d)"

lemma keeps_runs_refl [simp]: "keeps_runs d d"
  by (simp add: keeps_runs_def)

lemma keeps_runs_trans: "keeps_runs d d1 \<Longrightarrow> keeps_runs d1 d2 \<Longrightarrow> keeps_runs d d2"
  by (simp add: keeps_runs_def)

lemma keeps_runs_same: "scheduler_runs_t d' = scheduler_runs_t d \<Longrightarrow> keeps_runs d d'"
  by (simp add: keeps_runs_def)

lemma runs_writes [simp]:
  "scheduler_runs_t (put_candidate c d) = scheduler_runs_t d" "scheduler_runs_t (put_item q d) = scheduler_runs_t d"
  "scheduler_runs_t (put_application a d) = scheduler_runs_t d" "scheduler_runs_t (add_event a' ev f u m d) = scheduler_runs_t d"
  "scheduler_runs_t (audit_record t et ei ac ar be af su d) = scheduler_runs_t d"
  by (simp_all add: store_defs add_event_def audit_record_def)

lemma runs_ledger [simp]:
  "scheduler_runs_t (snd (snd (cap_reserve t dk wk dc wc e d))) = scheduler_runs_t d"
  "scheduler_runs_t (snd (cap_release t day week e d)) = scheduler_runs_t d"
  by (simp_all only: only_ledger_reads [OF reserve_only_ledger] only_ledger_reads [OF release_only_ledger])

lemma runs_ops:
  "queue_enqueue t co a actor ln p av m i now d = Inr (q, b, d') \<Longrightarrow> scheduler_runs_t d' = scheduler_runs_t d"
  "queue_requeue t actor r b1 b2 now i0 d = Inr (q, d') \<Longrightarrow> scheduler_runs_t d' = scheduler_runs_t d"
  "queue_cancel t actor r now i0 d = Inr (q, d') \<Longrightarrow> scheduler_runs_t d' = scheduler_runs_t d"
  "queue_resolve t actor j r now i0 d = Inr (q, d') \<Longrightarrow> scheduler_runs_t d' = scheduler_runs_t d"
  "co_transition t co s actor r b1 now d = Inr (co', d') \<Longrightarrow> scheduler_runs_t d' = scheduler_runs_t d"
  by (auto simp: queue_enqueue_def queue_requeue_def queue_cancel_def queue_resolve_def queue_record_def co_transition_def co_record_def Let_def
      split: if_splits option.splits)

lemma runs_marks [simp]:
  "scheduler_runs_t (snd (snd (mark_ready row p run_id now d))) = scheduler_runs_t d"
  "scheduler_runs_t (snd (snd (mark_preparing row q run_id n now d))) = scheduler_runs_t d"
  "scheduler_runs_t (snd (snd (release_attempt t row s reason run_id now e d))) = scheduler_runs_t d"
  "scheduler_runs_t (snd (record_admission t co b r actor v rs g d)) = scheduler_runs_t d"
  by (auto simp: mark_ready_def mark_preparing_def release_attempt_def flush_application_def record_admission_def co_record_def Let_def case_prod_unfold)

lemma runs_stamp [simp]: "scheduler_runs_t (stamp sv policy code verdict run_id now co d) = scheduler_runs_t d"
  by (simp add: stamp_def Let_def)

lemma runs_settle: "scheduler_runs_t (snd (settle_ready run_id now row p (c, d))) = scheduler_runs_t d"
  by (simp add: settle_ready_def Let_def case_prod_unfold)

lemma runs_parked: "reconcile_parked sv run_id t now i prep row (c, d) = Inr (c', d') \<Longrightarrow> scheduler_runs_t d' = scheduler_runs_t d"
  by (auto simp: reconcile_parked_def case_prod_unfold Let_def split: if_splits dest!: runs_ops(2))

lemma runs_live:
  assumes "reconcile_live sv run_id t now item prep row (c, d) = Inr (c', d')"
  shows "scheduler_runs_t d' = scheduler_runs_t d"
proof (cases "\<exists>i p. item = Some i \<and> prep = Some p \<and> p_status p = PS_READY \<and> q_state i \<in> {QS_BLOCKED, QS_NEEDS_REVIEW} \<and>
    a_status row \<notin> {AS_BLOCKED, AS_NEEDS_USER_INPUT, AS_NEEDS_REVIEW, AS_SUBMITTING} \<and> a_status row \<notin> SUBMITTED_STATUSES")
  case True
  then obtain i p i' d1 j r where q: "queue_resolve (sv_tenant sv) (sv_actor sv) j r now i d = Inr (i', d1)"
    and st: "settle_ready run_id now row p (c, d1) = (c', d')"
    using assms by (auto simp: reconcile_live_def)
  show ?thesis using runs_settle [of run_id now row p c d1] runs_ops(4) [OF q] st by simp
next
  case False
  have "settle_ready run_id now row p (c, d) = (c', d') \<Longrightarrow> scheduler_runs_t d' = scheduler_runs_t d" for p
    using runs_settle [of run_id now row p c d] by simp
  then show ?thesis using False assms runs_parked
    by (auto simp: reconcile_live_def split: if_splits option.splits)
qed

lemma runs_stop:
  assumes res: "reconcile_stop sv run_id now co item row reason status (e, c, d) = Inr (e', c', d')"
  shows "scheduler_runs_t d' = scheduler_runs_t d"
proof -
  obtain row' e1 d1 where r: "release_attempt (sv_tenant sv) row status reason run_id now e d = (row', e1, d1)" by (rule prod_cases3)
  have "scheduler_runs_t d1 = scheduler_runs_t d" using runs_marks(3) [of "sv_tenant sv" row status reason run_id now e d] by (simp add: r)
  then show ?thesis using res
    by (auto simp: reconcile_stop_def r bind_result_Inr_iff split: option.splits if_splits sum.splits careeros_error.splits dest!: runs_ops(3,5))
qed

lemma runs_reconcile:
  assumes res: "reconcile sv ctx ordered run_id now e d = Inr (e', c', d')"
  shows "scheduler_runs_t d' = scheduler_runs_t d"
proof -
  let ?I = "\<lambda>st. scheduler_runs_t (snd (snd st)) = scheduler_runs_t d"
  have "?I (e', c', d')"
  proof (rule fold_result_inv [where I = ?I, OF _ res [unfolded reconcile_def]])
    fix x s s'
    assume x: "?I s" "reconcile_one sv ctx ordered run_id (sv_answers_at sv d) now x s = Inr s'"
    obtain e1 c1 d1 where s: "s = (e1, c1, d1)" by (rule prod_cases3)
    obtain e2 c2 d2 where s': "s' = (e2, c2, d2)" by (rule prod_cases3)
    show "?I s'" using x runs_live runs_stop
      by (auto simp: s s' reconcile_one_def Let_def split: if_splits option.splits prod.splits)
  qed simp
  then show ?thesis by simp
qed

section \<open>The pass\<close>

lemma runs_reserve:
  "attempt_reserve t co opp day week dc wc ln level ex run_id new_id now e d = (Inr q, e', d') \<Longrightarrow> scheduler_runs_t d' = scheduler_runs_t d"
  using runs_ledger(1) [of t day week dc wc e d]
  by (cases "cap_reserve t day week dc wc e d") (auto simp: attempt_reserve_def Let_def split: option.splits if_splits)

lemma runs_item: "admit_item sv run_id now co ln attempt item prep d = Inr (i, en, rq, d') \<Longrightarrow> scheduler_runs_t d' = scheduler_runs_t d"
  by (auto simp: admit_item_def Let_def case_prod_unfold split: option.splits if_splits dest: runs_ops(1,2))

lemma runs_candidate:
  assumes "admit_candidate sv policy run_id now co verdict attempt item ln level d = Inr d'"
  shows "scheduler_runs_t d' = scheduler_runs_t d"
proof -
  let ?co1 = "co\<lparr>co_application_id := Some (a_id attempt)\<rparr>"
  obtain co2 d2 where r: "(if co_policy_admitted ?co1 \<noteq> Some True \<or> co_policy_reason ?co1 \<noteq> Some (v_reason verdict) \<or>
                          co_admission_policy_version ?co1 \<noteq> Some (policy_version policy)
                       then record_admission (sv_tenant sv) ?co1 True (v_reason verdict) (sv_actor sv) (Some (policy_version policy))
                              (verdict_ruleset verdict) (verdict_gates verdict) (put_candidate ?co1 d)
                       else (?co1, put_candidate ?co1 d)) = (co2, d2)" by (rule prod.exhaust)
  have "scheduler_runs_t d2 = scheduler_runs_t d"
    using arg_cong [OF r, of "\<lambda>x. scheduler_runs_t (snd x)"] by (simp split: if_splits)
  then show ?thesis using assms unfolding admit_candidate_def Let_def r
    by (auto split: if_splits dest!: runs_ops(5))
qed

lemma runs_admit: "scheduler_runs_t (snd (snd (admit_db sv ctx keys run_id now co opp verdict e d))) = scheduler_runs_t d"
  by (auto simp: admit_db_def Let_def split: option.split sum.split prod.split dest!: runs_reserve runs_item runs_candidate)

lemma keeps_runs_put:
  assumes "get_sched_run d run_id = Some run" and "distinct (map sr_id (scheduler_runs_t d))" and "run_sig run' = run_sig run"
  shows "keeps_runs d (put_sched_run run' d)"
proof -
  have "run_sig (if sr_id r = sr_id run' then run' else r) = run_sig r" if "r \<in> set (scheduler_runs_t d)" for r
  proof (cases "sr_id r = sr_id run'")
    case True
    have "run \<in> set (scheduler_runs_t d)" using assms(1) unfolding get_sched_run_def by (blast dest: tbl_get_Some)
    then have "r = run" using True that assms(2,3) unfolding run_sig_def by (metis distinct_map inj_onD prod.inject)
    then show ?thesis using True assms(3) by simp
  qed simp
  then show ?thesis by (simp add: keeps_runs_def put_sched_run_def tbl_put_def)
qed

definition recorded :: "(string \<times> string \<times> string) list \<Rightarrow> pass_state \<Rightarrow> bool" where
  "recorded sigs st \<longleftrightarrow> map run_sig (scheduler_runs_t (pa_db st)) = sigs \<and> map run_sig (scheduler_runs_t (pa_committed st)) = sigs"

lemma run_ids: "map sr_id xs = map fst (map run_sig xs)"
  by (simp add: run_sig_def comp_def)

lemma recorded_heartbeat:
  assumes "recorded sigs st" and "distinct (map fst sigs)"
  shows "recorded sigs (pass_heartbeat run_id now st)"
proof -
  have "keeps_runs (pa_db st) (pa_db (pass_heartbeat run_id now st))"
  proof (cases "get_sched_run (pa_db st) run_id")
    case (Some run)
    have "distinct (map sr_id (scheduler_runs_t (pa_db st)))" unfolding run_ids using assms by (simp add: recorded_def)
    from keeps_runs_put [OF Some this, of "apply_counts (pa_counts st) (reason_dict (pa_by_reason st)) (run\<lparr>sr_heartbeat_at := now\<rparr>)"]
    show ?thesis by (simp add: pass_heartbeat_def Some Let_def run_sig_def apply_counts_def)
  qed (simp add: pass_heartbeat_def)
  moreover have "pa_committed (pass_heartbeat run_id now st) = pa_db (pass_heartbeat run_id now st)" by (simp add: pass_heartbeat_def Let_def)
  ultimately show ?thesis using assms(1) by (simp add: recorded_def keeps_runs_def)
qed

lemma recorded_close:
  assumes "recorded sigs st" and "distinct (map fst sigs)"
  shows "recorded sigs (pass_close sv run_id commit_every now cid opp verdict code extra st)"
proof (cases "get_candidate (pa_db st) cid")
  case (Some co)
  define st1 where "st1 = st\<lparr>pa_counts := fst (tally code (pa_counts st, pa_by_reason st)), pa_by_reason := snd (tally code (pa_counts st, pa_by_reason st)),
                       pa_samples := add_sample code (sample_of code co opp verdict extra) (pa_samples st),
                       pa_db := stamp sv (sx_policy (pa_ctx st)) code verdict run_id now co (pa_db st)\<rparr>"
  have "pass_close sv run_id commit_every now cid opp verdict code extra st =
      (if commit_every \<le> pa_pending st1 then (pass_heartbeat run_id now st1)\<lparr>pa_pending := 0\<rparr> else st1)"
    using Some by (simp add: pass_close_def Let_def case_prod_unfold st1_def)
  moreover have "recorded sigs st1" using assms(1) by (simp add: recorded_def st1_def)
  moreover from recorded_heartbeat [OF this assms(2)] have "recorded sigs ((pass_heartbeat run_id now st1)\<lparr>pa_pending := 0\<rparr>)" by (simp add: recorded_def)
  ultimately show ?thesis by simp
qed (use assms in \<open>simp add: pass_close_def recorded_def\<close>)

lemma recorded_admit: "recorded sigs st \<Longrightarrow> recorded sigs (snd (pass_admit sv keys run_id now co opp verdict st))"
  using runs_admit [of sv "pa_ctx st" keys run_id now co opp verdict "pa_ensured st" "pa_db st"]
  by (auto simp: pass_admit_def Let_def case_prod_unfold recorded_def error_code_def split: sum.split admit_outcome.split careeros_error.split)

lemma recorded_step:
  assumes "recorded sigs st" and "distinct (map fst sigs)"
  shows "recorded sigs (pass_step sv keys run_id window commit_every now pair st)"
proof -
  have up: "recorded sigs (s\<lparr>pa_counts := c\<rparr>) = recorded sigs s" "recorded sigs (s\<lparr>pa_failed := f\<rparr>) = recorded sigs s" for s c f
    by (simp_all add: recorded_def)
  have adm: "recorded sigs s2" if "pass_admit sv keys run_id now co opp verdict s = (r, s2)" "recorded sigs s" for s s2 co opp verdict r
    using recorded_admit [OF that(2), of sv keys run_id now co opp verdict] that(1) by simp
  show ?thesis using assms recorded_close [OF _ assms(2)]
    by (auto simp: pass_step_def Let_def up split: option.split prod.split intro!: recorded_close elim!: adm)
qed

lemma recorded_loop:
  "recorded sigs st \<Longrightarrow> distinct (map fst sigs) \<Longrightarrow> recorded sigs (pass_loop sv keys run_id window commit_every now pairs st)"
  by (induction pairs arbitrary: st) (simp_all add: Let_def recorded_step)

section \<open>The phases\<close>

text \<open>The preparation worker leaves the records of scheduler runs alone.\<close>

definition prepare_runs :: "sched_env \<Rightarrow> bool" where
  "prepare_runs sv \<longleftrightarrow> (\<forall>worker limit now d. keeps_runs d (snd (sv_prepare sv worker limit now d)))"

lemma recorded_reconcile: "recorded sigs st \<Longrightarrow> recorded sigs (reconcile_phase sv run_id now st)"
  by (auto simp: reconcile_phase_def recorded_def split: sum.split dest: runs_reconcile)

lemma recorded_admit_phase:
  assumes "recorded sigs st" and "distinct (map fst sigs)"
  shows "recorded sigs (admit_phase sv run_id window commit_every now st)"
proof -
  have "recorded sigs (st\<lparr>pa_committed := pa_db st, pa_ctx := c\<rparr>)" for c using assms(1) by (simp add: recorded_def)
  from recorded_heartbeat [OF recorded_loop [OF this assms(2)] assms(2)] recorded_loop [OF this assms(2)]
  show ?thesis by (simp add: admit_phase_def Let_def)
qed

lemma recorded_prepare:
  assumes "recorded sigs st" and "prepare_runs sv"
  shows "recorded sigs (prepare_phase sv run_id prepare limit worker now st)"
proof (cases prepare)
  case True
  obtain r d1 where prep: "sv_prepare sv (str_or worker (''scheduler:'' @ take 8 run_id)) limit now (pa_db st) = (r, d1)" by (rule prod.exhaust)
  have "keeps_runs (pa_db st) d1" using assms(2) prep unfolding prepare_runs_def by (metis snd_conv)
  then have sig: "map run_sig (scheduler_runs_t d1) = sigs" using assms(1) by (simp add: keeps_runs_def recorded_def)
  show ?thesis
  proof (cases r)
    case (Inl e)
    then show ?thesis using True prep sig by (simp add: prepare_phase_def recorded_def)
  next
    case (Inr report)
    obtain ordered ctx where load: "sched_load sv now d1 = (ordered, ctx)" by (rule prod.exhaust)
    define st2 where "st2 = st\<lparr>pa_db := d1, pa_committed := d1, pa_report := Some report, pa_ordered := ordered, pa_ctx := ctx\<rparr>"
    have "recorded sigs st2" using sig by (simp add: st2_def recorded_def)
    then have "recorded sigs (reconcile_phase sv run_id now st2)" by (rule recorded_reconcile)
    then show ?thesis using True prep Inr load by (simp add: prepare_phase_def recorded_def Let_def flip: st2_def)
  qed
qed (use assms in \<open>simp add: prepare_phase_def recorded_def\<close>)

lemma runs_enqueue: "enqueue_all x as now d = Inr (cs, d') \<Longrightarrow> scheduler_runs_t d' = scheduler_runs_t d"
proof (induction as arbitrary: d cs)
  case (Cons a as)
  from Cons.prems obtain c d1 cs' where one: "enqueue_attempt x a now d = Inr (c, d1)" and rest: "enqueue_all x as now d1 = Inr (cs', d')"
    by auto
  have "scheduler_runs_t d1 = scheduler_runs_t d" using one by (auto simp: enqueue_attempt_def split: option.splits dest: runs_ops(1))
  then show ?case using Cons.IH [OF rest] by simp
qed simp

lemma recorded_enqueue: "recorded sigs st \<Longrightarrow> recorded sigs (enqueue_phase sv now st)"
  by (auto simp: enqueue_phase_def recorded_def enqueue_ready_def split: sum.split dest: runs_enqueue)

lemma recorded_phases:
  assumes sig: "map run_sig (scheduler_runs_t d) = sigs" and dist: "distinct (map fst sigs)" and contract: "prepare_runs sv"
  shows "recorded sigs (run_phases sv run_id window prepare limit worker commit_every now d)"
proof -
  have start: "recorded sigs (start_pass sv now d)" using sig by (simp add: start_pass_def recorded_def split: prod.split)
  have chain: "recorded sigs (unless_failed f s)" if "recorded sigs s" "\<And>s. recorded sigs s \<Longrightarrow> recorded sigs (f s)" for f s
    using that by (simp add: unless_failed_def)
  note s0 = recorded_reconcile [OF start] and admit = recorded_admit_phase [OF _ dist] and prep = recorded_prepare [OF _ contract]
  show ?thesis unfolding run_phases_def by (rule chain [OF chain [OF chain [OF s0 admit] prep] recorded_enqueue])
qed

section \<open>Properties\<close>

definition running_rows :: "string \<Rightarrow> db \<Rightarrow> scheduler_run_row list" where
  "running_rows tenant d = filter (\<lambda>r. sr_tenant_id r = tenant \<and> sr_status r = ''RUNNING'') (scheduler_runs_t d)"

lemma running_run_rows: "running_run tenant d = (case sort_key (\<lambda>r. - sr_started_at r) (running_rows tenant d) of [] \<Rightarrow> None | r # _ \<Rightarrow> Some r)"
  by (simp add: running_run_def running_rows_def)

lemma running_single: "length (running_rows tenant d) \<le> 1 \<Longrightarrow> running_run tenant d = (case running_rows tenant d of [] \<Rightarrow> None | r # _ \<Rightarrow> Some r)"
  by (cases "running_rows tenant d") (auto simp: running_run_rows)

lemma acquire_clears:
  assumes "acquire tenant force now d = (Inr u, d')" and "length (running_rows tenant d) \<le> 1" and "distinct (map sr_id (scheduler_runs_t d))"
  shows "running_rows tenant d' = []" and "map sr_id (scheduler_runs_t d') = map sr_id (scheduler_runs_t d)"
proof -
  show "map sr_id (scheduler_runs_t d') = map sr_id (scheduler_runs_t d)"
    using assms(1) by (auto simp: acquire_def put_sched_run_def split: option.splits if_splits)
  show "running_rows tenant d' = []"
  proof (cases "running_rows tenant d")
    case Nil
    then show ?thesis using assms(1) by (simp add: acquire_def running_run_rows)
  next
    case (Cons r rs)
    then have rs: "running_rows tenant d = [r]" using assms(2) by (cases rs) auto
    then have d': "d' = put_sched_run (superseded_run now r) d" using assms(1) by (auto simp: acquire_def running_run_rows split: if_splits)
    have "x = r" if "x \<in> set (scheduler_runs_t d)" "sr_tenant_id x = tenant" "sr_status x = ''RUNNING''" for x
      using arg_cong [OF rs, of set] that by (auto simp: running_rows_def)
    then show ?thesis by (auto simp: d' running_rows_def put_sched_run_def tbl_put_def superseded_run_def filter_empty_conv)
  qed
qed

lemma settle_closes:
  assumes rec: "recorded (sigs @ [(run_id, tenant, ''RUNNING'')]) st" and dist: "distinct (map fst (sigs @ [(run_id, tenant, ''RUNNING'')]))"
    and none: "\<forall>s \<in> set sigs. snd s \<noteq> (tenant, ''RUNNING'')" and res: "settle_run run_id now st = (r, d')"
  shows "\<exists>run. r = Inr run \<and> get_sched_run d' run_id = Some run \<and> sr_completed_at run = Some now \<and> sr_tenant_id run = tenant \<and>
    sr_status run = (if pa_failed st = None then ''COMPLETED'' else ''FAILED'')" and "running_rows tenant d' = []"
proof -
  define d where "d = (if pa_failed st = None then pa_db st else pa_committed st)"
  have sig: "map run_sig (scheduler_runs_t d) = sigs @ [(run_id, tenant, ''RUNNING'')]" using rec by (simp add: d_def recorded_def)
  have ids: "distinct (map sr_id (scheduler_runs_t d))" unfolding run_ids sig by (rule dist)
  have "(run_id, tenant, ''RUNNING'') \<in> set (map run_sig (scheduler_runs_t d))" unfolding sig by simp
  then obtain run where run: "run \<in> set (scheduler_runs_t d)" "run_sig run = (run_id, tenant, ''RUNNING'')" by auto
  have get: "get_sched_run d run_id = Some run" using tbl_get_distinct [OF ids run(1)] run(2) by (simp add: get_sched_run_def run_sig_def)
  obtain errors status where status: "status = (if pa_failed st = None then ''COMPLETED'' else ''FAILED'')"
    "errors = (case pa_failed st of None \<Rightarrow> pa_errors st | Some e \<Rightarrow> pa_errors st @ [error_text e])" by simp
  define run' where "run' = (apply_counts (pa_counts st) (reason_dict (pa_by_reason st))
                          (run\<lparr>sr_status := status, sr_completed_at := Some now, sr_heartbeat_at := now\<rparr>))
                        \<lparr>sr_samples := pa_samples st, sr_preparation := pa_report st, sr_errors := take 100 errors\<rparr>"
  have out: "r = Inr run'" "d' = put_sched_run run' d"
    using res get by (auto simp: settle_run_def Let_def run'_def status d_def split: option.splits)
  have f: "sr_id run' = run_id" "sr_tenant_id run' = tenant" "sr_status run' = status" "sr_completed_at run' = Some now"
    using run(2) by (simp_all add: run'_def apply_counts_def run_sig_def)
  have "get_sched_run d' run_id = Some run'"
    using get f(1) tbl_get_put [of sr_id run_id run' "scheduler_runs_t d"] by (simp add: out(2) get_sched_run_def put_sched_run_def)
  then show "\<exists>run. r = Inr run \<and> get_sched_run d' run_id = Some run \<and> sr_completed_at run = Some now \<and> sr_tenant_id run = tenant \<and>
    sr_status run = (if pa_failed st = None then ''COMPLETED'' else ''FAILED'')" using out f status by simp
  have "(sr_tenant_id x, sr_status x) \<noteq> (tenant, ''RUNNING'')" if x: "x \<in> set (scheduler_runs_t d)" "sr_id x \<noteq> run_id" for x
  proof -
    have "run_sig x \<in> set (map run_sig (scheduler_runs_t d))" using x(1) by simp
    then have "run_sig x \<in> set sigs" using x(2) unfolding sig by (auto simp: run_sig_def)
    then have "snd (run_sig x) \<noteq> (tenant, ''RUNNING'')" using none by blast
    then show ?thesis by (simp add: run_sig_def)
  qed
  then show "running_rows tenant d' = []"
    using f status(1) by (auto simp: out(2) running_rows_def put_sched_run_def tbl_put_def filter_empty_conv split: if_splits)
qed


text \<open>A run that died a long time ago is in the way.\<close>

definition example_dead_run_db :: db where
  "example_dead_run_db = example_pass_db\<lparr>scheduler_runs_t := [new_run example_pass_env ''auto'' 5 None ''run-0'' 0]\<rparr>"


lemma candidate_audit: "get_candidate (audit_record t et ei ac ar be af su d) k = get_candidate d k"
  by (simp add: store_defs audit_record_def)

lemma record_admission_get:
  "get_candidate (snd (record_admission t row b r actor v rs g d)) k =
     (if k = co_id row \<and> get_candidate d k \<noteq> None then Some (fst (record_admission t row b r actor v rs g d)) else get_candidate d k)"
  by (auto simp: record_admission_def co_record_def Let_def candidates.get_put candidate_audit)

text \<open>C37. The mark of a run: every opening it considered carries the run's id, the reason code and text, and
  the time of the decision, which moves only when code or text change; nothing else of the pipeline row
  changes, and no other row. The policy columns follow only for seven of the codes: a refusal for the
  target geography or for an irrelevant role leaves an earlier \<open>policy_admitted\<close> as it was.\<close>

theorem stamp_marks_row:
  assumes "get_candidate d (co_id co) = Some co"
  shows "\<exists>co'. get_candidate (stamp sv policy code verdict run_id now co d) (co_id co) = Some co' \<and>
    co_scheduler_run_id co' = Some run_id \<and> co_scheduler_code co' = Some code \<and> co_scheduler_reason co' = Some (stamp_reason code verdict) \<and>
    co_scheduler_decided_at co' = (if co_scheduler_code co = Some code \<and> co_scheduler_reason co = Some (stamp_reason code verdict)
      then co_scheduler_decided_at co else Some now) \<and>
    (if code \<in> {AR_NOT_EVALUATED, AR_NOT_SCORED, AR_INELIGIBLE, AR_BELOW_MINIMUM_ELIGIBILITY, AR_BAND_DISABLED, AR_BELOW_FIT_THRESHOLD, AR_COMPANY_BLOCKED}
     then co_policy_admitted co' = Some False \<and> co_policy_reason co' = Some (take 256 (v_reason verdict)) \<and>
       co_admission_policy_version co' = Some (policy_version policy)
     else co_policy_admitted co' = co_policy_admitted co \<and> co_policy_reason co' = co_policy_reason co \<and>
       co_admission_policy_version co' = co_admission_policy_version co) \<and>
    co_state co' = co_state co \<and> co_opportunity_id co' = co_opportunity_id co \<and> co_application_id co' = co_application_id co \<and>
    (\<forall>k. k \<noteq> co_id co \<longrightarrow> get_candidate (stamp sv policy code verdict run_id now co d) k = get_candidate d k)"
proof -
  have row: "co_id (stamp_row code verdict run_id now co) = co_id co" by (simp add: stamp_row_def Let_def)
  have get: "get_candidate (stamp sv policy code verdict run_id now co d) k =
      (if k = co_id co then Some (if code \<in> STATIC_CODES \<and> (co_policy_admitted (stamp_row code verdict run_id now co) \<noteq> Some False \<or>
            co_policy_reason (stamp_row code verdict run_id now co) \<noteq> Some (take 256 (v_reason verdict)) \<or>
            co_admission_policy_version (stamp_row code verdict run_id now co) \<noteq> Some (policy_version policy))
          then fst (record_admission (sv_tenant sv) (stamp_row code verdict run_id now co) False (v_reason verdict) (sv_actor sv)
                 (Some (policy_version policy)) (verdict_ruleset verdict) (verdict_gates verdict) (put_candidate (stamp_row code verdict run_id now co) d))
          else stamp_row code verdict run_id now co) else get_candidate d k)" for k
    using assms row by (auto simp: stamp_def Let_def record_admission_get candidates.get_put)
  show ?thesis
    by (cases "code \<in> STATIC_CODES") (auto simp: get stamp_row_def record_admission_def Let_def STATIC_CODES_def)
qed

theorem stamp_marks_row_witness:
  "\<exists>co'. get_candidate (stamp example_pass_env example_policy AR_OUTSIDE_TARGET_GEOGRAPHY (verdict_of AR_OUTSIDE_TARGET_GEOGRAPHY ''abroad'')
       ''run-1'' 500 (example_fit\<lparr>co_policy_admitted := Some True\<rparr>) (example_pass_db\<lparr>candidates_t := [example_fit\<lparr>co_policy_admitted := Some True\<rparr>]\<rparr>)) ''co-1'' = Some co' \<and>
     co_scheduler_code co' = Some AR_OUTSIDE_TARGET_GEOGRAPHY \<and> co_policy_admitted co' = Some True"
proof -
  have "co_id (example_fit\<lparr>co_policy_admitted := Some True\<rparr>) = ''co-1''" by (simp add: example_fit_def example_co_def)
  moreover have "get_candidate (example_pass_db\<lparr>candidates_t := [example_fit\<lparr>co_policy_admitted := Some True\<rparr>]\<rparr>) ''co-1'' =
      Some (example_fit\<lparr>co_policy_admitted := Some True\<rparr>)" by (simp add: get_candidate_def tbl_get_def example_fit_def example_co_def)
  ultimately show ?thesis
    using stamp_marks_row [of "example_pass_db\<lparr>candidates_t := [example_fit\<lparr>co_policy_admitted := Some True\<rparr>]\<rparr>" "example_fit\<lparr>co_policy_admitted := Some True\<rparr>"
      example_pass_env example_policy AR_OUTSIDE_TARGET_GEOGRAPHY "verdict_of AR_OUTSIDE_TARGET_GEOGRAPHY ''abroad''" "''run-1''" 500] by force
qed

text \<open>A lost race is reported as already in progress and still uses up a place of the window, although
  nothing was admitted.\<close>

lemma race_takes_window:
  assumes "admit_db sv (pa_ctx st) keys run_id now co opp verdict (pa_ensured st) (pa_db st) = (Inl (ConflictError m), e, pa_db st)"
  shows "fst (pass_admit sv keys run_id now co opp verdict st) = Some (AR_ALREADY_IN_PROGRESS, [(''note'', JStr m)])"
    and "pa_db (snd (pass_admit sv keys run_id now co opp verdict st)) = pa_db st"
    and "pa_counts (snd (pass_admit sv keys run_id now co opp verdict st)) ''admitted'' = pa_counts st ''admitted'' + 1"
  using assms by (simp_all add: pass_admit_def bump_def)

end
