(* ===== verification/Sched_Preview.thy ===== *)
theory Sched_Preview
  imports Scheduler
begin

text \<open>
  What \<^verbatim>\<open>preview\<close> counts: every opening is decided against the context loaded once, so the admissions it
  announces are the admissible openings up to the window and the two caps. An admission of the pass itself
  closes no company and no title for the openings after it, as it does in a run.
\<close>

definition passes :: "decision_context \<Rightarrow> candidate_opportunity_row \<times> opportunity_row \<Rightarrow> bool" where
  "passes ctx pair \<longleftrightarrow> (\<exists>v. decide ctx (fst pair) (snd pair) = Some v \<and> v_code v = AR_ADMITTED)"

definition preview_pairs :: "sched_env \<Rightarrow> time \<Rightarrow> db \<Rightarrow> (candidate_opportunity_row \<times> opportunity_row) list" where
  "preview_pairs sv now d =
     List.map_filter (\<lambda>(cid, oid). case (get_candidate d cid, get_opportunity d oid) of
                        (Some co, Some opp) \<Rightarrow> Some (co, opp) | _ \<Rightarrow> None) (fst (sched_load sv now d))"

definition counted :: "int \<Rightarrow> int \<Rightarrow> int \<Rightarrow> int \<Rightarrow> preview_state \<Rightarrow> bool" where
  "counted window dl wl n p \<longleftrightarrow>
     pv_admissible p = n \<and> pv_would_admit p = min n (min (max 0 window) (min dl wl)) \<and>
     pv_deferred p = (if max 0 window \<le> min dl wl then n - min n (max 0 window) else 0) \<and>
     pv_day_left p = dl - pv_would_admit p \<and> pv_week_left p = wl - pv_would_admit p"

lemma counted_step:
  assumes "counted window dl wl n p" and "0 \<le> n" and "0 \<le> dl" and "0 \<le> wl"
  shows "counted window dl wl (n + (if passes ctx pair then 1 else 0)) (preview_step ctx window pair p)"
proof (cases "decide ctx (fst pair) (snd pair)")
  case None
  then show ?thesis using assms(1) by (simp add: preview_step_def passes_def)
next
  case (Some v)
  show ?thesis
  proof (cases "v_code v = AR_ADMITTED")
    case False
    then show ?thesis using assms(1) Some by (simp add: preview_step_def passes_def counted_def)
  next
    case True
    let ?w = "pv_would_admit p" and ?L = "min (max 0 window) (min dl wl)"
    have w: "?w = min n ?L" "pv_day_left p = dl - ?w" "pv_week_left p = wl - ?w" using assms(1) by (simp_all add: counted_def)
    consider (window) "window \<le> ?w" | (day) "\<not> window \<le> ?w" "dl - ?w \<le> 0" | (week) "\<not> window \<le> ?w" "\<not> dl - ?w \<le> 0" "wl - ?w \<le> 0"
      | (admit) "\<not> window \<le> ?w" "\<not> dl - ?w \<le> 0" "\<not> wl - ?w \<le> 0" by blast
    then show ?thesis
    proof cases
      case window
      then have "max 0 window \<le> min dl wl" "min n (max 0 window) = max 0 window" using w(1) assms(2-4) by auto
      then show ?thesis using window True Some assms(1,2) w by (auto simp: preview_step_def passes_def counted_def)
    next
      case day
      then have "\<not> max 0 window \<le> min dl wl" using w(1) assms(2-4) by auto
      then show ?thesis using day True Some assms w by (auto simp: preview_step_def passes_def counted_def)
    next
      case week
      then have "\<not> max 0 window \<le> min dl wl" using w(1) assms(2-4) by auto
      then show ?thesis using week True Some assms w by (auto simp: preview_step_def passes_def counted_def)
    next
      case admit
      then have "n < ?L" using w(1) by auto
      then show ?thesis using admit True Some assms w by (auto simp: preview_step_def passes_def counted_def)
    qed
  qed
qed

lemma counted_fold:
  "counted window dl wl n p \<Longrightarrow> 0 \<le> n \<Longrightarrow> 0 \<le> dl \<Longrightarrow> 0 \<le> wl \<Longrightarrow>
     counted window dl wl (n + int (length (filter (passes ctx) pairs))) (fold (preview_step ctx window) pairs p)"
proof (induction pairs arbitrary: n p)
  case (Cons pair pairs)
  from Cons.IH [OF counted_step [OF Cons.prems, of ctx pair]] Cons.prems show ?case by (auto simp: add.assoc split: if_splits)
qed simp

section \<open>Properties\<close>


text \<open>The two openings of one company in the sample are both announced.\<close>

lemma preview_announces_both:
  "pv_codes (preview example_pass_env 5 500 example_pass_db) = [(''co-1'', AR_ADMITTED), (''co-2'', AR_ADMITTED)]"
  by code_simp

end
