(* ===== verification/Prep_Evidence.thy ===== *)
theory Prep_Evidence
  imports Policy
begin

text \<open>
  The candidate's evidence as the preparation of a package sees it (\<^verbatim>\<open>app/preparation/evidence.py\<close>), the
  selection of evidence for one opening, and the truth rules (\<^verbatim>\<open>app/services/truth_validator.py\<close>,
  \<^verbatim>\<open>app/preparation/validator.py\<close>) every generated claim is checked against. Recognising numbers and skills in
  text is a parameter (\<open>text_env\<close>), a contribution is an integer multiple of the least positive double.
\<close>

section \<open>Evidence\<close>

datatype evidence_kind =
    EK_SKILL | EK_PROJECT | EK_EXPERIENCE | EK_ACHIEVEMENT | EK_EDUCATION | EK_CREDENTIAL | EK_METRIC | EK_RESPONSIBILITY
  | EK_LINK | EK_FACT | EK_OTHER

datatype relation_type = RT_DEMONSTRATES | RT_HAS_METRIC | RT_HAS_RESPONSIBILITY | RT_ABOUT | RT_PART_OF | RT_SUPPORTS

datatype truth_status = TS_VERIFIED | TS_UNVERIFIED | TS_INFERRED | TS_CONFLICT | TS_NEEDS_REVIEW

primrec truth_status_value :: "truth_status \<Rightarrow> string" where
  "truth_status_value TS_VERIFIED = ''VERIFIED''"
| "truth_status_value TS_UNVERIFIED = ''UNVERIFIED''"
| "truth_status_value TS_INFERRED = ''INFERRED''"
| "truth_status_value TS_CONFLICT = ''CONFLICT''"
| "truth_status_value TS_NEEDS_REVIEW = ''NEEDS_REVIEW''"

datatype evidence_grade = GR_CONFIRMED | GR_APPROXIMATE | GR_UNVERIFIED | GR_NEEDS_REVIEW | GR_REMOVED

definition grade_for :: "truth_status \<Rightarrow> bool \<Rightarrow> evidence_grade" where
  "grade_for s removed =
     (if removed then GR_REMOVED
      else if s = TS_VERIFIED then GR_CONFIRMED
      else if s = TS_INFERRED then GR_APPROXIMATE
      else if s = TS_NEEDS_REVIEW \<or> s = TS_CONFLICT then GR_NEEDS_REVIEW
      else GR_UNVERIFIED)"

text \<open>A node with the attributes that composition reads; \<open>en_technologies\<close> and \<open>en_value\<close> are entries of its
  JSON attributes.\<close>

record evidence_node =
  en_id :: string
  en_key :: string
  en_kind :: evidence_kind
  en_label :: string
  en_claim :: string
  en_technologies :: "string list"
  en_value :: string
  en_verification_status :: truth_status
  en_allowed_for_application :: bool
  en_sort_order :: int
  en_created_at :: time
  en_version :: int

record evidence_relationship =
  er_from_node_id :: string
  er_to_node_id :: string
  er_relation :: relation_type
  er_position :: int

record positioning_variant =
  pv_id :: string
  pv_version :: int
  pv_role_family :: string
  pv_name :: string
  pv_headline :: string
  pv_summary :: string
  pv_evidence :: "(int \<times> string) list"
  pv_updated_at :: time

record candidate_profile =
  cp_name :: string
  cp_positioning_statement :: string
  cp_work_authorization :: string
  cp_location :: string
  cp_remote_preference :: "string option"

text \<open>\<^verbatim>\<open>EvidenceSnapshot\<close>: what one tenant's Career Brain holds, the active nodes being the values of a dict by
  key. \<open>es_fingerprint\<close> is the digest over it.\<close>

record evidence_snapshot =
  es_nodes :: "evidence_node list"
  es_removed_keys :: "string list"
  es_relationships :: "evidence_relationship list"
  es_profile :: "candidate_profile option"
  es_variants :: "positioning_variant list"
  es_answers :: "answer_bank_row list"
  es_fingerprint :: string

definition node :: "evidence_snapshot \<Rightarrow> string \<Rightarrow> evidence_node option" where
  "node s key = tbl_get en_key key (es_nodes s)"

definition application_safe :: "evidence_node \<Rightarrow> bool" where
  "application_safe n \<longleftrightarrow> grade_for (en_verification_status n) False = GR_CONFIRMED \<and> en_allowed_for_application n"

definition is_safe :: "evidence_snapshot \<Rightarrow> string \<Rightarrow> bool" where
  "is_safe s key = (case node s key of None \<Rightarrow> False | Some n \<Rightarrow> application_safe n)"

definition is_removed :: "evidence_snapshot \<Rightarrow> string \<Rightarrow> bool" where
  "is_removed s key \<longleftrightarrow> key \<in> set (es_removed_keys s)"

definition of_kind :: "evidence_snapshot \<Rightarrow> evidence_kind \<Rightarrow> evidence_node list" where
  "of_kind s kind = sort_key (\<lambda>n. (en_sort_order n, en_created_at n)) (filter (\<lambda>n. en_kind n = kind \<and> application_safe n) (es_nodes s))"

definition node_by_id :: "evidence_snapshot \<Rightarrow> string \<Rightarrow> evidence_node option" where
  "node_by_id s i = tbl_get en_id i (es_nodes s)"

text \<open>The relationships whose two ends are active, as \<open>(parent, relation, child, position)\<close>.\<close>

definition edges :: "evidence_snapshot \<Rightarrow> (string \<times> relation_type \<times> string \<times> int) list" where
  "edges s = List.map_filter (\<lambda>r. case (node_by_id s (er_from_node_id r), node_by_id s (er_to_node_id r)) of
                                 (Some p, Some c) \<Rightarrow> Some (en_key p, er_relation r, en_key c, er_position r) | _ \<Rightarrow> None)
               (es_relationships s)"

definition safe_children :: "evidence_snapshot \<Rightarrow> string \<Rightarrow> relation_type \<Rightarrow> evidence_node list" where
  "safe_children s parent relation =
     List.map_filter (\<lambda>(_, rel, child, _). if rel = relation \<and> is_safe s child then node s child else None)
       (sort_key (\<lambda>(_, _, _, pos). pos) (filter (\<lambda>(p, _). p = parent) (edges s)))"

definition projects_demonstrating :: "evidence_snapshot \<Rightarrow> string \<Rightarrow> string list" where
  "projects_demonstrating s skill =
     List.map_filter (\<lambda>(parent, rel, child, _). if child = skill \<and> rel = RT_DEMONSTRATES \<and> is_safe s parent then Some parent else None)
       (edges s)"

definition skill_by_label :: "evidence_snapshot \<Rightarrow> string \<Rightarrow> evidence_node option" where
  "skill_by_label s label = find (\<lambda>n. py_lower (py_strip (en_label n)) = py_lower (py_strip label)) (of_kind s EK_SKILL)"

section \<open>Selection\<close>

primrec limit_skills :: "tailoring_level \<Rightarrow> nat" where
  "limit_skills TL_L0 = 10" | "limit_skills TL_L1 = 14" | "limit_skills TL_L2 = 18"

primrec limit_projects :: "tailoring_level \<Rightarrow> nat" where
  "limit_projects TL_L0 = 2" | "limit_projects TL_L1 = 3" | "limit_projects TL_L2 = 4"

primrec limit_experiences :: "tailoring_level \<Rightarrow> nat" where
  "limit_experiences TL_L0 = 2" | "limit_experiences TL_L1 = 3" | "limit_experiences TL_L2 = 3"

primrec limit_responsibilities :: "tailoring_level \<Rightarrow> nat" where
  "limit_responsibilities TL_L0 = 2" | "limit_responsibilities TL_L1 = 3" | "limit_responsibilities TL_L2 = 5"

primrec limit_metrics :: "tailoring_level \<Rightarrow> nat" where
  "limit_metrics TL_L0 = 2" | "limit_metrics TL_L1 = 3" | "limit_metrics TL_L2 = 4"

record assessment =
  rq_requirement_name :: string
  rq_status :: string
  rq_contribution :: "int option"
  rq_evidence_references :: "string list"

record evidence_selection =
  sl_skills :: "string list"
  sl_projects :: "string list"
  sl_experiences :: "string list"
  sl_education :: "string list"
  sl_matched_requirements :: "(string \<times> string list) list"
  sl_excluded :: "(string \<times> string) list"

definition all_keys :: "evidence_selection \<Rightarrow> string list" where
  "all_keys sel = rev (remdups (rev (sl_skills sel @ sl_projects sel @ sl_experiences sel @ sl_education sel)))"

text \<open>\<^verbatim>\<open>d.setdefault(k, []).append(v)\<close> on a dict in insertion order.\<close>

fun append_at :: "string \<Rightarrow> 'v \<Rightarrow> (string \<times> 'v list) list \<Rightarrow> (string \<times> 'v list) list" where
  "append_at k v [] = [(k, [v])]"
| "append_at k v ((k', vs) # rest) = (if k' = k then (k', vs @ [v]) # rest else (k', vs) # append_at k v rest)"

definition note_requirement :: "string option \<Rightarrow> string \<Rightarrow> evidence_selection \<Rightarrow> evidence_selection" where
  "note_requirement requirement key sel =
     (if truthy requirement then sel\<lparr>sl_matched_requirements := append_at (the requirement) key (sl_matched_requirements sel)\<rparr> else sel)"

definition add_key :: "evidence_kind \<Rightarrow> string \<Rightarrow> evidence_selection \<Rightarrow> evidence_selection" where
  "add_key kind key sel =
     (case kind of
        EK_SKILL \<Rightarrow> sel\<lparr>sl_skills := sl_skills sel @ [key]\<rparr>
      | EK_PROJECT \<Rightarrow> sel\<lparr>sl_projects := sl_projects sel @ [key]\<rparr>
      | EK_EXPERIENCE \<Rightarrow> sel\<lparr>sl_experiences := sl_experiences sel @ [key]\<rparr>
      | EK_EDUCATION \<Rightarrow> sel\<lparr>sl_education := sl_education sel @ [key]\<rparr>
      | _ \<Rightarrow> sel)"

type_synonym selecting = "string set \<times> evidence_selection"

definition exclude :: "string \<Rightarrow> string \<Rightarrow> evidence_selection \<Rightarrow> evidence_selection" where
  "exclude key reason sel =
     sel\<lparr>sl_excluded := (if key \<in> fst ` set (sl_excluded sel) then map (\<lambda>(k, r). (k, if k = key then reason else r)) (sl_excluded sel)
                        else sl_excluded sel @ [(key, reason)])\<rparr>"

definition consider_key :: "evidence_snapshot \<Rightarrow> string option \<Rightarrow> string \<Rightarrow> selecting \<Rightarrow> selecting" where
  "consider_key s requirement key st =
     (let (seen, sel) = st in
      if key \<in> seen then (seen, note_requirement requirement key sel)
      else case node s key of
        None \<Rightarrow> (seen, exclude key (if is_removed s key then ''removed'' else ''unknown'') sel)
      | Some n \<Rightarrow>
          if \<not> is_safe s key
          then (seen, exclude key (''not application-safe ('' @ truth_status_value (en_verification_status n) @ '')'') sel)
          else (insert key seen, add_key (en_kind n) key (note_requirement requirement key sel)))"

definition consider_reference :: "evidence_snapshot \<Rightarrow> string \<Rightarrow> string \<Rightarrow> selecting \<Rightarrow> selecting" where
  "consider_reference s requirement key st =
     (let st1 = consider_key s (Some requirement) key st in
      if is_safe s key \<and> map_option en_kind (node s key) = Some EK_SKILL
      then fold (consider_key s None) (projects_demonstrating s key) st1 else st1)"

definition considered_assessments :: "assessment list \<Rightarrow> assessment list" where
  "considered_assessments assessments =
     sort_key (\<lambda>a. - (case rq_contribution a of None \<Rightarrow> 0 | Some c \<Rightarrow> c))
       (filter (\<lambda>a. rq_status a = ''MATCHED'' \<or> rq_status a = ''PARTIAL'') assessments)"

definition select_evidence ::
  "evidence_snapshot \<Rightarrow> assessment list \<Rightarrow> positioning_variant option \<Rightarrow> tailoring_level \<Rightarrow> evidence_selection" where
  "select_evidence s assessments variant level =
     (let st0 = ({}, \<lparr>sl_skills = [], sl_projects = [], sl_experiences = [], sl_education = [], sl_matched_requirements = [], sl_excluded = []\<rparr>);
          st1 = fold (\<lambda>a. fold (consider_reference s (rq_requirement_name a)) (rq_evidence_references a)) (considered_assessments assessments) st0;
          st2 = (case variant of None \<Rightarrow> st1
                 | Some v \<Rightarrow> fold (consider_key s None) (map snd (sort_key fst (pv_evidence v))) st1);
          all_of = (\<lambda>kind. fold (consider_key s None) (map en_key (of_kind s kind)));
          sel = snd (all_of EK_EDUCATION (all_of EK_EXPERIENCE (all_of EK_PROJECT (all_of EK_SKILL st2))))
      in sel\<lparr>sl_skills := take (limit_skills level) (sl_skills sel), sl_projects := take (limit_projects level) (sl_projects sel),
             sl_experiences := take (limit_experiences level) (sl_experiences sel)\<rparr>)"

section \<open>Truth rules\<close>

definition validate_claim :: "string \<Rightarrow> truth_status \<Rightarrow> bool \<Rightarrow> string option" where
  "validate_claim statement status allowed_for_application =
     (if status = TS_CONFLICT then Some (''Conflicting claim rejected: '' @ statement)
      else if status = TS_INFERRED \<and> allowed_for_application then Some (''Inferred claim cannot be application-safe: '' @ statement)
      else if (status = TS_UNVERIFIED \<or> status = TS_NEEDS_REVIEW) \<and> allowed_for_application
      then Some (''Unsupported claim rejected: '' @ statement)
      else None)"

text \<open>Recognition of numbers and taxonomy skills in text, and the text of a node (label, claim and the dump of
  its attributes).\<close>

record text_env =
  te_numbers :: "string \<Rightarrow> string list"
  te_skills :: "string \<Rightarrow> string list"
  te_canonicalize :: "string \<Rightarrow> string option"
  te_node_text :: "evidence_node \<Rightarrow> string"

record validation_context =
  vc_text :: string
  vc_numbers :: "string list"
  vc_skills :: "string list"

definition make_context :: "text_env \<Rightarrow> string \<Rightarrow> validation_context" where
  "make_context te text = \<lparr>vc_text = py_lower text, vc_numbers = te_numbers te (py_lower text), vc_skills = te_skills te text\<rparr>"

definition canonical :: "text_env \<Rightarrow> string \<Rightarrow> string" where
  "canonical te skill = str_or (te_canonicalize te skill) (py_lower skill)"

definition confirmed_skills :: "text_env \<Rightarrow> evidence_snapshot \<Rightarrow> string set" where
  "confirmed_skills te s = (\<Union>n \<in> set (of_kind s EK_SKILL). insert (canonical te (en_label n)) (set (te_skills te (te_node_text te n))))"

record validation_issue =
  vi_code :: string
  vi_message :: string
  vi_block_index :: "nat option"
  vi_evidence_keys :: "string list"

definition key_issue :: "evidence_snapshot \<Rightarrow> nat option \<Rightarrow> string \<Rightarrow> string \<Rightarrow> validation_issue option" where
  "key_issue s index text key =
     (let issue = (\<lambda>code message. Some \<lparr>vi_code = code, vi_message = message, vi_block_index = index, vi_evidence_keys = [key]\<rparr>) in
      case node s key of
        None \<Rightarrow> if is_removed s key then issue ''removed_evidence'' (''evidence '' @ key @ '' is removed evidence'')
                else issue ''unresolved_evidence'' (''evidence '' @ key @ '' is unresolved evidence'')
      | Some n \<Rightarrow>
          (case validate_claim text (en_verification_status n) True of
             Some message \<Rightarrow> issue ''truth_validator_rejected'' message
           | None \<Rightarrow> if is_safe s key then None
               else issue ''unsafe_evidence''
                      (''evidence '' @ key @ '' is '' @ truth_status_value (en_verification_status n) @ '' and not application-safe'')))"

definition rstrip_plus_percent :: "string \<Rightarrow> string" where
  "rstrip_plus_percent n = rev (dropWhile (\<lambda>c. c = CHR ''+'' \<or> c = CHR ''%'') (rev n))"

text \<open>\<^verbatim>\<open>_YEAR.fullmatch\<close>: four digits beginning with 19 or 20.\<close>

definition is_year :: "string \<Rightarrow> bool" where
  "is_year n \<longleftrightarrow> length n = 4 \<and> list_all py_isdigit n \<and> (take 2 n = ''19'' \<or> take 2 n = ''20'')"

definition cited_text :: "text_env \<Rightarrow> evidence_snapshot \<Rightarrow> string \<Rightarrow> string" where
  "cited_text te s key = (case node s key of None \<Rightarrow> [] | Some n \<Rightarrow> py_lower (te_node_text te n))"

definition cited_numbers :: "text_env \<Rightarrow> evidence_snapshot \<Rightarrow> string \<Rightarrow> string list" where
  "cited_numbers te s key = (case node s key of None \<Rightarrow> [] | Some n \<Rightarrow> te_numbers te (py_lower (te_node_text te n)))"

definition cited_skills :: "text_env \<Rightarrow> evidence_snapshot \<Rightarrow> string \<Rightarrow> string list" where
  "cited_skills te s key = (case node s key of None \<Rightarrow> [] | Some n \<Rightarrow> te_skills te (te_node_text te n))"

definition number_supported :: "text_env \<Rightarrow> evidence_snapshot \<Rightarrow> validation_context \<Rightarrow> string list \<Rightarrow> string \<Rightarrow> bool" where
  "number_supported te s ctx keys number \<longleftrightarrow>
     (let allowed = set (vc_numbers ctx) \<union> (\<Union>k \<in> set keys. set (cited_numbers te s k))
      in number \<in> allowed \<or> rstrip_plus_percent number \<in> allowed)"

definition skill_supported :: "text_env \<Rightarrow> evidence_snapshot \<Rightarrow> validation_context \<Rightarrow> string list \<Rightarrow> string \<Rightarrow> bool" where
  "skill_supported te s ctx keys skill \<longleftrightarrow>
     canonical te skill \<in> confirmed_skills te s \<or>
     skill \<in> set (vc_skills ctx) \<union> (\<Union>k \<in> set keys. set (cited_skills te s k)) \<or>
     contains (py_lower skill) (join_with ''\<newline>'' (vc_text ctx # map (cited_text te s) keys))"

definition quoted :: "string \<Rightarrow> string" where
  "quoted t = [CHR 0x27] @ t @ [CHR 0x27]"

definition validate_block ::
  "text_env \<Rightarrow> evidence_snapshot \<Rightarrow> nat option \<Rightarrow> validation_context \<Rightarrow> block \<Rightarrow> validation_issue list" where
  "validate_block te s index ctx b =
     (if b_kind b = BK_FRAMING then []
      else if b_evidence_keys b = []
      then [\<lparr>vi_code = ''missing_evidence'', vi_message = ''claim cites no evidence'', vi_block_index = index, vi_evidence_keys = []\<rparr>]
      else case List.map_filter (key_issue s index (b_text b)) (b_evidence_keys b) of
        i # is \<Rightarrow> i # is
      | [] \<Rightarrow>
          map (\<lambda>n. \<lparr>vi_code = (if is_year n then ''unsupported_date'' else ''unsupported_number''),
                     vi_message = quoted n @ '' does not appear in the cited evidence'', vi_block_index = index, vi_evidence_keys = b_evidence_keys b\<rparr>)
            (filter (\<lambda>n. \<not> number_supported te s ctx (b_evidence_keys b) n) (te_numbers te (py_lower (b_text b)))) @
          map (\<lambda>k. \<lparr>vi_code = ''unsupported_skill'', vi_message = ''skill '' @ quoted k @ '' is not confirmed evidence'',
                     vi_block_index = index, vi_evidence_keys = b_evidence_keys b\<rparr>)
            (filter (\<lambda>k. \<not> skill_supported te s ctx (b_evidence_keys b) k) (te_skills te (b_text b))))"

record validation_report =
  vr_passed :: bool
  vr_checked_blocks :: nat
  vr_issues :: "validation_issue list"
  vr_dropped_blocks :: nat

definition block_issues :: "text_env \<Rightarrow> evidence_snapshot \<Rightarrow> validation_context \<Rightarrow> block list \<Rightarrow> validation_issue list" where
  "block_issues te s ctx blocks = concat (map (\<lambda>(i, b). validate_block te s (Some i) ctx b) (enumerate 0 blocks))"

definition claims :: "block list \<Rightarrow> block list" where
  "claims = filter (\<lambda>b. b_kind b = BK_CLAIM)"

definition validate_blocks :: "text_env \<Rightarrow> evidence_snapshot \<Rightarrow> validation_context \<Rightarrow> block list \<Rightarrow> validation_report" where
  "validate_blocks te s ctx blocks =
     (let issues = block_issues te s ctx blocks
      in \<lparr>vr_passed = (issues = []), vr_checked_blocks = length (claims blocks), vr_issues = issues, vr_dropped_blocks = 0\<rparr>)"

definition drop_failing :: "text_env \<Rightarrow> evidence_snapshot \<Rightarrow> validation_context \<Rightarrow> block list \<Rightarrow> block list \<times> validation_report" where
  "drop_failing te s ctx blocks =
     (let kept = map snd (filter (\<lambda>(i, b). validate_block te s (Some i) ctx b = []) (enumerate 0 blocks));
          dropped = length blocks - length kept
      in (kept, \<lparr>vr_passed = (dropped = 0), vr_checked_blocks = length (claims kept), vr_issues = block_issues te s ctx blocks,
                 vr_dropped_blocks = dropped\<rparr>))"

end
