(* ===== verification/Prep_Truth.thy ===== *)
theory Prep_Truth
  imports Prep_Evidence
begin

text \<open>
  What selection and validation guarantee: only confirmed, application-safe evidence is selected, all of it up
  to the level's limits, and a claim passes exactly when it cites such evidence and every number and skill
  it mentions is supported.
\<close>

section \<open>Selection\<close>

definition kind_of :: "evidence_snapshot \<Rightarrow> string \<Rightarrow> evidence_kind option" where
  "kind_of s key = map_option en_kind (node s key)"

definition holds_kind :: "evidence_snapshot \<Rightarrow> string set \<Rightarrow> evidence_kind \<Rightarrow> string list \<Rightarrow> bool" where
  "holds_kind s seen kind ks \<longleftrightarrow> distinct ks \<and> set ks = {k \<in> seen. kind_of s k = Some kind}"

definition selected :: "evidence_snapshot \<Rightarrow> selecting \<Rightarrow> bool" where
  "selected s st \<longleftrightarrow>
     (\<forall>k \<in> fst st. is_safe s k) \<and> holds_kind s (fst st) EK_SKILL (sl_skills (snd st)) \<and> holds_kind s (fst st) EK_PROJECT (sl_projects (snd st)) \<and>
     holds_kind s (fst st) EK_EXPERIENCE (sl_experiences (snd st)) \<and> holds_kind s (fst st) EK_EDUCATION (sl_education (snd st))"

lemma note_requirement_keeps [simp]:
  "sl_skills (note_requirement r k sel) = sl_skills sel" "sl_projects (note_requirement r k sel) = sl_projects sel"
  "sl_experiences (note_requirement r k sel) = sl_experiences sel" "sl_education (note_requirement r k sel) = sl_education sel"
  by (simp_all add: note_requirement_def)

lemma exclude_keeps [simp]:
  "sl_skills (exclude k r sel) = sl_skills sel" "sl_projects (exclude k r sel) = sl_projects sel"
  "sl_experiences (exclude k r sel) = sl_experiences sel" "sl_education (exclude k r sel) = sl_education sel"
  by (simp_all add: exclude_def)

lemma add_key_lists:
  "sl_skills (add_key kind k sel) = sl_skills sel @ (if kind = EK_SKILL then [k] else [])"
  "sl_projects (add_key kind k sel) = sl_projects sel @ (if kind = EK_PROJECT then [k] else [])"
  "sl_experiences (add_key kind k sel) = sl_experiences sel @ (if kind = EK_EXPERIENCE then [k] else [])"
  "sl_education (add_key kind k sel) = sl_education sel @ (if kind = EK_EDUCATION then [k] else [])"
  by (cases kind; simp add: add_key_def)+

lemma holds_kind_add:
  assumes "holds_kind s seen kind ks" and "k \<notin> seen" and "kind_of s k = Some kind'"
  shows "holds_kind s (insert k seen) kind (ks @ (if kind' = kind then [k] else []))"
proof -
  have "k \<notin> set ks" and "distinct ks" and eq: "set ks = {k \<in> seen. kind_of s k = Some kind}" using assms(1,2) by (simp_all add: holds_kind_def)
  moreover have "{x \<in> insert k seen. kind_of s x = Some kind} = {x \<in> seen. kind_of s x = Some kind} \<union> (if kind' = kind then {k} else {})"
    using assms(3) by auto
  ultimately show ?thesis by (simp add: holds_kind_def)
qed

text \<open>A step keeps the invariant, forgets nothing, and takes the key in when it is safe.\<close>

definition grows :: "selecting \<Rightarrow> selecting \<Rightarrow> bool" where
  "grows st st' \<longleftrightarrow> fst st \<subseteq> fst st'"

lemma consider_step:
  assumes "selected s st"
  shows "selected s (consider_key s r key st)" and "grows st (consider_key s r key st)"
    and "is_safe s key \<Longrightarrow> key \<in> fst (consider_key s r key st)"
proof -
  obtain seen sel where st: "st = (seen, sel)" by (rule prod.exhaust)
  have "selected s (consider_key s r key st) \<and> grows st (consider_key s r key st) \<and> (is_safe s key \<longrightarrow> key \<in> fst (consider_key s r key st))"
  proof (cases "key \<in> seen \<or> \<not> is_safe s key")
    case True
    then show ?thesis using assms
      by (auto simp: consider_key_def st grows_def selected_def is_safe_def split: option.split)
  next
    case False
    then obtain n where n: "node s key = Some n" "kind_of s key = Some (en_kind n)" "key \<notin> seen" "is_safe s key"
      by (auto simp: is_safe_def kind_of_def split: option.splits)
    show ?thesis using assms n holds_kind_add [OF _ n(3,2)]
      by (simp add: consider_key_def st grows_def selected_def add_key_lists subset_insertI)
  qed
  then show "selected s (consider_key s r key st)" and "grows st (consider_key s r key st)"
    and "is_safe s key \<Longrightarrow> key \<in> fst (consider_key s r key st)" by auto
qed

lemma grows_trans: "grows st st1 \<Longrightarrow> grows st1 st2 \<Longrightarrow> grows st st2"
  by (auto simp: grows_def)

lemma fold_selected:
  assumes "\<And>x st. selected s st \<Longrightarrow> selected s (f x st) \<and> grows st (f x st)"
  shows "selected s st \<Longrightarrow> selected s (fold f xs st) \<and> grows st (fold f xs st)"
proof (induction xs arbitrary: st)
  case (Cons x xs)
  have x: "selected s (f x st)" "grows st (f x st)" using assms [OF Cons.prems, of x] by auto
  then show ?case using Cons.IH [OF x(1)] by (auto simp: grows_def)
qed (simp add: grows_def)

lemma consider_fold:
  "selected s st \<Longrightarrow> selected s (fold (consider_key s r) ks st) \<and> grows st (fold (consider_key s r) ks st) \<and>
     (\<forall>k \<in> set ks. is_safe s k \<longrightarrow> k \<in> fst (fold (consider_key s r) ks st))"
proof (induction ks arbitrary: st)
  case (Cons k ks)
  from Cons.IH [OF consider_step(1) [OF Cons.prems, where r = r and key = k]] consider_step(2,3) [OF Cons.prems, where r = r and key = k]
  show ?case by (auto simp: grows_def)
qed (simp add: grows_def)

lemma reference_step: "selected s st \<Longrightarrow> selected s (consider_reference s r key st) \<and> grows st (consider_reference s r key st)"
  using consider_step [of s st, where r = "Some r" and key = key] consider_fold [of s "consider_key s (Some r) key st" None "projects_demonstrating s key"] grows_trans
  by (auto simp: consider_reference_def Let_def)

lemma of_kind_in: "distinct (map en_key (es_nodes s)) \<Longrightarrow> is_safe s k \<and> kind_of s k = Some kind \<longleftrightarrow> k \<in> en_key ` set (of_kind s kind)"
proof -
  assume d: "distinct (map en_key (es_nodes s))"
  have "node s k = Some n \<longleftrightarrow> n \<in> set (es_nodes s) \<and> en_key n = k" for n
    using tbl_get_distinct [OF d] by (auto simp: node_def dest: tbl_get_Some)
  then have "is_safe s k \<and> kind_of s k = Some kind \<longleftrightarrow> (\<exists>n \<in> set (es_nodes s). en_key n = k \<and> application_safe n \<and> en_kind n = kind)"
    by (auto simp: is_safe_def kind_of_def split: option.split) (metis option.distinct(1) option.inject)+
  then show ?thesis by (auto simp: of_kind_def)
qed

lemma holds_kind_all:
  assumes "holds_kind s seen kind ks" and "{k. is_safe s k \<and> kind_of s k = Some kind} \<subseteq> seen" and "\<forall>k \<in> seen. is_safe s k"
  shows "distinct ks \<and> set ks = {k. is_safe s k \<and> kind_of s k = Some kind}"
  using assms by (auto simp: holds_kind_def)

section \<open>Properties of the selection\<close>

text \<open>C23. The evidence of a package: every selected key is confirmed and application-safe evidence of its kind,
  none is selected twice, the level's limits are kept, and nothing usable is left out except by those limits,
  whatever the assessments cite and in whatever order.\<close>

theorem select_evidence_exact:
  assumes "distinct (map en_key (es_nodes s))"
  shows "let sel = select_evidence s assessments variant level in
    (\<forall>(kind, ks, limit) \<in> {(EK_SKILL, sl_skills sel, limit_skills level), (EK_PROJECT, sl_projects sel, limit_projects level),
        (EK_EXPERIENCE, sl_experiences sel, limit_experiences level)}.
       distinct ks \<and> length ks \<le> limit \<and> (\<forall>k \<in> set ks. is_safe s k \<and> kind_of s k = Some kind) \<and>
       (length ks < limit \<longrightarrow> set ks = {k. is_safe s k \<and> kind_of s k = Some kind})) \<and>
    distinct (sl_education sel) \<and> set (sl_education sel) = {k. is_safe s k \<and> kind_of s k = Some EK_EDUCATION}"
proof -
  define st0 :: selecting where "st0 = ({}, \<lparr>sl_skills = [], sl_projects = [], sl_experiences = [], sl_education = [], sl_matched_requirements = [], sl_excluded = []\<rparr>)"
  define st1 where "st1 = fold (\<lambda>a. fold (consider_reference s (rq_requirement_name a)) (rq_evidence_references a)) (considered_assessments assessments) st0"
  define st2 where "st2 = (case variant of None \<Rightarrow> st1 | Some v \<Rightarrow> fold (consider_key s None) (map snd (sort_key fst (pv_evidence v))) st1)"
  define al where "al kind = fold (consider_key s None) (map en_key (of_kind s kind))" for kind
  have s0: "selected s st0" by (simp add: st0_def selected_def holds_kind_def)
  have inner: "selected s st \<Longrightarrow> selected s (fold (consider_reference s r) ks st) \<and> grows st (fold (consider_reference s r) ks st)" for r ks st
    by (rule fold_selected [OF reference_step])
  have s1: "selected s st1" unfolding st1_def
    by (rule conjunct1 [OF fold_selected [OF inner s0]])
  have s2: "selected s st2" using s1 consider_fold by (auto simp: st2_def split: option.split)
  have al: "selected s (al kind st) \<and> grows st (al kind st) \<and> {k. is_safe s k \<and> kind_of s k = Some kind} \<subseteq> fst (al kind st)" if "selected s st" for kind st
  proof -
    note f = consider_fold [OF that, of None "map en_key (of_kind s kind)", folded al_def]
    have "k \<in> fst (al kind st)" if "is_safe s k" "kind_of s k = Some kind" for k
      using f that of_kind_in [OF assms, of k kind] by auto
    then show ?thesis using f by auto
  qed
  define a1 a2 a3 st3 where "a1 = al EK_SKILL st2" and "a2 = al EK_PROJECT a1" and "a3 = al EK_EXPERIENCE a2" and "st3 = al EK_EDUCATION a3"
  note f1 = al [OF s2, of EK_SKILL, folded a1_def]
  note f2 = al [OF conjunct1 [OF f1], of EK_PROJECT, folded a2_def]
  note f3 = al [OF conjunct1 [OF f2], of EK_EXPERIENCE, folded a3_def]
  note f4 = al [OF conjunct1 [OF f3], of EK_EDUCATION, folded st3_def]
  have s3: "selected s st3" using f4 by blast
  have all: "{k. is_safe s k \<and> kind_of s k = Some kind} \<subseteq> fst st3" if "kind \<in> {EK_SKILL, EK_PROJECT, EK_EXPERIENCE, EK_EDUCATION}" for kind
    using that f1 f2 f3 f4 unfolding grows_def by (elim insertE) (simp_all, (meson subset_trans)+)
  have ks: "distinct (f (snd st3)) \<and> set (f (snd st3)) = {k. is_safe s k \<and> kind_of s k = Some kind}"
    if "(kind, f) \<in> {(EK_SKILL, sl_skills), (EK_PROJECT, sl_projects), (EK_EXPERIENCE, sl_experiences), (EK_EDUCATION, sl_education)}" for kind f
    by (rule holds_kind_all [where seen = "fst st3"]) (use that s3 all in \<open>auto simp: selected_def\<close>)
  have sel: "select_evidence s assessments variant level = (snd st3)\<lparr>sl_skills := take (limit_skills level) (sl_skills (snd st3)),
      sl_projects := take (limit_projects level) (sl_projects (snd st3)), sl_experiences := take (limit_experiences level) (sl_experiences (snd st3))\<rparr>"
    unfolding select_evidence_def Let_def st3_def a3_def a2_def a1_def st2_def st1_def st0_def al_def
    by (cases variant) simp_all
  have taken: "distinct (take n xs) \<and> length (take n xs) \<le> n \<and> (\<forall>k \<in> set (take n xs). P k) \<and> (length (take n xs) < n \<longrightarrow> set (take n xs) = Collect P)"
    if "distinct xs \<and> set xs = Collect P" for n and xs :: "string list" and P
    using that by (auto dest: in_set_takeD)
  show ?thesis unfolding sel Let_def
    using taken [OF ks [of EK_SKILL sl_skills, simplified]] taken [OF ks [of EK_PROJECT sl_projects, simplified]]
      taken [OF ks [of EK_EXPERIENCE sl_experiences, simplified]] ks [of EK_EDUCATION sl_education] by simp
qed

text \<open>A snapshot with one confirmed skill, one under review and a project that demonstrates the first.\<close>

definition example_node :: evidence_node where
  "example_node = \<lparr>en_id = ''n1'', en_key = ''skill:python'', en_kind = EK_SKILL, en_label = ''Python'', en_claim = ''Writes Python services'',
     en_technologies = [], en_value = [], en_verification_status = TS_VERIFIED, en_allowed_for_application = True, en_sort_order = 0, en_created_at = 0, en_version = 1\<rparr>"

definition example_snapshot :: evidence_snapshot where
  "example_snapshot = \<lparr>es_nodes = [example_node, example_node\<lparr>en_id := ''n2'', en_key := ''skill:rust'', en_label := ''Rust'', en_verification_status := TS_NEEDS_REVIEW\<rparr>,
       example_node\<lparr>en_id := ''n3'', en_key := ''project:etl'', en_kind := EK_PROJECT, en_label := ''ETL'', en_claim := ''Moves 3 feeds with Python''\<rparr>],
     es_removed_keys = [''skill:perl''], es_relationships = [\<lparr>er_from_node_id = ''n3'', er_to_node_id = ''n1'', er_relation = RT_DEMONSTRATES, er_position = 0\<rparr>],
     es_profile = None, es_variants = [], es_answers = [], es_fingerprint = ''f''\<rparr>"

definition example_assessments :: "assessment list" where
  "example_assessments = [\<lparr>rq_requirement_name = ''Python'', rq_status = ''MATCHED'', rq_contribution = Some 5,
     rq_evidence_references = [''skill:python'', ''skill:rust'', ''skill:perl'']\<rparr>]"

theorem select_evidence_exact_witness:
  "sl_skills (select_evidence example_snapshot example_assessments None TL_L0) = [''skill:python''] \<and>
   map fst (sl_excluded (select_evidence example_snapshot example_assessments None TL_L0)) = [''skill:rust'', ''skill:perl''] \<and>
   list_all (is_safe example_snapshot) (sl_projects (select_evidence example_snapshot example_assessments None TL_L0))"
proof (intro conjI)
  show "sl_skills (select_evidence example_snapshot example_assessments None TL_L0) = [''skill:python'']" by code_simp
  show "map fst (sl_excluded (select_evidence example_snapshot example_assessments None TL_L0)) = [''skill:rust'', ''skill:perl'']" by code_simp
  have "distinct (map en_key (es_nodes example_snapshot))" by (simp add: example_snapshot_def example_node_def)
  from select_evidence_exact [OF this, of example_assessments None TL_L0]
  show "list_all (is_safe example_snapshot) (sl_projects (select_evidence example_snapshot example_assessments None TL_L0))"
    by (simp add: Let_def list_all_iff)
qed

section \<open>Properties of the truth gate\<close>

text \<open>What it means for a block to be grounded.\<close>

definition grounded :: "text_env \<Rightarrow> evidence_snapshot \<Rightarrow> validation_context \<Rightarrow> block \<Rightarrow> bool" where
  "grounded te s ctx b \<longleftrightarrow> b_kind b = BK_FRAMING \<or>
     (b_evidence_keys b \<noteq> [] \<and>
      (\<forall>k \<in> set (b_evidence_keys b). \<exists>n. node s k = Some n \<and> en_verification_status n = TS_VERIFIED \<and> en_allowed_for_application n) \<and>
      (\<forall>n \<in> set (te_numbers te (py_lower (b_text b))). number_supported te s ctx (b_evidence_keys b) n) \<and>
      (\<forall>k \<in> set (te_skills te (b_text b)). skill_supported te s ctx (b_evidence_keys b) k))"

lemma key_issue_None:
  "key_issue s index text k = None \<longleftrightarrow> (\<exists>n. node s k = Some n \<and> en_verification_status n = TS_VERIFIED \<and> en_allowed_for_application n)"
proof (cases "node s k")
  case (Some n)
  show ?thesis
    by (cases "en_verification_status n") (auto simp: key_issue_def Some validate_claim_def is_safe_def application_safe_def grade_for_def)
qed (simp add: key_issue_def)

lemma map_filter_Nil: "List.map_filter f xs = [] \<longleftrightarrow> (\<forall>x \<in> set xs. f x = None)"
  by (induction xs) (auto simp: List.map_filter_simps split: option.splits)

lemma validate_block_grounded: "validate_block te s index ctx b = [] \<longleftrightarrow> grounded te s ctx b"
proof (cases "b_kind b")
  case BK_CLAIM
  show ?thesis
  proof (cases "List.map_filter (key_issue s index (b_text b)) (b_evidence_keys b)")
    case Nil
    then have "\<forall>k \<in> set (b_evidence_keys b). key_issue s index (b_text b) k = None" by (simp add: map_filter_Nil)
    then show ?thesis using BK_CLAIM Nil
      by (auto simp: validate_block_def grounded_def key_issue_None filter_empty_conv)
  next
    case (Cons i "is")
    then have "\<exists>k \<in> set (b_evidence_keys b). key_issue s index (b_text b) k \<noteq> None" using map_filter_Nil by (metis list.distinct(1))
    then have "\<not> grounded te s ctx b" using BK_CLAIM unfolding grounded_def key_issue_None [symmetric, of s _ index "b_text b"] by auto
    moreover have "b_evidence_keys b \<noteq> []" using Cons by (auto simp: List.map_filter_simps)
    ultimately show ?thesis using Cons BK_CLAIM by (simp add: validate_block_def)
  qed
qed (simp add: validate_block_def grounded_def)

lemma block_issues_Nil: "block_issues te s ctx blocks = [] \<longleftrightarrow> (\<forall>b \<in> set blocks. grounded te s ctx b)"
proof -
  have "block_issues te s ctx blocks = [] \<longleftrightarrow> (\<forall>b \<in> snd ` set (enumerate 0 blocks). grounded te s ctx b)"
    by (auto simp: block_issues_def validate_block_grounded)
  then show ?thesis by (simp flip: set_map)
qed

lemma filter_all_length: "length xs - length (filter P xs) = 0 \<longleftrightarrow> (\<forall>x \<in> set xs. P x)"
  by (induction xs) (auto simp: Suc_diff_le)

lemma drop_failing_kept: "fst (drop_failing te s ctx blocks) = filter (grounded te s ctx) blocks"
proof -
  have "map snd (filter (\<lambda>(i, b). grounded te s ctx b) (enumerate n blocks)) = filter (grounded te s ctx) blocks" for n
    by (induction blocks arbitrary: n) auto
  then show ?thesis by (simp add: drop_failing_def validate_block_grounded Let_def)
qed

text \<open>C9. The truth gate: a generated claim passes exactly when it cites evidence, all of it active, verified and
  allowed for applications, and every number and every skill its text mentions is in the cited evidence, in
  the job's own wording or among the confirmed skills. Blocks pass as a whole exactly when each does, and the
  fallback keeps exactly those that do.\<close>

theorem truth_gate_exact:
  "(validate_block te s index ctx b = [] \<longleftrightarrow> grounded te s ctx b) \<and>
   (vr_passed (validate_blocks te s ctx blocks) \<longleftrightarrow> list_all (grounded te s ctx) blocks) \<and>
   fst (drop_failing te s ctx blocks) = filter (grounded te s ctx) blocks \<and>
   (vr_passed (snd (drop_failing te s ctx blocks)) \<longleftrightarrow> list_all (grounded te s ctx) blocks)"
proof -
  have "vr_passed (snd (drop_failing te s ctx blocks)) \<longleftrightarrow> length blocks - length (filter (grounded te s ctx) blocks) = 0"
    using drop_failing_kept [of te s ctx blocks] by (simp add: drop_failing_def Let_def)
  also have "\<dots> \<longleftrightarrow> (\<forall>b \<in> set blocks. grounded te s ctx b)"
    by (rule filter_all_length)
  finally have "vr_passed (snd (drop_failing te s ctx blocks)) \<longleftrightarrow> (\<forall>b \<in> set blocks. grounded te s ctx b)" .
  moreover have "vr_passed (validate_blocks te s ctx blocks) \<longleftrightarrow> block_issues te s ctx blocks = []" by (simp add: validate_blocks_def Let_def)
  ultimately show ?thesis by (simp add: validate_block_grounded drop_failing_kept block_issues_Nil list_all_iff)
qed

end
