(* ===== verification/Prep_Compose.thy ===== *)
theory Prep_Compose
  imports Prep_Evidence
begin

text \<open>
  Composition of resume and cover letter (\<^verbatim>\<open>app/preparation/composer.py\<close>): every claim is built from the text
  of the nodes it cites. \<^verbatim>\<open>snapshot.nodes[key]\<close> raises on a key without an active node. The two characters
  outside ASCII are written as their UTF-8 bytes.
\<close>

section \<open>Strings\<close>

definition em_dash :: string where
  "em_dash = [CHR 0xE2, CHR 0x80, CHR 0x94]"

definition ellipsis :: string where
  "ellipsis = [CHR 0xE2, CHR 0x80, CHR 0xA6]"

definition py_rstrip :: "string \<Rightarrow> string" where
  "py_rstrip t = rev (dropWhile py_isspace (rev t))"

definition strip_chars :: "char set \<Rightarrow> string \<Rightarrow> string" where
  "strip_chars cs t = rev (dropWhile (\<lambda>c. c \<in> cs) (rev (dropWhile (\<lambda>c. c \<in> cs) t)))"

definition upper_char :: "char \<Rightarrow> char" where
  "upper_char c = (if py_islower c then char_of (of_char c - (32 :: nat)) else c)"

definition py_upper :: "string \<Rightarrow> string" where
  "py_upper = map upper_char"

definition trim :: "nat \<Rightarrow> string \<Rightarrow> string" where
  "trim limit text =
     (let t = join_with '' '' (py_split text)
      in if length t \<le> limit then t else py_rstrip (take (limit - 1) t) @ ellipsis)"

definition need_node :: "evidence_snapshot \<Rightarrow> string \<Rightarrow> evidence_node result" where
  "need_node s key = (case node s key of None \<Rightarrow> Inl (KeyError key) | Some n \<Rightarrow> Inr n)"

definition some_nodes :: "evidence_snapshot \<Rightarrow> string list \<Rightarrow> evidence_node list" where
  "some_nodes s = List.map_filter (node s)"

section \<open>Resume\<close>

definition claim_block :: "string \<Rightarrow> string \<Rightarrow> string list \<Rightarrow> string option \<Rightarrow> block" where
  "claim_block sec txt keys requirement =
     \<lparr>b_kind = BK_CLAIM, b_section = sec, b_text = txt, b_evidence_keys = keys, b_source = ''template'', b_ai_polished = False,
      b_requirement = requirement\<rparr>"

definition framing_block :: "string \<Rightarrow> string \<Rightarrow> string \<Rightarrow> block" where
  "framing_block sec txt source =
     \<lparr>b_kind = BK_FRAMING, b_section = sec, b_text = txt, b_evidence_keys = [], b_source = source, b_ai_polished = False,
      b_requirement = None\<rparr>"

definition variant_text :: "positioning_variant \<Rightarrow> string" where
  "variant_text v =
     (let headline = py_strip (pv_headline v); summary = py_strip (pv_summary v)
      in if headline \<noteq> [] \<and> summary \<noteq> [] then py_strip (strip_chars {CHR ''.'', CHR '' ''} (headline @ ''. '' @ summary))
         else if headline \<noteq> [] then headline else summary)"

definition positioning_statement :: "evidence_snapshot \<Rightarrow> string" where
  "positioning_statement s = (case es_profile s of None \<Rightarrow> [] | Some p \<Rightarrow> cp_positioning_statement p)"

definition summary_blocks :: "evidence_snapshot \<Rightarrow> positioning_variant option \<Rightarrow> block list" where
  "summary_blocks s variant =
     (case variant of
        Some v \<Rightarrow> if pv_headline v \<noteq> [] \<or> pv_summary v \<noteq> []
                  then [framing_block ''summary'' (variant_text v) (''variant:'' @ pv_id v)]
                  else if positioning_statement s \<noteq> [] then [framing_block ''summary'' (positioning_statement s) ''profile''] else []
      | None \<Rightarrow> if positioning_statement s \<noteq> [] then [framing_block ''summary'' (positioning_statement s) ''profile''] else [])"

definition skills_blocks :: "evidence_snapshot \<Rightarrow> evidence_selection \<Rightarrow> block list" where
  "skills_blocks s sel =
     (let nodes = some_nodes s (sl_skills sel)
      in if nodes = [] then []
         else [claim_block ''skills'' (''Skills: '' @ join_with '', '' (map en_label nodes)) (map en_key nodes) None])"

definition requirement_for :: "evidence_selection \<Rightarrow> string \<Rightarrow> string option" where
  "requirement_for sel key = map_option fst (find (\<lambda>(_, keys). key \<in> set keys) (sl_matched_requirements sel))"

definition project_blocks :: "evidence_snapshot \<Rightarrow> evidence_selection \<Rightarrow> tailoring_level \<Rightarrow> string \<Rightarrow> block list result" where
  "project_blocks s sel level key =
     bind_result (need_node s key) (\<lambda>project.
       let text = en_label project @ '': '' @ trim 220 (en_claim project) @
             (if en_technologies project = [] then [] else '' Technologies: '' @ join_with '', '' (en_technologies project) @ ''.'')
       in Inr (claim_block ''projects'' text [key] (requirement_for sel key) #
               map (\<lambda>metric. claim_block ''projects'' (en_label project @ '' '' @ em_dash @ '' '' @ en_label metric @ '': '' @ en_value metric)
                               [en_key metric] None)
                 (take (limit_metrics level) (safe_children s key RT_HAS_METRIC))))"

definition experience_blocks :: "evidence_snapshot \<Rightarrow> tailoring_level \<Rightarrow> string \<Rightarrow> block list result" where
  "experience_blocks s level key =
     bind_result (need_node s key) (\<lambda>experience.
       Inr (claim_block ''experience'' (en_label experience) [key] None #
            map (\<lambda>resp. claim_block ''experience'' (trim 220 (en_claim resp)) [en_key resp] None)
              (take (limit_responsibilities level) (safe_children s key RT_HAS_RESPONSIBILITY))))"

definition education_block :: "evidence_snapshot \<Rightarrow> string \<Rightarrow> block result" where
  "education_block s key = bind_result (need_node s key) (\<lambda>education. Inr (claim_block ''education'' (en_claim education) [key] None))"

definition compose_resume ::
  "evidence_snapshot \<Rightarrow> evidence_selection \<Rightarrow> positioning_variant option \<Rightarrow> tailoring_level \<Rightarrow> block list result" where
  "compose_resume s sel variant level =
     bind_result (collect (project_blocks s sel level) (sl_projects sel)) (\<lambda>projects.
     bind_result (collect (experience_blocks s level) (sl_experiences sel)) (\<lambda>experiences.
     bind_result (collect (education_block s) (sl_education sel)) (\<lambda>education.
       Inr (summary_blocks s variant @ skills_blocks s sel @ concat projects @ concat experiences @ education))))"

section \<open>Cover letter\<close>

definition fit_block :: "evidence_snapshot \<Rightarrow> string \<times> string list \<Rightarrow> block option" where
  "fit_block s entry =
     (let (requirement, keys) = entry; labels = map en_label (some_nodes s keys)
      in if labels = [] then None
         else Some (claim_block ''fit'' (''Your posting asks for '' @ requirement @ ''; I bring '' @ join_with '', '' labels @ ''.'')
                      (filter (\<lambda>k. node s k \<noteq> None) keys) (Some requirement)))"

definition body_block :: "evidence_snapshot \<Rightarrow> string \<Rightarrow> block result" where
  "body_block s key =
     bind_result (need_node s key) (\<lambda>project. Inr (claim_block ''body'' (en_label project @ '': '' @ trim 200 (en_claim project)) [key] None))"

definition skills_body :: "evidence_snapshot \<Rightarrow> evidence_selection \<Rightarrow> block list result" where
  "skills_body s sel =
     (if sl_projects sel = [] \<and> sl_skills sel \<noteq> []
      then bind_result (collect (need_node s) (take 6 (sl_skills sel))) (\<lambda>nodes.
             Inr [claim_block ''body'' (''Relevant skills: '' @ join_with '', '' (map en_label nodes)) (take 6 (sl_skills sel)) None])
      else Inr [])"

definition compose_cover_letter ::
  "cover_letter_mode \<Rightarrow> evidence_snapshot \<Rightarrow> evidence_selection \<Rightarrow> positioning_variant option \<Rightarrow> string \<Rightarrow> string \<Rightarrow> block list option result" where
  "compose_cover_letter mode s sel variant company job_title =
     (if mode = CM_DISABLED then Inr None
      else
        let name = (case es_profile s of None \<Rightarrow> [] | Some p \<Rightarrow> cp_name p);
            statement = (case variant of Some v \<Rightarrow> if pv_summary v \<noteq> [] then pv_summary v else pv_headline v | None \<Rightarrow> positioning_statement s);
            intro = ''I am applying for the '' @ job_title @ '' position at '' @ company @ ''.'' @
              (if statement = [] then [] else '' '' @ py_strip statement);
            fit = (if mode = CM_LIGHT \<or> mode = CM_TARGETED then List.map_filter (fit_block s) (take 4 (sl_matched_requirements sel)) else []);
            closing = ''Thank you for your consideration. I would welcome the chance to discuss how I can contribute to '' @ company @ ''.'' @
              (if name = [] then [] else ''\<newline>\<newline>'' @ name)
        in bind_result (collect (body_block s) (take 2 (sl_projects sel))) (\<lambda>body.
           bind_result (skills_body s sel) (\<lambda>skills.
             Inr (Some ([framing_block ''greeting'' (''Dear '' @ company @ '' Hiring Team,'') ''job'', framing_block ''intro'' intro ''job+profile''] @
                        fit @ body @ skills @ [framing_block ''closing'' closing ''job+profile''])))))"

section \<open>Rendering\<close>

definition bare_sections :: "string list" where
  "bare_sections = [''greeting'', ''intro'', ''closing'', ''fit'', ''body'']"

fun render_lines :: "string option \<Rightarrow> block list \<Rightarrow> string list" where
  "render_lines current [] = []"
| "render_lines current (b # bs) =
     (if Some (b_section b) \<noteq> current \<and> b_section b \<notin> set bare_sections then [[], py_upper (b_section b)] else []) @
     (if b_kind b = BK_CLAIM \<and> b_section b \<noteq> ''fit'' \<and> b_section b \<noteq> ''body'' then ''- '' @ b_text b else b_text b) #
     render_lines (Some (b_section b)) bs"

definition render :: "block list \<Rightarrow> string" where
  "render blocks = py_strip (join_with ''\<newline>'' (render_lines None blocks))"

end
