(* ===== verification/Prep_Answers.thy ===== *)
theory Prep_Answers
  imports Prep_Compose
begin

text \<open>
  Truthful answers to application questions (\<^verbatim>\<open>app/preparation/questions.py\<close>): the approved answer bank, the
  profile, a template over selected evidence, or a request for the candidate. Recognising the category and
  topic of a normalised question is a parameter (\<open>classifier\<close>).
\<close>

section \<open>Questions\<close>

definition is_word_char :: "char \<Rightarrow> bool" where
  "is_word_char c \<longleftrightarrow> py_isdigit c \<or> py_islower c \<or> py_isupper c \<or> c = CHR ''_''"

definition normalize_question :: "string \<Rightarrow> string" where
  "normalize_question question =
     take 512 (join_with '' '' (py_split (map (\<lambda>c. if is_word_char c \<or> py_isspace c then c else CHR '' '') (py_strip (py_lower question)))))"

definition FACT_CATEGORIES :: "question_category set" where
  "FACT_CATEGORIES =
     {QC_WORK_AUTHORIZATION, QC_SPONSORSHIP, QC_RELOCATION, QC_NOTICE_PERIOD, QC_SALARY, QC_WORK_MODE, QC_START_DATE, QC_CLEARANCE,
      QC_VOLUNTARY, QC_LOCATION, QC_EDUCATION, QC_EXPERIENCE_YEARS, QC_CURRENT_EMPLOYER, QC_CURRENT_TITLE, QC_REFERRAL_SOURCE,
      QC_PRIOR_EMPLOYMENT, QC_CONFLICT_OF_INTEREST, QC_CONSENT}"

definition CATEGORY_SHARED_ANSWERS :: "question_category set" where
  "CATEGORY_SHARED_ANSWERS =
     (FACT_CATEGORIES - {QC_VOLUNTARY, QC_CONFLICT_OF_INTEREST, QC_EDUCATION}) \<union> {QC_ABOUT_YOU, QC_RELEVANT_PROJECT}"

definition EMPLOYER_SPECIFIC :: "question_category set" where
  "EMPLOYER_SPECIFIC = {QC_WHY_COMPANY, QC_WHY_ROLE}"

definition DEFAULT_QUESTIONS :: "string list" where
  "DEFAULT_QUESTIONS =
     [''Why are you interested in this role?'', ''Tell us about yourself.'', ''Describe a relevant project.'',
      ''Are you legally authorized to work in this country?'', ''Will you now or in the future require sponsorship?'',
      ''What is your notice period?'', ''What are your salary expectations?'']"

definition az09 :: "char \<Rightarrow> bool" where
  "az09 c \<longleftrightarrow> py_islower c \<or> py_isdigit c"

text \<open>The name occurs with no letter or digit on either side; \<open>inside\<close> says whether the character before is one.\<close>

fun occurs_as_words :: "string \<Rightarrow> bool \<Rightarrow> string \<Rightarrow> bool" where
  "occurs_as_words name inside [] = False"
| "occurs_as_words name inside (c # cs) =
     ((\<not> inside \<and> starts_with name (c # cs) \<and> (case drop (length name) (c # cs) of [] \<Rightarrow> True | d # _ \<Rightarrow> \<not> az09 d)) \<or>
      occurs_as_words name (az09 c) cs)"

definition names_company :: "string \<Rightarrow> string \<Rightarrow> bool" where
  "names_company question_key company =
     (let name = normalize_question company in name \<noteq> [] \<and> occurs_as_words name False question_key)"

type_synonym classifier = "string \<Rightarrow> question_category \<times> string option"

section \<open>Answers\<close>

record resolved_answer =
  ra_status :: prepared_answer_status
  ra_source :: answer_source
  ra_category :: question_category
  ra_answer :: "string option"
  ra_evidence_keys :: "string list"
  ra_entry_id :: "string option"
  ra_reason :: "string option"

definition answered :: "answer_source \<Rightarrow> question_category \<Rightarrow> string \<Rightarrow> string list \<Rightarrow> string option \<Rightarrow> string \<Rightarrow> resolved_answer" where
  "answered source category answer keys entry reason =
     \<lparr>ra_status = PA_ANSWERED, ra_source = source, ra_category = category, ra_answer = Some answer, ra_evidence_keys = keys,
      ra_entry_id = entry, ra_reason = Some reason\<rparr>"

definition unanswered_as :: "prepared_answer_status \<Rightarrow> question_category \<Rightarrow> string \<Rightarrow> resolved_answer" where
  "unanswered_as status category reason =
     \<lparr>ra_status = status, ra_source = SRC_NONE, ra_category = category, ra_answer = None, ra_evidence_keys = [], ra_entry_id = None,
      ra_reason = Some reason\<rparr>"

definition last_of :: "('a \<Rightarrow> bool) \<Rightarrow> 'a list \<Rightarrow> 'a option" where
  "last_of P xs = find P (rev xs)"

definition bank_entry :: "evidence_snapshot \<Rightarrow> string \<Rightarrow> question_category \<Rightarrow> string \<Rightarrow> answer_bank_row option" where
  "bank_entry s key category company =
     (let exact = last_of (\<lambda>a. ab_question_key a = key) (es_answers s);
          entry = (if category \<in> EMPLOYER_SPECIFIC \<and> \<not> names_company key company then None else exact)
      in if entry = None \<and> category \<in> CATEGORY_SHARED_ANSWERS
         then find (\<lambda>a. ab_category a = question_category_value category) (es_answers s)
         else entry)"

definition from_profile :: "evidence_snapshot \<Rightarrow> question_category \<Rightarrow> resolved_answer option" where
  "from_profile s category =
     (case es_profile s of
        None \<Rightarrow> None
      | Some p \<Rightarrow>
          if category = QC_WORK_AUTHORIZATION \<and> cp_work_authorization p \<noteq> []
          then Some (answered SRC_PROFILE category (cp_work_authorization p) [''profile:work_authorization''] None ''profile field'')
          else if category = QC_LOCATION \<and> cp_location p \<noteq> []
          then Some (answered SRC_PROFILE category (cp_location p) [''profile:location''] None ''profile field'')
          else if category = QC_EDUCATION \<and> of_kind s EK_EDUCATION \<noteq> []
          then let n = hd (of_kind s EK_EDUCATION)
               in Some (answered SRC_GENERATED category (en_claim n) [en_key n] None ''education evidence'')
          else if category = QC_WORK_MODE \<and> truthy (cp_remote_preference p)
          then Some (answered SRC_PROFILE category (the (cp_remote_preference p)) [''profile:remote_preference''] None ''preference'')
          else None)"

definition skill_containing :: "evidence_snapshot \<Rightarrow> string \<Rightarrow> evidence_node option" where
  "skill_containing s topic =
     (let wanted = py_lower topic
      in find (\<lambda>n. contains wanted (py_lower (en_label n)) \<or> contains (py_lower (en_label n)) wanted) (of_kind s EK_SKILL))"

definition experience_answer :: "evidence_snapshot \<Rightarrow> string \<Rightarrow> resolved_answer result" where
  "experience_answer s topic =
     (case (case skill_by_label s topic of Some n \<Rightarrow> Some n | None \<Rightarrow> skill_containing s topic) of
        None \<Rightarrow> Inr (unanswered_as PA_NEEDS_USER_INPUT QC_EXPERIENCE_WITH (''no confirmed evidence for '' @ quoted topic))
      | Some n \<Rightarrow>
          if \<not> is_safe s (en_key n)
          then Inr (unanswered_as PA_NEEDS_USER_INPUT QC_EXPERIENCE_WITH (''no confirmed evidence for '' @ quoted topic))
          else bind_result (collect (need_node s) (projects_demonstrating s (en_key n))) (\<lambda>demonstrating.
            let text = en_label n @ '': '' @ en_claim n @ ''.'' @
                  (if demonstrating = [] then [] else '' Used in '' @ join_with '', '' (map en_label (take 3 demonstrating)) @ ''.'')
            in Inr (answered SRC_GENERATED QC_EXPERIENCE_WITH text (en_key n # map en_key (take 3 demonstrating)) None
                      ''templated from confirmed skill evidence'')))"

definition project_line :: "evidence_node \<Rightarrow> string" where
  "project_line p = en_label p @ '' '' @ em_dash @ '' '' @ en_claim p"

definition relevant_project_answer :: "evidence_node \<Rightarrow> resolved_answer" where
  "relevant_project_answer p =
     answered SRC_GENERATED QC_RELEVANT_PROJECT
       (en_label p @ '': '' @ en_claim p @
        (if en_technologies p = [] then [] else '' Built with '' @ join_with '', '' (en_technologies p) @ ''.''))
       [en_key p] None ''templated from project evidence''"

definition why_answer ::
  "question_category \<Rightarrow> evidence_selection \<Rightarrow> evidence_node list \<Rightarrow> evidence_node list \<Rightarrow> string \<Rightarrow> string \<Rightarrow> resolved_answer" where
  "why_answer category sel skills projects job_title company =
     (let requirements = take 3 (map fst (sl_matched_requirements sel));
          opening = ''The '' @ job_title @ '' role at '' @ company @
            (if requirements \<noteq> [] then '' calls for '' @ join_with '', '' requirements @ ''.'' else '' matches my background.'');
          parts = opening # (if skills = [] then [] else [''I bring '' @ join_with '', '' (map en_label skills) @ ''.'']) @
            (if projects = [] then [] else [''Most relevant: '' @ join_with ''; '' (map project_line projects) @ ''.''])
      in answered SRC_GENERATED category (join_with '' '' parts) (map en_key skills @ map en_key projects) None
           ''templated from matched requirements and evidence'')"

definition about_you_answer :: "evidence_snapshot \<Rightarrow> evidence_node list \<Rightarrow> evidence_node list \<Rightarrow> resolved_answer" where
  "about_you_answer s skills projects =
     (let statement = positioning_statement s;
          parts = (if statement = [] then [] else [statement]) @
            (if skills = [] then [] else [''Core skills: '' @ join_with '', '' (map en_label skills) @ ''.'']) @
            (if projects = [] then [] else [''Recent work: '' @ join_with ''; '' (map project_line projects)])
      in answered SRC_GENERATED QC_ABOUT_YOU (py_strip (join_with '' '' parts)) (map en_key skills @ map en_key projects) None
           ''templated from profile statement and evidence'')"

definition generate ::
  "evidence_snapshot \<Rightarrow> question_category \<Rightarrow> string option \<Rightarrow> evidence_selection \<Rightarrow> string \<Rightarrow> string \<Rightarrow> resolved_answer option result" where
  "generate s category topic sel job_title company =
     (let skills = some_nodes s (take 6 (sl_skills sel)); projects = some_nodes s (take 2 (sl_projects sel)) in
      if category = QC_EXPERIENCE_WITH \<and> truthy topic
      then bind_result (experience_answer s (the topic)) (\<lambda>a. Inr (Some a))
      else if skills = [] \<and> projects = [] then Inr None
      else if category = QC_RELEVANT_PROJECT \<and> projects \<noteq> [] then Inr (Some (relevant_project_answer (hd projects)))
      else if category = QC_WHY_ROLE \<or> category = QC_WHY_COMPANY
      then Inr (Some (why_answer category sel skills projects job_title company))
      else if category = QC_ABOUT_YOU then Inr (Some (about_you_answer s skills projects))
      else Inr None)"

definition resolve_answer ::
  "classifier \<Rightarrow> evidence_snapshot \<Rightarrow> string \<Rightarrow> evidence_selection \<Rightarrow> string \<Rightarrow> string \<Rightarrow> resolved_answer result" where
  "resolve_answer classify s question sel job_title company =
     (let key = normalize_question question; (category, topic) = classify key in
      case bank_entry s key category company of
        Some e \<Rightarrow> Inr (answered SRC_ANSWER_BANK category (ab_answer e) (ab_evidence_keys e) (Some (ab_id e)) ''approved answer bank entry'')
      | None \<Rightarrow>
          (case from_profile s category of
             Some a \<Rightarrow> Inr a
           | None \<Rightarrow>
               if category \<in> FACT_CATEGORIES
               then Inr (unanswered_as PA_NEEDS_USER_INPUT category
                      (question_category_value category @ '': not recorded in the Career Brain or answer bank''))
               else bind_result (generate s category topic sel job_title company) (\<lambda>generated.
                 Inr (case generated of
                        Some a \<Rightarrow> a
                      | None \<Rightarrow> unanswered_as PA_NEEDS_REVIEW category ''cannot be grounded in stored evidence; needs a human draft''))))"

end
