(* ===== verification/Prep_Build.thy ===== *)
theory Prep_Build
  imports Prep_Answers "HOL-Library.List_Lexorder" "HOL-Library.Char_ord"
begin

text \<open>
  Building a package for one target: the positioning variant (\<^verbatim>\<open>app/preparation/positioning.py\<close>), the
  fingerprint of the inputs, and \<^verbatim>\<open>_build\<close>, \<^verbatim>\<open>_polish\<close> and \<^verbatim>\<open>_resolve_answers\<close> of \<^verbatim>\<open>app/preparation/service.py\<close>.
  Digests, the arithmetic of the variant score and the polisher, a client of a model provider, are
  parameters; the polisher is asked with the number of the call and may return anything.
\<close>

section \<open>The environment and the target\<close>

record polisher =
  pl_name :: string
  pl_model :: "string option"
  pl_polish :: "nat \<Rightarrow> string \<Rightarrow> string \<Rightarrow> string \<Rightarrow> string option"
  pl_metadata :: "(string \<times> json) list"

record prep_env =
  pe_tenant :: string
  pe_snapshot :: evidence_snapshot
  pe_policy :: application_policy
  pe_text :: text_env
  pe_classify :: classifier
  pe_polisher :: "polisher option"
  pe_score :: "nat \<Rightarrow> nat \<Rightarrow> nat \<Rightarrow> nat \<Rightarrow> int"
  pe_cover :: "nat \<Rightarrow> nat \<Rightarrow> string"
  pe_digest :: "(string \<times> json) list \<Rightarrow> string"
  pe_match_job :: "string \<Rightarrow> string option"
  pe_assessments :: "string \<Rightarrow> assessment list"
  pe_fresh :: "db \<Rightarrow> string"
  pe_answer_id :: "string \<Rightarrow> nat \<Rightarrow> string"

record target =
  tg_co :: candidate_opportunity_row
  tg_opportunity :: opportunity_row
  tg_job :: "job_row option"
  tg_match :: "string option"
  tg_assessments :: "assessment list"

definition TEMPLATE_VERSION :: string where
  "TEMPLATE_VERSION = ''prep-v1''"

definition polisher_name :: "prep_env \<Rightarrow> string" where
  "polisher_name e = (case pe_polisher e of None \<Rightarrow> ''stub'' | Some p \<Rightarrow> pl_name p)"

definition job_title_of :: "target \<Rightarrow> string" where
  "job_title_of t = (case tg_job t of Some j \<Rightarrow> j_title j | None \<Rightarrow> o_title (tg_opportunity t))"

definition target_company :: "target \<Rightarrow> string" where
  "target_company t = (case tg_job t of Some j \<Rightarrow> j_company j | None \<Rightarrow> o_company (tg_opportunity t))"

definition matched_keys :: "target \<Rightarrow> string list" where
  "matched_keys t = concat (map rq_evidence_references (tg_assessments t))"

section \<open>Positioning\<close>

definition STOP_WORDS :: "string set" where
  "STOP_WORDS = {''and'', ''or'', ''of'', ''the'', ''a'', ''an'', ''for'', ''in'', ''to'', ''at'', ''with'', ''engineer'', ''engineering'',
     ''role'', ''roles''}"

definition title_tokens :: "string \<Rightarrow> string set" where
  "title_tokens text =
     set (filter (\<lambda>t. t \<notin> STOP_WORDS) (split_by (\<lambda>c. \<not> (az09 c \<or> c = CHR ''+'' \<or> c = CHR ''#'')) [] (py_lower text)))"

record positioning_choice =
  pc_variant :: "positioning_variant option"
  pc_reason :: string
  pc_score :: int

definition variant_choice :: "prep_env \<Rightarrow> string \<Rightarrow> string list \<Rightarrow> positioning_variant \<Rightarrow> positioning_choice" where
  "variant_choice e job_title keys v =
     (let family = title_tokens (pv_role_family v) \<union> title_tokens (pv_name v);
          overlap = card (title_tokens job_title \<inter> family);
          cited = set (map snd (pv_evidence v));
          covered = card (cited \<inter> set keys)
      in \<lparr>pc_variant = Some v,
          pc_reason = ''role_family='' @ quoted (pv_role_family v) @ '' overlap='' @ show_int (int overlap) @ '' evidence_cover='' @
            pe_cover e covered (card cited),
          pc_score = pe_score e overlap (max 1 (card family)) covered (card cited)\<rparr>)"

definition better_choice :: "positioning_choice \<Rightarrow> positioning_choice option \<Rightarrow> positioning_choice option" where
  "better_choice c best =
     (case best of None \<Rightarrow> Some c | Some b \<Rightarrow> if pc_score c > pc_score b then Some c else best)"

definition newest_variants :: "positioning_variant list \<Rightarrow> positioning_variant list" where
  "newest_variants vs = rev (sort_key (\<lambda>v. (pv_updated_at v, pv_id v)) vs)"

definition select_variant :: "prep_env \<Rightarrow> positioning_variant list \<Rightarrow> string \<Rightarrow> string list \<Rightarrow> positioning_choice" where
  "select_variant e variants job_title keys =
     (case fold (\<lambda>v. better_choice (variant_choice e job_title keys v)) (newest_variants variants) None of
        None \<Rightarrow> \<lparr>pc_variant = None, pc_reason = ''no active positioning variant; using profile statement'', pc_score = 0\<rparr>
      | Some b \<Rightarrow>
          if pc_score b \<le> 0
          then b\<lparr>pc_reason := ''no title/evidence overlap; most recent variant '' @
                   quoted (case pc_variant b of None \<Rightarrow> [] | Some v \<Rightarrow> pv_role_family v)\<rparr>
          else b)"

section \<open>Levels, modes and the fingerprint\<close>

definition band_text :: "candidate_opportunity_row \<Rightarrow> string" where
  "band_text co = (case co_fit_band co of None \<Rightarrow> [] | Some b \<Rightarrow> fit_band_value b)"

definition level_for :: "application_policy \<Rightarrow> candidate_opportunity_row \<Rightarrow> tailoring_level" where
  "level_for policy co = dict_get (tailoring_by_band policy) (band_text co) TL_L0"

definition lane_for :: "application_policy \<Rightarrow> candidate_opportunity_row \<Rightarrow> lane" where
  "lane_for policy co = dict_get (lane_by_band policy) (band_text co) LN_REVIEW"

definition cover_mode_for :: "application_policy \<Rightarrow> candidate_opportunity_row \<Rightarrow> cover_letter_mode" where
  "cover_mode_for policy co =
     (let raw = dict_get (cover_letter_by_band policy) (band_text co) ''DISABLED''
      in if raw = ''TEMPLATE'' then CM_TEMPLATE else if raw = ''LIGHT'' then CM_LIGHT
         else if raw = ''TARGETED'' then CM_TARGETED else CM_DISABLED)"

definition match_fingerprint :: "prep_env \<Rightarrow> target \<Rightarrow> string option" where
  "match_fingerprint e t =
     (if tg_match t = None \<and> tg_assessments t = [] then None
      else Some (pe_digest e
        [(''evidence_references'', JList (map JStr (sort (matched_keys t)))),
         (''requirements'', JList (map (\<lambda>(n, st). JList [JStr n, JStr st])
            (sort_key id (map (\<lambda>a. (rq_requirement_name a, rq_status a)) (tg_assessments t)))))]))"

definition choice_for :: "prep_env \<Rightarrow> target \<Rightarrow> positioning_choice" where
  "choice_for e t = select_variant e (es_variants (pe_snapshot e)) (job_title_of t) (matched_keys t)"

definition fingerprint_inputs :: "prep_env \<Rightarrow> target \<Rightarrow> tailoring_level \<Rightarrow> string list \<Rightarrow> (string \<times> json) list" where
  "fingerprint_inputs e t level questions =
     (let variant = pc_variant (choice_for e t) in
      [(''evidence_fingerprint'', JStr (es_fingerprint (pe_snapshot e))),
       (''job_id'', j_opt_str (map_option j_id (tg_job t))),
       (''job_content_hash'', j_opt_str (map_option j_content_hash (tg_job t))),
       (''match_id'', j_opt_str (tg_match t)),
       (''match_fingerprint'', j_opt_str (match_fingerprint e t)),
       (''tailoring_level'', JStr (tailoring_level_value level)),
       (''lane'', JStr (lane_value (lane_for (pe_policy e) (tg_co t)))),
       (''cover_letter_mode'', JStr (cover_letter_mode_value (cover_mode_for (pe_policy e) (tg_co t)))),
       (''positioning_variant_id'', j_opt_str (map_option pv_id variant)),
       (''positioning_variant_version'', j_opt_int (map_option pv_version variant)),
       (''policy_version'', JInt (policy_version (pe_policy e))),
       (''template_version'', JStr TEMPLATE_VERSION),
       (''questions'', JList (map JStr (sort (map normalize_question questions)))),
       (''ai'', if level = TL_L2 then JStr (polisher_name e) else JNull)])"

definition fingerprint :: "prep_env \<Rightarrow> target \<Rightarrow> tailoring_level \<Rightarrow> string list \<Rightarrow> string \<times> (string \<times> json) list" where
  "fingerprint e t level questions =
     (let inputs = fingerprint_inputs e t level questions in (pe_digest e inputs, inputs))"

section \<open>Polishing\<close>

definition L2_POLISH_BLOCKS :: nat where
  "L2_POLISH_BLOCKS = 6"

definition supporting_text :: "text_env \<Rightarrow> evidence_snapshot \<Rightarrow> string list \<Rightarrow> string" where
  "supporting_text te s keys = join_with ''\<newline>'' (map (te_node_text te) (some_nodes s keys))"

datatype polish_outcome = POL_KEPT | POL_REJECTED | POL_USED

definition polish_block ::
  "prep_env \<Rightarrow> polisher \<Rightarrow> string \<Rightarrow> validation_context \<Rightarrow> nat \<Rightarrow> nat \<Rightarrow> block \<Rightarrow> polish_outcome \<times> block" where
  "polish_block e p purpose ctx call index b =
     (case pl_polish p call (b_text b) (supporting_text (pe_text e) (pe_snapshot e) (b_evidence_keys b)) purpose of
        None \<Rightarrow> (POL_KEPT, b)
      | Some rewritten \<Rightarrow>
          if rewritten = [] \<or> py_strip rewritten = py_strip (b_text b) then (POL_KEPT, b)
          else let candidate = b\<lparr>b_text := py_strip rewritten, b_ai_polished := True, b_source := ''ai:'' @ pl_name p\<rparr>
               in if validate_block (pe_text e) (pe_snapshot e) (Some index) ctx candidate \<noteq> [] then (POL_REJECTED, b)
                  else (POL_USED, candidate))"

record polish_state =
  po_offered :: nat
  po_used :: bool
  po_rejected :: nat

fun polish_from ::
  "prep_env \<Rightarrow> polisher \<Rightarrow> string \<Rightarrow> validation_context \<Rightarrow> nat \<Rightarrow> nat \<Rightarrow> block list \<Rightarrow> polish_state \<Rightarrow> block list \<times> polish_state" where
  "polish_from e p purpose ctx first index [] st = ([], st)"
| "polish_from e p purpose ctx first index (b # bs) st =
     (if b_kind b \<noteq> BK_CLAIM \<or> po_offered st \<ge> L2_POLISH_BLOCKS
      then let (rest, st') = polish_from e p purpose ctx first (Suc index) bs st in (b # rest, st')
      else
        let (outcome, b') = polish_block e p purpose ctx (first + po_offered st) index b;
            st1 = st\<lparr>po_offered := Suc (po_offered st), po_used := (po_used st \<or> outcome = POL_USED),
                     po_rejected := po_rejected st + (if outcome = POL_REJECTED then 1 else 0)\<rparr>;
            (rest, st') = polish_from e p purpose ctx first (Suc index) bs st1
        in (b' # rest, st'))"

definition polish :: "prep_env \<Rightarrow> polisher \<Rightarrow> string \<Rightarrow> validation_context \<Rightarrow> nat \<Rightarrow> block list \<Rightarrow> block list \<times> polish_state" where
  "polish e p purpose ctx first blocks = polish_from e p purpose ctx first 0 blocks \<lparr>po_offered = 0, po_used = False, po_rejected = 0\<rparr>"

section \<open>Answers\<close>

definition generated_issues :: "prep_env \<Rightarrow> validation_context \<Rightarrow> resolved_answer \<Rightarrow> validation_issue list" where
  "generated_issues e ctx r =
     (if ra_source r = SRC_GENERATED \<and> truthy (ra_answer r)
      then validate_block (pe_text e) (pe_snapshot e) None ctx (claim_block ''answer'' (the (ra_answer r)) (ra_evidence_keys r) None)
      else [])"

definition answer_row :: "prep_env \<Rightarrow> validation_context \<Rightarrow> nat \<Rightarrow> string \<Rightarrow> resolved_answer \<Rightarrow> preparation_answer_row" where
  "answer_row e ctx position question r =
     (let issues = generated_issues e ctx r;
          status = (if issues = [] then ra_status r else PA_NEEDS_REVIEW);
          reason = (if issues = [] then ra_reason r else Some (''generated answer failed validation: '' @ join_with ''; '' (map vi_code issues)))
      in \<lparr>pa_id = [], pa_position = int position, pa_question = take 512 question, pa_question_key = normalize_question question,
          pa_category = ra_category r, pa_answer = (if status = PA_ANSWERED then ra_answer r else None),
          pa_evidence_keys = ra_evidence_keys r, pa_source = (if status = PA_ANSWERED then ra_source r else SRC_NONE), pa_status = status,
          pa_required = (ra_category r \<noteq> QC_VOLUNTARY), pa_answer_bank_entry_id = ra_entry_id r,
          pa_reason = clip_or_none 256 reason, pa_updated_at = 0\<rparr>)"

fun answers_from ::
  "prep_env \<Rightarrow> evidence_selection \<Rightarrow> string \<Rightarrow> string \<Rightarrow> validation_context \<Rightarrow> nat \<Rightarrow> string set \<Rightarrow> string list \<Rightarrow>
   preparation_answer_row list result" where
  "answers_from e sel job_title company ctx position seen [] = Inr []"
| "answers_from e sel job_title company ctx position seen (question # rest) =
     (let key = normalize_question question in
      if key = [] \<or> key \<in> seen then answers_from e sel job_title company ctx (Suc position) seen rest
      else bind_result (resolve_answer (pe_classify e) (pe_snapshot e) question sel job_title company) (\<lambda>r.
           bind_result (answers_from e sel job_title company ctx (Suc position) (insert key seen) rest) (\<lambda>rows.
             Inr (answer_row e ctx position question r # rows))))"

definition resolve_answers ::
  "prep_env \<Rightarrow> string list \<Rightarrow> evidence_selection \<Rightarrow> string \<Rightarrow> string \<Rightarrow> validation_context \<Rightarrow> preparation_answer_row list result" where
  "resolve_answers e questions sel job_title company ctx =
     answers_from e sel job_title company
       (make_context (pe_text e) (vc_text ctx @ ''\<newline>'' @ positioning_statement (pe_snapshot e))) 0 {} questions"

section \<open>The package\<close>

record package_build =
  bd_level :: tailoring_level
  bd_lane :: lane
  bd_cover_mode :: cover_letter_mode
  bd_choice :: positioning_choice
  bd_selection :: evidence_selection
  bd_resume :: "block list"
  bd_cover :: "block list option"
  bd_answers :: "preparation_answer_row list"
  bd_report :: validation_report
  bd_validation :: validation_status
  bd_status :: preparation_status
  bd_ai_calls :: nat
  bd_ai_used :: bool
  bd_ai_meta :: "(string \<times> json) list"

definition context_text :: "target \<Rightarrow> positioning_variant option \<Rightarrow> string" where
  "context_text t variant =
     join_with ''\<newline>'' (filter (\<lambda>p. p \<noteq> [])
       ([job_title_of t, target_company t] @ map rq_requirement_name (tg_assessments t) @
        (case variant of None \<Rightarrow> [] | Some v \<Rightarrow> [pv_headline v, pv_summary v])))"

text \<open>The blocks after polishing with the calls, whether a rewrite was used, and the metadata.\<close>

definition dict_put :: "(string \<times> json) list \<Rightarrow> string \<times> json \<Rightarrow> (string \<times> json) list" where
  "dict_put m kv =
     (if fst kv \<in> fst ` set m then map (\<lambda>(k, v). (k, if k = fst kv then snd kv else v)) m else m @ [kv])"

definition polish_package ::
  "prep_env \<Rightarrow> tailoring_level \<Rightarrow> cover_letter_mode \<Rightarrow> validation_context \<Rightarrow> block list \<Rightarrow> block list option \<Rightarrow>
   block list \<times> block list option \<times> nat \<times> bool \<times> (string \<times> json) list" where
  "polish_package e level mode ctx resume cover =
     (case (if level = TL_L2 then pe_polisher e else None) of
        None \<Rightarrow> (resume, cover, 0, False, [(''used'', JBool False), (''level'', JStr (tailoring_level_value level))])
      | Some p \<Rightarrow>
          let (resume', st) = polish e p ''resume bullet'' ctx 0 resume;
              (cover', st') =
                (case cover of
                   Some bs \<Rightarrow> if bs \<noteq> [] \<and> mode = CM_TARGETED
                              then map_prod Some id (polish e p ''cover letter sentence'' ctx (po_offered st) bs)
                              else (Some bs, \<lparr>po_offered = 0, po_used = False, po_rejected = 0\<rparr>)
                 | None \<Rightarrow> (None, \<lparr>po_offered = 0, po_used = False, po_rejected = 0\<rparr>));
              calls = po_offered st + po_offered st'; used = (po_used st \<or> po_used st')
          in (resume', cover', calls, used,
              foldl dict_put (pl_metadata p)
                [(''used'', JBool used), (''level'', JStr (tailoring_level_value level)), (''offered'', JInt (int calls)),
                 (''rejected_by_truth_gate'', JInt (int (po_rejected st + po_rejected st')))]))"

definition gate_package ::
  "prep_env \<Rightarrow> validation_context \<Rightarrow> block list \<Rightarrow> block list option \<Rightarrow> block list \<times> block list option \<times> validation_report \<times> bool" where
  "gate_package e ctx resume cover =
     (let te = pe_text e; s = pe_snapshot e;
          report = validate_blocks te s ctx (resume @ (case cover of None \<Rightarrow> [] | Some bs \<Rightarrow> bs))
      in if vr_passed report then (resume, cover, report, False)
         else
           let (resume', rr) = drop_failing te s ctx resume;
               (cover', issues, dropped) =
                 (case cover of
                    None \<Rightarrow> (None, vr_issues rr, vr_dropped_blocks rr)
                  | Some bs \<Rightarrow> let (bs', cr) = drop_failing te s ctx bs
                              in (Some bs', vr_issues rr @ vr_issues cr, vr_dropped_blocks rr + vr_dropped_blocks cr))
           in (resume', cover', \<lparr>vr_passed = False, vr_checked_blocks = vr_checked_blocks rr, vr_issues = issues, vr_dropped_blocks = dropped\<rparr>,
               True))"

definition has_claims :: "block list \<Rightarrow> bool" where
  "has_claims blocks \<longleftrightarrow> list_ex (\<lambda>b. b_kind b = BK_CLAIM) blocks"

definition build_validation :: "bool \<Rightarrow> bool \<Rightarrow> validation_status" where
  "build_validation claims_left lossy =
     (if \<not> claims_left then VL_FAILED else if claims_left \<or> \<not> lossy then VL_PASSED else VL_FAILED)"

definition build_status :: "validation_status \<Rightarrow> bool \<Rightarrow> preparation_answer_row list \<Rightarrow> preparation_status" where
  "build_status validation lossy answers =
     (if validation = VL_FAILED then PS_NEEDS_REVIEW
      else if list_ex (\<lambda>a. pa_status a = PA_NEEDS_USER_INPUT \<and> pa_required a) answers then PS_NEEDS_USER_INPUT
      else if lossy \<or> list_ex (\<lambda>a. pa_status a = PA_NEEDS_REVIEW) answers then PS_NEEDS_REVIEW
      else PS_READY)"

definition build_package :: "prep_env \<Rightarrow> target \<Rightarrow> tailoring_level \<Rightarrow> string list \<Rightarrow> package_build result" where
  "build_package e t level questions =
     (let s = pe_snapshot e; job_title = job_title_of t; company = target_company t;
          choice = choice_for e t; variant = pc_variant choice;
          sel = select_evidence s (tg_assessments t) variant level;
          mode = cover_mode_for (pe_policy e) (tg_co t);
          ctx = make_context (pe_text e) (context_text t variant) in
      bind_result (compose_resume s sel variant level) (\<lambda>resume0.
      bind_result (compose_cover_letter mode s sel variant company job_title) (\<lambda>cover0.
        let (resume1, cover1, calls, used, meta) = polish_package e level mode ctx resume0 cover0;
            (resume, cover, report, lossy) = gate_package e ctx resume1 cover1
        in bind_result (resolve_answers e questions sel job_title company ctx) (\<lambda>answers.
          let validation = build_validation (has_claims resume) lossy
          in Inr \<lparr>bd_level = level, bd_lane = lane_for (pe_policy e) (tg_co t), bd_cover_mode = mode, bd_choice = choice,
                  bd_selection = sel, bd_resume = resume, bd_cover = cover, bd_answers = answers, bd_report = report,
                  bd_validation = validation, bd_status = build_status validation lossy answers, bd_ai_calls = calls, bd_ai_used = used,
                  bd_ai_meta = meta\<rparr>))))"

end
