(* ===== verification/Preparation.thy ===== *)
theory Preparation
  imports Prep_Build Opportunity_Repo
begin

text \<open>
  \<^verbatim>\<open>PreparationService\<close> (\<^verbatim>\<open>app/preparation/service.py\<close>): packages are versioned per candidate opportunity, reused
  while their inputs are unchanged, superseded by the next version, and reviewed by a person. The ids of
  inserted rows come from the environment, the actor and the clock are arguments.
\<close>

section \<open>Reads\<close>

definition prep_get :: "prep_env \<Rightarrow> string \<Rightarrow> db \<Rightarrow> preparation_row option" where
  "prep_get e pid d = find (\<lambda>p. p_tenant_id p = pe_tenant e \<and> p_id p = pid) (preparations_t d)"

definition prep_require :: "prep_env \<Rightarrow> string \<Rightarrow> db \<Rightarrow> preparation_row result" where
  "prep_require e pid d = (case prep_get e pid d of None \<Rightarrow> Inl (NotFoundError (''Preparation not found: '' @ pid)) | Some p \<Rightarrow> Inr p)"

definition preps_of :: "prep_env \<Rightarrow> string \<Rightarrow> db \<Rightarrow> preparation_row list" where
  "preps_of e cid d =
     sort_key p_version (filter (\<lambda>p. p_tenant_id p = pe_tenant e \<and> p_candidate_opportunity_id p = cid) (preparations_t d))"

definition latest_prep :: "prep_env \<Rightarrow> string \<Rightarrow> db \<Rightarrow> preparation_row option" where
  "latest_prep e cid d = (case preps_of e cid d of [] \<Rightarrow> None | ps \<Rightarrow> Some (last ps))"

definition target_of :: "prep_env \<Rightarrow> db \<Rightarrow> candidate_opportunity_row \<Rightarrow> opportunity_row \<Rightarrow> target" where
  "target_of e d co o' =
     (let matched = (if truthy (co_match_id co) then pe_match_job e (the (co_match_id co)) else None);
          canonical_job = (if truthy (o_canonical_job_id o') then get_job d (the (o_canonical_job_id o')) else None);
          job = (case canonical_job of Some j \<Rightarrow> Some j
                 | None \<Rightarrow> (case matched of None \<Rightarrow> None | Some jid \<Rightarrow> get_job d jid))
      in \<lparr>tg_co = co, tg_opportunity = o', tg_job = job, tg_match = (if matched = None then None else co_match_id co),
          tg_assessments = (if truthy (co_match_id co) then pe_assessments e (the (co_match_id co)) else [])\<rparr>)"

text \<open>A candidate opportunity always has its opening (a foreign key).\<close>

definition load_target :: "prep_env \<Rightarrow> string \<Rightarrow> db \<Rightarrow> target option" where
  "load_target e cid d =
     (case find (\<lambda>c. co_tenant_id c = pe_tenant e \<and> co_id c = cid) (candidates_t d) of
        None \<Rightarrow> None
      | Some co \<Rightarrow> map_option (target_of e d co) (get_opportunity d (co_opportunity_id co)))"

section \<open>What is prepared\<close>

definition admission_problem :: "candidate_opportunity_row \<Rightarrow> bool \<Rightarrow> string option" where
  "admission_problem co force =
     (if co_state co \<in> {OS_INELIGIBLE, OS_CLOSED, OS_SKIPPED, OS_REJECTED}
      then Some (''candidate opportunity is '' @ opportunity_state_value (co_state co))
      else if \<not> force \<and> co_policy_admitted co \<noteq> Some True
      then Some (''not admitted by the application policy: '' @ str_or (co_policy_reason co) ''not evaluated'')
      else None)"

definition standard_questions :: json where
  "standard_questions = JList (map JStr (sort (map normalize_question DEFAULT_QUESTIONS)))"

definition questions_for :: "preparation_row option \<Rightarrow> string list option \<Rightarrow> string list" where
  "questions_for previous questions =
     (case questions of
        Some qs \<Rightarrow> qs
      | None \<Rightarrow>
          (case previous of
             None \<Rightarrow> DEFAULT_QUESTIONS
           | Some p \<Rightarrow>
               (case map_of (p_inputs p) ''questions'' of
                  None \<Rightarrow> DEFAULT_QUESTIONS
                | Some asked \<Rightarrow> if asked \<noteq> standard_questions then map pa_question (sort_key pa_position (p_answers p)) else DEFAULT_QUESTIONS)))"

definition reusable :: "string \<Rightarrow> preparation_row \<Rightarrow> bool" where
  "reusable digest p \<longleftrightarrow> p_input_fingerprint p = digest \<and> p_status p \<noteq> PS_FAILED \<and> p_status p \<noteq> PS_INVALIDATED"

section \<open>Storing a package\<close>

definition prep_record :: "prep_env \<Rightarrow> string \<Rightarrow> string \<Rightarrow> string \<Rightarrow> json option \<Rightarrow> json option \<Rightarrow> string option \<Rightarrow> db \<Rightarrow> db" where
  "prep_record e pid action actor old after summary d = audit_record (pe_tenant e) ''preparation'' pid action actor old after summary d"

definition status_json :: "preparation_status \<Rightarrow> string \<times> json" where
  "status_json st = (''status'', JStr (preparation_status_value st))"

definition j_nat :: "nat option \<Rightarrow> json" where
  "j_nat n = (case n of None \<Rightarrow> JNull | Some k \<Rightarrow> JInt (int k))"

definition issue_json :: "validation_issue \<Rightarrow> json" where
  "issue_json i = JObj [(''code'', JStr (vi_code i)), (''message'', JStr (vi_message i)), (''block_index'', j_nat (vi_block_index i)),
     (''evidence_keys'', JList (map JStr (vi_evidence_keys i)))]"

definition report_json :: "validation_report \<Rightarrow> json" where
  "report_json r = JObj [(''passed'', JBool (vr_passed r)), (''checked_blocks'', JInt (int (vr_checked_blocks r))),
     (''issues'', JList (map issue_json (vr_issues r))), (''dropped_blocks'', JInt (int (vr_dropped_blocks r)))]"

definition supersede :: "prep_env \<Rightarrow> preparation_row option \<Rightarrow> int \<Rightarrow> string \<Rightarrow> time \<Rightarrow> db \<Rightarrow> db" where
  "supersede e previous version actor now d =
     (case previous of
        None \<Rightarrow> d
      | Some p \<Rightarrow>
          if p_status p = PS_SUPERSEDED \<or> p_status p = PS_INVALIDATED then d
          else prep_record e (p_id p) ''superseded'' actor
                 (Some (JObj [status_json (p_status p), (''version'', JInt (p_version p))]))
                 (Some (JObj [status_json PS_SUPERSEDED, (''by_version'', JInt version)])) None
                 (put_preparation (p\<lparr>p_status := PS_SUPERSEDED, p_updated_at := now\<rparr>) d))"

definition add_missing :: "string list \<Rightarrow> string list \<Rightarrow> string list" where
  "add_missing keys cited = fold (\<lambda>k ks. if k \<in> set ks then ks else ks @ [k]) cited keys"

definition block_keys :: "block list \<Rightarrow> string list" where
  "block_keys bs = concat (map b_evidence_keys bs)"

definition sorted_keys :: "block list \<Rightarrow> string list" where
  "sorted_keys bs = sort (remdups (block_keys bs))"

definition build_blocks :: "package_build \<Rightarrow> block list" where
  "build_blocks b = bd_resume b @ (case bd_cover b of None \<Rightarrow> [] | Some bs \<Rightarrow> bs)"

definition package_row ::
  "prep_env \<Rightarrow> target \<Rightarrow> package_build \<Rightarrow> string \<Rightarrow> (string \<times> json) list \<Rightarrow> int \<Rightarrow> string \<Rightarrow> time \<Rightarrow> preparation_row" where
  "package_row e t b digest inputs version pid now =
     \<lparr>p_id = pid, p_tenant_id = pe_tenant e, p_candidate_opportunity_id = co_id (tg_co t), p_opportunity_id = co_opportunity_id (tg_co t),
      p_version = version, p_status = bd_status b, p_validation_status = bd_validation b,
      p_answers = map (\<lambda>(i, a). a\<lparr>pa_id := pe_answer_id e pid i, pa_updated_at := now\<rparr>) (enumerate 0 (bd_answers b)),
      p_job_id = map_option j_id (tg_job t), p_job_content_hash = map_option j_content_hash (tg_job t),
      p_tailoring_level = bd_level b, p_lane = bd_lane b, p_cover_letter_mode = bd_cover_mode b,
      p_positioning_variant_id = map_option pv_id (pc_variant (bd_choice b)),
      p_positioning_variant_version = map_option pv_version (pc_variant (bd_choice b)),
      p_positioning_reason = Some (take 256 (pc_reason (bd_choice b))),
      p_validation_report = report_json (bd_report b), p_input_fingerprint = digest, p_inputs = inputs,
      p_evidence_keys = add_missing (all_keys (bd_selection b)) (block_keys (build_blocks b)),
      p_ai_used = bd_ai_used b, p_ai_provider = (if bd_ai_used b then Some (polisher_name e) else None),
      p_ai_model = (if bd_ai_used b then (case pe_polisher e of None \<Rightarrow> None | Some p \<Rightarrow> pl_model p) else None),
      p_ai_calls = int (bd_ai_calls b), p_approved_at = None, p_approved_by = None, p_updated_at = now\<rparr>"

definition artifact_row :: "prep_env \<Rightarrow> string \<Rightarrow> artifact_kind \<Rightarrow> validation_status \<Rightarrow> block list \<Rightarrow> preparation_artifact_row" where
  "artifact_row e pid kind validation bs =
     \<lparr>pt_tenant_id = pe_tenant e, pt_preparation_id = pid, pt_artifact_type = kind, pt_content = render bs, pt_blocks = bs,
      pt_evidence_keys = sorted_keys bs, pt_template_version = TEMPLATE_VERSION, pt_ai_used = list_ex b_ai_polished bs,
      pt_validation_status = validation\<rparr>"

definition artifacts_of :: "prep_env \<Rightarrow> string \<Rightarrow> package_build \<Rightarrow> preparation_artifact_row list" where
  "artifacts_of e pid b =
     artifact_row e pid AF_RESUME (bd_validation b) (bd_resume b) #
     (case bd_cover b of None \<Rightarrow> [] | Some bs \<Rightarrow> [artifact_row e pid AF_COVER_LETTER (bd_validation b) bs])"

fun count_into :: "string \<Rightarrow> (string \<times> int) list \<Rightarrow> (string \<times> int) list" where
  "count_into k [] = [(k, 1)]"
| "count_into k ((k', n) # rest) = (if k' = k then (k', n + 1) # rest else (k', n) # count_into k rest)"

definition counts_json :: "string list \<Rightarrow> json" where
  "counts_json ks = JObj (map (\<lambda>(k, n). (k, JInt n)) (fold count_into ks []))"

definition package_event :: "package_build \<Rightarrow> preparation_row \<Rightarrow> json" where
  "package_event b row =
     JObj [(''version'', JInt (p_version row)), (''tailoring_level'', JStr (tailoring_level_value (bd_level b))),
       (''lane'', JStr (lane_value (bd_lane b))), (''cover_letter_mode'', JStr (cover_letter_mode_value (bd_cover_mode b))),
       (''positioning_variant_id'', j_opt_str (p_positioning_variant_id row)), (''positioning_reason'', JStr (pc_reason (bd_choice b))),
       (''evidence_selected'', JInt (int (length (p_evidence_keys row)))),
       (''evidence_excluded'', JObj (map (\<lambda>(k, r). (k, JStr r)) (sl_excluded (bd_selection b)))),
       (''matched_requirements'', JList (map JStr (take 20 (map fst (sl_matched_requirements (bd_selection b)))))),
       (''answers_by_source'', counts_json (map (\<lambda>a. answer_source_value (pa_source a)) (bd_answers b))),
       (''answers_by_status'', counts_json (map (\<lambda>a. prepared_answer_status_value (pa_status a)) (bd_answers b))),
       (''ai_calls'', JInt (int (bd_ai_calls b))), (''ai_used'', JBool (bd_ai_used b)), (''ai'', JObj (bd_ai_meta b))]"

definition PREPARED_FROM :: "opportunity_state set" where
  "PREPARED_FROM = {OS_ELIGIBLE, OS_UNCERTAIN, OS_SHORTLISTED, OS_QUEUED, OS_IN_REVIEW}"

definition REVIEW_FROM :: "opportunity_state set" where
  "REVIEW_FROM = {OS_ELIGIBLE, OS_UNCERTAIN, OS_SHORTLISTED, OS_QUEUED, OS_PREPARED}"

definition move_prepared ::
  "prep_env \<Rightarrow> candidate_opportunity_row \<Rightarrow> preparation_status \<Rightarrow> string \<Rightarrow> time \<Rightarrow> db \<Rightarrow> db result" where
  "move_prepared e co status actor now d =
     (if status = PS_READY \<and> co_state co \<in> PREPARED_FROM
      then bind_result (co_transition (pe_tenant e) co OS_PREPARED actor (Some ''preparation ready'') False now d) (\<lambda>(_, d'). Inr d')
      else if (status = PS_NEEDS_USER_INPUT \<or> status = PS_NEEDS_REVIEW) \<and> co_state co \<in> REVIEW_FROM
      then bind_result (co_transition (pe_tenant e) co OS_IN_REVIEW actor
             (Some (''preparation '' @ py_lower (preparation_status_value status))) False now d) (\<lambda>(_, d'). Inr d')
      else Inr d)"

definition insert_package :: "prep_env \<Rightarrow> package_build \<Rightarrow> preparation_row \<Rightarrow> bool \<Rightarrow> string \<Rightarrow> db \<Rightarrow> db" where
  "insert_package e b row first actor d =
     (let d1 = d\<lparr>preparations_t := preparations_t d @ [row],
                 preparation_artifacts_t := preparation_artifacts_t d @ artifacts_of e (p_id row) b\<rparr>;
          d2 = prep_record e (p_id row) (if first then ''created'' else ''regenerated'') actor None (Some (package_event b row))
                 (Some (pc_reason (bd_choice b))) d1;
          d3 = prep_record e (p_id row) (if bd_validation b = VL_PASSED then ''validation_passed'' else ''validation_failed'') actor None
                 (Some (report_json (bd_report b))) None d2
      in if bd_status b = PS_NEEDS_USER_INPUT
         then prep_record e (p_id row) ''user_input_required'' actor None
                (Some (JObj [(''questions'', JList (map (\<lambda>a. JStr (pa_question a))
                   (filter (\<lambda>a. pa_status a = PA_NEEDS_USER_INPUT) (bd_answers b))))])) None d3
         else d3)"

definition persist ::
  "prep_env \<Rightarrow> target \<Rightarrow> package_build \<Rightarrow> string \<Rightarrow> (string \<times> json) list \<Rightarrow> preparation_row option \<Rightarrow> string \<Rightarrow> time \<Rightarrow> db \<Rightarrow>
   (preparation_row \<times> db) result" where
  "persist e t b digest inputs previous actor now d =
     (let version = (case previous of None \<Rightarrow> 1 | Some p \<Rightarrow> p_version p + 1);
          d1 = supersede e previous version actor now d;
          row = package_row e t b digest inputs version (pe_fresh e d) now
      in bind_result (move_prepared e (tg_co t) (bd_status b) actor now (insert_package e b row (previous = None) actor d1))
           (\<lambda>d2. Inr (row, d2)))"

section \<open>Prepare\<close>

definition prepare_target ::
  "prep_env \<Rightarrow> target \<Rightarrow> preparation_row option \<Rightarrow> tailoring_level option \<Rightarrow> string list option \<Rightarrow> bool \<Rightarrow> string \<Rightarrow> time \<Rightarrow> db \<Rightarrow>
   (preparation_row \<times> bool \<times> db) result" where
  "prepare_target e t previous level questions force actor now d =
     (let qs = questions_for previous questions in
      case admission_problem (tg_co t) force of
        Some problem \<Rightarrow> Inl (PolicyBlocked problem)
      | None \<Rightarrow>
          (let chosen = (case level of Some l \<Rightarrow> l | None \<Rightarrow> level_for (pe_policy e) (tg_co t));
               (digest, inputs) = fingerprint e t chosen qs
           in if \<not> force \<and> (case previous of None \<Rightarrow> False | Some p \<Rightarrow> reusable digest p)
              then Inr (the previous, False, d)
              else bind_result (build_package e t chosen qs) (\<lambda>b.
                   bind_result (persist e t b digest inputs previous actor now d) (\<lambda>(row, d').
                     Inr (row, True, d')))))"

definition prepare ::
  "prep_env \<Rightarrow> string \<Rightarrow> tailoring_level option \<Rightarrow> string list option \<Rightarrow> bool \<Rightarrow> string \<Rightarrow> time \<Rightarrow> db \<Rightarrow>
   (preparation_row \<times> db) result" where
  "prepare e cid level questions force actor now d =
     (case load_target e cid d of
        None \<Rightarrow> Inl (NotFoundError (''Candidate opportunity not found: '' @ cid))
      | Some t \<Rightarrow>
          bind_result (prepare_target e t (latest_prep e cid d) level questions force actor now d) (\<lambda>(row, _, d').
            Inr (row, d')))"

end
