(* ===== verification/Prep_Review.thy ===== *)
theory Prep_Review
  imports Preparation Periods
begin

text \<open>
  The rest of \<^verbatim>\<open>PreparationService\<close>: staleness of a stored package, preparation of many candidates with its
  commits and rollbacks, and the review actions of a person (approve, reject, invalidate, answer a
  question, with the answer bank of \<^verbatim>\<open>app/career/repository.py\<close>).
\<close>

section \<open>Staleness\<close>

definition asked_questions :: "preparation_row \<Rightarrow> string list" where
  "asked_questions p =
     (case map_of (p_inputs p) ''questions'' of
        Some (JList (q # qs)) \<Rightarrow> map (\<lambda>j. case j of JStr s \<Rightarrow> s | _ \<Rightarrow> []) (q # qs)
      | _ \<Rightarrow> map pa_question (sort_key pa_position (p_answers p)))"

definition current_inputs :: "prep_env \<Rightarrow> preparation_row \<Rightarrow> db \<Rightarrow> (string \<times> (string \<times> json) list) result" where
  "current_inputs e p d =
     (case load_target e (p_candidate_opportunity_id p) d of
        None \<Rightarrow> Inl (NotFoundError (''Candidate opportunity not found: '' @ p_candidate_opportunity_id p))
      | Some t \<Rightarrow> Inr (fingerprint e t (p_tailoring_level p) (asked_questions p)))"

definition MATERIAL_NEUTRAL_INPUTS :: "string set" where
  "MATERIAL_NEUTRAL_INPUTS = {''policy_version'', ''match_id''}"

definition ADDED_SINCE_V1 :: "string set" where
  "ADDED_SINCE_V1 = {''match_fingerprint''}"

definition input_of :: "(string \<times> json) list \<Rightarrow> string \<Rightarrow> json" where
  "input_of m k = dict_get m k JNull"

definition changed_inputs :: "(string \<times> json) list \<Rightarrow> (string \<times> json) list \<Rightarrow> string list" where
  "changed_inputs inputs stored =
     sort (filter (\<lambda>k. input_of inputs k \<noteq> input_of stored k) (remdups (map fst inputs @ map fst stored)))"

definition material_inputs :: "(string \<times> json) list \<Rightarrow> (string \<times> json) list \<Rightarrow> string list" where
  "material_inputs inputs stored =
     filter (\<lambda>k. k \<notin> MATERIAL_NEUTRAL_INPUTS \<and> \<not> (k \<in> fst ` set inputs - fst ` set stored \<and> k \<in> ADDED_SINCE_V1))
       (changed_inputs inputs stored)"

definition stale_inputs :: "prep_env \<Rightarrow> preparation_row \<Rightarrow> db \<Rightarrow> string list result" where
  "stale_inputs e p d =
     bind_result (current_inputs e p d) (\<lambda>(digest, inputs).
       if digest = p_input_fingerprint p then Inr []
       else let material = material_inputs inputs (p_inputs p) in
            Inr (if material = [] \<and> changed_inputs inputs (p_inputs p) \<noteq> [] then []
                 else list_or material [''fingerprint'']))"

section \<open>Many packages\<close>

record many_report =
  mr_created :: nat
  mr_reused :: nat
  mr_skipped :: nat
  mr_by_status :: "(string \<times> int) list"
  mr_ai_calls :: int
  mr_errors :: "string list"

record many_state =
  ms_db :: db
  ms_committed :: db
  ms_pending :: nat
  ms_latest :: "(string \<times> preparation_row) list"
  ms_report :: many_report

definition many_skip :: "string \<Rightarrow> many_report \<Rightarrow> many_report" where
  "many_skip message r = r\<lparr>mr_skipped := Suc (mr_skipped r), mr_errors := mr_errors r @ [message]\<rparr>"

definition live_target :: "prep_env \<Rightarrow> db \<Rightarrow> target \<Rightarrow> target" where
  "live_target e d t =
     (case find (\<lambda>c. co_id c = co_id (tg_co t)) (candidates_t d) of None \<Rightarrow> t | Some c \<Rightarrow> t\<lparr>tg_co := c\<rparr>)"

definition many_step ::
  "prep_env \<Rightarrow> tailoring_level option \<Rightarrow> string list option \<Rightarrow> bool \<Rightarrow> string \<Rightarrow> nat \<Rightarrow> time \<Rightarrow> target \<Rightarrow> many_state \<Rightarrow> many_state" where
  "many_step e level questions force actor commit_every now t0 st =
     (let cid = co_id (tg_co t0); t = live_target e (ms_db st) t0; r = ms_report st in
      case prepare_target e t (map_of (ms_latest st) cid) level questions force actor now (ms_db st) of
        Inl (PolicyBlocked m) \<Rightarrow> st\<lparr>ms_report := many_skip (cid @ '': '' @ m) r\<rparr>
      | Inl err \<Rightarrow>
          st\<lparr>ms_db := ms_committed st, ms_pending := 0, ms_report := many_skip (cid @ '': '' @ error_text err) r\<rparr>
      | Inr (row, created, d') \<Rightarrow>
          (let r1 = r\<lparr>mr_by_status := count_into (preparation_status_value (p_status row)) (mr_by_status r)\<rparr> in
           if \<not> created then st\<lparr>ms_report := r1\<lparr>mr_reused := Suc (mr_reused r1)\<rparr>\<rparr>
           else
             let st1 = st\<lparr>ms_db := d', ms_latest := (cid, row) # ms_latest st,
                           ms_report := r1\<lparr>mr_created := Suc (mr_created r1), mr_ai_calls := mr_ai_calls r1 + p_ai_calls row\<rparr>,
                           ms_pending := Suc (ms_pending st)\<rparr>
             in if ms_pending st1 \<ge> commit_every then st1\<lparr>ms_committed := d', ms_pending := 0\<rparr> else st1))"

definition prepare_many ::
  "prep_env \<Rightarrow> string list \<Rightarrow> tailoring_level option \<Rightarrow> string list option \<Rightarrow> bool \<Rightarrow> string \<Rightarrow> nat \<Rightarrow> time \<Rightarrow> db \<Rightarrow> many_report \<times> db" where
  "prepare_many e cids level questions force actor commit_every now d =
     (let targets = List.map_filter (\<lambda>cid. load_target e cid d) cids;
          latest = List.map_filter (\<lambda>t. map_option (Pair (co_id (tg_co t))) (latest_prep e (co_id (tg_co t)) d)) targets;
          missing = filter (\<lambda>cid. load_target e cid d = None) (remdups cids);
          r0 = fold (\<lambda>cid. many_skip (''candidate opportunity not found: '' @ cid)) missing
                 \<lparr>mr_created = 0, mr_reused = 0, mr_skipped = 0, mr_by_status = [], mr_ai_calls = 0, mr_errors = []\<rparr>;
          st = fold (many_step e level questions force actor commit_every now) targets
                 \<lparr>ms_db = d, ms_committed = d, ms_pending = 0, ms_latest = latest, ms_report = r0\<rparr>
      in (ms_report st, ms_db st))"

section \<open>Review\<close>

definition candidate_of :: "prep_env \<Rightarrow> preparation_row \<Rightarrow> db \<Rightarrow> candidate_opportunity_row option" where
  "candidate_of e p d =
     find (\<lambda>c. co_tenant_id c = pe_tenant e \<and> co_id c = p_candidate_opportunity_id p) (candidates_t d)"

definition move_of :: "prep_env \<Rightarrow> preparation_row \<Rightarrow> preparation_status \<Rightarrow> string \<Rightarrow> time \<Rightarrow> db \<Rightarrow> db result" where
  "move_of e p status actor now d =
     (case candidate_of e p d of None \<Rightarrow> Inr d | Some co \<Rightarrow> move_prepared e co status actor now d)"

definition needs_input :: "preparation_row \<Rightarrow> bool" where
  "needs_input p \<longleftrightarrow> list_ex (\<lambda>a. pa_status a = PA_NEEDS_USER_INPUT \<and> pa_required a) (p_answers p)"

definition approve_answer :: "time \<Rightarrow> preparation_answer_row \<Rightarrow> preparation_answer_row" where
  "approve_answer now a =
     (if pa_status a = PA_NEEDS_REVIEW \<and> truthy (pa_answer a) then a\<lparr>pa_status := PA_ANSWERED, pa_updated_at := now\<rparr> else a)"

definition approve_row :: "string \<Rightarrow> time \<Rightarrow> preparation_row \<Rightarrow> preparation_row" where
  "approve_row actor now p =
     p\<lparr>p_status := PS_READY, p_approved_at := Some now, p_approved_by := Some actor, p_updated_at := now,
       p_answers := map (approve_answer now) (p_answers p)\<rparr>"

definition approve :: "prep_env \<Rightarrow> string \<Rightarrow> string \<Rightarrow> time \<Rightarrow> db \<Rightarrow> (preparation_row \<times> db) result" where
  "approve e pid actor now d =
     bind_result (prep_require e pid d) (\<lambda>p.
       if p_status p \<noteq> PS_NEEDS_REVIEW \<and> p_status p \<noteq> PS_READY
       then Inl (ConflictError (''Cannot approve a '' @ preparation_status_value (p_status p) @ '' preparation''))
       else if needs_input p then Inl (ConflictError ''Answer the required questions before approving'')
       else
         let p' = approve_row actor now p;
             d1 = prep_record e pid ''approved'' actor (Some (JObj [status_json (p_status p)])) (Some (JObj [status_json PS_READY])) None
                    (put_preparation p' d)
         in bind_result (move_of e p' PS_READY actor now d1) (\<lambda>d2. Inr (p', d2)))"

definition set_status ::
  "prep_env \<Rightarrow> preparation_status \<Rightarrow> string \<Rightarrow> string \<Rightarrow> string \<Rightarrow> string option \<Rightarrow> time \<Rightarrow> db \<Rightarrow> (preparation_row \<times> db) result" where
  "set_status e status action pid actor reason now d =
     bind_result (prep_require e pid d) (\<lambda>p.
       let p' = p\<lparr>p_status := status, p_updated_at := now\<rparr>
       in Inr (p', prep_record e pid action actor (Some (JObj [status_json (p_status p)])) (Some (JObj [status_json status])) reason
                     (put_preparation p' d)))"

definition reject :: "prep_env \<Rightarrow> string \<Rightarrow> string \<Rightarrow> string option \<Rightarrow> time \<Rightarrow> db \<Rightarrow> (preparation_row \<times> db) result" where
  "reject e = set_status e PS_NEEDS_REVIEW ''rejected''"

definition invalidate :: "prep_env \<Rightarrow> string \<Rightarrow> string \<Rightarrow> string option \<Rightarrow> time \<Rightarrow> db \<Rightarrow> (preparation_row \<times> db) result" where
  "invalidate e = set_status e PS_INVALIDATED ''invalidated''"

section \<open>Answering a question\<close>

definition find_answer :: "string \<Rightarrow> string \<Rightarrow> db \<Rightarrow> answer_bank_row option" where
  "find_answer tenant question d =
     find (\<lambda>a. ab_tenant_id a = tenant \<and> ab_question_key a = normalize_question question \<and> ab_status a = AN_APPROVED) (answer_bank_t d)"

definition answer_snapshot :: "answer_bank_row \<Rightarrow> json" where
  "answer_snapshot a =
     JObj [(''category'', JStr (ab_category a)), (''question'', JStr (ab_question a)), (''answer'', JStr (ab_answer a)),
       (''evidence_keys'', JList (map JStr (ab_evidence_keys a))), (''status'', JStr (answer_status_value (ab_status a))),
       (''version'', JInt (ab_version a)), (''approved_at'', j_opt_str (map_option isoformat_naive (ab_approved_at a)))]"

text \<open>\<^verbatim>\<open>create_answer\<close> of an approved answer that cites no evidence.\<close>

definition create_answer ::
  "string \<Rightarrow> string \<Rightarrow> string \<Rightarrow> string \<Rightarrow> string \<Rightarrow> string \<Rightarrow> time \<Rightarrow> db \<Rightarrow> (answer_bank_row \<times> db) result" where
  "create_answer tenant new_id category question answer actor now d =
     (let key = normalize_question question in
      if key = [] then Inl (ValidationFailed ''Question cannot be empty'')
      else if list_ex (\<lambda>a. ab_tenant_id a = tenant \<and> ab_question_key a = key) (answer_bank_t d)
      then Inl (ConflictError ''An answer for this question already exists'')
      else
        let row = \<lparr>ab_id = new_id, ab_tenant_id = tenant, ab_category = category, ab_question = question, ab_question_key = key,
                   ab_answer = answer, ab_evidence_keys = [], ab_status = AN_APPROVED, ab_version = 1, ab_approved_at = Some now\<rparr>
        in Inr (row, audit_record tenant ''answer_bank_entry'' new_id ''created'' actor None (Some (answer_snapshot row)) None
                       (d\<lparr>answer_bank_t := answer_bank_t d @ [row]\<rparr>)))"

definition user_answer :: "string \<Rightarrow> time \<Rightarrow> preparation_answer_row \<Rightarrow> preparation_answer_row" where
  "user_answer text now a =
     a\<lparr>pa_answer := Some text, pa_source := SRC_USER, pa_status := PA_ANSWERED, pa_reason := Some ''answered by the candidate'',
       pa_updated_at := now\<rparr>"

definition put_answer :: "preparation_answer_row \<Rightarrow> preparation_row \<Rightarrow> preparation_row" where
  "put_answer a p = p\<lparr>p_answers := map (\<lambda>b. if pa_id b = pa_id a then a else b) (p_answers p)\<rparr>"

definition bank_answer ::
  "prep_env \<Rightarrow> bool \<Rightarrow> string option \<Rightarrow> string \<Rightarrow> string \<Rightarrow> string \<Rightarrow> time \<Rightarrow> preparation_answer_row \<Rightarrow> db \<Rightarrow> (preparation_answer_row \<times> db) result" where
  "bank_answer e save category text actor bank_id now a d =
     (if \<not> save \<or> find_answer (pe_tenant e) (pa_question a) d \<noteq> None then Inr (a, d)
      else bind_result (create_answer (pe_tenant e) bank_id (str_or category (question_category_value (pa_category a)))
             (pa_question a) text actor now d) (\<lambda>(entry, d').
             Inr (a\<lparr>pa_answer_bank_entry_id := Some (ab_id entry)\<rparr>, d')))"

definition status_after_answer :: "preparation_row \<Rightarrow> preparation_status" where
  "status_after_answer p =
     (if needs_input p then PS_NEEDS_USER_INPUT
      else if list_ex (\<lambda>a. pa_status a = PA_NEEDS_REVIEW) (p_answers p) \<or> p_validation_status p \<noteq> VL_PASSED then PS_NEEDS_REVIEW
      else PS_READY)"

definition settle_status :: "prep_env \<Rightarrow> string \<Rightarrow> time \<Rightarrow> preparation_row \<Rightarrow> db \<Rightarrow> (preparation_row \<times> db) result" where
  "settle_status e actor now p d =
     (let status = status_after_answer p in
      if (p_status p \<noteq> PS_NEEDS_USER_INPUT \<and> p_status p \<noteq> PS_NEEDS_REVIEW) \<or> status = p_status p then Inr (p, d)
      else
        let p' = p\<lparr>p_status := status, p_updated_at := now\<rparr>;
            d1 = prep_record e (p_id p) (''status:'' @ preparation_status_value status) actor (Some (JObj [status_json (p_status p)]))
                   (Some (JObj [status_json status])) None (put_preparation p' d)
        in bind_result (move_of e p' status actor now d1) (\<lambda>d2. Inr (p', d2)))"

definition answer_question ::
  "prep_env \<Rightarrow> string \<Rightarrow> string \<Rightarrow> string \<Rightarrow> string \<Rightarrow> bool \<Rightarrow> string option \<Rightarrow> string \<Rightarrow> time \<Rightarrow> db \<Rightarrow> (preparation_row \<times> db) result" where
  "answer_question e pid aid raw actor save category bank_id now d =
     bind_result (prep_require e pid d) (\<lambda>p.
       case find (\<lambda>a. pa_id a = aid) (p_answers p) of
         None \<Rightarrow> Inl (NotFoundError (''Answer not found on this preparation: '' @ aid))
       | Some a \<Rightarrow>
           (let text = py_strip raw in
            if text = [] then Inl (ValidationFailed ''Answer cannot be empty'')
            else bind_result (bank_answer e save category text actor bank_id now (user_answer text now a) d) (\<lambda>(a', d1).
              let p' = put_answer a' p;
                  before = JObj [(''status'', JStr (prepared_answer_status_value (pa_status a))), (''source'', JStr (answer_source_value (pa_source a)))];
                  after = JObj [(''status'', JStr (prepared_answer_status_value (pa_status a'))), (''source'', JStr (answer_source_value (pa_source a'))),
                                (''question'', JStr (take 120 (pa_question a')))];
                  d2 = prep_record e pid ''answer_changed'' actor (Some before) (Some after) None (put_preparation p' d1)
              in settle_status e actor now p' d2)))"

end
