(* ===== verification/Prep_Worker.thy ===== *)
theory Prep_Worker
  imports Prep_Review Work_Queue
begin

text \<open>
  The consumer of PREPARE items (\<^verbatim>\<open>app/preparation/queue_worker.py\<close>): claim, prepare, settle the item by what
  came out. \<^verbatim>\<open>prepare\<close> commits on its own; an operation of the queue that raises ends the batch, and what was
  not committed is rolled back by the caller.
\<close>

definition worker_actor :: "string \<Rightarrow> string" where
  "worker_actor worker = ''worker:'' @ worker"

definition settled_as :: "queue_outcome \<Rightarrow> db \<Rightarrow> (queue_row \<times> db) result \<Rightarrow> queue_outcome result \<times> db" where
  "settled_as outcome committed r = (case r of Inl err \<Rightarrow> (Inl err, committed) | Inr (_, d) \<Rightarrow> (Inr outcome, d))"

definition prepare_result :: "preparation_row \<Rightarrow> queue_outcome option \<Rightarrow> json" where
  "prepare_result p outcome =
     JObj ([(''preparation_id'', JStr (p_id p)), (''preparation_version'', JInt (p_version p)),
            (''preparation_status'', JStr (preparation_status_value (p_status p)))] @
           (case outcome of None \<Rightarrow> [] | Some q \<Rightarrow> [(''outcome'', JStr (queue_outcome_value q))]))"

definition settle_prepared :: "prep_env \<Rightarrow> string \<Rightarrow> preparation_row \<Rightarrow> time \<Rightarrow> queue_row \<Rightarrow> db \<Rightarrow> queue_outcome result \<times> db" where
  "settle_prepared e worker p now item d =
     (if p_status p = PS_READY
      then settled_as QO_READY_FOR_EXECUTION d (queue_succeed (pe_tenant e) worker (prepare_result p (Some QO_READY_FOR_EXECUTION)) now item d)
      else if p_status p = PS_NEEDS_USER_INPUT
      then settled_as QO_NEEDS_USER_INPUT d
             (queue_block (pe_tenant e) worker ''needs_user_input: required application questions have no stored answer'' now
                (item\<lparr>q_result := Some (prepare_result p (Some QO_NEEDS_USER_INPUT))\<rparr>) d)
      else if p_status p = PS_NEEDS_REVIEW
      then settled_as QO_NEEDS_REVIEW d
             (Inr (queue_needs_review (pe_tenant e) worker ''needs_review: preparation requires a human look'' now
                (item\<lparr>q_result := Some (prepare_result p (Some QO_NEEDS_REVIEW))\<rparr>) d))
      else settled_as QO_FAILED d
             (queue_fail (pe_tenant e) worker (''preparation ended in '' @ preparation_status_value (p_status p)) True now item d))"

definition process_prepare_item :: "prep_env \<Rightarrow> string \<Rightarrow> time \<Rightarrow> queue_row \<Rightarrow> db \<Rightarrow> queue_outcome result \<times> db" where
  "process_prepare_item e worker now item d =
     (case queue_start (pe_tenant e) worker now item d of
        Inl err \<Rightarrow> (Inl err, d)
      | Inr (item1, d1) \<Rightarrow>
          (case prepare e (q_candidate_opportunity_id item) None None False (worker_actor worker) now d1 of
             Inl (PolicyBlocked m) \<Rightarrow> settled_as QO_NEEDS_REVIEW d (queue_block (pe_tenant e) worker (''policy: '' @ m) now item1 d1)
           | Inl err \<Rightarrow>
               (case error_code err of
                  Some (_, m) \<Rightarrow> settled_as QO_FAILED d (queue_fail (pe_tenant e) worker m False now item1 d1)
                | None \<Rightarrow> settled_as QO_FAILED d (queue_fail (pe_tenant e) worker (error_text err) True now item1 d1))
           | Inr (p, d2) \<Rightarrow> settle_prepared e worker p now item1 d2))"

fun process_items :: "prep_env \<Rightarrow> string \<Rightarrow> time \<Rightarrow> queue_row list \<Rightarrow> queue_outcome list \<Rightarrow> db \<Rightarrow> queue_outcome list result \<times> db" where
  "process_items e worker now [] done d = (Inr done, d)"
| "process_items e worker now (item # items) done d =
     (case process_prepare_item e worker now item d of
        (Inl err, d') \<Rightarrow> (Inl err, d')
      | (Inr outcome, d') \<Rightarrow> process_items e worker now items (done @ [outcome]) d')"

definition outcome_counts :: "nat \<Rightarrow> queue_outcome list \<Rightarrow> json" where
  "outcome_counts claimed outcomes =
     JObj (map (\<lambda>q. (queue_outcome_value q, JInt (int (count_list outcomes q))))
             [QO_READY_FOR_EXECUTION, QO_NEEDS_USER_INPUT, QO_NEEDS_REVIEW, QO_FAILED] @ [(''claimed'', JInt (int claimed))])"

definition run_prepare_queue :: "prep_env \<Rightarrow> lane option \<Rightarrow> string \<Rightarrow> nat \<Rightarrow> time \<Rightarrow> db \<Rightarrow> json result \<times> db" where
  "run_prepare_queue e ln worker limit now d =
     (let (items, d1) = queue_claim (pe_tenant e) worker (Some QA_PREPARE) ln limit DEFAULT_LEASE_SECONDS now d;
          (r, d2) = process_items e worker now items [] d1
      in (map_sum id (outcome_counts (length items)) r, d2))"

end
