(* ===== verification/Prep_Sound.thy ===== *)
theory Prep_Sound
  imports Prep_Truth Preparation
begin

text \<open>
  Building a package never raises and never lets an ungrounded claim through, whatever the evidence, the
  assessments, the questions and the polisher are; and when a package is READY.
\<close>

section \<open>The selection is safe\<close>

definition keys_safe :: "evidence_snapshot \<Rightarrow> string list \<Rightarrow> bool" where
  "keys_safe s ks \<longleftrightarrow> (\<forall>k \<in> set ks. is_safe s k)"

definition selection_safe :: "evidence_snapshot \<Rightarrow> evidence_selection \<Rightarrow> bool" where
  "selection_safe s sel \<longleftrightarrow>
     keys_safe s (sl_skills sel) \<and> keys_safe s (sl_projects sel) \<and> keys_safe s (sl_experiences sel) \<and> keys_safe s (sl_education sel) \<and>
     (\<forall>(r, ks) \<in> set (sl_matched_requirements sel). keys_safe s ks)"

definition selecting_safe :: "evidence_snapshot \<Rightarrow> selecting \<Rightarrow> bool" where
  "selecting_safe s st \<longleftrightarrow> (\<forall>k \<in> fst st. is_safe s k) \<and> selection_safe s (snd st)"

lemma keys_safe_simps [simp]:
  "keys_safe s []" "keys_safe s (k # ks) \<longleftrightarrow> is_safe s k \<and> keys_safe s ks" "keys_safe s (xs @ ys) \<longleftrightarrow> keys_safe s xs \<and> keys_safe s ys"
  by (auto simp: keys_safe_def)

lemma keys_safe_take [simp]: "keys_safe s ks \<Longrightarrow> keys_safe s (take n ks)"
  by (auto simp: keys_safe_def dest: in_set_takeD)

lemma append_at_safe:
  "is_safe s k \<Longrightarrow> \<forall>(r, ks) \<in> set m. keys_safe s ks \<Longrightarrow> \<forall>(r, ks) \<in> set (append_at req k m). keys_safe s ks"
  by (induction req k m rule: append_at.induct) auto

lemma note_safe: "selection_safe s sel \<Longrightarrow> is_safe s k \<Longrightarrow> selection_safe s (note_requirement r k sel)"
  using append_at_safe [of s k "sl_matched_requirements sel" "the r"] by (simp add: selection_safe_def note_requirement_def)

lemma add_safe: "selection_safe s sel \<Longrightarrow> is_safe s k \<Longrightarrow> selection_safe s (add_key kind k sel)"
  by (cases kind) (simp_all add: add_key_def selection_safe_def)

lemma exclude_safe: "selection_safe s sel \<Longrightarrow> selection_safe s (exclude k r sel)"
  by (simp add: selection_safe_def exclude_def)

lemma consider_safe: "selecting_safe s st \<Longrightarrow> selecting_safe s (consider_key s r k st)"
  by (cases st) (auto simp: selecting_safe_def consider_key_def note_safe add_safe exclude_safe split: option.split)

lemma fold_keeps: "(\<And>x st. P st \<Longrightarrow> P (f x st)) \<Longrightarrow> P st \<Longrightarrow> P (fold f xs st)"
  by (induction xs arbitrary: st) auto

lemma considered_safe: "selecting_safe s st \<Longrightarrow> selecting_safe s (fold (consider_key s r) ks st)"
  by (rule fold_keeps) (rule consider_safe)

lemma reference_safe: "selecting_safe s st \<Longrightarrow> selecting_safe s (consider_reference s r k st)"
  by (simp add: consider_reference_def consider_safe considered_safe Let_def)

lemma select_evidence_safe: "selection_safe s (select_evidence s assessments variant level)"
proof -
  define st0 :: selecting where "st0 = ({}, \<lparr>sl_skills = [], sl_projects = [], sl_experiences = [], sl_education = [], sl_matched_requirements = [], sl_excluded = []\<rparr>)"
  have s0: "selecting_safe s st0" by (simp add: st0_def selecting_safe_def selection_safe_def)
  define st1 where "st1 = fold (\<lambda>a. fold (consider_reference s (rq_requirement_name a)) (rq_evidence_references a)) (considered_assessments assessments) st0"
  have s1: "selecting_safe s st1" unfolding st1_def by (intro fold_keeps [of "selecting_safe s"] reference_safe s0)
  define st2 where "st2 = (case variant of None \<Rightarrow> st1 | Some v \<Rightarrow> fold (consider_key s None) (map snd (sort_key fst (pv_evidence v))) st1)"
  have s2: "selecting_safe s st2" using s1 considered_safe by (simp add: st2_def split: option.split)
  define al where "al kind = fold (consider_key s None) (map en_key (of_kind s kind))" for kind
  have "selecting_safe s (al EK_EDUCATION (al EK_EXPERIENCE (al EK_PROJECT (al EK_SKILL st2))))"
    unfolding al_def by (intro considered_safe s2)
  then have "selection_safe s (snd (al EK_EDUCATION (al EK_EXPERIENCE (al EK_PROJECT (al EK_SKILL st2)))))" by (simp add: selecting_safe_def)
  then show ?thesis
    unfolding select_evidence_def Let_def st0_def [symmetric] st1_def [symmetric] st2_def [symmetric] al_def [symmetric]
    by (simp add: selection_safe_def)
qed

section \<open>Composition never raises\<close>

lemma safe_node: "is_safe s k \<Longrightarrow> \<exists>n. node s k = Some n \<and> en_key n = k"
  by (auto simp: is_safe_def node_def split: option.splits dest: tbl_get_Some)

lemma need_safe: "is_safe s k \<Longrightarrow> \<exists>n. need_node s k = Inr n"
  using safe_node by (fastforce simp: need_node_def)

lemma collect_safe: "keys_safe s ks \<Longrightarrow> (\<And>k. is_safe s k \<Longrightarrow> \<exists>y. f k = Inr y) \<Longrightarrow> \<exists>ys. collect f ks = Inr ys"
  by (rule collect_total) (auto simp: list_all_iff keys_safe_def)

lemma bind_total: "\<exists>x. m = Inr x \<Longrightarrow> (\<And>x. \<exists>y. f x = Inr y) \<Longrightarrow> \<exists>y. bind_result m f = Inr y"
  by auto

lemma compose_resume_total: "selection_safe s sel \<Longrightarrow> \<exists>bs. compose_resume s sel variant level = Inr bs"
  unfolding compose_resume_def selection_safe_def
  by (intro bind_total collect_safe) (auto simp: project_blocks_def experience_blocks_def education_block_def Let_def dest: need_safe)

lemma compose_cover_total: "selection_safe s sel \<Longrightarrow> \<exists>bs. compose_cover_letter mode s sel variant company title = Inr bs"
proof (cases "mode = CM_DISABLED")
  case False
  assume sel: "selection_safe s sel"
  have body: "\<exists>bs. collect (body_block s) (take 2 (sl_projects sel)) = Inr bs"
    by (rule collect_safe) (use sel in \<open>auto simp: selection_safe_def body_block_def dest: need_safe\<close>)
  have nodes: "\<exists>ns. collect (need_node s) (take 6 (sl_skills sel)) = Inr ns"
    by (rule collect_safe) (use sel in \<open>auto simp: selection_safe_def dest: need_safe\<close>)
  then have "\<exists>bs. skills_body s sel = Inr bs" by (auto simp: skills_body_def)
  then show ?thesis using body False by (auto simp: compose_cover_letter_def Let_def)
qed (simp add: compose_cover_letter_def)

section \<open>Answers never raise\<close>

lemma demonstrating_safe: "k \<in> set (projects_demonstrating s skill) \<Longrightarrow> is_safe s k"
  by (auto simp: projects_demonstrating_def in_map_filter split: prod.splits if_splits)

lemma experience_total: "\<exists>a. experience_answer s topic = Inr a"
proof -
  have "\<exists>ns. collect (need_node s) (projects_demonstrating s k) = Inr ns" for k
    by (rule collect_safe) (auto simp: keys_safe_def dest: demonstrating_safe need_safe)
  then show ?thesis by (auto simp: experience_answer_def Let_def split: option.split)
qed

lemma generate_total: "\<exists>a. generate s category topic sel job_title company = Inr a"
  using experience_total by (auto simp: generate_def Let_def)

lemma resolve_total_answer: "\<exists>a. resolve_answer classify s question sel job_title company = Inr a"
  using generate_total by (auto simp: resolve_answer_def Let_def case_prod_unfold split: option.split)

lemma answers_total: "\<exists>rows. answers_from e sel job_title company ctx position seen questions = Inr rows"
proof (induction questions arbitrary: position seen)
  case (Cons q qs)
  from resolve_total_answer obtain r where "resolve_answer (pe_classify e) (pe_snapshot e) q sel job_title company = Inr r" by blast
  then show ?case using Cons.IH by (simp add: Let_def)
qed simp

section \<open>Polishing\<close>

lemma polish_offered:
  "po_offered st \<le> L2_POLISH_BLOCKS \<Longrightarrow> polish_from e p purpose ctx first index bs st = (bs', st') \<Longrightarrow> po_offered st' \<le> L2_POLISH_BLOCKS"
  by (induction e p purpose ctx first index bs st arbitrary: bs' st' rule: polish_from.induct)
    (auto simp: Let_def split: prod.splits if_splits)

text \<open>Polishing changes the text of a block, never what it claims from, and only into a grounded text.\<close>

definition reworded :: "text_env \<Rightarrow> evidence_snapshot \<Rightarrow> validation_context \<Rightarrow> block \<Rightarrow> block \<Rightarrow> bool" where
  "reworded te s ctx b b' \<longleftrightarrow>
     b' = b \<or> (b_kind b' = b_kind b \<and> b_section b' = b_section b \<and> b_evidence_keys b' = b_evidence_keys b \<and>
               b_requirement b' = b_requirement b \<and> b_ai_polished b' \<and> grounded te s ctx b')"

lemma polish_block_reworded: "polish_block e p purpose ctx call index b = (outcome, b') \<Longrightarrow> reworded (pe_text e) (pe_snapshot e) ctx b b'"
  by (auto simp: polish_block_def reworded_def Let_def validate_block_grounded split: option.splits if_splits)

lemma polish_reworded:
  "polish_from e p purpose ctx first index bs st = (bs', st') \<Longrightarrow> list_all2 (reworded (pe_text e) (pe_snapshot e) ctx) bs bs'"
proof (induction e p purpose ctx first index bs st arbitrary: bs' st' rule: polish_from.induct)
  case (2 e p purpose ctx first index b bs st)
  show ?case
  proof (cases "b_kind b \<noteq> BK_CLAIM \<or> L2_POLISH_BLOCKS \<le> po_offered st")
    case True
    then show ?thesis using 2(1) 2(3) by (auto simp: reworded_def split: prod.splits)
  next
    case False
    obtain outcome b1 where p: "polish_block e p purpose ctx (first + po_offered st) index b = (outcome, b1)" by (rule prod.exhaust)
    show ?thesis using False 2(2) [OF False p [symmetric] refl refl] 2(3) polish_block_reworded [OF p]
      by (auto simp: Let_def p split: prod.splits)
  qed
qed simp

lemma polish_package_calls:
  assumes "polish_package e level mode ctx resume cover = (r', c', calls, used, meta)"
  shows "calls \<le> 2 * L2_POLISH_BLOCKS"
proof -
  have pol: "po_offered (snd (polish e p purpose ctx first bs)) \<le> L2_POLISH_BLOCKS" for p purpose first bs
    using polish_offered [of "\<lparr>po_offered = 0, po_used = False, po_rejected = 0\<rparr>"]
    by (cases "polish e p purpose ctx first bs") (auto simp: polish_def)
  show ?thesis
  proof (cases "if level = TL_L2 then pe_polisher e else None")
    case None
    then show ?thesis using assms by (simp add: polish_package_def)
  next
    case (Some p)
    define st where "st = snd (polish e p ''resume bullet'' ctx 0 resume)"
    define st' where "st' = (case cover of
        Some bs \<Rightarrow> if bs \<noteq> [] \<and> mode = CM_TARGETED then snd (polish e p ''cover letter sentence'' ctx (po_offered st) bs)
                   else \<lparr>po_offered = 0, po_used = False, po_rejected = 0\<rparr>
      | None \<Rightarrow> \<lparr>po_offered = 0, po_used = False, po_rejected = 0\<rparr>)"
    have "calls = po_offered st + po_offered st'"
      using assms unfolding polish_package_def Some st_def st'_def by (cases cover) (auto simp: case_prod_unfold Let_def)
    moreover have "po_offered st \<le> L2_POLISH_BLOCKS" unfolding st_def by (rule pol)
    moreover have "po_offered st' \<le> L2_POLISH_BLOCKS" unfolding st'_def by (cases cover) (simp_all add: pol)
    ultimately show ?thesis by simp
  qed
qed

section \<open>The gate of the package\<close>

lemma gate_grounded:
  assumes "gate_package e ctx resume cover = (r', c', report, lossy)"
  shows "list_all (grounded (pe_text e) (pe_snapshot e) ctx) (r' @ (case c' of None \<Rightarrow> [] | Some bs \<Rightarrow> bs))"
    and "lossy \<longleftrightarrow> \<not> vr_passed report"
proof -
  let ?all = "resume @ (case cover of None \<Rightarrow> [] | Some bs \<Rightarrow> bs)"
  show "list_all (grounded (pe_text e) (pe_snapshot e) ctx) (r' @ (case c' of None \<Rightarrow> [] | Some bs \<Rightarrow> bs))"
  proof (cases "vr_passed (validate_blocks (pe_text e) (pe_snapshot e) ctx ?all)")
    case True
    then have "list_all (grounded (pe_text e) (pe_snapshot e) ctx) ?all"
      by (simp add: validate_blocks_def Let_def block_issues_Nil list_all_iff)
    then show ?thesis using assms True by (auto simp: gate_package_def)
  next
    case False
    have kept: "list_all (grounded (pe_text e) (pe_snapshot e) ctx) (fst (drop_failing (pe_text e) (pe_snapshot e) ctx bs))" for bs
      by (simp add: drop_failing_kept list_all_iff)
    show ?thesis using assms False kept
      by (cases cover) (auto simp: gate_package_def Let_def case_prod_unfold)
  qed
  show "lossy \<longleftrightarrow> \<not> vr_passed report"
    using assms by (auto simp: gate_package_def Let_def case_prod_unfold split: if_splits option.splits)
qed

section \<open>Where answers come from\<close>

lemma answered_simps [simp]:
  "ra_status (answered src c a ks e r) = PA_ANSWERED" "ra_source (answered src c a ks e r) = src"
  "ra_category (answered src c a ks e r) = c" "ra_evidence_keys (answered src c a ks e r) = ks"
  by (simp_all add: answered_def)

lemma unanswered_simps [simp]:
  "ra_status (unanswered_as st c r) = st" "ra_source (unanswered_as st c r) = SRC_NONE"
  "ra_category (unanswered_as st c r) = c" "ra_evidence_keys (unanswered_as st c r) = []"
  by (simp_all add: unanswered_as_def)

lemma templated_simps [simp]:
  "ra_source (relevant_project_answer p) = SRC_GENERATED" "ra_category (relevant_project_answer p) = QC_RELEVANT_PROJECT"
  "ra_evidence_keys (relevant_project_answer p) = [en_key p]"
  "ra_source (why_answer c sel sks prs title company) = SRC_GENERATED" "ra_category (why_answer c sel sks prs title company) = c"
  "ra_evidence_keys (why_answer c sel sks prs title company) = map en_key sks @ map en_key prs"
  "ra_source (about_you_answer s sks prs) = SRC_GENERATED" "ra_category (about_you_answer s sks prs) = QC_ABOUT_YOU"
  "ra_evidence_keys (about_you_answer s sks prs) = map en_key sks @ map en_key prs"
  by (simp_all add: relevant_project_answer_def why_answer_def about_you_answer_def Let_def)

lemma profile_answer:
  "from_profile s category = Some a \<Longrightarrow> ra_category a = category \<and>
     (ra_source a = SRC_PROFILE \<or>
      ra_source a = SRC_GENERATED \<and> category = QC_EDUCATION \<and> of_kind s EK_EDUCATION \<noteq> [] \<and> ra_evidence_keys a = [en_key (hd (of_kind s EK_EDUCATION))])"
  by (auto simp: from_profile_def Let_def split: option.splits if_splits)

lemma some_nodes_keys: "keys_safe s ks \<Longrightarrow> n \<in> set (some_nodes s ks) \<Longrightarrow> is_safe s (en_key n)"
  by (auto simp: some_nodes_def in_map_filter keys_safe_def node_def dest!: tbl_get_Some)

lemma some_nodes_safe: "keys_safe s ks \<Longrightarrow> keys_safe s (map en_key (some_nodes s ks))"
  using some_nodes_keys by (fastforce simp: keys_safe_def)

lemma of_kind_safe: "n \<in> set (of_kind s kind) \<Longrightarrow> distinct (map en_key (es_nodes s)) \<Longrightarrow> is_safe s (en_key n)"
  using of_kind_in by blast

lemma hd_in: "xs \<noteq> [] \<Longrightarrow> hd xs \<in> set xs"
  by (cases xs) auto

lemma need_nodes_keys: "collect (need_node s) ks = Inr ns \<Longrightarrow> map en_key ns = ks"
proof (induction ks arbitrary: ns)
  case (Cons k ks)
  then show ?case by (auto simp: need_node_def node_def split: option.splits dest: tbl_get_Some)
qed simp

lemma experience_safe:
  assumes "experience_answer s topic = Inr a"
  shows "keys_safe s (ra_evidence_keys a)" and "ra_category a = QC_EXPERIENCE_WITH"
proof -
  have "keys_safe s (map en_key (take n ns))" if "collect (need_node s) (projects_demonstrating s k) = Inr ns" for n ns k
    using need_nodes_keys [OF that] demonstrating_safe [of _ s k] by (auto simp: keys_safe_def take_map [symmetric] dest!: in_set_takeD)
  then show "keys_safe s (ra_evidence_keys a)"
    using assms by (auto simp: experience_answer_def Let_def split: option.splits if_splits)
  show "ra_category a = QC_EXPERIENCE_WITH"
    using assms by (auto simp: experience_answer_def Let_def split: option.splits if_splits)
qed

lemma generate_safe:
  assumes "generate s category topic sel job_title company = Inr (Some a)" and "selection_safe s sel"
  shows "keys_safe s (ra_evidence_keys a)" and "ra_category a = category"
proof -
  have sk: "keys_safe s (map en_key (some_nodes s (take 6 (sl_skills sel))))" and pr: "keys_safe s (map en_key (some_nodes s (take 2 (sl_projects sel))))"
    using assms(2) by (simp_all add: selection_safe_def some_nodes_safe)
  have hd: "some_nodes s (take 2 (sl_projects sel)) \<noteq> [] \<Longrightarrow> is_safe s (en_key (hd (some_nodes s (take 2 (sl_projects sel)))))"
    using pr hd_in by (fastforce simp: keys_safe_def)
  show "keys_safe s (ra_evidence_keys a)" and "ra_category a = category"
    using assms(1) sk pr hd experience_safe [of s "the topic" a]
    by (auto simp: generate_def Let_def split: if_splits)
qed

lemma generate_source: "generate s category topic sel job_title company = Inr (Some a) \<Longrightarrow> ra_source a \<noteq> SRC_ANSWER_BANK"
  by (auto simp: generate_def Let_def experience_answer_def split: if_splits option.splits)



section \<open>Properties of a package\<close>

definition package_ctx :: "prep_env \<Rightarrow> target \<Rightarrow> validation_context" where
  "package_ctx e t = make_context (pe_text e) (context_text t (pc_variant (choice_for e t)))"

definition answer_ctx :: "prep_env \<Rightarrow> target \<Rightarrow> validation_context" where
  "answer_ctx e t = make_context (pe_text e) (vc_text (package_ctx e t) @ ''\<newline>'' @ positioning_statement (pe_snapshot e))"

text \<open>A templated answer that was kept is grounded like a claim.\<close>

definition answer_grounded :: "prep_env \<Rightarrow> validation_context \<Rightarrow> preparation_answer_row \<Rightarrow> bool" where
  "answer_grounded e ctx a \<longleftrightarrow>
     (pa_status a = PA_ANSWERED \<and> pa_source a = SRC_GENERATED \<and> truthy (pa_answer a) \<longrightarrow>
      grounded (pe_text e) (pe_snapshot e) ctx (claim_block ''answer'' (the (pa_answer a)) (pa_evidence_keys a) None))"

lemma answer_row_grounded: "answer_grounded e ctx (answer_row e ctx position question r)"
  by (auto simp: answer_grounded_def answer_row_def generated_issues_def Let_def validate_block_grounded split: if_splits)

lemma answers_grounded: "answers_from e sel title company ctx position seen qs = Inr rows \<Longrightarrow> list_all (answer_grounded e ctx) rows"
  by (induction qs arbitrary: position seen rows) (auto simp: Let_def answer_row_grounded split: if_splits)

lemma build_cases:
  obtains resume0 cover0 resume1 cover1 calls used meta resume cover report lossy answers b
  where "polish_package e level (cover_mode_for (pe_policy e) (tg_co t)) (package_ctx e t) resume0 cover0 = (resume1, cover1, calls, used, meta)"
    and "gate_package e (package_ctx e t) resume1 cover1 = (resume, cover, report, lossy)"
    and "answers_from e (bd_selection b) (job_title_of t) (target_company t) (answer_ctx e t) 0 {} questions = Inr answers"
    and "build_package e t level questions = Inr b"
    and "bd_resume b = resume" "bd_cover b = cover" "bd_answers b = answers" "bd_report b = report" "bd_ai_calls b = calls" "bd_level b = level"
      "bd_validation b = build_validation (has_claims resume) lossy" "bd_status b = build_status (bd_validation b) lossy answers"
proof -
  define sel where "sel = select_evidence (pe_snapshot e) (tg_assessments t) (pc_variant (choice_for e t)) level"
  have safe: "selection_safe (pe_snapshot e) sel" unfolding sel_def by (rule select_evidence_safe)
  obtain resume0 where r: "compose_resume (pe_snapshot e) sel (pc_variant (choice_for e t)) level = Inr resume0"
    using compose_resume_total [OF safe] by blast
  obtain cover0 where c: "compose_cover_letter (cover_mode_for (pe_policy e) (tg_co t)) (pe_snapshot e) sel (pc_variant (choice_for e t)) (target_company t) (job_title_of t) = Inr cover0"
    using compose_cover_total [OF safe] by blast
  obtain resume1 cover1 calls used meta where p:
    "polish_package e level (cover_mode_for (pe_policy e) (tg_co t)) (package_ctx e t) resume0 cover0 = (resume1, cover1, calls, used, meta)"
    by (rule prod_cases5)
  obtain resume cover report lossy where g: "gate_package e (package_ctx e t) resume1 cover1 = (resume, cover, report, lossy)" by (rule prod_cases4)
  obtain answers where a: "answers_from e sel (job_title_of t) (target_company t) (answer_ctx e t) 0 {} questions = Inr answers"
    using answers_total by blast
  have b: "build_package e t level questions = Inr \<lparr>bd_level = level, bd_lane = lane_for (pe_policy e) (tg_co t),
      bd_cover_mode = cover_mode_for (pe_policy e) (tg_co t), bd_choice = choice_for e t, bd_selection = sel, bd_resume = resume,
      bd_cover = cover, bd_answers = answers, bd_report = report, bd_validation = build_validation (has_claims resume) lossy,
      bd_status = build_status (build_validation (has_claims resume) lossy) lossy answers, bd_ai_calls = calls, bd_ai_used = used, bd_ai_meta = meta\<rparr>"
    using r c p g a by (simp add: build_package_def Let_def sel_def resolve_answers_def package_ctx_def answer_ctx_def)
  show thesis by (rule that [OF p g _ b]) (use a in simp_all)
qed


text \<open>C11. When a package is READY: exactly when nothing had to be dropped, the resume makes a claim, and every
  question is answered or is a voluntary one left to the candidate.\<close>

theorem package_ready_exact:
  "case build_package e t level questions of
     Inl err \<Rightarrow> False
   | Inr b \<Rightarrow> bd_status b = PS_READY \<longleftrightarrow>
       vr_passed (bd_report b) \<and> has_claims (bd_resume b) \<and>
       list_all (\<lambda>a. pa_status a = PA_ANSWERED \<or> (pa_status a = PA_NEEDS_USER_INPUT \<and> \<not> pa_required a)) (bd_answers b)"
proof (rule build_cases [of e level t questions])
  fix resume0 cover0 resume1 cover1 calls used meta resume cover report lossy answers b
  assume g: "gate_package e (package_ctx e t) resume1 cover1 = (resume, cover, report, lossy)"
    and b: "build_package e t level questions = Inr b" "bd_resume b = resume" "bd_answers b = answers" "bd_report b = report"
      "bd_validation b = build_validation (has_claims resume) lossy" "bd_status b = build_status (bd_validation b) lossy answers"
  have st: "pa_status a = PA_ANSWERED \<or> (pa_status a = PA_NEEDS_USER_INPUT \<and> \<not> pa_required a) \<longleftrightarrow>
      \<not> (pa_status a = PA_NEEDS_USER_INPUT \<and> pa_required a) \<and> pa_status a \<noteq> PA_NEEDS_REVIEW" for a
    by (cases "pa_status a") auto
  show ?thesis using gate_grounded(2) [OF g] b
    by (auto simp: build_status_def build_validation_def st list_ex_iff list_all_iff)
qed

section \<open>What the gate does not catch\<close>

definition example_text :: text_env where
  "example_text = \<lparr>te_numbers = (\<lambda>_. []), te_skills = (\<lambda>t. if contains ''Kubernetes'' t then [''Kubernetes''] else []),
     te_canonicalize = (\<lambda>_. None), te_node_text = (\<lambda>n. en_label n @ '' '' @ en_claim n)\<rparr>"

definition example_polisher :: "string \<Rightarrow> polisher" where
  "example_polisher reply = \<lparr>pl_name = ''gateway'', pl_model = None, pl_polish = (\<lambda>_ _ _ _. Some reply), pl_metadata = []\<rparr>"

definition example_prep_env :: prep_env where
  "example_prep_env = \<lparr>pe_tenant = ''t1'', pe_snapshot = example_snapshot, pe_policy = example_policy, pe_text = example_text,
     pe_classify = (\<lambda>_. (QC_ABOUT_YOU, None)), pe_polisher = None, pe_score = (\<lambda>_ _ _ _. 0), pe_cover = (\<lambda>_ _. ''0.00''),
     pe_digest = concat \<circ> map fst, pe_match_job = (\<lambda>_. None), pe_assessments = (\<lambda>_. []),
     pe_fresh = (\<lambda>d. ''p'' @ show_int (int (length (preparations_t d)))), pe_answer_id = (\<lambda>pid i. pid @ ''-'' @ show_int (int i))\<rparr>"

definition example_claim :: block where
  "example_claim = claim_block ''projects'' ''ETL: Moves feeds'' [''project:etl''] None"

text \<open>The job's own wording counts as support: once the posting asks for a skill, a rewrite may add it to a claim
  although no evidence of the candidate mentions it; without the posting the same rewrite is rejected.\<close>

lemma job_wording_is_enough:
  "polish_block example_prep_env (example_polisher ''Runs ETL on Kubernetes'') ''resume bullet'' (make_context example_text ''Kubernetes'') 0 0 example_claim =
     (POL_USED, example_claim\<lparr>b_text := ''Runs ETL on Kubernetes'', b_ai_polished := True, b_source := ''ai:gateway''\<rparr>)"
  "fst (polish_block example_prep_env (example_polisher ''Runs ETL on Kubernetes'') ''resume bullet'' (make_context example_text []) 0 0 example_claim) = POL_REJECTED"
  by code_simp+

end
