(* ===== verification/Prep_Versions.thy ===== *)
theory Prep_Versions
  imports Prep_Sound Prep_Review Preconditions
begin

text \<open>
  Versions of a package: preparing supersedes exactly the package before, so that at most one package of a
  candidate opportunity is live and it is the newest; unchanged inputs are not prepared twice.
\<close>

section \<open>Effects of the operations\<close>

lemma move_candidate_total: "\<exists>d'. move_prepared e co status actor now d = Inr d'"
  by (cases "co_state co") (auto simp: move_prepared_def co_transition_def co_move_def PREPARED_FROM_def REVIEW_FROM_def Let_def)

lemma move_candidate_frame:
  "move_prepared e co status actor now d = Inr d' \<Longrightarrow>
     preparations_t d' = preparations_t d \<and> applications_t d' = applications_t d \<and> ledger_t d' = ledger_t d \<and> queue_t d' = queue_t d \<and>
     opportunities_t d' = opportunities_t d \<and> scheduler_runs_t d' = scheduler_runs_t d \<and> jobs_t d' = jobs_t d \<and> runs_t d' = runs_t d"
  by (auto simp: move_prepared_def co_transition_def co_record_def audit_record_def put_candidate_def Let_def split: if_splits)

text \<open>The candidate moves to a row that differs in its state only.\<close>

definition restate :: "candidate_opportunity_row \<Rightarrow> candidate_opportunity_row \<Rightarrow> candidate_opportunity_row" where
  "restate co x = co\<lparr>co_state := co_state x, co_state_changed_at := co_state_changed_at x, co_skipped_reason := co_skipped_reason x\<rparr>"

lemma transition_restates:
  "co_transition t co s actor r f now d = Inr (co', d') \<Longrightarrow>
     candidates_t d' = candidates_t d \<or> candidates_t d' = tbl_put co_id (restate co co') (candidates_t d)"
  by (auto simp: co_transition_def co_move_def co_record_def restate_def split: if_splits)

lemma move_candidate_row:
  assumes "move_prepared e co status actor now d = Inr d'"
  shows "\<exists>x. candidates_t d' = candidates_t d \<or> candidates_t d' = tbl_put co_id (restate co x) (candidates_t d)"
  using assms by (auto simp: move_prepared_def split: if_splits dest: transition_restates)

lemma prep_record_frame [simp]:
  "preparations_t (prep_record e pid action actor b a sm d) = preparations_t d" "candidates_t (prep_record e pid action actor b a sm d) = candidates_t d"
  "applications_t (prep_record e pid action actor b a sm d) = applications_t d" "ledger_t (prep_record e pid action actor b a sm d) = ledger_t d"
  "queue_t (prep_record e pid action actor b a sm d) = queue_t d" "opportunities_t (prep_record e pid action actor b a sm d) = opportunities_t d"
  "scheduler_runs_t (prep_record e pid action actor b a sm d) = scheduler_runs_t d" "jobs_t (prep_record e pid action actor b a sm d) = jobs_t d"
  by (simp_all add: prep_record_def audit_record_def)

definition supersede_row :: "time \<Rightarrow> preparation_row \<Rightarrow> preparation_row" where
  "supersede_row now p = (if p_status p = PS_SUPERSEDED \<or> p_status p = PS_INVALIDATED then p else p\<lparr>p_status := PS_SUPERSEDED, p_updated_at := now\<rparr>)"

lemma supersede_frame [simp]:
  "candidates_t (supersede e previous v actor now d) = candidates_t d" "applications_t (supersede e previous v actor now d) = applications_t d"
  "ledger_t (supersede e previous v actor now d) = ledger_t d" "queue_t (supersede e previous v actor now d) = queue_t d"
  "opportunities_t (supersede e previous v actor now d) = opportunities_t d" "scheduler_runs_t (supersede e previous v actor now d) = scheduler_runs_t d"
  "jobs_t (supersede e previous v actor now d) = jobs_t d"
  by (simp_all add: supersede_def put_preparation_def split: option.split)

lemma insert_frame [simp]:
  "preparations_t (insert_package e b row first actor d) = preparations_t d @ [row]"
  "candidates_t (insert_package e b row first actor d) = candidates_t d" "applications_t (insert_package e b row first actor d) = applications_t d"
  "ledger_t (insert_package e b row first actor d) = ledger_t d" "queue_t (insert_package e b row first actor d) = queue_t d"
  "opportunities_t (insert_package e b row first actor d) = opportunities_t d"
  "scheduler_runs_t (insert_package e b row first actor d) = scheduler_runs_t d" "jobs_t (insert_package e b row first actor d) = jobs_t d"
  by (simp_all add: insert_package_def Let_def)

definition next_version :: "preparation_row option \<Rightarrow> int" where
  "next_version previous = (case previous of None \<Rightarrow> 1 | Some p \<Rightarrow> p_version p + 1)"

lemma persist_effect:
  assumes "persist e t b digest inputs previous actor now d = Inr (row, d')"
  shows "row = package_row e t b digest inputs (next_version previous) (pe_fresh e d) now"
    and "preparations_t d' = preparations_t (supersede e previous (next_version previous) actor now d) @ [row]"
    and "applications_t d' = applications_t d" "ledger_t d' = ledger_t d" "queue_t d' = queue_t d" "opportunities_t d' = opportunities_t d"
      "scheduler_runs_t d' = scheduler_runs_t d" "jobs_t d' = jobs_t d"
    and "\<exists>x. candidates_t d' = candidates_t d \<or> candidates_t d' = tbl_put co_id (restate (tg_co t) x) (candidates_t d)"
proof -
  define d1 where "d1 = insert_package e b (package_row e t b digest inputs (next_version previous) (pe_fresh e d) now) (previous = None) actor
    (supersede e previous (next_version previous) actor now d)"
  have m: "move_prepared e (tg_co t) (bd_status b) actor now d1 = Inr d'"
    and r: "row = package_row e t b digest inputs (next_version previous) (pe_fresh e d) now"
    using assms by (auto simp: persist_def Let_def next_version_def d1_def split: option.splits)
  show "row = package_row e t b digest inputs (next_version previous) (pe_fresh e d) now" by (rule r)
  show "preparations_t d' = preparations_t (supersede e previous (next_version previous) actor now d) @ [row]"
    and "applications_t d' = applications_t d" "ledger_t d' = ledger_t d" "queue_t d' = queue_t d" "opportunities_t d' = opportunities_t d"
      "scheduler_runs_t d' = scheduler_runs_t d" "jobs_t d' = jobs_t d"
    using move_candidate_frame [OF m] by (simp_all add: d1_def r)
  show "\<exists>x. candidates_t d' = candidates_t d \<or> candidates_t d' = tbl_put co_id (restate (tg_co t) x) (candidates_t d)"
    using move_candidate_row [OF m] by (simp add: d1_def)
qed

lemma persist_total: "\<exists>row d'. persist e t b digest inputs previous actor now d = Inr (row, d')"
  using move_candidate_total by (auto simp: persist_def Let_def)

lemma build_total: "\<exists>b. build_package e t level qs = Inr b"
  by (rule build_cases [of e level t qs]) blast

lemma prepare_target_raises:
  "admission_problem (tg_co t) force = None \<Longrightarrow> \<exists>x. prepare_target e t previous level questions force actor now d = Inr x"
proof -
  assume ok: "admission_problem (tg_co t) force = None"
  define qs where "qs = questions_for previous questions"
  define chosen where "chosen = (case level of Some l \<Rightarrow> l | None \<Rightarrow> level_for (pe_policy e) (tg_co t))"
  obtain digest inputs where fp: "fingerprint e t chosen qs = (digest, inputs)" by (cases "fingerprint e t chosen qs")
  obtain b where b: "build_package e t chosen qs = Inr b" using build_total by blast
  obtain row d' where p: "persist e t b digest inputs previous actor now d = Inr (row, d')" using persist_total by blast
  show ?thesis unfolding prepare_target_def qs_def [symmetric] ok Let_def option.case chosen_def [symmetric] fp prod.case b p bind_result_simps by auto
qed

section \<open>The newest package\<close>

lemma latest_in: "latest_prep e cid d = Some p \<Longrightarrow> p \<in> set (preparations_t d) \<and> p_tenant_id p = pe_tenant e \<and> p_candidate_opportunity_id p = cid"
proof -
  assume "latest_prep e cid d = Some p"
  then have "p \<in> set (preps_of e cid d)" by (auto simp: latest_prep_def split: list.splits)
  then show ?thesis by (simp add: preps_of_def)
qed

lemma last_greatest: "sorted (map f xs) \<Longrightarrow> x \<in> set xs \<Longrightarrow> f x \<le> (f (last xs) :: int)"
  by (induction xs) (auto split: if_splits)

lemma latest_greatest:
  assumes "latest_prep e cid d = Some p" and "q \<in> set (preparations_t d)" and "p_tenant_id q = pe_tenant e" and "p_candidate_opportunity_id q = cid"
  shows "p_version q \<le> p_version p"
proof -
  have "q \<in> set (preps_of e cid d)" using assms(2-4) by (simp add: preps_of_def)
  moreover have "p = last (preps_of e cid d)" using assms(1) by (auto simp: latest_prep_def split: list.splits)
  moreover have "sorted (map p_version (preps_of e cid d))" by (simp add: preps_of_def)
  ultimately show ?thesis using last_greatest [of p_version "preps_of e cid d" q] by simp
qed

lemma latest_None: "latest_prep e cid d = None \<Longrightarrow> q \<in> set (preparations_t d) \<Longrightarrow> p_tenant_id q = pe_tenant e \<Longrightarrow> p_candidate_opportunity_id q \<noteq> cid"
proof -
  assume "latest_prep e cid d = None" and q: "q \<in> set (preparations_t d)" "p_tenant_id q = pe_tenant e"
  then have "preps_of e cid d = []" by (auto simp: latest_prep_def split: list.splits)
  then have "set (preps_of e cid d) = {}" by simp
  then show ?thesis using q by (auto simp: preps_of_def)
qed

section \<open>One live package\<close>

definition retired :: "preparation_row \<Rightarrow> bool" where
  "retired p \<longleftrightarrow> p_status p = PS_SUPERSEDED \<or> p_status p = PS_INVALIDATED"

definition versions_ok :: "string \<Rightarrow> preparation_row list \<Rightarrow> bool" where
  "versions_ok tenant ps \<longleftrightarrow>
     distinct (map p_id ps) \<and>
     (\<forall>p \<in> set ps. \<forall>q \<in> set ps.
        p_tenant_id p = tenant \<and> p_tenant_id q = tenant \<and> p_candidate_opportunity_id p = p_candidate_opportunity_id q \<and> p_id p \<noteq> p_id q \<longrightarrow>
        p_version p \<noteq> p_version q \<and> (p_version p < p_version q \<longrightarrow> retired p))"

definition same_package :: "preparation_row \<Rightarrow> preparation_row \<Rightarrow> bool" where
  "same_package p p' \<longleftrightarrow> p_id p' = p_id p \<and> p_tenant_id p' = p_tenant_id p \<and> p_candidate_opportunity_id p' = p_candidate_opportunity_id p \<and>
     p_version p' = p_version p \<and> (retired p \<longrightarrow> retired p')"

lemma versions_ok_map:
  assumes "versions_ok tenant ps" and "\<And>p. p \<in> set ps \<Longrightarrow> same_package p (f p)"
  shows "versions_ok tenant (map f ps)"
proof -
  have "map p_id (map f ps) = map p_id ps" using assms(2) by (simp add: same_package_def)
  then have "distinct (map p_id (map f ps))" using assms(1) by (metis versions_ok_def)
  then show ?thesis using assms unfolding versions_ok_def same_package_def by simp
qed

lemma versions_ok_put:
  assumes "versions_ok tenant ps" and "p \<in> set ps" and "same_package p p'"
  shows "versions_ok tenant (tbl_put p_id p' ps)"
proof -
  have "same_package r (if p_id r = p_id p' then p' else r)" if "r \<in> set ps" for r
    using assms that key_inj [of p_id ps r p] by (auto simp: same_package_def versions_ok_def)
  then show ?thesis unfolding tbl_put_def by (rule versions_ok_map [OF assms(1)])
qed

lemma supersede_rows:
  "preparations_t (supersede e previous v actor now d) =
     (case previous of None \<Rightarrow> preparations_t d
      | Some p \<Rightarrow> if retired p then preparations_t d else tbl_put p_id (supersede_row now p) (preparations_t d))"
  by (auto simp: supersede_def supersede_row_def retired_def put_preparation_def split: option.split)

lemma versions_ok_append:
  assumes "versions_ok tenant ps" and "p_id row \<notin> p_id ` set ps"
    and "\<And>q. q \<in> set ps \<Longrightarrow> p_tenant_id q = tenant \<Longrightarrow> p_tenant_id row = tenant \<Longrightarrow> p_candidate_opportunity_id q = p_candidate_opportunity_id row \<Longrightarrow>
      p_version q < p_version row \<and> retired q"
  shows "versions_ok tenant (ps @ [row])"
  using assms unfolding versions_ok_def by (auto; force)

lemma persist_versions:
  assumes ok: "versions_ok (pe_tenant e) (preparations_t d)" and fresh: "pe_fresh e d \<notin> p_id ` set (preparations_t d)"
    and previous: "previous = latest_prep e (co_id (tg_co t)) d"
    and run: "persist e t b digest inputs previous actor now d = Inr (row, d')"
  shows "versions_ok (pe_tenant e) (preparations_t d')"
proof -
  let ?ps = "preparations_t (supersede e previous (next_version previous) actor now d)"
  note row = persist_effect(1) [OF run]
  have key: "p_id row = pe_fresh e d" "p_tenant_id row = pe_tenant e" "p_candidate_opportunity_id row = co_id (tg_co t)" "p_version row = next_version previous"
    by (simp_all add: row package_row_def)
  have "versions_ok (pe_tenant e) (?ps @ [row])"
  proof (cases previous)
    case None
    then have "?ps = preparations_t d" by (simp add: supersede_rows)
    then show ?thesis using latest_None [of e "co_id (tg_co t)" d] previous None ok fresh key by (intro versions_ok_append) auto
  next
    case (Some p)
    then have p: "p \<in> set (preparations_t d)" "p_tenant_id p = pe_tenant e" "p_candidate_opportunity_id p = co_id (tg_co t)"
      using latest_in previous by metis+
    define f where "f r = (if \<not> retired p \<and> p_id r = p_id p then supersede_row now p else r)" for r
    have ps: "?ps = map f (preparations_t d)"
      by (simp add: supersede_rows Some f_def tbl_put_def supersede_row_def retired_def map_idI)
    have inj: "r = p" if "r \<in> set (preparations_t d)" "p_id r = p_id p" for r
      using key_inj [of p_id "preparations_t d" r p] ok that p(1) by (auto simp: versions_ok_def)
    have same: "same_package r (f r)" if "r \<in> set (preparations_t d)" for r
      using inj [OF that] by (auto simp: f_def same_package_def supersede_row_def retired_def)
    have ok': "versions_ok (pe_tenant e) ?ps" unfolding ps by (rule versions_ok_map [OF ok same])
    have "p_version (f r) < p_version row \<and> retired (f r)"
      if r: "r \<in> set (preparations_t d)" "p_tenant_id r = pe_tenant e" "p_candidate_opportunity_id r = co_id (tg_co t)" for r
    proof -
      have v: "p_version r \<le> p_version p" using latest_greatest r previous Some by metis
      have "retired (f r)"
      proof (cases "p_id r = p_id p")
        case True
        then show ?thesis using inj [OF r(1)] by (auto simp: f_def supersede_row_def retired_def)
      next
        case False
        then show ?thesis using ok r p v unfolding versions_ok_def f_def by (auto simp: order_le_less)
      qed
      then show ?thesis using v same [OF r(1)] by (simp add: same_package_def key Some next_version_def)
    qed
    then have "p_version q < p_version row \<and> retired q"
      if "q \<in> set ?ps" "p_tenant_id q = pe_tenant e" "p_candidate_opportunity_id q = p_candidate_opportunity_id row" for q
      using that same unfolding ps by (auto simp: same_package_def key)
    moreover have "p_id row \<notin> p_id ` set ?ps" using fresh same unfolding ps by (auto simp: key same_package_def)
    ultimately show ?thesis using ok' by (intro versions_ok_append) auto
  qed
  then show ?thesis using persist_effect(2) [OF run] by simp
qed

section \<open>Steps\<close>

text \<open>A rejection is counted as a step only where it makes sense, on a package that is still live: the code does
  not check this (\<open>reject_revives_superseded\<close>).\<close>

inductive prep_step :: "prep_env \<Rightarrow> db \<Rightarrow> db \<Rightarrow> bool" for e where
  step_prepare: "prepare e cid level questions force actor now d = Inr (row, d') \<Longrightarrow> prep_step e d d'"
| step_approve: "approve e pid actor now d = Inr (row, d') \<Longrightarrow> prep_step e d d'"
| step_reject: "reject e pid actor reason now d = Inr (row, d') \<Longrightarrow> prep_get e pid d = Some p \<Longrightarrow> \<not> retired p \<Longrightarrow> prep_step e d d'"
| step_invalidate: "invalidate e pid actor reason now d = Inr (row, d') \<Longrightarrow> prep_step e d d'"
| step_answer: "answer_question e pid aid text actor save category bank_id now d = Inr (row, d') \<Longrightarrow> prep_step e d d'"

definition prep_fresh :: "prep_env \<Rightarrow> bool" where
  "prep_fresh e \<longleftrightarrow> (\<forall>d. pe_fresh e d \<notin> p_id ` set (preparations_t d))"

lemma prep_get_in: "prep_get e pid d = Some p \<Longrightarrow> p \<in> set (preparations_t d) \<and> p_id p = pid \<and> p_tenant_id p = pe_tenant e"
  by (auto simp: prep_get_def find_Some_iff)

lemma prep_require_Inr [simp]: "prep_require e pid d = Inr p \<longleftrightarrow> prep_get e pid d = Some p"
  by (auto simp: prep_require_def split: option.split)

lemma move_of_frame: "move_of e p status actor now d = Inr d' \<Longrightarrow> preparations_t d' = preparations_t d"
  by (auto simp: move_of_def split: option.splits dest: move_candidate_frame)

lemma put_rows [simp]: "preparations_t (put_preparation p d) = tbl_put p_id p (preparations_t d)"
  by (simp add: put_preparation_def)

lemma approve_effect:
  assumes "approve e pid actor now d = Inr (row, d')"
  shows "\<exists>p. prep_get e pid d = Some p \<and> \<not> retired p \<and> \<not> needs_input p \<and> row = approve_row actor now p \<and>
    preparations_t d' = tbl_put p_id row (preparations_t d)"
  using assms by (auto simp: approve_def Let_def retired_def split: if_splits dest: move_of_frame)

lemma set_status_effect:
  "set_status e status action pid actor reason now d = Inr (row, d') \<Longrightarrow>
     \<exists>p. prep_get e pid d = Some p \<and> row = p\<lparr>p_status := status, p_updated_at := now\<rparr> \<and> preparations_t d' = tbl_put p_id row (preparations_t d)"
  by (auto simp: set_status_def Let_def)

lemma bank_answer_frame: "bank_answer e save category text actor bank_id now a d = Inr (a', d') \<Longrightarrow> preparations_t d' = preparations_t d"
  by (auto simp: bank_answer_def create_answer_def audit_record_def Let_def split: if_splits)

lemma settle_status_effect:
  assumes "settle_status e actor now p d = Inr (row, d')"
  shows "same_package p row \<and> (preparations_t d' = preparations_t d \<or> preparations_t d' = tbl_put p_id row (preparations_t d))"
  using assms by (auto simp: settle_status_def Let_def same_package_def retired_def split: if_splits dest: move_of_frame)

lemma answer_effect:
  assumes "answer_question e pid aid raw actor save category bank_id now d = Inr (row, d')"
  shows "\<exists>p p'. prep_get e pid d = Some p \<and> same_package p p' \<and> same_package p' row \<and>
    (preparations_t d' = tbl_put p_id p' (preparations_t d) \<or> preparations_t d' = tbl_put p_id row (tbl_put p_id p' (preparations_t d)))"
proof -
  obtain p a a' d1 x y where p: "prep_get e pid d = Some p"
    and b: "bank_answer e save category (py_strip raw) actor bank_id now (user_answer (py_strip raw) now a) d = Inr (a', d1)"
    and s: "settle_status e actor now (put_answer a' p)
        (prep_record e pid ''answer_changed'' actor (Some x) (Some y) None (put_preparation (put_answer a' p) d1)) = Inr (row, d')"
    using assms unfolding answer_question_def Let_def by (auto split: option.splits if_splits)
  have "same_package p (put_answer a' p)" by (simp add: same_package_def put_answer_def retired_def)
  then show ?thesis using p settle_status_effect [OF s] bank_answer_frame [OF b] by auto
qed

lemma prepare_effect:
  assumes "prepare e cid level questions force actor now d = Inr (row, d')"
  shows "d' = d \<or> (\<exists>t b digest inputs. load_target e cid d = Some t \<and> co_id (tg_co t) = cid \<and>
    persist e t b digest inputs (latest_prep e (co_id (tg_co t)) d) actor now d = Inr (row, d'))"
proof -
  obtain t where t: "load_target e cid d = Some t" using assms by (auto simp: prepare_def split: option.splits)
  have "co_id (tg_co t) = cid" using t by (auto simp: load_target_def target_of_def Let_def find_Some_iff split: option.splits)
  then show ?thesis using assms t
    by (auto simp: prepare_def prepare_target_def Let_def case_prod_unfold split: option.splits if_splits)
qed

lemma versions_ok_get: "versions_ok (pe_tenant e) (preparations_t d) \<Longrightarrow> prep_get e pid d = Some p \<Longrightarrow> same_package p p' \<Longrightarrow>
    versions_ok (pe_tenant e) (tbl_put p_id p' (preparations_t d))"
  using versions_ok_put prep_get_in by blast

lemma prep_step_versions:
  assumes "prep_fresh e" and "prep_step e d d'" and "versions_ok (pe_tenant e) (preparations_t d)"
  shows "versions_ok (pe_tenant e) (preparations_t d')"
  using assms(2)
proof cases
  case (step_prepare cid level questions force actor now row)
  then show ?thesis using prepare_effect [OF step_prepare] persist_versions [OF assms(3) _ refl] assms(1,3) unfolding prep_fresh_def by blast
next
  case (step_approve pid actor now row)
  obtain p where p: "prep_get e pid d = Some p" "\<not> retired p" "row = approve_row actor now p" "preparations_t d' = tbl_put p_id row (preparations_t d)"
    using approve_effect [OF step_approve] by blast
  then show ?thesis using versions_ok_get [OF assms(3) p(1)] by (simp add: same_package_def approve_row_def)
next
  case (step_reject pid actor reason now row p)
  then show ?thesis using set_status_effect [OF step_reject(1) [unfolded reject_def]] versions_ok_get [OF assms(3) step_reject(2)]
    by (auto simp: same_package_def)
next
  case (step_invalidate pid actor reason now row)
  obtain p where p: "prep_get e pid d = Some p" "row = p\<lparr>p_status := PS_INVALIDATED, p_updated_at := now\<rparr>" "preparations_t d' = tbl_put p_id row (preparations_t d)"
    using set_status_effect [OF step_invalidate [unfolded invalidate_def]] by blast
  then show ?thesis using versions_ok_get [OF assms(3) p(1)] by (simp add: same_package_def retired_def)
next
  case (step_answer pid aid raw actor save category bank_id now row)
  obtain p p' where p: "prep_get e pid d = Some p" "same_package p p'" "same_package p' row"
    and rows: "preparations_t d' = tbl_put p_id p' (preparations_t d) \<or> preparations_t d' = tbl_put p_id row (tbl_put p_id p' (preparations_t d))"
    using answer_effect [OF step_answer] by blast
  have ok: "versions_ok (pe_tenant e) (tbl_put p_id p' (preparations_t d))" by (rule versions_ok_get [OF assms(3) p(1,2)])
  have "p' \<in> set (tbl_put p_id p' (preparations_t d))" using prep_get_in [OF p(1)] p(2) by (auto simp: tbl_put_def same_package_def image_iff)
  then show ?thesis using rows ok versions_ok_put [OF ok _ p(3)] by auto
qed

interpretation preparation_steps: step_system "\<lambda>d d'. prep_fresh e \<and> prep_step e d d'" "\<lambda>d. versions_ok (pe_tenant e) (preparations_t d)" for e
  by unfold_locales (blast intro: prep_step_versions)


text \<open>New ids for the example: longer than every id there is.\<close>

definition example_env_fresh :: prep_env where
  "example_env_fresh = example_prep_env\<lparr>pe_fresh := (\<lambda>d. CHR ''p'' # concat (map p_id (preparations_t d)))\<rparr>"

lemma example_env_fresh_ids: "prep_fresh example_env_fresh"
proof -
  have len: "length (p_id p) \<le> length (concat (map p_id ps))" if "p \<in> set ps" for p and ps :: "preparation_row list"
    using that by (induction ps) auto
  have "CHR ''p'' # concat (map p_id ps) \<noteq> p_id p" if "p \<in> set ps" for p and ps :: "preparation_row list"
  proof
    assume "CHR ''p'' # concat (map p_id ps) = p_id p"
    then have "length (p_id p) = Suc (length (concat (map p_id ps)))" by (metis length_Cons)
    then show False using len [OF that] by simp
  qed
  then show ?thesis by (auto simp: prep_fresh_def example_env_fresh_def)
qed

text \<open>Two versions of one package, the first superseded, and a candidate with an opening.\<close>

definition example_versions :: db where
  "example_versions = empty_db\<lparr>preparations_t := [example_preparation\<lparr>p_status := PS_SUPERSEDED\<rparr>, example_preparation\<lparr>p_id := ''p2'', p_version := 2\<rparr>]\<rparr>"

definition example_prep_db :: db where
  "example_prep_db = example_versions\<lparr>candidates_t := [example_co\<lparr>co_policy_admitted := Some True\<rparr>], opportunities_t := [example_opp]\<rparr>"



section \<open>Unchanged inputs\<close>

lemma find_put_key:
  assumes "find P rows = Some r" and "key r' = key r" and "P r'" and same: "\<And>x. P x \<Longrightarrow> key x = key r"
  shows "find P (tbl_put key r' rows) = Some r'"
  using assms(1)
proof (induction rows)
  case (Cons y rows)
  show ?case
  proof (cases "key y = key r'")
    case False
    then have "\<not> P y" using same [of y] assms(2) by auto
    then show ?thesis using Cons False by (simp add: tbl_put_def)
  qed (simp add: tbl_put_def assms(3))
qed simp

lemma restate_keys [simp]:
  "co_id (restate co x) = co_id co" "co_tenant_id (restate co x) = co_tenant_id co" "co_opportunity_id (restate co x) = co_opportunity_id co"
  "co_match_id (restate co x) = co_match_id co" "co_fit_band (restate co x) = co_fit_band co"
  "co_policy_admitted (restate co x) = co_policy_admitted co" "co_policy_reason (restate co x) = co_policy_reason co"
  "co_state (restate co x) = co_state x"
  by (simp_all add: restate_def)

definition evaluated_out :: "opportunity_state set" where
  "evaluated_out = {OS_INELIGIBLE, OS_CLOSED, OS_SKIPPED, OS_REJECTED}"

lemma move_candidate_state:
  assumes "move_prepared e co status actor now d = Inr d'"
  shows "candidates_t d' = candidates_t d \<or>
    (\<exists>x. co_state x \<notin> evaluated_out \<and> candidates_t d' = tbl_put co_id (restate co x) (candidates_t d))"
proof -
  have moved: "candidates_t d' = candidates_t d \<or> (\<exists>x. co_state x \<notin> evaluated_out \<and> candidates_t d' = tbl_put co_id (restate co x) (candidates_t d))"
    if "co_transition t co s actor r False now d = Inr (co', d')" and "s \<notin> evaluated_out" for t s r co'
  proof -
    have "co_state co' = s" using that by (auto simp: co_transition_def co_move_def split: if_splits)
    then show ?thesis using transition_restates [OF that(1)] that(2) by blast
  qed
  consider (prepared) co' r where "co_transition (pe_tenant e) co OS_PREPARED actor r False now d = Inr (co', d')"
    | (review) co' r where "co_transition (pe_tenant e) co OS_IN_REVIEW actor r False now d = Inr (co', d')" | (stays) "d' = d"
    using assms by (auto simp: move_prepared_def split: if_splits)
  then show ?thesis by cases (auto simp: evaluated_out_def dest!: moved)
qed

text \<open>The target after the package was stored: the same but for the state of the candidate.\<close>

definition retarget :: "target \<Rightarrow> candidate_opportunity_row \<Rightarrow> target" where
  "retarget t x = t\<lparr>tg_co := restate (tg_co t) x\<rparr>"

lemma restate_self: "restate co co = co"
  by (simp add: restate_def)

lemma load_target_row: "load_target e cid d = Some t \<Longrightarrow>
    find (\<lambda>c. co_tenant_id c = pe_tenant e \<and> co_id c = cid) (candidates_t d) = Some (tg_co t)"
  by (auto simp: load_target_def target_of_def Let_def split: option.splits)

lemma target_of_restate:
  "jobs_t d' = jobs_t d \<Longrightarrow> target_of e d' (restate co x) o' = retarget (target_of e d co o') x"
proof -
  assume "jobs_t d' = jobs_t d"
  then have "get_job d' = get_job d" by (intro ext) (simp add: get_job_def)
  then show ?thesis unfolding target_of_def retarget_def Let_def by (simp only: restate_keys) simp
qed

lemma load_target_moved:
  assumes t: "load_target e cid d = Some t" and same: "opportunities_t d' = opportunities_t d" "jobs_t d' = jobs_t d"
    and row: "find (\<lambda>c. co_tenant_id c = pe_tenant e \<and> co_id c = cid) (candidates_t d') = Some (restate (tg_co t) x)"
  shows "load_target e cid d' = Some (retarget t x)"
  using t row load_target_row [OF t] same(1) target_of_restate [OF same(2)]
  by (auto simp: load_target_def get_opportunity_def)

lemma retarget_same:
  "job_title_of (retarget t x) = job_title_of t" "target_company (retarget t x) = target_company t" "matched_keys (retarget t x) = matched_keys t"
  "tg_job (retarget t x) = tg_job t" "tg_match (retarget t x) = tg_match t" "tg_assessments (retarget t x) = tg_assessments t"
  "tg_co (retarget t x) = restate (tg_co t) x"
  by (cases "tg_job t"; simp add: retarget_def job_title_of_def target_company_def matched_keys_def)+

lemma restate_policy:
  "lane_for policy (restate co x) = lane_for policy co" "cover_mode_for policy (restate co x) = cover_mode_for policy co"
  "level_for policy (restate co x) = level_for policy co"
  by (simp_all add: lane_for_def cover_mode_for_def level_for_def band_text_def)

lemma retarget_inputs: "fingerprint e (retarget t x) level questions = fingerprint e t level questions"
  by (simp only: fingerprint_def fingerprint_inputs_def choice_for_def match_fingerprint_def retarget_same restate_policy)

lemma persist_moves:
  assumes run: "persist e t b digest inputs previous actor now d = Inr (row, d')" and t: "load_target e cid d = Some t"
    and ok: "co_state (tg_co t) \<notin> evaluated_out"
  shows "\<exists>x. co_state x \<notin> evaluated_out \<and> load_target e cid d' = Some (retarget t x)"
proof -
  let ?P = "\<lambda>c. co_tenant_id c = pe_tenant e \<and> co_id c = cid"
  obtain d1 where m: "move_prepared e (tg_co t) (bd_status b) actor now d1 = Inr d'" and c: "candidates_t d1 = candidates_t d"
    using run by (auto simp: persist_def Let_def)
  have row: "find ?P (candidates_t d) = Some (tg_co t)" and key: "?P (tg_co t)" using load_target_row [OF t] by (auto simp: find_Some_iff)
  note frame = persist_effect(6,8) [OF run]
  show ?thesis using move_candidate_state [OF m]
  proof (elim disjE exE conjE)
    assume "candidates_t d' = candidates_t d1"
    then show ?thesis using load_target_moved [OF t frame, where x = "tg_co t"] row c ok by (auto simp: restate_self)
  next
    fix x assume x: "co_state x \<notin> evaluated_out" "candidates_t d' = tbl_put co_id (restate (tg_co t) x) (candidates_t d1)"
    have "find ?P (candidates_t d') = Some (restate (tg_co t) x)"
      unfolding x(2) c by (rule find_put_key [OF row]) (use key in auto)
    then show ?thesis using load_target_moved [OF t frame] x(1) by blast
  qed
qed

lemma persist_newest:
  assumes run: "persist e t b digest inputs (latest_prep e (co_id (tg_co t)) d) actor now d = Inr (row, d')"
  shows "latest_prep e (co_id (tg_co t)) d' = Some row"
proof -
  let ?cid = "co_id (tg_co t)" and ?previous = "latest_prep e (co_id (tg_co t)) d"
  let ?ps = "preparations_t (supersede e ?previous (next_version ?previous) actor now d)"
  note row = persist_effect(1) [OF run]
  have key: "p_tenant_id row = pe_tenant e" "p_candidate_opportunity_id row = ?cid" "p_version row = next_version ?previous"
    by (simp_all add: row package_row_def)
  have older: "p_version q < p_version row" if q: "q \<in> set ?ps" "p_tenant_id q = pe_tenant e" "p_candidate_opportunity_id q = ?cid" for q
  proof (cases ?previous)
    case None
    then show ?thesis using q latest_None [OF None] by (simp add: supersede_def)
  next
    case (Some p)
    have "\<exists>r \<in> set (preparations_t d). p_version q = p_version r \<and> p_tenant_id r = pe_tenant e \<and> p_candidate_opportunity_id r = ?cid"
      using q latest_in [OF Some] by (auto simp: supersede_rows Some supersede_row_def tbl_put_def split: if_splits)
    then show ?thesis using latest_greatest [OF Some] by (fastforce simp: key Some next_version_def)
  qed
  have mem: "row \<in> set (preparations_t d')" using persist_effect(2) [OF run] by simp
  then obtain p where p: "latest_prep e ?cid d' = Some p"
    using latest_None [of e ?cid d' row] key by (cases "latest_prep e ?cid d'") auto
  have "p = row"
  proof (rule ccontr)
    assume "p \<noteq> row"
    then have "p \<in> set ?ps" using latest_in [OF p] persist_effect(2) [OF run] by auto
    then show False using older latest_in [OF p] latest_greatest [OF p mem] key by fastforce
  qed
  then show ?thesis using p by simp
qed

lemma build_status_live: "build_package e t level qs = Inr b \<Longrightarrow> bd_status b \<noteq> PS_FAILED \<and> bd_status b \<noteq> PS_INVALIDATED"
  by (rule build_cases [of e level t qs]) (auto simp: build_status_def)

text \<open>C16. Preparing again with the same level and questions, whoever asks and whenever, changes nothing and returns
  the package of the first time.\<close>

theorem prepare_idempotent:
  assumes "prepare e cid level (Some questions) False actor now d = Inr (row, d')"
  shows "prepare e cid level (Some questions) False actor' now' d' = Inr (row, d')"
proof -
  obtain t where t: "load_target e cid d = Some t" using assms by (auto simp: prepare_def split: option.splits)
  have cid: "co_id (tg_co t) = cid" using load_target_row [OF t] by (auto simp: find_Some_iff)
  define chosen where "chosen = (case level of Some l \<Rightarrow> l | None \<Rightarrow> level_for (pe_policy e) (tg_co t))"
  define digest where "digest = fst (fingerprint e t chosen questions)"
  have admitted: "admission_problem (tg_co t) False = None"
    using assms by (auto simp: prepare_def t prepare_target_def Let_def split: option.splits)
  show ?thesis
  proof (cases "\<exists>p. latest_prep e cid d = Some p \<and> reusable digest p")
    case True
    then obtain p where p: "latest_prep e cid d = Some p" "reusable digest p" by blast
    then have again: "prepare_target e t (latest_prep e cid d) level (Some questions) False a n d = Inr (p, False, d)" for a n
      using admitted by (simp add: prepare_target_def questions_for_def chosen_def [symmetric] digest_def case_prod_unfold)
    then have "row = p" "d' = d" using assms by (simp_all add: prepare_def t)
    then show ?thesis using again by (simp add: prepare_def t)
  next
    case False
    obtain b where b: "build_package e t chosen questions = Inr b"
      and p: "persist e t b digest (snd (fingerprint e t chosen questions)) (latest_prep e cid d) actor now d = Inr (row, d')"
      using assms admitted False
      by (auto simp: prepare_def t prepare_target_def questions_for_def Let_def case_prod_unfold digest_def chosen_def split: option.splits if_splits)
    have "co_state (tg_co t) \<notin> evaluated_out" using admitted by (auto simp: admission_problem_def evaluated_out_def split: if_splits)
    then obtain x where x: "co_state x \<notin> evaluated_out" "load_target e cid d' = Some (retarget t x)" using persist_moves [OF p t] by blast
    have adm: "admission_problem (restate (tg_co t) x) False = None"
      using admitted x(1) by (auto simp: admission_problem_def evaluated_out_def split: if_splits)
    have lv: "(case level of None \<Rightarrow> level_for (pe_policy e) (tg_co (retarget t x)) | Some l \<Rightarrow> l) = chosen"
      by (simp add: chosen_def retarget_same(7) restate_policy split: option.split)
    have "reusable digest row"
      using build_status_live [OF b] by (simp add: persist_effect(1) [OF p] package_row_def reusable_def)
    moreover have "latest_prep e cid d' = Some row" using persist_newest [of e t b digest _ d actor now row d'] p cid by simp
    ultimately have "prepare_target e (retarget t x) (latest_prep e cid d') level (Some questions) False actor' now' d' = Inr (row, False, d')"
      using adm lv by (simp add: prepare_target_def questions_for_def retarget_same(7) retarget_inputs digest_def case_prod_unfold)
    then show ?thesis by (simp add: prepare_def x(2))
  qed
qed

lemma example_prepare: "\<exists>x. prepare example_prep_env ''co-1'' (Some TL_L0) (Some []) False ''api'' 7 example_prep_db = Inr x"
proof -
  have "map_option (\<lambda>t. admission_problem (tg_co t) False) (load_target example_prep_env ''co-1'' example_prep_db) = Some None" by code_simp
  then obtain t where t: "load_target example_prep_env ''co-1'' example_prep_db = Some t" "admission_problem (tg_co t) False = None" by auto
  obtain x where "prepare_target example_prep_env t (latest_prep example_prep_env ''co-1'' example_prep_db) (Some TL_L0) (Some []) False ''api'' 7 example_prep_db = Inr x"
    using prepare_target_raises [OF t(2)] by blast
  then show ?thesis by (simp add: prepare_def t(1) case_prod_unfold)
qed

theorem prepare_idempotent_witness:
  "\<exists>row d'. prepare example_prep_env ''co-1'' (Some TL_L0) (Some []) False ''api'' 7 example_prep_db = Inr (row, d') \<and>
     prepare example_prep_env ''co-1'' (Some TL_L0) (Some []) False ''worker:w'' 9 d' = Inr (row, d')"
proof -
  obtain row d' where "prepare example_prep_env ''co-1'' (Some TL_L0) (Some []) False ''api'' 7 example_prep_db = Inr (row, d')"
    using example_prepare by auto
  then show ?thesis using prepare_idempotent by blast
qed

section \<open>Gaps of the review\<close>

text \<open>\<^verbatim>\<open>reject\<close> does not look at the status: a superseded package can be rejected into review and approved, beside the
  package that superseded it.\<close>

lemma reject_revives_superseded:
  "map_sum id (\<lambda>(row, d). map p_status (preparations_t d))
     (bind_result (reject example_prep_env ''p1'' ''api'' None 5 example_versions) (\<lambda>(row, d). approve example_prep_env ''p1'' ''api'' 6 d)) =
   Inr [PS_READY, PS_READY]"
  by code_simp

text \<open>Answers left for review have no text, so approving a package answers none of them: it becomes READY with the
  questions open, and the check before submission, which counts answers waiting for the candidate only, sees none.\<close>

lemma review_answers_have_no_text: "build_package e t level qs = Inr b \<Longrightarrow> list_all (\<lambda>a. pa_status a = PA_NEEDS_REVIEW \<longrightarrow> pa_answer a = None) (bd_answers b)"
proof (rule build_cases [of e level t qs])
  fix resume0 cover0 resume1 cover1 calls used meta resume cover report lossy answers b'
  assume a: "answers_from e (bd_selection b') (job_title_of t) (target_company t) (answer_ctx e t) 0 {} qs = Inr answers"
    and b: "build_package e t level qs = Inr b" "build_package e t level qs = Inr b'" "bd_answers b' = answers"
  have "answers_from e sel title company ctx position seen qs = Inr rows \<Longrightarrow> list_all (\<lambda>a. pa_status a = PA_NEEDS_REVIEW \<longrightarrow> pa_answer a = None) rows"
    for sel title company ctx position seen rows
    by (induction qs arbitrary: position seen rows) (auto simp: Let_def answer_row_def split: if_splits)
  from this [OF a] show "list_all (\<lambda>a. pa_status a = PA_NEEDS_REVIEW \<longrightarrow> pa_answer a = None) (bd_answers b)" using b by simp
qed

lemma approve_leaves_questions_open:
  assumes "approve e pid actor now d = Inr (row, d')" and "prep_get e pid d = Some p"
    and "list_all (\<lambda>a. pa_status a = PA_NEEDS_REVIEW \<longrightarrow> pa_answer a = None) (p_answers p)"
  shows "p_status row = PS_READY" and "unanswered row = []" and "p_answers row = p_answers p"
proof -
  have row: "row = approve_row actor now p" and open_: "\<not> needs_input p" using approve_effect [OF assms(1)] assms(2) by auto
  have "approve_answer now a = a" if "a \<in> set (p_answers p)" for a
    using that assms(3) by (auto simp: approve_answer_def list_all_iff truthy_def)
  then show same: "p_answers row = p_answers p" by (simp add: row approve_row_def map_idI)
  show "p_status row = PS_READY" by (simp add: row approve_row_def)
  show "unanswered row = []" using open_ by (auto simp: unanswered_def same needs_input_def list_ex_iff filter_empty_conv)
qed

text \<open>An answer that is to be saved as reusable is refused when the bank holds a draft of the same question.\<close>

lemma draft_blocks_saving:
  assumes "find (\<lambda>a. ab_tenant_id a = pe_tenant e \<and> ab_question_key a = normalize_question (pa_question a') \<and> ab_status a = AN_APPROVED) (answer_bank_t d) = None"
    and "r \<in> set (answer_bank_t d)" and "ab_tenant_id r = pe_tenant e" and "ab_question_key r = normalize_question (pa_question a')"
    and "normalize_question (pa_question a') \<noteq> []"
  shows "bank_answer e True category text actor bank_id now a' d = Inl (ConflictError ''An answer for this question already exists'')"
  using assms by (auto simp: bank_answer_def find_answer_def create_answer_def Let_def list_ex_iff)

text \<open>A question is cut at 512 characters after its spaces were collapsed, so a key that ends in a space changes when it
  is normalised again, and the package that stored it is stale for ever.\<close>

lemma normalize_words:
  "map (\<lambda>c. if is_word_char c \<or> py_isspace c then c else CHR '' '') (py_strip (py_lower s)) = join_with '' '' ws \<Longrightarrow>
     \<forall>w \<in> set ws. is_word w \<Longrightarrow> normalize_question s = take 512 (join_with '' '' ws)"
  by (simp add: normalize_question_def py_split_join)

lemma strip_word:
  "py_strip (replicate (Suc n) CHR ''a'' @ '' b'') = replicate (Suc n) CHR ''a'' @ '' b''"
  "py_strip (replicate (Suc n) CHR ''a'' @ '' '') = replicate (Suc n) CHR ''a''"
  by (simp_all add: py_strip_def py_isspace_def replicate_append_same)

lemma long_key_not_stable:
  defines "key \<equiv> normalize_question (replicate (Suc 510) CHR ''a'' @ '' b'')"
  shows "normalize_question key \<noteq> key"
proof -
  let ?w = "replicate (Suc 510) CHR ''a''"
  have word: "is_word ?w" "is_word ''b''" by (simp_all add: is_word_def py_isspace_def del: replicate_Suc)
  have chars: "py_lower (?w @ t) = ?w @ py_lower t" "map (\<lambda>c. if is_word_char c \<or> py_isspace c then c else CHR '' '') ?w = ?w" for t
    by (simp_all add: py_lower_def lower_char_def py_isupper_def is_word_char_def py_islower_def del: replicate_Suc)
  have space: "py_lower '' b'' = '' b''" "py_lower '' '' = '' ''" "map (\<lambda>c. if is_word_char c \<or> py_isspace c then c else CHR '' '') '' b'' = '' b''"
    by code_simp+
  have "key = take 512 (join_with '' '' [?w, ''b''])" unfolding key_def
    by (rule normalize_words) (use word in \<open>simp_all only: chars space strip_word map_append join_with.simps append.simps set_simps ball_simps simp_thms\<close>)
  then have key: "key = ?w @ '' ''" by (simp del: replicate_Suc)
  have "normalize_question key = take 512 (join_with '' '' [?w])" unfolding key
    by (rule normalize_words) (use word in \<open>simp_all only: chars space strip_word join_with.simps set_simps ball_simps simp_thms\<close>)
  then show ?thesis by (simp add: key del: replicate_Suc)
qed

end
