(* ===== verification/Prep_Contract.thy ===== *)
theory Prep_Contract
  imports Prep_Worker Prep_Versions Sched_Run Sched_Record
begin

text \<open>
  The preparation worker inside the scheduler's run: what the scheduler's theorems assume of it holds of the
  modelled worker, and a batch settles every item it claims.
\<close>

section \<open>What preparing leaves alone\<close>

definition leaves_alone :: "db \<Rightarrow> db \<Rightarrow> bool" where
  "leaves_alone d d' \<longleftrightarrow> same_slots d d' \<and> scheduler_runs_t d' = scheduler_runs_t d \<and> opportunities_t d' = opportunities_t d \<and>
     (distinct (map co_id (candidates_t d)) \<longrightarrow> keeps_stamps d d')"

lemma leaves_alone_refl [simp]: "leaves_alone d d"
  by (simp add: leaves_alone_def keeps_stamps_def)

lemma leaves_alone_trans: "leaves_alone d d1 \<Longrightarrow> leaves_alone d1 d2 \<Longrightarrow> leaves_alone d d2"
  unfolding leaves_alone_def using same_slots_trans keeps_stamps_trans keeps_ids by metis

lemma leaves_alone_queue: "only_queue d d' \<Longrightarrow> leaves_alone d d'"
  by (simp add: leaves_alone_def only_queue_def same_slots_def keeps_stamps_def)

lemma persist_leaves_alone:
  assumes run: "persist e t b digest inputs previous actor now d = Inr (row, d')" and t: "tg_co t \<in> set (candidates_t d)"
  shows "leaves_alone d d'" and "queue_t d' = queue_t d"
proof -
  note eff = persist_effect [OF run]
  show "queue_t d' = queue_t d" by (rule eff(5))
  have "map stamp_of (candidates_t d') = map stamp_of (candidates_t d)" if dist: "distinct (map co_id (candidates_t d))"
  proof -
    have "stamp_of (if co_id r = co_id (restate (tg_co t) x) then restate (tg_co t) x else r) = stamp_of r" if "r \<in> set (candidates_t d)" for r x
      using key_inj [OF dist that t] by (auto simp: stamp_of_def restate_def)
    then show ?thesis using eff(9) by (auto simp: tbl_put_def)
  qed
  then show "leaves_alone d d'" using eff(3-7) by (simp add: leaves_alone_def same_slots_def keeps_stamps_def)
qed

lemma load_target_in: "load_target e cid d = Some t \<Longrightarrow> tg_co t \<in> set (candidates_t d)"
  using load_target_row [of e cid d t] by (auto simp: find_Some_iff)

lemma prepare_leaves_alone:
  assumes "prepare e cid level questions force actor now d = Inr (row, d')"
  shows "leaves_alone d d' \<and> queue_t d' = queue_t d"
  using prepare_effect [OF assms] persist_leaves_alone load_target_in by (metis leaves_alone_refl)

text \<open>Only a missing or a refused candidate opportunity makes a preparation raise.\<close>

lemma prepare_raises:
  assumes "prepare e cid level questions force actor now d = Inl err"
  shows "(\<exists>m. err = NotFoundError m) \<or> (\<exists>m. err = PolicyBlocked m)"
proof (cases "load_target e cid d")
  case None
  then show ?thesis using assms by (auto simp: prepare_def)
next
  case (Some t)
  then have r: "prepare_target e t (latest_prep e cid d) level questions force actor now d = Inl err"
    using assms by (simp add: prepare_def bind_result_Inl_iff case_prod_unfold)
  then obtain problem where "admission_problem (tg_co t) force = Some problem"
    using prepare_target_raises [of t force e "latest_prep e cid d" level questions actor now d] by (cases "admission_problem (tg_co t) force") auto
  then show ?thesis using r by (auto simp: prepare_target_def)
qed

section \<open>One item\<close>

definition settles_to :: "queue_outcome \<Rightarrow> queue_state set" where
  "settles_to outcome = (case outcome of
     QO_READY_FOR_EXECUTION \<Rightarrow> {QS_SUCCEEDED}
   | QO_NEEDS_USER_INPUT \<Rightarrow> {QS_BLOCKED}
   | QO_NEEDS_REVIEW \<Rightarrow> {QS_NEEDS_REVIEW, QS_BLOCKED}
   | QO_FAILED \<Rightarrow> {QS_RETRY_WAIT, QS_FAILED})"

text \<open>The item has left the worker's hands, its outcome says where to, and no other item changed.\<close>

definition item_settled :: "queue_row \<Rightarrow> queue_outcome \<Rightarrow> db \<Rightarrow> db \<Rightarrow> bool" where
  "item_settled item outcome d d' \<longleftrightarrow>
     (\<exists>r. queue_t d' = tbl_put q_id r (queue_t d) \<and> q_id r = q_id item \<and> q_state r \<in> settles_to outcome \<and> q_lease_expires_at r = None)"

text \<open>A terminal operation of the queue on an item the worker holds.\<close>

definition settles_with :: "queue_row \<Rightarrow> queue_outcome \<Rightarrow> (queue_row \<times> db) result \<Rightarrow> db \<Rightarrow> bool" where
  "settles_with item outcome res d \<longleftrightarrow>
     (\<exists>r d'. res = Inr (r, d') \<and> wrote r d d' \<and> q_id r = q_id item \<and> q_state r \<in> settles_to outcome \<and> q_lease_expires_at r = None)"

lemma terminal_operations:
  assumes "q_claimed_by item = Some worker"
  shows "settles_with item QO_READY_FOR_EXECUTION (queue_succeed t worker res now item d) d"
    and "settles_with item QO_NEEDS_USER_INPUT (queue_block t worker why now (item\<lparr>q_result := jr\<rparr>) d) d"
    and "settles_with item QO_NEEDS_REVIEW (queue_block t worker why now item d) d"
    and "settles_with item QO_NEEDS_REVIEW (Inr (queue_needs_review t worker why now (item\<lparr>q_result := jr\<rparr>) d)) d"
    and "settles_with item QO_FAILED (queue_fail t worker why retry now item d) d"
  using assms
  by (simp_all add: settles_with_def settles_to_def queue_succeed_def queue_block_def queue_needs_review_def queue_fail_def assert_owner_def Let_def
      succeed_row_def block_row_def needs_review_row_def fail_row_def)

lemma settled_run:
  assumes "settles_with item outcome res d"
  obtains d' where "settled_as outcome c res = (Inr outcome, d')" and "item_settled item outcome d d'" and "leaves_alone d d'"
  using assms leaves_alone_queue unfolding settles_with_def settled_as_def item_settled_def wrote_def by fastforce

lemma settle_prepared_run:
  assumes "q_claimed_by item = Some worker"
  shows "\<exists>outcome d'. settle_prepared e worker p now item d = (Inr outcome, d') \<and> item_settled item outcome d d' \<and> leaves_alone d d' \<and>
    (outcome = QO_READY_FOR_EXECUTION \<longleftrightarrow> p_status p = PS_READY)"
proof -
  note ops = terminal_operations [OF assms]
  show ?thesis unfolding settle_prepared_def
    by (auto intro: settled_run [OF ops(1)] settled_run [OF ops(2)] settled_run [OF ops(4)] settled_run [OF ops(5)])
qed

lemma item_settled_after:
  "queue_t d1 = tbl_put q_id r (queue_t d) \<Longrightarrow> q_id r = q_id item \<Longrightarrow> item_settled item' outcome d1 d' \<Longrightarrow> q_id item' = q_id item \<Longrightarrow>
     item_settled item outcome d d'"
  unfolding item_settled_def by (auto simp: tbl_put_def)

lemma item_settled_cong: "queue_t d1 = queue_t d \<Longrightarrow> item_settled item outcome d1 d' = item_settled item outcome d d'"
  by (simp add: item_settled_def)

lemma process_item_run:
  assumes "q_claimed_by item = Some worker" and "q_state item = QS_CLAIMED"
  shows "\<exists>outcome d'. process_prepare_item e worker now item d = (Inr outcome, d') \<and> item_settled item outcome d d' \<and> leaves_alone d d'"
proof -
  obtain item1 d1 where st: "queue_start (pe_tenant e) worker now item d = Inr (item1, d1)"
    using assms by (auto simp: queue_start_def assert_owner_def Let_def)
  have i1: "q_claimed_by item1 = Some worker" "q_id item1 = q_id item" and w: "wrote item1 d d1"
    using start_effect [OF st] assms(1) by (auto simp: start_row_def)
  have al: "leaves_alone d d1" using w leaves_alone_queue by (simp add: wrote_def)
  note after = item_settled_after [of d1 item1 d item item1, OF _ i1(2) _ i1(2)]
  have w1: "queue_t d1 = tbl_put q_id item1 (queue_t d)" using w by (simp add: wrote_def)
  note ops = terminal_operations [OF i1(1)]
  show ?thesis
  proof (cases "prepare e (q_candidate_opportunity_id item) None None False (worker_actor worker) now d1")
    case (Inl err)
    consider (missing) m where "err = NotFoundError m" | (policy) m where "err = PolicyBlocked m" using prepare_raises [OF Inl] by blast
    then show ?thesis
    proof cases
      case missing
      obtain d' where s: "settled_as QO_FAILED d (queue_fail (pe_tenant e) worker m False now item1 d1) = (Inr QO_FAILED, d')"
        "item_settled item1 QO_FAILED d1 d'" "leaves_alone d1 d'" by (rule settled_run [OF ops(5)])
      have "process_prepare_item e worker now item d = (Inr QO_FAILED, d')"
        unfolding process_prepare_item_def st by (simp add: Inl missing error_code_def s(1))
      then show ?thesis using after [OF w1 s(2)] leaves_alone_trans [OF al s(3)] by blast
    next
      case policy
      obtain d' where s: "settled_as QO_NEEDS_REVIEW d (queue_block (pe_tenant e) worker (''policy: '' @ m) now item1 d1) = (Inr QO_NEEDS_REVIEW, d')"
        "item_settled item1 QO_NEEDS_REVIEW d1 d'" "leaves_alone d1 d'" by (rule settled_run [OF ops(3)])
      have "process_prepare_item e worker now item d = (Inr QO_NEEDS_REVIEW, d')"
        using s(1) by (simp add: process_prepare_item_def st Inl policy)
      then show ?thesis using after [OF w1 s(2)] leaves_alone_trans [OF al s(3)] by blast
    qed
  next
    case (Inr res)
    obtain p d2 where p: "prepare e (q_candidate_opportunity_id item) None None False (worker_actor worker) now d1 = Inr (p, d2)"
      using Inr by (cases res) auto
    note fr = prepare_leaves_alone [OF p]
    obtain outcome d' where s: "settle_prepared e worker p now item1 d2 = (Inr outcome, d')" "item_settled item1 outcome d2 d'" "leaves_alone d2 d'"
      using settle_prepared_run [OF i1(1)] by blast
    have "process_prepare_item e worker now item d = (Inr outcome, d')" by (simp add: process_prepare_item_def st p s(1))
    moreover have "item_settled item outcome d d'" using after [OF w1] s(2) item_settled_cong [of d2 d1 item1] fr by simp
    moreover have "leaves_alone d d'" using leaves_alone_trans al fr s(3) by blast
    ultimately show ?thesis by blast
  qed
qed

section \<open>A batch\<close>

definition row_settled :: "db \<Rightarrow> queue_row \<Rightarrow> queue_outcome \<Rightarrow> bool" where
  "row_settled d item outcome \<longleftrightarrow>
     (case get_item d (q_id item) of None \<Rightarrow> False | Some r \<Rightarrow> q_state r \<in> settles_to outcome \<and> q_lease_expires_at r = None)"

lemma item_settled_reads:
  assumes "item_settled item outcome d d'" and "q_id item \<in> q_id ` set (queue_t d)"
  shows "row_settled d' item outcome" and "k \<noteq> q_id item \<Longrightarrow> get_item d' k = get_item d k" and "q_id ` set (queue_t d') = q_id ` set (queue_t d)"
proof -
  obtain r where r: "queue_t d' = tbl_put q_id r (queue_t d)" "q_id r = q_id item" "q_state r \<in> settles_to outcome" "q_lease_expires_at r = None"
    using assms(1) by (auto simp: item_settled_def)
  have get: "tbl_get q_id (q_id item) (tbl_put q_id r rows) = Some r" if "q_id item \<in> q_id ` set rows" for rows
    using that r(2) by (induction rows) (auto simp: tbl_put_def tbl_get_def)
  then show "row_settled d' item outcome" using r assms(2) by (simp add: row_settled_def get_item_def)
  have "tbl_get q_id k (tbl_put q_id r rows) = tbl_get q_id k rows" if "k \<noteq> q_id item" for rows
    using that r(2) by (induction rows) (auto simp: tbl_put_def tbl_get_def)
  then show "k \<noteq> q_id item \<Longrightarrow> get_item d' k = get_item d k" by (simp add: get_item_def r)
  have "map q_id (queue_t d') = map q_id (queue_t d)" using r(1) by simp
  then show "q_id ` set (queue_t d') = q_id ` set (queue_t d)" by (metis set_map)
qed

lemma process_items_run:
  assumes "list_all (\<lambda>i. q_claimed_by i = Some worker \<and> q_state i = QS_CLAIMED) items" and "distinct (map q_id items)"
    and "q_id ` set items \<subseteq> q_id ` set (queue_t d)"
  shows "\<exists>outcomes d'. process_items e worker now items acc d = (Inr (acc @ outcomes), d') \<and> list_all2 (row_settled d') items outcomes \<and>
    (\<forall>k. k \<notin> q_id ` set items \<longrightarrow> get_item d' k = get_item d k)"
  using assms
proof (induction items arbitrary: d acc)
  case Nil
  then show ?case by simp
next
  case (Cons item items)
  obtain outcome d1 where one: "process_prepare_item e worker now item d = (Inr outcome, d1)" "item_settled item outcome d d1"
    using process_item_run [of item worker e now d] Cons.prems(1) by auto
  have "q_id item \<in> q_id ` set (queue_t d)" using Cons.prems(3) by simp
  note reads = item_settled_reads [OF one(2) this]
  obtain outcomes d' where rest: "process_items e worker now items (acc @ [outcome]) d1 = (Inr ((acc @ [outcome]) @ outcomes), d')"
    "list_all2 (row_settled d') items outcomes" "\<And>k. k \<notin> q_id ` set items \<Longrightarrow> get_item d' k = get_item d1 k"
    using Cons.IH [of d1 "acc @ [outcome]"] Cons.prems reads(3) by auto
  have "get_item d' (q_id item) = get_item d1 (q_id item)" using rest(3) Cons.prems(2) by auto
  then have "row_settled d' item outcome" using reads(1) by (simp add: row_settled_def)
  moreover have "process_items e worker now (item # items) acc d = (Inr (acc @ outcome # outcomes), d')" using one(1) rest(1) by simp
  ultimately show ?case using rest(2,3) reads(2) by (intro exI [of _ "outcome # outcomes"] exI [of _ d']) auto
qed

lemma claimed_items:
  assumes "queue_inv d" and "queue_claim t worker a ln limit lease now d = (items, d1)"
  shows "list_all (\<lambda>i. q_claimed_by i = Some worker \<and> q_state i = QS_CLAIMED) items" and "distinct (map q_id items)"
    and "q_id ` set items \<subseteq> q_id ` set (queue_t d1)"
proof -
  define d0 where "d0 = snd (park_exhausted_leases t now a ln d)"
  define rs where "rs = take limit (claim_candidates t a ln now d0)"
  have inv: "queue_inv d0" using park_leases [OF assms(1)] by (simp add: d0_def)
  note spec = queue_claim_spec [OF assms(1) d0_def rs_def, of worker lease]
  have items: "items = map (claim_row worker now lease) rs" and q: "queue_t d1 = rewrite_rows rs (claim_row worker now lease) (queue_t d0)"
    using spec(1,2) by (simp_all add: assms(2))
  show "list_all (\<lambda>i. q_claimed_by i = Some worker \<and> q_state i = QS_CLAIMED) items"
    by (simp add: items list_all_iff claim_row_def)
  have ids: "map q_id items = map q_id rs" by (simp add: items claim_row_def)
  then show "distinct (map q_id items)" using claim_candidates_distinct [OF inv] by (simp add: rs_def)
  have "map q_id (queue_t d1) = map q_id (queue_t d0)" by (auto simp: q rewrite_rows_def claim_row_def)
  moreover have "set rs \<subseteq> set (queue_t d0)" using claim_candidates_sub(1) by (simp add: rs_def)
  ultimately show "q_id ` set items \<subseteq> q_id ` set (queue_t d1)" using ids by (metis image_mono set_map)
qed

text \<open>C14. A preparation batch always comes back: every item it claimed has left the worker and rests where its
  outcome says (succeeded, blocked, parked for review, failed or waiting for a retry), the other items are as
  the claim left them, and the report counts the outcomes.\<close>

theorem batch_settles_every_item:
  assumes "queue_inv d"
  shows "case queue_claim (pe_tenant e) worker (Some QA_PREPARE) ln limit DEFAULT_LEASE_SECONDS now d of (items, d1) \<Rightarrow>
    \<exists>outcomes d'. run_prepare_queue e ln worker limit now d = (Inr (outcome_counts (length items) outcomes), d') \<and>
      list_all2 (row_settled d') items outcomes \<and> (\<forall>k. k \<notin> q_id ` set items \<longrightarrow> get_item d' k = get_item d1 k)"
proof -
  obtain items d1 where c: "queue_claim (pe_tenant e) worker (Some QA_PREPARE) ln limit DEFAULT_LEASE_SECONDS now d = (items, d1)" by fastforce
  obtain outcomes d' where "process_items e worker now items [] d1 = (Inr outcomes, d')" "list_all2 (row_settled d') items outcomes"
    "\<forall>k. k \<notin> q_id ` set items \<longrightarrow> get_item d' k = get_item d1 k"
    using process_items_run [OF claimed_items [OF assms c], of e now "[]"] by auto
  then show ?thesis by (auto simp: c run_prepare_queue_def)
qed

text \<open>A preparation item of a candidate that is gone.\<close>

definition example_prepare_item :: queue_row where
  "example_prepare_item = new_item ''t1'' (example_co\<lparr>co_id := ''gone''\<rparr>) QA_PREPARE LN_AUTO None None 3 ''q-1'' 100"

definition example_prepare_queue :: db where
  "example_prepare_queue = example_prep_db\<lparr>queue_t := [example_prepare_item]\<rparr>"

lemma example_prepare_inv: "queue_inv example_prepare_queue"
  using item_ok_new [of 3] by (simp add: queue_inv_def example_prepare_queue_def example_prepare_item_def)

theorem batch_settles_every_item_witness:
  "\<exists>d'. row_settled d' example_prepare_item QO_FAILED \<and> run_prepare_queue example_prep_env None ''w'' 5 200 example_prepare_queue =
     (Inr (JObj [(''READY_FOR_EXECUTION'', JInt 0), (''NEEDS_USER_INPUT'', JInt 0), (''NEEDS_REVIEW'', JInt 0), (''FAILED'', JInt 1), (''claimed'', JInt 1)]), d')"
proof -
  let ?q = "queue_claim (pe_tenant example_prep_env) ''w'' (Some QA_PREPARE) None 5 DEFAULT_LEASE_SECONDS 200 example_prepare_queue"
  let ?counts = "JObj [(''READY_FOR_EXECUTION'', JInt 0), (''NEEDS_USER_INPUT'', JInt 0), (''NEEDS_REVIEW'', JInt 0), (''FAILED'', JInt 1), (''claimed'', JInt 1)]"
  have "fst ?q = [claim_row ''w'' 200 DEFAULT_LEASE_SECONDS example_prepare_item]" by code_simp
  then obtain d1 where c: "?q = ([claim_row ''w'' 200 DEFAULT_LEASE_SECONDS example_prepare_item], d1)" by (metis prod.collapse)
  have run: "fst (run_prepare_queue example_prep_env None ''w'' 5 200 example_prepare_queue) = Inr ?counts" by code_simp
  from batch_settles_every_item [OF example_prepare_inv, where e = example_prep_env and worker = "''w''" and ln = None and limit = 5 and now = 200]
  obtain outcomes d' where r: "run_prepare_queue example_prep_env None ''w'' 5 200 example_prepare_queue = (Inr (outcome_counts 1 outcomes), d')"
    and settled: "list_all2 (row_settled d') [claim_row ''w'' 200 DEFAULT_LEASE_SECONDS example_prepare_item] outcomes"
    unfolding c by auto
  obtain outcome where o: "outcomes = [outcome]" and s: "row_settled d' (claim_row ''w'' 200 DEFAULT_LEASE_SECONDS example_prepare_item) outcome"
    using settled by (auto simp: list_all2_Cons1)
  have counts: "outcome_counts 1 [outcome] = ?counts" using run r o by simp
  then have "outcome = QO_FAILED" by (cases outcome) (simp_all add: outcome_counts_def)
  then have "row_settled d' example_prepare_item QO_FAILED" using s by (simp add: row_settled_def claim_row_def)
  then show ?thesis using r counts o by auto
qed

section \<open>The scheduler's contract\<close>

text \<open>The scheduler's call of the worker. The service of the batch loads its evidence, policy and answers from the
  database of the moment: \<open>e\<close>.\<close>

definition with_preparation :: "(db \<Rightarrow> prep_env) \<Rightarrow> sched_env \<Rightarrow> sched_env" where
  "with_preparation e sv = sv\<lparr>sv_prepare := (\<lambda>worker limit now d. run_prepare_queue (e d) None worker limit now d)\<rparr>"

lemma settled_leaves:
  assumes "settled_as outcome committed res = (r, d')" and "leaves_alone d committed" and "\<And>q d''. res = Inr (q, d'') \<Longrightarrow> leaves_alone d d''"
  shows "leaves_alone d d'"
  using assms by (auto simp: settled_as_def split: sum.splits)

lemmas queue_leaves = succeed_effect block_effect fail_effect needs_review_effect

lemma settle_prepared_leaves:
  assumes "settle_prepared e worker p now item d = (r, d')"
  shows "leaves_alone d d'"
proof -
  have q: "leaves_alone d d''" if "wrote r' d d''" for r' d'' using that leaves_alone_queue by (simp add: wrote_def)
  show ?thesis using assms unfolding settle_prepared_def
    by (auto split: if_splits elim!: settled_leaves intro: q dest!: queue_leaves)
qed

lemma process_item_leaves:
  assumes "process_prepare_item e worker now item d = (r, d')"
  shows "leaves_alone d d'"
proof (cases "queue_start (pe_tenant e) worker now item d")
  case (Inl err)
  then show ?thesis using assms by (simp add: process_prepare_item_def)
next
  case (Inr x)
  obtain item1 d1 where st: "queue_start (pe_tenant e) worker now item d = Inr (item1, d1)" using Inr by (cases x) auto
  have w: "leaves_alone d2 d''" if "wrote r' d2 d''" for r' d2 d'' using that leaves_alone_queue by (simp add: wrote_def)
  have al: "leaves_alone d d1" using w start_effect [OF st] by blast
  have fail: "leaves_alone d d''" if "queue_fail t wk m b now item1 d1 = Inr (q, d'')" for t wk m b q d''
    using leaves_alone_trans [OF al] w fail_effect [OF that] by blast
  have block: "leaves_alone d d''" if "queue_block t wk m now item1 d1 = Inr (q, d'')" for t wk m q d''
    using leaves_alone_trans [OF al] w block_effect [OF that] by blast
  show ?thesis
  proof (cases "prepare e (q_candidate_opportunity_id item) None None False (worker_actor worker) now d1")
    case (Inl err)
    then show ?thesis using assms unfolding process_prepare_item_def st
      by (auto simp: split: careeros_error.splits option.splits intro: fail block elim!: settled_leaves)
  next
    case (Inr res)
    obtain p d2 where p: "prepare e (q_candidate_opportunity_id item) None None False (worker_actor worker) now d1 = Inr (p, d2)"
      using Inr by (cases res) auto
    have "settle_prepared e worker p now item1 d2 = (r, d')" using assms by (simp add: process_prepare_item_def st p)
    from settle_prepared_leaves [OF this] prepare_leaves_alone [OF p] show ?thesis using leaves_alone_trans al by blast
  qed
qed

lemma process_items_leaves: "process_items e worker now items acc d = (r, d') \<Longrightarrow> leaves_alone d d'"
proof (induction items arbitrary: acc d)
  case (Cons item items)
  then show ?case using process_item_leaves leaves_alone_trans by (auto split: prod.splits sum.splits) blast+
qed simp

lemma run_prepare_leaves: "leaves_alone d (snd (run_prepare_queue e ln worker limit now d))"
proof -
  obtain items d1 where c: "queue_claim (pe_tenant e) worker (Some QA_PREPARE) ln limit DEFAULT_LEASE_SECONDS now d = (items, d1)" by fastforce
  have "only_queue d (snd (queue_claim t w a ln n ls now d))" for t w a n ls
    unfolding queue_claim_def Let_def claim_rows_fold
    by (rule only_queue_trans [OF _ claim_loop.loop_frame]) (simp add: park_exhausted_leases_def park_all_fold park_loop.loop_frame)
  from this [of "pe_tenant e" worker "Some QA_PREPARE"] have "leaves_alone d d1" using c leaves_alone_queue by (metis snd_conv)
  moreover obtain r d2 where p: "process_items e worker now items [] d1 = (r, d2)" by fastforce
  ultimately have "leaves_alone d d2" using process_items_leaves leaves_alone_trans by blast
  then show ?thesis by (simp add: run_prepare_queue_def c p)
qed

text \<open>C15. The preparation worker keeps what the scheduler relies on, whatever its environment: it touches neither attempts
  nor caps, nor the records of runs, nor the scheduler's stamps on the candidates, nor the openings.\<close>

theorem preparation_meets_contract:
  "prepare_contract (with_preparation e sv) \<and> prepare_runs (with_preparation e sv) \<and> prepare_stamps (with_preparation e sv)"
  using run_prepare_leaves
  by (simp add: prepare_contract_def prepare_runs_def prepare_stamps_def with_preparation_def leaves_alone_def keeps_runs_same)

end
