(* ===== verification/Spec2Isabelle.thy ===== *)
theory Spec2Isabelle
  imports Work_Queue Safety_Switches Opportunity_Repo Exec_Recovery Outcomes Sched_Run Sched_Record Sched_Preview Prep_Truth Prep_Contract
begin

text \<open>
  A verification development of Range-Apply (CareerOS): the part of the program that decides whether
  an application is submitted, at most how many, and what is believed to have happened afterwards.

  The program. Jobs are resolved into openings (opportunities); a candidate's relation to an opening
  moves through evaluation, admission by policy, a cap reservation, preparation, execution and the
  outcome. All state is in one relational database. Several workers act on it at the same time: each
  handler reads rows, may lose a race at a guarded update, and commits or rolls back. The model is
  one record of tables (\<open>db\<close>) and one function per operation, which takes the moment \<open>now\<close> and the
  database and returns the result (\<open>Inl\<close> the exception) and the database. Unguarded row writes are
  puts by primary key, guarded updates count the rows their filter matches.

  The theories, in the order of the program.
  \<^item> \<open>CO_Prelude\<close>: results, JSON, Python string operations, tables, and the locales \<open>row_store\<close>,
    \<open>guarded_machine\<close> and \<open>step_system\<close>. \<open>Models\<close>: the enumerations and transition tables.
    \<open>Database\<close>: the rows, the table operations (interpreting \<open>row_store\<close>) and the audit ledger.
  \<^item> \<open>Policy\<close> (\<^verbatim>\<open>pipeline/policy.py\<close>), \<open>Gates\<close> (\<^verbatim>\<open>pipeline/gates.py\<close>): the candidate's policy, company
    keys, bands, and the admission rule with its report.
  \<^item> \<open>Work_Queue\<close> (\<^verbatim>\<open>pipeline/queue.py\<close>): every operation of the leased queue. Reachable states are sound,
    a claim takes the best runnable rows, an expired last attempt is parked, of two claims of one
    snapshot one fails, retries run out, a succeeded submit is final.
  \<^item> \<open>Cap_Ledger\<close>, \<open>Periods\<close> (\<^verbatim>\<open>scheduler/caps.py\<close>): day and week counters. Any interleaving of workers
    stays within the caps; a reservation takes both slots or none.
  \<^item> \<open>Identity\<close>, \<open>Opportunity_Repo\<close> (\<^verbatim>\<open>pipeline/identity.py\<close>, \<^verbatim>\<open>pipeline/repository.py\<close>): which jobs are one
    opening, and the lifecycle of the candidate's relation to it.
  \<^item> \<open>Attempts\<close> (\<^verbatim>\<open>scheduler/attempts.py\<close>): application attempts. Every held slot is paid for in the ledger;
    an attempt that may have reached the employer needs a person before it can be submitted again;
    the cool-down index is exact.
  \<^item> \<open>Decisions\<close> (\<^verbatim>\<open>scheduler/decisions.py\<close>): what the scheduler decides for one candidate.
  \<^item> \<open>Safety_Switches\<close> (\<^verbatim>\<open>application/killswitch.py\<close>, \<^verbatim>\<open>execution/submission_mode.py\<close>): pausing and SAFE / LIVE.
  \<^item> \<open>Preconditions\<close> (\<^verbatim>\<open>execution/preconditions.py\<close>): the check at submission time, exact and with balanced
    books.
  \<^item> \<open>Exec_Base\<close>, \<open>Execution\<close> (\<^verbatim>\<open>execution/service.py\<close>): the execution service. \<open>Exec_Safety\<close>: the pre-submit
    gate is exact and passes once per run, and executors that keep their contract press at most
    once per item and never in safe mode. \<open>Exec_Start\<close>: when a run is handed out. \<open>Exec_Report\<close>: a report
    is total and follows one table; what a verification does. \<open>Exec_Recovery\<close>: lost runs.
  \<^item> \<open>Sched_Base\<close>, \<open>Scheduler\<close> (\<^verbatim>\<open>scheduler/service.py\<close>): the scheduler's pass: load, reconcile, admit in a
    savepoint, stamp, the loop with window, caps and commits, the run with its lease and record, the
    preview. \<open>Sched_Reconcile\<close>: reconciliation frees exactly the slots it should. \<open>Sched_Slots\<close>,
    \<open>Sched_Pass\<close>: a run stays within caps and window. \<open>Sched_Company\<close>, \<open>Sched_Run\<close>: one opening per
    company. \<open>Sched_Record\<close>: runs exclude each other and close their record; what a stamp writes.
    \<open>Sched_Preview\<close>: what a preview announces.
  \<^item> \<open>Prep_Evidence\<close> (\<^verbatim>\<open>preparation/evidence.py\<close>, \<^verbatim>\<open>preparation/validator.py\<close>,
    \<^verbatim>\<open>services/truth_validator.py\<close>): the candidate's evidence, its selection for an opening and the truth
    rules for generated claims. \<open>Prep_Truth\<close>: both are exact.
  \<^item> \<open>Prep_Compose\<close>, \<open>Prep_Answers\<close>, \<open>Prep_Build\<close> (\<^verbatim>\<open>preparation/composer.py\<close>, \<^verbatim>\<open>preparation/questions.py\<close>,
    \<^verbatim>\<open>preparation/positioning.py\<close>, \<^verbatim>\<open>preparation/service.py\<close>): a package, from composition, positioning and
    answers through polishing and the gate to its status and fingerprint. \<open>Prep_Sound\<close>: every claim of a
    package passes the truth rules, answers are the candidate's or built from confirmed evidence, and when a
    package is READY. \<open>Preparation\<close>, \<open>Prep_Review\<close> (\<^verbatim>\<open>preparation/service.py\<close>): versions, reuse, batches,
    staleness and the review actions. \<open>Prep_Versions\<close>: one live package, and preparing twice changes nothing.
    \<open>Prep_Worker\<close> (\<^verbatim>\<open>preparation/queue_worker.py\<close>), \<open>Prep_Contract\<close>: a batch settles every item it claims,
    and the worker keeps what the scheduler's theorems assume of it.
  \<^item> \<open>Outcomes\<close> (\<^verbatim>\<open>signals/outcomes.py\<close>): the current status derived from the event history.

  Interfaces. \<open>row_store\<close> (get and put by key) is interpreted for every table; \<open>guarded_machine\<close> (a state
  that moves along a table unless forced) for attempts and candidate opportunities; \<open>step_system\<close> for
  the queue, the ledger, the attempts and the packages; \<open>row_loop\<close> for the queue's batch operations.

  Parameters. Hashing is a function; a time zone is a function from UTC to local time; new ids are
  arguments. The execution service takes its environment as a record: executors (scripts of gate
  calls, presses of submit and an end), the documents, the field mapping, the staleness of inputs and
  the signal inbox. \<open>inbox_contract\<close> says what the inbox leaves alone, \<open>honest_executors\<close> what the
  executor protocol asks of an executor. The scheduler's environment (\<open>sched_env\<close>) adds the job signals,
  the answer bank's clock and the preparation worker; \<open>prepare_contract\<close>, \<open>prepare_stamps\<close> and
  \<open>prepare_runs\<close> say what the worker leaves alone, \<open>fresh_ids\<close> that new ids are new, \<open>pipeline_keys\<close> which
  unique constraints the database keeps; \<open>preparation_meets_contract\<close> proves the first three of the modelled
  worker. Recognising numbers and skills in text is the record \<open>text_env\<close>; the environment of preparations
  (\<open>prep_env\<close>) adds the classification of questions, the polisher (any function), digests, the arithmetic of the
  variant score and the stored assessments; \<open>prep_fresh\<close> says that new package ids are new.

  Bounds. Loops are structural recursions over the rows they were given, so everything terminates and
  no fuel is needed. Times are integers of microseconds.

  Not modelled: reads for display, logging, diagnostics and metrics; form capture and field mapping,
  the extension's URL match; the signal inbox, job ingestion and matching, the career graph, documents, the AI gateway, HTTP and
  desktop front ends. One operation reads the clock once, and two sessions interleave only between
  handlers or at the guarded updates.
\<close>

end
